(* ===== verification/Prelude.thy ===== *)
theory Prelude
  imports Main "HOL-Library.State_Monad" "HOL-Library.Sublist"
begin

text \<open>
  Shared vocabulary of the development: bytes and C strings, the C integer conversions the
  code relies on, big-endian integers, and the two theorem
  collections (\<open>io_simps\<close> for the system-call layer, \<open>keeps_intros\<close> for effect frames)
  that the component theories extend.
\<close>

named_theorems io_simps \<open>equations that run a system call of the model\<close>
named_theorems keeps_intros \<open>rules that show a computation stays inside an effect frame\<close>


section \<open>Bytes and C strings\<close>

type_synonym byte = char
type_synonym bytes = "char list"

abbreviation (input) NUL :: char where
  "NUL \<equiv> CHR 0x00"

text \<open>The C string that starts at a buffer: everything before the first NUL.\<close>

definition cstr :: "bytes \<Rightarrow> string" where
  "cstr bs = takeWhile (\<lambda>c. c \<noteq> NUL) bs"

definition strlen :: "bytes \<Rightarrow> nat" where
  "strlen bs = length (cstr bs)"

definition strnlen :: "bytes \<Rightarrow> nat \<Rightarrow> nat" where
  "strnlen bs n = length (cstr (take n bs))"

text \<open>\<open>strncpy(dst, src, n)\<close>: at most \<open>n\<close> bytes of the string, the rest of the \<open>n\<close> bytes zero.\<close>

definition strncpy_field :: "bytes \<Rightarrow> nat \<Rightarrow> bytes" where
  "strncpy_field s n = (let t = take n (cstr s) in t @ replicate (n - length t) NUL)"

text \<open>\<open>snprintf(dst, n, "%s", s)\<close> into a buffer whose old content is \<open>old\<close>: the bytes up to
  and including the terminator are written, the others keep their value.\<close>

definition snprintf_field :: "bytes \<Rightarrow> nat \<Rightarrow> bytes \<Rightarrow> bytes" where
  "snprintf_field old n s = (let t = take (n - 1) (cstr s) @ [NUL] in t @ drop (length t) old)"

definition nul_free :: "bytes \<Rightarrow> bool" where
  "nul_free s \<longleftrightarrow> NUL \<notin> set s"

lemma cstr_nul_free [simp]: "nul_free s \<Longrightarrow> cstr s = s"
  by (auto simp: cstr_def nul_free_def takeWhile_eq_all_conv)

lemma nul_free_cstr [simp]: "nul_free (cstr s)"
  by (auto simp: cstr_def nul_free_def dest: set_takeWhileD)

lemma nul_free_take [simp]: "nul_free s \<Longrightarrow> nul_free (take n s)"
  by (auto simp: nul_free_def dest: in_set_takeD)

lemma nul_free_Nil [simp]: "nul_free []"
  by (simp add: nul_free_def)

lemma nul_free_Cons [simp]: "nul_free (c # s) \<longleftrightarrow> c \<noteq> NUL \<and> nul_free s"
  by (auto simp: nul_free_def)

lemma nul_free_append [simp]: "nul_free (s @ t) \<longleftrightarrow> nul_free s \<and> nul_free t"
  by (auto simp: nul_free_def)

lemma cstr_append_NUL [simp]: "nul_free s \<Longrightarrow> cstr (s @ NUL # t) = s"
  by (auto simp: cstr_def nul_free_def takeWhile_append takeWhile_eq_all_conv)

lemma cstr_Nil [simp]: "cstr [] = []"
  by (simp add: cstr_def)

lemma cstr_Cons: "cstr (c # s) = (if c = NUL then [] else c # cstr s)"
  by (simp add: cstr_def)

lemma cstr_snoc_NUL: "cstr (s @ [NUL]) = cstr s"
  by (induction s) (simp_all add: cstr_Cons)

lemma cstr_append_replicate [simp]: "nul_free s \<Longrightarrow> cstr (s @ replicate n NUL) = s"
  by (cases n) (simp_all)

lemma strlen_nul_free [simp]: "nul_free s \<Longrightarrow> strlen s = length s"
  by (simp add: strlen_def)

lemma length_cstr: "length (cstr s) \<le> length s"
  by (simp add: cstr_def length_takeWhile_le)

lemma cstr_take: "cstr (take n s) = take n (cstr s)"
proof (induction s arbitrary: n)
  case (Cons c s)
  then show ?case by (cases n) (simp_all add: cstr_Cons)
qed simp

lemma strnlen_eq: "strnlen s n = min n (strlen s)"
  by (simp add: strnlen_def strlen_def cstr_take min.commute)

lemma length_strncpy_field [simp]: "length (strncpy_field s n) = n"
  by (simp add: strncpy_field_def Let_def)

lemma cstr_strncpy_field: "strlen s < n \<Longrightarrow> cstr (strncpy_field s n) = cstr s"
  by (simp add: strncpy_field_def strlen_def Let_def)

lemma length_snprintf_field:
  "0 < n \<Longrightarrow> length old = n \<Longrightarrow> length (snprintf_field old n s) = n"
  by (simp add: snprintf_field_def Let_def)

lemma cstr_snprintf_field: "cstr (snprintf_field old n s) = take (n - 1) (cstr s)"
  by (simp add: snprintf_field_def Let_def)

text \<open>\<open>memset\<close>/\<open>memcpy\<close> of a whole field.\<close>

abbreviation zeros :: "nat \<Rightarrow> bytes" where
  "zeros n \<equiv> replicate n NUL"


section \<open>C integers\<close>

text \<open>Conversion to a 32-bit \<open>int\<close> and to a 64-bit \<open>long long\<close>/\<open>time_t\<close> (two's complement).\<close>

definition c_int :: "int \<Rightarrow> int" where
  "c_int x = (x + 2147483648) mod 4294967296 - 2147483648"

definition c_llong :: "int \<Rightarrow> int" where
  "c_llong x = (x + 9223372036854775808) mod 18446744073709551616 - 9223372036854775808"

abbreviation (input) LLONG_MIN :: int where "LLONG_MIN \<equiv> -9223372036854775808"
abbreviation (input) LLONG_MAX :: int where "LLONG_MAX \<equiv> 9223372036854775807"
abbreviation (input) ULONG_MAX :: int where "ULONG_MAX \<equiv> 18446744073709551615"
abbreviation (input) USHRT_MAX :: nat where "USHRT_MAX \<equiv> 65535"

lemma c_int_id [simp]: "-2147483648 \<le> x \<Longrightarrow> x \<le> 2147483647 \<Longrightarrow> c_int x = x"
  by (simp add: c_int_def)

lemma c_llong_id [simp]: "LLONG_MIN \<le> x \<Longrightarrow> x \<le> LLONG_MAX \<Longrightarrow> c_llong x = x"
  by (simp add: c_llong_def)

lemma c_int_neg: "2147483648 \<le> x \<Longrightarrow> x < 4294967296 \<Longrightarrow> c_int x < 0"
proof -
  assume a: "2147483648 \<le> x" "x < 4294967296"
  then have "(x + 2147483648) mod 4294967296 = x - 2147483648"
    by (simp add: mod_pos_pos_trivial[symmetric] zmod_trivial_iff
        flip: minus_mod_self2[of "x + 2147483648" "4294967296::int"])
  with a show ?thesis by (simp add: c_int_def)
qed


section \<open>Big-endian integers (network order)\<close>

definition be16 :: "nat \<Rightarrow> bytes" where
  "be16 n = [char_of (n div 256), char_of n]"

definition be32 :: "nat \<Rightarrow> bytes" where
  "be32 n = [char_of (n div 16777216), char_of (n div 65536), char_of (n div 256), char_of n]"

definition of_be :: "bytes \<Rightarrow> nat" where
  "of_be bs = foldl (\<lambda>acc b. acc * 256 + of_char b) 0 bs"

lemma length_be [simp]: "length (be16 n) = 2" "length (be32 n) = 4"
  by (simp_all add: be16_def be32_def)

lemma of_be_be16: "of_be (be16 n) = n mod 65536"
proof -
  have "n mod 65536 = 256 * (n div 256 mod 256) + n mod 256"
    using mod_mult2_eq[of n 256 256] by simp
  then show ?thesis by (simp add: of_be_def be16_def)
qed

lemma of_be_be32: "of_be (be32 n) = n mod 4294967296"
proof -
  have "n mod 4294967296 = 16777216 * (n div 16777216 mod 256) + n mod 16777216"
    using mod_mult2_eq[of n 16777216 256] by simp
  moreover have "n mod 16777216 = 65536 * (n div 65536 mod 256) + n mod 65536"
    using mod_mult2_eq[of n 65536 256] by simp
  moreover have "n mod 65536 = 256 * (n div 256 mod 256) + n mod 256"
    using mod_mult2_eq[of n 256 256] by simp
  ultimately show ?thesis by (simp add: of_be_def be32_def)
qed

lemma of_be_bound: "of_be bs < 256 ^ length bs"
proof (induction bs rule: rev_induct)
  case (snoc b bs)
  have "of_be (bs @ [b]) = of_be bs * 256 + of_char b" by (simp add: of_be_def)
  also have "\<dots> < of_be bs * 256 + 256" using nat_of_char_less_256[of b] by simp
  also have "\<dots> = (of_be bs + 1) * 256" by simp
  also have "\<dots> \<le> 256 ^ length bs * 256" using snoc by simp
  finally show ?case by simp
qed (simp add: of_be_def)

lemma char_of_shift [simp]: "(char_of (n * 256 + of_char c :: nat) :: char) = c"
proof -
  have "char_of ((n * 256 + of_char c :: nat) mod 256) = c" by simp
  then show ?thesis by (simp only: char_of_mod_256)
qed

lemma be16_of_be: "length bs = 2 \<Longrightarrow> be16 (of_be bs) = bs"
  by (auto simp: length_Suc_conv numeral_2_eq_2 of_be_def be16_def)

end
