(* ===== verification/CString.thy ===== *)
theory CString
  imports Prelude
begin

text \<open>
  The libc string functions the sources call, in the C locale: character classes, decimal
  conversion in both directions (\<open>strtoll\<close>, \<open>strtoul\<close>, \<open>printf("%lld")\<close>), \<open>strcasecmp\<close> and
  \<open>strstr\<close>.  The end pointer of \<open>strtoll\<close> is the remaining string.
\<close>


section \<open>Character classes and comparison\<close>

abbreviation code :: "char \<Rightarrow> nat" where
  "code \<equiv> of_char"

definition c_isspace :: "char \<Rightarrow> bool" where
  "c_isspace c \<longleftrightarrow> code c = 32 \<or> (9 \<le> code c \<and> code c \<le> 13)"

definition c_isdigit :: "char \<Rightarrow> bool" where
  "c_isdigit c \<longleftrightarrow> 48 \<le> code c \<and> code c \<le> 57"

definition c_tolower :: "char \<Rightarrow> char" where
  "c_tolower c = (if 65 \<le> code c \<and> code c \<le> 90 then char_of (code c + 32) else c)"

definition strcaseeq :: "string \<Rightarrow> string \<Rightarrow> bool" where
  "strcaseeq a b \<longleftrightarrow> map c_tolower a = map c_tolower b"

definition strstr :: "string \<Rightarrow> string \<Rightarrow> bool" where
  "strstr hay needle \<longleftrightarrow> sublist needle hay"

definition has_prefix :: "string \<Rightarrow> string \<Rightarrow> bool" where
  "has_prefix s p \<longleftrightarrow> take (length p) s = p"

lemma has_prefix_append: "has_prefix s p \<Longrightarrow> has_prefix (s @ t) p"
proof -
  assume p: "has_prefix s p"
  then have "length p \<le> length s" by (metis has_prefix_def length_take min.cobounded1)
  with p show "has_prefix (s @ t) p" by (simp add: has_prefix_def)
qed

lemma digit_not_space [simp]: "c_isdigit c \<Longrightarrow> \<not> c_isspace c"
  by (auto simp: c_isdigit_def c_isspace_def)

lemma char_code_eqI: "code c = code d \<Longrightarrow> c = d"
  by simp


section \<open>Decimal numbers\<close>

definition digit_val :: "char \<Rightarrow> nat" where
  "digit_val c = code c - 48"

definition digits_val :: "string \<Rightarrow> nat" where
  "digits_val ds = foldl (\<lambda>n c. 10 * n + digit_val c) 0 ds"

definition digit_char :: "nat \<Rightarrow> char" where
  "digit_char d = char_of (48 + d)"

fun dec :: "nat \<Rightarrow> string" where
  "dec n = (if n < 10 then [digit_char n] else dec (n div 10) @ [digit_char (n mod 10)])"

declare dec.simps [simp del]

text \<open>\<open>printf("%lld", v)\<close>.\<close>

definition print_lld :: "int \<Rightarrow> string" where
  "print_lld v = (if v < 0 then CHR ''-'' # dec (nat (- v)) else dec (nat v))"

lemma code_digit_char: "d < 10 \<Longrightarrow> code (digit_char d) = 48 + d"
  by (simp add: digit_char_def)

lemma isdigit_digit_char [simp]: "d < 10 \<Longrightarrow> c_isdigit (digit_char d)"
  by (simp add: c_isdigit_def code_digit_char)

lemma digit_val_digit_char [simp]: "d < 10 \<Longrightarrow> digit_val (digit_char d) = d"
  by (simp add: digit_val_def code_digit_char)

lemma digit_chars [simp]: "digit_char 0 = CHR ''0''" "digit_char 1 = CHR ''1''"
  "digit_char (Suc 0) = CHR ''1''" "digit_char 2 = CHR ''2''"
  "digit_char 3 = CHR ''3''" "digit_char 4 = CHR ''4''" "digit_char 5 = CHR ''5''"
  "digit_char 6 = CHR ''6''" "digit_char 7 = CHR ''7''" "digit_char 8 = CHR ''8''"
  "digit_char 9 = CHR ''9''"
  by (code_simp)+

lemma digits_val_snoc: "digits_val (ds @ [c]) = 10 * digits_val ds + digit_val c"
  by (simp add: digits_val_def)

lemma digits_val_dec [simp]: "digits_val (dec n) = n"
proof (induction n rule: dec.induct)
  case (1 n)
  then show ?case
    by (cases "n < 10") (simp_all add: dec.simps[of n] digits_val_snoc, simp add: digits_val_def)
qed

lemma dec_digits: "\<forall>c\<in>set (dec n). c_isdigit c"
proof (induction n rule: dec.induct)
  case (1 n)
  then show ?case by (cases "n < 10") (simp_all add: dec.simps[of n])
qed

lemma dec_nonempty [simp]: "dec n \<noteq> []"
  by (subst dec.simps) simp

lemma dec_hd_digit: "\<exists>c cs. dec n = c # cs \<and> c_isdigit c"
  using dec_digits[of n] by (cases "dec n") auto

lemma length_dec_le: "n < 10 ^ k \<Longrightarrow> 0 < k \<Longrightarrow> length (dec n) \<le> k"
proof (induction n arbitrary: k rule: dec.induct)
  case (1 n)
  show ?case
  proof (cases "n < 10")
    case False
    with 1(2) have "k \<noteq> 1" by (cases "k = 1") auto
    with 1(3) obtain j where k: "k = Suc j" "0 < j" by (cases k) auto
    with 1(2) have "n div 10 < 10 ^ j" by (simp add: less_mult_imp_div_less mult.commute)
    with 1(1) False k have "length (dec (n div 10)) \<le> j" by blast
    with False k show ?thesis by (simp add: dec.simps[of n])
  qed (use 1(3) in \<open>simp add: dec.simps[of n]\<close>)
qed

lemma length_dec_ge: "10 ^ k \<le> n \<Longrightarrow> k < length (dec n)"
proof (induction n arbitrary: k rule: dec.induct)
  case (1 n)
  show ?case
  proof (cases "n < 10")
    case True
    have "k = 0"
    proof (rule ccontr)
      assume "k \<noteq> 0"
      then have "(10::nat) ^ 1 \<le> 10 ^ k" by (intro power_increasing) auto
      with 1(2) True show False by simp
    qed
    then show ?thesis by simp
  next
    case False
    show ?thesis
    proof (cases k)
      case (Suc j)
      with 1(2) have "10 ^ j \<le> n div 10" by (simp add: less_eq_div_iff_mult_less_eq mult.commute)
      with 1(1) False have "j < length (dec (n div 10))" by blast
      with False Suc show ?thesis by (simp add: dec.simps[of n])
    qed simp
  qed
qed

lemma digit_not_nul: "c_isdigit c \<Longrightarrow> c \<noteq> NUL"
  by (auto simp: c_isdigit_def)

lemma nul_free_dec [simp]: "nul_free (dec n)"
  using dec_digits[of n] digit_not_nul by (auto simp: nul_free_def)

lemma nul_free_print_lld [simp]: "nul_free (print_lld v)"
  by (simp add: print_lld_def)

text \<open>The decimal digits of a length field never carry a sign.\<close>

lemma print_lld_nat: "0 \<le> v \<Longrightarrow> print_lld v = dec (nat v)"
  by (simp add: print_lld_def)

text \<open>Sign and digits, as \<open>strtoll\<close> and \<open>strtoul\<close> scan them.\<close>

fun scan_sign :: "string \<Rightarrow> bool \<times> string" where
  "scan_sign [] = (False, [])"
| "scan_sign (c # s) = (if c = CHR ''-'' then (True, s) else if c = CHR ''+'' then (False, s)
     else (False, c # s))"

text \<open>Negative?, magnitude, rest; \<open>None\<close> when there is no digit.\<close>

definition scan_dec :: "string \<Rightarrow> (bool \<times> nat \<times> string) option" where
  "scan_dec s = (let (neg, t) = scan_sign (dropWhile c_isspace s);
                     ds = takeWhile c_isdigit t
                 in if ds = [] then None else Some (neg, digits_val ds, dropWhile c_isdigit t))"

text \<open>\<open>strtoll(s, &end, 10)\<close>: value, end, whether \<open>errno\<close> was set to \<open>ERANGE\<close>.\<close>

definition strtoll :: "string \<Rightarrow> int \<times> string \<times> bool" where
  "strtoll s = (case scan_dec s of
       None \<Rightarrow> (0, s, False)
     | Some (neg, n, rest) \<Rightarrow>
         (let v = (if neg then - int n else int n) in
          if v < LLONG_MIN then (LLONG_MIN, rest, True)
          else if LLONG_MAX < v then (LLONG_MAX, rest, True)
          else (v, rest, False)))"

text \<open>\<open>strtoul(s, &end, 10)\<close>: a leading minus negates modulo \<open>2^64\<close>.\<close>

definition strtoul :: "string \<Rightarrow> int \<times> string \<times> bool" where
  "strtoul s = (case scan_dec s of
       None \<Rightarrow> (0, s, False)
     | Some (neg, n, rest) \<Rightarrow>
         if ULONG_MAX < int n then (ULONG_MAX, rest, True)
         else ((if neg then - int n else int n) mod (ULONG_MAX + 1), rest, False))"

lemma dropWhile_append_stop: "(\<forall>c\<in>set a. P c) \<Longrightarrow> (b = [] \<or> \<not> P (hd b)) \<Longrightarrow>
    dropWhile P (a @ b) = b \<and> takeWhile P (a @ b) = a"
  by (cases b) (auto simp: dropWhile_append takeWhile_append)

lemma scan_dec_dec:
  assumes "rest = [] \<or> \<not> c_isdigit (hd rest)"
  shows "scan_dec (dec n @ rest) = Some (False, n, rest)"
    and "scan_dec (CHR ''-'' # dec n @ rest) = Some (True, n, rest)"
proof -
  obtain c cs where c: "dec n = c # cs" "c_isdigit c" using dec_hd_digit by blast
  have sgn: "c \<noteq> CHR ''-''" "c \<noteq> CHR ''+''" using c(2) by (auto simp: c_isdigit_def)
  have *: "dropWhile c_isdigit (dec n @ rest) = rest" "takeWhile c_isdigit (dec n @ rest) = dec n"
    using dropWhile_append_stop[of "dec n" c_isdigit rest] dec_digits[of n] assms by auto
  have "scan_sign (dropWhile c_isspace (dec n @ rest)) = (False, dec n @ rest)"
    using c sgn by simp
  then show "scan_dec (dec n @ rest) = Some (False, n, rest)"
    using * by (simp add: scan_dec_def)
  have "scan_sign (dropWhile c_isspace (CHR ''-'' # dec n @ rest)) = (True, dec n @ rest)"
    by (simp add: c_isspace_def)
  then show "scan_dec (CHR ''-'' # dec n @ rest) = Some (True, n, rest)"
    using * by (simp add: scan_dec_def)
qed

lemma strtoll_print_lld:
  assumes "LLONG_MIN \<le> v" "v \<le> LLONG_MAX" "rest = [] \<or> \<not> c_isdigit (hd rest)"
  shows "strtoll (print_lld v @ rest) = (v, rest, False)"
  using assms scan_dec_dec[OF assms(3)] by (auto simp: strtoll_def print_lld_def)

lemma print_lld_ne_Nil [simp]: "print_lld v \<noteq> []"
  by (simp add: print_lld_def)

lemma scan_dec_suffix: "scan_dec s = Some (neg, n, rest) \<Longrightarrow> suffix rest s \<and> length rest < length s"
proof -
  assume a: "scan_dec s = Some (neg, n, rest)"
  obtain g t where t: "scan_sign (dropWhile c_isspace s) = (g, t)" by (cases "scan_sign (dropWhile c_isspace s)")
  have s1: "suffix t (dropWhile c_isspace s)"
    using t by (cases "dropWhile c_isspace s") (auto simp: suffix_def split: if_splits)
  have s2: "suffix (dropWhile c_isspace s) s" by (simp add: suffix_dropWhile)
  have "takeWhile c_isdigit t \<noteq> []" "rest = dropWhile c_isdigit t"
    using a t by (auto simp: scan_dec_def Let_def split: if_splits)
  then have "suffix rest t" "length rest < length t"
    by (simp_all add: suffix_dropWhile) (cases t, auto simp: le_imp_less_Suc length_dropWhile_le split: if_splits)
  with s1 s2 show ?thesis by (meson suffix_length_le suffix_order.trans order_less_le_trans)
qed

end
