(* ===== verification/World.thy ===== *)
theory World
  imports Prelude
begin

text \<open>
  The operating system as the C code sees it.  A computation of the program is a state
  transformer over a \<open>world\<close>; the sources' C functions become values of type \<open>'a io\<close>.

  What the kernel or libc may do differently from run to run is read from two finite plans:
  \<open>w_io\<close> says how the next \<open>read\<close>/\<open>write\<close> calls end (completely, short, with zero bytes or
  with an error), \<open>w_plan\<close> does the same for every other call that can fail (\<open>open\<close>,
  \<open>malloc\<close>, \<open>fork\<close>, ...).  An exhausted plan means that calls succeed; a theorem
  quantifies over all plans, so it covers every pattern of failures of a terminating run.
  \<open>close\<close>, \<open>free\<close> and the logging macros are taken not to change \<open>errno\<close>.
\<close>


section \<open>Error numbers and constants of Linux\<close>

abbreviation (input) EPERM :: int where "EPERM \<equiv> 1"
abbreviation (input) ENOENT :: int where "ENOENT \<equiv> 2"
abbreviation (input) EINTR :: int where "EINTR \<equiv> 4"
abbreviation (input) EIO :: int where "EIO \<equiv> 5"
abbreviation (input) E2BIG :: int where "E2BIG \<equiv> 7"
abbreviation (input) EBADF :: int where "EBADF \<equiv> 9"
abbreviation (input) ECHILD :: int where "ECHILD \<equiv> 10"
abbreviation (input) ENOMEM :: int where "ENOMEM \<equiv> 12"
abbreviation (input) EACCES :: int where "EACCES \<equiv> 13"
abbreviation (input) EEXIST :: int where "EEXIST \<equiv> 17"
abbreviation (input) ENODEV :: int where "ENODEV \<equiv> 19"
abbreviation (input) ENOTDIR :: int where "ENOTDIR \<equiv> 20"
abbreviation (input) EISDIR :: int where "EISDIR \<equiv> 21"
abbreviation (input) EINVAL :: int where "EINVAL \<equiv> 22"
abbreviation (input) EFBIG :: int where "EFBIG \<equiv> 27"
abbreviation (input) ENOSPC :: int where "ENOSPC \<equiv> 28"
abbreviation (input) EPIPE :: int where "EPIPE \<equiv> 32"
abbreviation (input) ERANGE :: int where "ERANGE \<equiv> 34"
abbreviation (input) ENAMETOOLONG :: int where "ENAMETOOLONG \<equiv> 36"
abbreviation (input) ENOSYS :: int where "ENOSYS \<equiv> 38"
abbreviation (input) ELOOP :: int where "ELOOP \<equiv> 40"
abbreviation (input) ECOMM :: int where "ECOMM \<equiv> 70"
abbreviation (input) EPROTO :: int where "EPROTO \<equiv> 71"
abbreviation (input) EOVERFLOW :: int where "EOVERFLOW \<equiv> 75"
abbreviation (input) EUSERS :: int where "EUSERS \<equiv> 87"
abbreviation (input) EPROTONOSUPPORT :: int where "EPROTONOSUPPORT \<equiv> 93"
abbreviation (input) ENOTSUP :: int where "ENOTSUP \<equiv> 95"
abbreviation (input) ECONNRESET :: int where "ECONNRESET \<equiv> 104"
abbreviation (input) ETIMEDOUT :: int where "ETIMEDOUT \<equiv> 110"
abbreviation (input) ECONNREFUSED :: int where "ECONNREFUSED \<equiv> 111"
abbreviation (input) EHOSTUNREACH :: int where "EHOSTUNREACH \<equiv> 113"
abbreviation (input) EKEYEXPIRED :: int where "EKEYEXPIRED \<equiv> 127"
abbreviation (input) EOWNERDEAD :: int where "EOWNERDEAD \<equiv> 130"

abbreviation (input) PATH_MAX :: nat where "PATH_MAX \<equiv> 4096"


section \<open>The world\<close>

datatype outcome = Done | Short nat | Zero | Fail int

datatype node = Reg bytes | Dir

datatype ofile = OFile string nat | OSock

datatype wstatus = Exited nat | Signaled nat

record world =
  w_plan :: "outcome list"
  w_io :: "outcome list"
  w_errno :: int
  w_now :: int
  w_ticks :: "nat list"
  w_files :: "string \<Rightarrow> node option"
  w_fds :: "int \<Rightarrow> ofile option"
  w_nextfd :: int
  w_sin :: bytes
  w_sout :: bytes
  w_execs :: "(string \<times> string list) list"
  w_exits :: "wstatus list"
  w_verbosity :: int
  w_db :: "(string \<times> int \<times> string) list"

type_synonym 'a io = "(world, 'a) state"

abbreviation ret :: "'a \<Rightarrow> 'a io" where
  "ret \<equiv> State_Monad.return"

definition gets :: "(world \<Rightarrow> 'a) \<Rightarrow> 'a io" where
  "gets f = State (\<lambda>w. (f w, w))"

definition modify :: "(world \<Rightarrow> world) \<Rightarrow> unit io" where
  "modify f = State (\<lambda>w. ((), f w))"

definition get_errno :: "int io" where
  "get_errno = gets w_errno"

definition set_errno :: "int \<Rightarrow> unit io" where
  "set_errno e = modify (\<lambda>w. w\<lparr>w_errno := e\<rparr>)"

text \<open>\<open>errno = e; return v;\<close>\<close>

definition fail_with :: "int \<Rightarrow> 'a \<Rightarrow> 'a io" where
  "fail_with e v = do { set_errno e; ret v }"


section \<open>System calls\<close>

definition next_outcome :: "outcome io" where
  "next_outcome = State (\<lambda>w. case w_plan w of [] \<Rightarrow> (Done, w) | x # xs \<Rightarrow> (x, w\<lparr>w_plan := xs\<rparr>))"

definition next_io :: "outcome io" where
  "next_io = State (\<lambda>w. case w_io w of [] \<Rightarrow> (Done, w) | x # xs \<Rightarrow> (x, w\<lparr>w_io := xs\<rparr>))"

text \<open>A call that may fail with any error number.\<close>

definition fallible :: "bool io" where
  "fallible = do { x \<leftarrow> next_outcome;
     case x of Fail e \<Rightarrow> fail_with e False | _ \<Rightarrow> ret True }"

definition c_malloc :: "bool io" where
  "c_malloc = do { x \<leftarrow> next_outcome;
     case x of Fail _ \<Rightarrow> fail_with ENOMEM False | _ \<Rightarrow> ret True }"

text \<open>\<open>time(NULL)\<close>: the clock never goes backwards between two calls.\<close>

definition c_time :: "int io" where
  "c_time = State (\<lambda>w. (w_now w, case w_ticks w of [] \<Rightarrow> w
       | d # ds \<Rightarrow> w\<lparr>w_now := w_now w + int d, w_ticks := ds\<rparr>))"

datatype oflag = O_CREAT | O_TRUNC | O_EXCL | O_WRITE

definition new_fd :: "ofile \<Rightarrow> int io" where
  "new_fd f = State (\<lambda>w. (w_nextfd w,
     w\<lparr>w_fds := (w_fds w)(w_nextfd w \<mapsto> f), w_nextfd := w_nextfd w + 1\<rparr>))"

text \<open>\<open>open(path, flags)\<close>; \<open>O_WRITE\<close> stands for \<open>O_WRONLY\<close> and \<open>O_RDWR\<close>.\<close>

definition sys_open :: "string \<Rightarrow> oflag list \<Rightarrow> int io" where
  "sys_open path fl = do {
     ok \<leftarrow> fallible;
     if \<not> ok then ret (-1)
     else do {
       n \<leftarrow> gets (\<lambda>w. w_files w path);
       case n of
         None \<Rightarrow>
           if O_CREAT \<in> set fl then do {
             modify (\<lambda>w. w\<lparr>w_files := (w_files w)(path \<mapsto> Reg [])\<rparr>);
             new_fd (OFile path 0) }
           else fail_with ENOENT (-1)
       | Some nd \<Rightarrow>
           if O_CREAT \<in> set fl \<and> O_EXCL \<in> set fl then fail_with EEXIST (-1)
           else (case nd of
               Dir \<Rightarrow> if O_WRITE \<in> set fl then fail_with EISDIR (-1) else new_fd (OFile path 0)
             | Reg c \<Rightarrow> do {
                 modify (\<lambda>w. if O_TRUNC \<in> set fl
                   then w\<lparr>w_files := (w_files w)(path \<mapsto> Reg [])\<rparr> else w);
                 new_fd (OFile path 0) }) } }"

definition sys_close :: "int \<Rightarrow> unit io" where
  "sys_close fd = modify (\<lambda>w. w\<lparr>w_fds := (w_fds w)(fd := None)\<rparr>)"

definition sys_unlink :: "string \<Rightarrow> int io" where
  "sys_unlink path = do {
     ok \<leftarrow> fallible;
     n \<leftarrow> gets (\<lambda>w. w_files w path);
     if \<not> ok then ret (-1)
     else case n of
       None \<Rightarrow> fail_with ENOENT (-1)
     | Some Dir \<Rightarrow> fail_with EISDIR (-1)
     | Some (Reg _) \<Rightarrow> do {
         modify (\<lambda>w. w\<lparr>w_files := (w_files w)(path := None)\<rparr>); ret 0 } }"

text \<open>\<open>fstat(fd, &st)\<close>: whether the file is regular, and its size.\<close>

definition sys_fstat :: "int \<Rightarrow> (bool \<times> nat) option io" where
  "sys_fstat fd = do {
     ok \<leftarrow> fallible;
     if \<not> ok then ret None
     else do {
       f \<leftarrow> gets (\<lambda>w. w_fds w fd);
       fs \<leftarrow> gets w_files;
       case f of
         None \<Rightarrow> fail_with EBADF None
       | Some OSock \<Rightarrow> ret (Some (False, 0))
       | Some (OFile p _) \<Rightarrow> (case fs p of
             Some (Reg c) \<Rightarrow> ret (Some (True, length c))
           | Some Dir \<Rightarrow> ret (Some (False, 0))
           | None \<Rightarrow> ret (Some (True, 0))) } }"

definition sys_lseek0 :: "int \<Rightarrow> int io" where
  "sys_lseek0 fd = do {
     ok \<leftarrow> fallible;
     if \<not> ok then ret (-1)
     else do {
       modify (\<lambda>w. case w_fds w fd of
         Some (OFile p _) \<Rightarrow> w\<lparr>w_fds := (w_fds w)(fd \<mapsto> OFile p 0)\<rparr> | _ \<Rightarrow> w);
       ret 0 } }"

text \<open>How many of the \<open>n\<close> requested bytes a call may move under an outcome.\<close>

fun io_cap :: "outcome \<Rightarrow> nat \<Rightarrow> nat" where
  "io_cap (Short k) n = min n (Suc k)"
| "io_cap Zero n = 0"
| "io_cap _ n = n"

definition file_content :: "world \<Rightarrow> string \<Rightarrow> bytes" where
  "file_content w p = (case w_files w p of Some (Reg c) \<Rightarrow> c | _ \<Rightarrow> [])"

text \<open>One \<open>read(fd, buf, n)\<close>: the result and the bytes stored in the buffer.\<close>

definition sys_read :: "int \<Rightarrow> nat \<Rightarrow> (int \<times> bytes) io" where
  "sys_read fd n = do {
     x \<leftarrow> next_io;
     case x of
       Fail e \<Rightarrow> fail_with e (-1, [])
     | _ \<Rightarrow> State (\<lambda>w. case w_fds w fd of
           None \<Rightarrow> ((-1, []), w\<lparr>w_errno := EBADF\<rparr>)
         | Some OSock \<Rightarrow>
             (let bs = take (io_cap x n) (w_sin w) in
              ((int (length bs), bs), w\<lparr>w_sin := drop (io_cap x n) (w_sin w)\<rparr>))
         | Some (OFile p pos) \<Rightarrow>
             (if w_files w p = Some Dir then ((-1, []), w\<lparr>w_errno := EISDIR\<rparr>)
              else let bs = take (io_cap x n) (drop pos (file_content w p)) in
              ((int (length bs), bs),
               w\<lparr>w_fds := (w_fds w)(fd \<mapsto> OFile p (pos + length bs))\<rparr>))) }"

text \<open>One \<open>write(fd, buf, n)\<close>.\<close>

definition sys_write :: "int \<Rightarrow> bytes \<Rightarrow> int io" where
  "sys_write fd bs = do {
     x \<leftarrow> next_io;
     case x of
       Fail e \<Rightarrow> fail_with e (-1)
     | _ \<Rightarrow> State (\<lambda>w.
         let acc = take (io_cap x (length bs)) bs in
         case w_fds w fd of
           None \<Rightarrow> (-1, w\<lparr>w_errno := EBADF\<rparr>)
         | Some OSock \<Rightarrow> (int (length acc), w\<lparr>w_sout := w_sout w @ acc\<rparr>)
         | Some (OFile p pos) \<Rightarrow>
             (let c = file_content w p in
              if w_files w p = None then (int (length acc), w)
              else (int (length acc),
               w\<lparr>w_files := (w_files w)(p \<mapsto> Reg (take pos c @ acc @ drop (pos + length acc) c)),
                 w_fds := (w_fds w)(fd \<mapsto> OFile p (pos + length acc))\<rparr>))) }"

end
