(* ===== verification/Effects.thy ===== *)
theory Effects
  imports World
begin

text \<open>
  Reasoning principles for \<open>io\<close> computations: a weakest-precondition predicate \<open>wp\<close> with one
  rule per program construct, and effect frames (\<open>effect_frame\<close>), reflexive and transitive
  relations on worlds that a computation stays inside (\<open>keeps R m\<close>), closed under all
  constructs once in the locale and then interpreted for the frames the components need:
  no program started, programs only appended, files unchanged, socket untouched.
\<close>


section \<open>Running the primitives\<close>

lemma run_gets [simp]: "run_state (gets f) w = (f w, w)"
  by (simp add: gets_def)

lemma run_modify [simp]: "run_state (modify f) w = ((), f w)"
  by (simp add: modify_def)

lemma run_get_errno [simp]: "run_state get_errno w = (w_errno w, w)"
  by (simp add: get_errno_def)

lemma run_set_errno [simp]: "run_state (set_errno e) w = ((), w\<lparr>w_errno := e\<rparr>)"
  by (simp add: set_errno_def)

lemma run_fail_with [simp]: "run_state (fail_with e v) w = (v, w\<lparr>w_errno := e\<rparr>)"
  by (simp add: fail_with_def)

lemma run_next_outcome_quiet [io_simps]: "w_plan w = [] \<Longrightarrow> run_state next_outcome w = (Done, w)"
  by (simp add: next_outcome_def)

lemma run_fallible_quiet [io_simps]: "w_plan w = [] \<Longrightarrow> run_state fallible w = (True, w)"
  by (simp add: fallible_def run_next_outcome_quiet)

lemma run_malloc_quiet [io_simps]: "w_plan w = [] \<Longrightarrow> run_state c_malloc w = (True, w)"
  by (simp add: c_malloc_def run_next_outcome_quiet)

lemma run_close [simp]: "run_state (sys_close fd) w = ((), w\<lparr>w_fds := (w_fds w)(fd := None)\<rparr>)"
  by (simp add: sys_close_def)

lemma run_c_time_quiet [io_simps]: "w_ticks w = [] \<Longrightarrow> run_state c_time w = (w_now w, w)"
  by (simp add: c_time_def)


section \<open>Weakest preconditions\<close>

definition wp :: "'a io \<Rightarrow> ('a \<Rightarrow> world \<Rightarrow> bool) \<Rightarrow> world \<Rightarrow> bool" where
  "wp m Q w = (case run_state m w of (a, w') \<Rightarrow> Q a w')"

lemma wp_run: "wp m Q w \<longleftrightarrow> Q (fst (run_state m w)) (snd (run_state m w))"
  by (simp add: wp_def case_prod_beta)

lemma wpI: "(\<And>a w'. run_state m w = (a, w') \<Longrightarrow> Q a w') \<Longrightarrow> wp m Q w"
  by (simp add: wp_def split: prod.split)

lemma wpD: "wp m Q w \<Longrightarrow> run_state m w = (a, w') \<Longrightarrow> Q a w'"
  by (simp add: wp_def)

lemma wp_return [simp]: "wp (ret a) Q = Q a"
  by (simp add: wp_def fun_eq_iff)

lemma wp_bind [simp]: "wp (State_Monad.bind m f) Q = wp m (\<lambda>a. wp (f a) Q)"
  by (simp add: wp_def fun_eq_iff case_prod_beta)

lemma wp_if [simp]: "wp (if b then m else n) Q = (\<lambda>w. if b then wp m Q w else wp n Q w)"
  by simp

lemma wp_gets [simp]: "wp (gets f) Q = (\<lambda>w. Q (f w) w)"
  by (simp add: wp_def fun_eq_iff)

lemma wp_modify [simp]: "wp (modify f) Q = (\<lambda>w. Q () (f w))"
  by (simp add: wp_def fun_eq_iff)

lemma wp_set_errno [simp]: "wp (set_errno e) Q = (\<lambda>w. Q () (w\<lparr>w_errno := e\<rparr>))"
  by (simp add: wp_def fun_eq_iff)

lemma wp_get_errno [simp]: "wp get_errno Q = (\<lambda>w. Q (w_errno w) w)"
  by (simp add: wp_def fun_eq_iff)

lemma wp_fail_with [simp]: "wp (fail_with e v) Q = (\<lambda>w. Q v (w\<lparr>w_errno := e\<rparr>))"
  by (simp add: wp_def fun_eq_iff)

lemma wp_close [simp]: "wp (sys_close fd) Q = (\<lambda>w. Q () (w\<lparr>w_fds := (w_fds w)(fd := None)\<rparr>))"
  by (simp add: wp_def fun_eq_iff)

lemma wp_case_option [simp]:
  "wp (case z of None \<Rightarrow> n | Some x \<Rightarrow> f x) Q =
   (\<lambda>w. case z of None \<Rightarrow> wp n Q w | Some x \<Rightarrow> wp (f x) Q w)"
  by (simp add: fun_eq_iff split: option.split)

lemma wp_case_prod [simp]:
  "wp (case z of (x, y) \<Rightarrow> f x y) Q = (\<lambda>w. case z of (x, y) \<Rightarrow> wp (f x y) Q w)"
  by (simp add: fun_eq_iff split: prod.split)

lemma wp_case_node [simp]:
  "wp (case z of Reg c \<Rightarrow> f c | Dir \<Rightarrow> g) Q =
   (\<lambda>w. case z of Reg c \<Rightarrow> wp (f c) Q w | Dir \<Rightarrow> wp g Q w)"
  by (simp add: fun_eq_iff split: node.split)

lemma wp_case_ofile [simp]:
  "wp (case z of OFile p k \<Rightarrow> f p k | OSock \<Rightarrow> g) Q =
   (\<lambda>w. case z of OFile p k \<Rightarrow> wp (f p k) Q w | OSock \<Rightarrow> wp g Q w)"
  by (simp add: fun_eq_iff split: ofile.split)

lemma wp_new_fd [simp]:
  "wp (new_fd f) Q = (\<lambda>w. Q (w_nextfd w)
     (w\<lparr>w_fds := (w_fds w)(w_nextfd w \<mapsto> f), w_nextfd := w_nextfd w + 1\<rparr>))"
  by (simp add: wp_def new_fd_def fun_eq_iff)

lemma wp_mono: "wp m P w \<Longrightarrow> (\<And>a w'. P a w' \<Longrightarrow> Q a w') \<Longrightarrow> wp m Q w"
  by (simp add: wp_def case_prod_beta)

lemma wp_conj: "wp m P w \<Longrightarrow> wp m Q w \<Longrightarrow> wp m (\<lambda>a w'. P a w' \<and> Q a w') w"
  by (simp add: wp_def case_prod_beta)


section \<open>Effect frames\<close>

definition keeps :: "(world \<Rightarrow> world \<Rightarrow> bool) \<Rightarrow> 'a io \<Rightarrow> bool" where
  "keeps R m \<longleftrightarrow> (\<forall>w. R w (snd (run_state m w)))"

lemma keepsI: "(\<And>w. R w (snd (run_state m w))) \<Longrightarrow> keeps R m"
  by (simp add: keeps_def)

lemma keepsD: "keeps R m \<Longrightarrow> run_state m w = (a, w') \<Longrightarrow> R w w'"
  by (metis keeps_def snd_conv)

lemma keeps_snd: "keeps R m \<Longrightarrow> R w (snd (run_state m w))"
  by (simp add: keeps_def)

text \<open>
  A frame is told by what it ignores: the error number, the use of the two plans and the advance
  of the clock are never part of one, so the primitives that touch only these keep every frame.
\<close>

locale effect_frame =
  fixes R :: "world \<Rightarrow> world \<Rightarrow> bool"
  assumes frame_refl: "R w w"
    and frame_trans: "R w w' \<Longrightarrow> R w' w'' \<Longrightarrow> R w w''"
    and frame_errno: "R w (w\<lparr>w_errno := e\<rparr>)"
    and frame_plan: "suffix p (w_plan w) \<Longrightarrow> R w (w\<lparr>w_plan := p\<rparr>)"
    and frame_io: "suffix p (w_io w) \<Longrightarrow> R w (w\<lparr>w_io := p\<rparr>)"
    and frame_clock: "w_now w \<le> t \<Longrightarrow> R w (w\<lparr>w_now := t, w_ticks := ds\<rparr>)"
begin

lemma keeps_return [keeps_intros]: "keeps R (ret a)"
  by (simp add: keeps_def frame_refl)

lemma keeps_bind [keeps_intros]:
  "keeps R m \<Longrightarrow> (\<And>a. keeps R (f a)) \<Longrightarrow> keeps R (State_Monad.bind m f)"
  by (auto simp: keeps_def case_prod_beta intro: frame_trans)

lemma keeps_gets [keeps_intros]: "keeps R (gets f)"
  by (simp add: keeps_def frame_refl)

lemma keeps_get_errno [keeps_intros]: "keeps R get_errno"
  by (simp add: keeps_def frame_refl)

lemma keeps_set_errno [keeps_intros]: "keeps R (set_errno e)"
  by (simp add: keeps_def frame_errno)

lemma keeps_fail_with [keeps_intros]: "keeps R (fail_with e v)"
  by (simp add: keeps_def frame_errno)

lemma keeps_next_outcome [keeps_intros]: "keeps R next_outcome"
  by (auto simp: keeps_def next_outcome_def frame_refl intro!: frame_plan suffix_ConsI split: list.split)

lemma keeps_next_io [keeps_intros]: "keeps R next_io"
  by (auto simp: keeps_def next_io_def frame_refl intro!: frame_io suffix_ConsI split: list.split)

lemma keeps_if [keeps_intros]:
  "(b \<Longrightarrow> keeps R m) \<Longrightarrow> (\<not> b \<Longrightarrow> keeps R n) \<Longrightarrow> keeps R (if b then m else n)"
  by simp

lemma keeps_case_option [keeps_intros]:
  "keeps R n \<Longrightarrow> (\<And>x. keeps R (f x)) \<Longrightarrow> keeps R (case z of None \<Rightarrow> n | Some x \<Rightarrow> f x)"
  by (cases z) simp_all

lemma keeps_case_prod [keeps_intros]:
  "(\<And>x y. keeps R (f x y)) \<Longrightarrow> keeps R (case z of (x, y) \<Rightarrow> f x y)"
  by (cases z) simp

lemma keeps_case_outcome [keeps_intros]:
  "keeps R a \<Longrightarrow> (\<And>k. keeps R (b k)) \<Longrightarrow> keeps R c \<Longrightarrow> (\<And>e. keeps R (d e)) \<Longrightarrow>
   keeps R (case z of Done \<Rightarrow> a | Short k \<Rightarrow> b k | Zero \<Rightarrow> c | Fail e \<Rightarrow> d e)"
  by (cases z) simp_all

lemma keeps_case_node [keeps_intros]:
  "(\<And>c. keeps R (f c)) \<Longrightarrow> keeps R g \<Longrightarrow> keeps R (case z of Reg c \<Rightarrow> f c | Dir \<Rightarrow> g)"
  by (cases z) simp_all

lemma keeps_case_ofile [keeps_intros]:
  "(\<And>p k. keeps R (f p k)) \<Longrightarrow> keeps R g \<Longrightarrow> keeps R (case z of OFile p k \<Rightarrow> f p k | OSock \<Rightarrow> g)"
  by (cases z) simp_all

lemma keeps_let [keeps_intros]: "(\<And>x. keeps R (f x)) \<Longrightarrow> keeps R (Let z f)"
  by simp

lemma keeps_fallible [keeps_intros]: "keeps R fallible"
  unfolding fallible_def by (intro keeps_intros)

lemma keeps_malloc [keeps_intros]: "keeps R c_malloc"
  unfolding c_malloc_def by (intro keeps_intros)

lemma keeps_time [keeps_intros]: "keeps R c_time"
proof (rule keepsI)
  fix w
  show "R w (snd (run_state c_time w))"
    by (cases "w_ticks w") (auto simp: c_time_def frame_refl frame_clock)
qed

lemma keeps_fstat [keeps_intros]: "keeps R (sys_fstat fd)"
  unfolding sys_fstat_def by (intro keeps_intros)

end

text \<open>
  Frames that also ignore the children that may exit; that ignore the descriptor table, what is
  left to read on the socket and the log level; and that ignore the file system and allow
  writing to the socket.
\<close>

locale exit_frame = effect_frame +
  assumes frame_exits: "R w (w\<lparr>w_exits := xs\<rparr>)"

locale fd_frame = exit_frame +
  assumes frame_sin: "R w (w\<lparr>w_sin := s\<rparr>)"
    and frame_fds: "R w (w\<lparr>w_fds := fds\<rparr>)"
    and frame_nextfd: "R w (w\<lparr>w_nextfd := n\<rparr>)"
    and frame_verbosity: "R w (w\<lparr>w_verbosity := v\<rparr>)"
begin

lemma keeps_close [keeps_intros]: "keeps R (sys_close fd)"
  by (simp add: keeps_def frame_fds)

lemma keeps_lseek0 [keeps_intros]: "keeps R (sys_lseek0 fd)"
  unfolding sys_lseek0_def
  by (intro keeps_intros)
     (auto simp: keeps_def frame_fds frame_refl split: option.split ofile.split)

lemma keeps_new_fd [keeps_intros]: "keeps R (new_fd f)"
  by (auto simp: keeps_def new_fd_def intro: frame_trans frame_fds frame_nextfd)

lemma keeps_sys_read [keeps_intros]: "keeps R (sys_read fd n)"
proof -
  have "keeps R (State (\<lambda>w. case w_fds w fd of
           None \<Rightarrow> ((-1, []), w\<lparr>w_errno := EBADF\<rparr>)
         | Some OSock \<Rightarrow>
             (let bs = take (io_cap x n) (w_sin w) in
              ((int (length bs), bs), w\<lparr>w_sin := drop (io_cap x n) (w_sin w)\<rparr>))
         | Some (OFile p pos) \<Rightarrow>
             (if w_files w p = Some Dir then ((-1, []), w\<lparr>w_errno := EISDIR\<rparr>)
              else let bs = take (io_cap x n) (drop pos (file_content w p)) in
              ((int (length bs), bs),
               w\<lparr>w_fds := (w_fds w)(fd \<mapsto> OFile p (pos + length bs))\<rparr>))))" for x
    by (auto simp: keeps_def Let_def frame_errno frame_sin frame_fds
        split: option.split ofile.split)
  then show ?thesis unfolding sys_read_def by (intro keeps_intros)
qed

end

locale file_frame = fd_frame +
  assumes frame_files: "R w (w\<lparr>w_files := fs\<rparr>)"
    and frame_sout: "R w (w\<lparr>w_sout := w_sout w @ bs\<rparr>)"
    and frame_db: "R w (w\<lparr>w_db := rows\<rparr>)"
begin

lemma keeps_sys_write [keeps_intros]: "keeps R (sys_write fd bs)"
proof -
  have *: "R w (w\<lparr>w_files := fs, w_fds := fds\<rparr>)" for w fs fds
    by (rule frame_trans[OF frame_files frame_fds])
  have "keeps R (State (\<lambda>w.
         let acc = take (io_cap x (length bs)) bs in
         case w_fds w fd of
           None \<Rightarrow> (-1, w\<lparr>w_errno := EBADF\<rparr>)
         | Some OSock \<Rightarrow> (int (length acc), w\<lparr>w_sout := w_sout w @ acc\<rparr>)
         | Some (OFile p pos) \<Rightarrow>
             (let c = file_content w p in
              if w_files w p = None then (int (length acc), w)
              else (int (length acc),
               w\<lparr>w_files := (w_files w)(p \<mapsto> Reg (take pos c @ acc @ drop (pos + length acc) c)),
                 w_fds := (w_fds w)(fd \<mapsto> OFile p (pos + length acc))\<rparr>))))" for x
    by (auto simp: keeps_def Let_def frame_errno frame_sout * frame_refl
        split: option.split ofile.split)
  then show ?thesis unfolding sys_write_def by (intro keeps_intros)
qed

lemma keeps_mod_files: "keeps R (modify (\<lambda>w. w\<lparr>w_files := f w\<rparr>))"
  by (simp add: keeps_def frame_files)

lemma keeps_sys_open [keeps_intros]: "keeps R (sys_open path fl)"
proof -
  have "keeps R (modify (\<lambda>w. if O_TRUNC \<in> set fl
                   then w\<lparr>w_files := (w_files w)(path \<mapsto> Reg [])\<rparr> else w))"
    by (auto simp: keeps_def frame_files frame_refl)
  then show ?thesis
    unfolding sys_open_def by (intro keeps_intros keeps_mod_files)
qed

lemma keeps_sys_unlink [keeps_intros]: "keeps R (sys_unlink path)"
  unfolding sys_unlink_def by (intro keeps_intros keeps_mod_files)

end

text \<open>The frames the components use.\<close>

definition same_execs :: "world \<Rightarrow> world \<Rightarrow> bool" where
  "same_execs w w' \<longleftrightarrow> w_execs w' = w_execs w"

definition execs_grow :: "world \<Rightarrow> world \<Rightarrow> bool" where
  "execs_grow w w' \<longleftrightarrow> prefix (w_execs w) (w_execs w')"

definition same_files :: "world \<Rightarrow> world \<Rightarrow> bool" where
  "same_files w w' \<longleftrightarrow> w_files w' = w_files w"

definition same_sock :: "world \<Rightarrow> world \<Rightarrow> bool" where
  "same_sock w w' \<longleftrightarrow> w_sin w' = w_sin w \<and> w_sout w' = w_sout w"

definition sout_grows :: "world \<Rightarrow> world \<Rightarrow> bool" where
  "sout_grows w w' \<longleftrightarrow> prefix (w_sout w) (w_sout w')"

interpretation fr_execs: file_frame same_execs
  by unfold_locales (simp_all add: same_execs_def)

interpretation fr_grow: file_frame execs_grow
  by unfold_locales (auto simp: execs_grow_def)

interpretation fr_sout: file_frame sout_grows
  by unfold_locales (auto simp: sout_grows_def)

interpretation fr_files: fd_frame same_files
  by unfold_locales (simp_all add: same_files_def)

text \<open>The clock never goes back, no file disappears unless it is unlinked, the plan is used up.\<close>

definition clock_up :: "world \<Rightarrow> world \<Rightarrow> bool" where
  "clock_up w w' \<longleftrightarrow> w_now w \<le> w_now w'"

definition files_stay :: "world \<Rightarrow> world \<Rightarrow> bool" where
  "files_stay w w' \<longleftrightarrow> (\<forall>p. w_files w p \<noteq> None \<longrightarrow> w_files w' p \<noteq> None)"

definition plan_sub :: "world \<Rightarrow> world \<Rightarrow> bool" where
  "plan_sub w w' \<longleftrightarrow> set (w_plan w') \<subseteq> set (w_plan w)"

interpretation fr_plan: file_frame plan_sub
  by unfold_locales (auto simp: plan_sub_def dest: set_mono_suffix)

interpretation fr_clock: file_frame clock_up
  by unfold_locales (auto simp: clock_up_def)

interpretation fr_stay: fd_frame files_stay
  by unfold_locales (auto simp: files_stay_def)

interpretation fr_sock: effect_frame same_sock
  by unfold_locales (simp_all add: same_sock_def)

end
