(* ===== verification/Plans.thy ===== *)
theory Plans
  imports Effects
begin

text \<open>
  Rules for the system calls: under an arbitrary plan (what a call may have done when it
  failed, when it succeeded), and under an empty plan, where every call succeeds.
\<close>

text \<open>
  Under an arbitrary plan the calls below only consume the plan and set the error number
  (\<open>plan_step\<close>).
\<close>

definition plan_step :: "world \<Rightarrow> world \<Rightarrow> bool" where
  "plan_step w w' \<longleftrightarrow> w'\<lparr>w_plan := [], w_errno := 0\<rparr> = w\<lparr>w_plan := [], w_errno := 0\<rparr>"

lemma plan_stepI [simp, intro]: "plan_step w w" "plan_step w (w\<lparr>w_errno := e\<rparr>)"
  "plan_step w (w\<lparr>w_plan := p\<rparr>)" "plan_step w (w\<lparr>w_plan := p, w_errno := e\<rparr>)"
  by (simp_all add: plan_step_def)

lemma plan_step_trans: "plan_step w w' \<Longrightarrow> plan_step w' w'' \<Longrightarrow> plan_step w w''"
  by (simp add: plan_step_def)

lemma plan_step_errno [simp]: "plan_step w (w'\<lparr>w_errno := e\<rparr>) = plan_step w w'"
  by (simp add: plan_step_def)

lemma plan_step_same:
  assumes "plan_step w w'"
  shows "w_files w' = w_files w" "w_now w' = w_now w" "w_ticks w' = w_ticks w"
    "w_execs w' = w_execs w" "w_fds w' = w_fds w" "w_io w' = w_io w" "w_sin w' = w_sin w"
    "w_sout w' = w_sout w" "w_nextfd w' = w_nextfd w"
proof -
  let ?e = "\<lambda>w. w\<lparr>w_plan := [], w_errno := 0\<rparr>"
  have g: "?e w' = ?e w" using assms by (simp add: plan_step_def)
  show "w_files w' = w_files w" using arg_cong[OF g, of w_files] by simp
  show "w_now w' = w_now w" using arg_cong[OF g, of w_now] by simp
  show "w_ticks w' = w_ticks w" using arg_cong[OF g, of w_ticks] by simp
  show "w_execs w' = w_execs w" using arg_cong[OF g, of w_execs] by simp
  show "w_fds w' = w_fds w" using arg_cong[OF g, of w_fds] by simp
  show "w_io w' = w_io w" using arg_cong[OF g, of w_io] by simp
  show "w_sin w' = w_sin w" using arg_cong[OF g, of w_sin] by simp
  show "w_nextfd w' = w_nextfd w" using arg_cong[OF g, of w_nextfd] by simp
  show "w_sout w' = w_sout w" using arg_cong[OF g, of w_sout] by simp
qed

lemma wp_fallible_any: "(\<And>b w'. plan_step w w' \<Longrightarrow> Q b w') \<Longrightarrow> wp fallible Q w"
  by (cases "w_plan w") (auto simp: wp_def fallible_def next_outcome_def split: outcome.split)

text \<open>A failing call reports the error number that the plan holds.\<close>

lemma wp_fallible_errno:
  "(\<And>b w'. plan_step w w' \<Longrightarrow> b \<or> Fail (w_errno w') \<in> set (w_plan w) \<Longrightarrow> Q b w') \<Longrightarrow> wp fallible Q w"
  by (cases "w_plan w") (auto simp: wp_def fallible_def next_outcome_def split: outcome.split)

lemma wp_malloc_any: "(\<And>b w'. plan_step w w' \<Longrightarrow> Q b w') \<Longrightarrow> wp c_malloc Q w"
  by (cases "w_plan w") (auto simp: wp_def c_malloc_def next_outcome_def split: outcome.split)

text \<open>The same, counted from an earlier world.\<close>

lemma wp_fallible_from: "plan_step w0 w \<Longrightarrow> (\<And>b w'. plan_step w0 w' \<Longrightarrow> Q b w') \<Longrightarrow> wp fallible Q w"
  by (rule wp_fallible_any) (blast intro: plan_step_trans)

lemma wp_malloc_from: "plan_step w0 w \<Longrightarrow> (\<And>b w'. plan_step w0 w' \<Longrightarrow> Q b w') \<Longrightarrow> wp c_malloc Q w"
  by (rule wp_malloc_any) (blast intro: plan_step_trans)

lemma wp_fallible_quiet: "w_plan w = [] \<Longrightarrow> wp fallible Q w = Q True w"
  by (simp add: wp_def io_simps)

lemma wp_malloc_quiet: "w_plan w = [] \<Longrightarrow> wp c_malloc Q w = Q True w"
  by (simp add: wp_def io_simps)


section \<open>Files\<close>

lemma wp_open_rdonly:
  assumes "\<And>w'. plan_step w w' \<Longrightarrow> Q (-1) w'"
    and "\<And>w0 nd. plan_step w w0 \<Longrightarrow> w_files w path = Some nd \<Longrightarrow>
      Q (w_nextfd w) (w0\<lparr>w_fds := (w_fds w)(w_nextfd w \<mapsto> OFile path 0), w_nextfd := w_nextfd w + 1\<rparr>)"
  shows "wp (sys_open path []) Q w"
  unfolding sys_open_def wp_bind
  by (rule wp_fallible_any)
     (auto simp: plan_step_same intro!: assms(1,2) split: option.split node.split)

lemma wp_open_trunc:
  assumes "\<And>w'. plan_step w w' \<Longrightarrow> Q (-1) w'"
    and "\<And>w0. plan_step w w0 \<Longrightarrow> w_files w path \<noteq> Some Dir \<Longrightarrow>
      Q (w_nextfd w) (w0\<lparr>w_files := (w_files w)(path \<mapsto> Reg []),
        w_fds := (w_fds w)(w_nextfd w \<mapsto> OFile path 0), w_nextfd := w_nextfd w + 1\<rparr>)"
  shows "wp (sys_open path [O_WRITE, O_CREAT, O_TRUNC]) Q w"
  unfolding sys_open_def wp_bind
  by (rule wp_fallible_any)
     (auto simp: plan_step_same intro!: assms(1,2) split: option.split node.split)

text \<open>\<open>O_CREAT | O_EXCL\<close>: only a missing file is created.\<close>

lemma wp_open_excl:
  assumes "\<And>w'. plan_step w w' \<Longrightarrow> Q (-1) w'"
    and "\<And>w0. plan_step w w0 \<Longrightarrow> w_files w path = None \<Longrightarrow>
      Q (w_nextfd w) (w0\<lparr>w_files := (w_files w)(path \<mapsto> Reg []),
        w_fds := (w_fds w)(w_nextfd w \<mapsto> OFile path 0), w_nextfd := w_nextfd w + 1\<rparr>)"
    and "O_CREAT \<in> set fl" "O_EXCL \<in> set fl"
  shows "wp (sys_open path fl) Q w"
  unfolding sys_open_def wp_bind
  by (rule wp_fallible_any)
     (auto simp: plan_step_same assms(3,4) intro!: assms(1,2) split: option.split node.split)

lemma wp_fstat_any:
  assumes "\<And>w'. plan_step w w' \<Longrightarrow> Q None w'"
    and "\<And>w' reg n. plan_step w w' \<Longrightarrow>
      (\<And>p k c. w_fds w fd = Some (OFile p k) \<Longrightarrow> w_files w p = Some (Reg c) \<Longrightarrow> reg \<and> n = length c) \<Longrightarrow>
      (\<And>p k. w_fds w fd = Some (OFile p k) \<Longrightarrow> w_files w p = Some Dir \<Longrightarrow> \<not> reg \<and> n = 0) \<Longrightarrow>
      Q (Some (reg, n)) w'"
  shows "wp (sys_fstat fd) Q w"
  unfolding sys_fstat_def wp_bind
  by (rule wp_fallible_any)
     (auto simp: plan_step_same intro!: assms split: option.split ofile.split node.split)

lemma wp_fstat_quiet:
  assumes "w_plan w = []" "w_fds w fd = Some (OFile p k)" "w_files w p = Some (Reg c)"
  shows "wp (sys_fstat fd) Q w = Q (Some (True, length c)) w"
  using assms by (simp add: sys_fstat_def wp_fallible_quiet)

lemma wp_unlink_any:
  assumes "\<And>w'. plan_step w w' \<Longrightarrow> Q (-1) w'"
    and "\<And>w0 c. plan_step w w0 \<Longrightarrow> w_files w path = Some (Reg c) \<Longrightarrow>
      Q 0 (w0\<lparr>w_files := (w_files w)(path := None)\<rparr>)"
  shows "wp (sys_unlink path) Q w"
  unfolding sys_unlink_def wp_bind
  by (rule wp_fallible_any)
     (auto simp: plan_step_same intro!: assms split: option.split node.split)

lemma wp_open_rdonly_quiet:
  "w_plan w = [] \<Longrightarrow> w_files w path = Some nd \<Longrightarrow> wp (sys_open path []) Q w =
     Q (w_nextfd w) (w\<lparr>w_fds := (w_fds w)(w_nextfd w \<mapsto> OFile path 0), w_nextfd := w_nextfd w + 1\<rparr>)"
  by (auto simp: sys_open_def wp_fallible_quiet split: node.split)

lemma wp_open_trunc_quiet:
  "w_plan w = [] \<Longrightarrow> w_files w path \<noteq> Some Dir \<Longrightarrow>
   wp (sys_open path [O_WRITE, O_CREAT, O_TRUNC]) Q w =
     Q (w_nextfd w) (w\<lparr>w_files := (w_files w)(path \<mapsto> Reg []),
       w_fds := (w_fds w)(w_nextfd w \<mapsto> OFile path 0), w_nextfd := w_nextfd w + 1\<rparr>)"
  by (auto simp: sys_open_def wp_fallible_quiet split: option.split node.split)

end
