(* ===== verification/CommonIO.thy ===== *)
theory CommonIO
  imports CString Plans
begin

text \<open>
  \<open>common.c\<close>, the part that talks to file descriptors and parses text: exact-length reads and
  writes, the length-prefixed wire formats of the client/daemon protocol, file transfer, the
  log level, decimal parsing and the character whitelist.  A C function that returns a pointer
  or a negative number on failure returns \<open>None\<close>, respectively the negative number; the error
  number is in the world.
\<close>

definition MAX_STRING :: nat where "MAX_STRING = 4096"
definition MAX_FILE_SIZE :: nat where "MAX_FILE_SIZE = 262144"


section \<open>Log level\<close>

definition LOG_VERBOSITY_NONE :: int where "LOG_VERBOSITY_NONE = 0"
definition LOG_VERBOSITY_FATAL :: int where "LOG_VERBOSITY_FATAL = 7"
definition LOG_VERBOSITY_ERROR :: int where "LOG_VERBOSITY_ERROR = 124"
definition LOG_VERBOSITY_WARN :: int where "LOG_VERBOSITY_WARN = 200"
definition LOG_VERBOSITY_NORMAL :: int where "LOG_VERBOSITY_NORMAL = 387"
definition LOG_VERBOSITY_VERBOSE :: int where "LOG_VERBOSITY_VERBOSE = 1244"
definition LOG_VERBOSITY_DEBUG :: int where "LOG_VERBOSITY_DEBUG = 4732"
definition LOG_VERBOSITY_MAX :: int where "LOG_VERBOSITY_MAX = 9999"

lemmas log_levels = LOG_VERBOSITY_NONE_def LOG_VERBOSITY_FATAL_def LOG_VERBOSITY_ERROR_def
  LOG_VERBOSITY_WARN_def LOG_VERBOSITY_NORMAL_def LOG_VERBOSITY_VERBOSE_def
  LOG_VERBOSITY_DEBUG_def LOG_VERBOSITY_MAX_def

definition set_verbosity :: "int \<Rightarrow> int io" where
  "set_verbosity v = do { modify (\<lambda>w. w\<lparr>w_verbosity := v\<rparr>); ret 0 }"

definition set_log_verbosity :: "string \<Rightarrow> int io" where
  "set_log_verbosity lvl =
     (if strcaseeq ''none'' lvl then set_verbosity LOG_VERBOSITY_NONE
      else if strcaseeq ''fatal'' lvl then set_verbosity LOG_VERBOSITY_FATAL
      else if strcaseeq ''error'' lvl then set_verbosity LOG_VERBOSITY_ERROR
      else if strcaseeq ''warn'' lvl then set_verbosity LOG_VERBOSITY_WARN
      else if strcaseeq ''normal'' lvl then set_verbosity LOG_VERBOSITY_NORMAL
      else if strcaseeq ''verbose'' lvl then set_verbosity LOG_VERBOSITY_VERBOSE
      else if strcaseeq ''debug'' lvl then set_verbosity LOG_VERBOSITY_DEBUG
      else if strcaseeq ''max'' lvl then set_verbosity LOG_VERBOSITY_MAX
      else fail_with EINVAL (- EINVAL))"

definition get_log_verbosity :: "int io" where
  "get_log_verbosity = gets w_verbosity"


section \<open>Exact reads and writes\<close>

function read_loop :: "int \<Rightarrow> nat \<Rightarrow> bytes \<Rightarrow> world \<Rightarrow> bytes option \<times> world" where
  "read_loop fd len acc w =
     (if len = 0 then (Some acc, w)
      else case run_state (sys_read fd len) w of ((r, bs), w') \<Rightarrow>
        if r < 0 then (if w_errno w' = EINTR then read_loop fd len acc w' else (None, w'))
        else if r = 0 then (None, w'\<lparr>w_errno := EPIPE\<rparr>)
        else read_loop fd (len - nat r) (acc @ bs) w')"
  by pat_completeness auto

lemma run_sys_read:
  "run_state (sys_read fd n) w =
     (let x = (case w_io w of [] \<Rightarrow> Done | y # ys \<Rightarrow> y);
          w' = (case w_io w of [] \<Rightarrow> w | y # ys \<Rightarrow> w\<lparr>w_io := ys\<rparr>)
      in case x of Fail e \<Rightarrow> ((-1, []), w'\<lparr>w_errno := e\<rparr>)
       | _ \<Rightarrow> (case w_fds w fd of
           None \<Rightarrow> ((-1, []), w'\<lparr>w_errno := EBADF\<rparr>)
         | Some OSock \<Rightarrow> (let bs = take (io_cap x n) (w_sin w) in
              ((int (length bs), bs), w'\<lparr>w_sin := drop (io_cap x n) (w_sin w)\<rparr>))
         | Some (OFile p pos) \<Rightarrow>
             (if w_files w p = Some Dir then ((-1, []), w'\<lparr>w_errno := EISDIR\<rparr>)
              else let bs = take (io_cap x n) (drop pos (file_content w p)) in
              ((int (length bs), bs),
               w'\<lparr>w_fds := (w_fds w)(fd \<mapsto> OFile p (pos + length bs))\<rparr>))))"
  by (auto simp: sys_read_def next_io_def Let_def file_content_def split: list.split outcome.split
      option.split ofile.split)

lemma io_cap_le: "io_cap x n \<le> n"
  by (cases x) simp_all

lemma sys_read_progress:
  assumes "run_state (sys_read fd n) w = ((r, bs), w')"
  shows "length (w_io w') \<le> length (w_io w)"
    and "r < 0 \<Longrightarrow> w_errno w' = EINTR \<Longrightarrow> length (w_io w') < length (w_io w)"
  using assms
  by (auto simp: run_sys_read Let_def split: list.splits outcome.splits option.splits ofile.splits
      if_splits)

termination read_loop
proof (relation "measure (\<lambda>(fd, len, acc, w). length (w_io w) + len)", goal_cases)
  case 1
  show ?case by simp
next
  case (2 fd len acc w x y r bs)
  then show ?case using sys_read_progress(2)[of fd len w r bs y] by simp
next
  case (3 fd len acc w x y r bs)
  then show ?case using sys_read_progress(1)[of fd len w r bs y] by simp
qed

declare read_loop.simps [simp del]

definition read_all :: "int \<Rightarrow> nat \<Rightarrow> bytes option io" where
  "read_all fd len = State (read_loop fd len [])"

function write_loop :: "int \<Rightarrow> bytes \<Rightarrow> world \<Rightarrow> bool \<times> world" where
  "write_loop fd p w =
     (if p = [] then (True, w)
      else case run_state (sys_write fd p) w of (r, w') \<Rightarrow>
        if r < 0 then (if w_errno w' = EINTR then write_loop fd p w' else (False, w'))
        else if r = 0 then (False, w'\<lparr>w_errno := EPIPE\<rparr>)
        else write_loop fd (drop (nat r) p) w')"
  by pat_completeness auto

lemma run_sys_write:
  "run_state (sys_write fd bs) w =
     (let x = (case w_io w of [] \<Rightarrow> Done | y # ys \<Rightarrow> y);
          w' = (case w_io w of [] \<Rightarrow> w | y # ys \<Rightarrow> w\<lparr>w_io := ys\<rparr>);
          acc = take (io_cap x (length bs)) bs
      in case x of Fail e \<Rightarrow> (-1, w'\<lparr>w_errno := e\<rparr>)
       | _ \<Rightarrow> (case w_fds w fd of
           None \<Rightarrow> (-1, w'\<lparr>w_errno := EBADF\<rparr>)
         | Some OSock \<Rightarrow> (int (length acc), w'\<lparr>w_sout := w_sout w @ acc\<rparr>)
         | Some (OFile p pos) \<Rightarrow>
             (let c = file_content w p in
              if w_files w p = None then (int (length acc), w')
              else (int (length acc),
               w'\<lparr>w_files := (w_files w)(p \<mapsto> Reg (take pos c @ acc @ drop (pos + length acc) c)),
                 w_fds := (w_fds w)(fd \<mapsto> OFile p (pos + length acc))\<rparr>))))"
  by (auto simp: sys_write_def next_io_def Let_def file_content_def split: list.split outcome.split
      option.split ofile.split)

lemma sys_write_progress:
  assumes "run_state (sys_write fd p) w = (r, w')"
  shows "length (w_io w') \<le> length (w_io w)"
    and "r < 0 \<Longrightarrow> w_errno w' = EINTR \<Longrightarrow> length (w_io w') < length (w_io w)"
  using assms
  by (auto simp: run_sys_write Let_def split: list.splits outcome.splits option.splits ofile.splits
      if_splits)

termination write_loop
proof (relation "measure (\<lambda>(fd, p, w). length (w_io w) + length p)", goal_cases)
  case 1
  show ?case by simp
next
  case (2 fd p w r w')
  then show ?case using sys_write_progress(2)[of fd p w r w'] by simp
next
  case (3 fd p w r w')
  then show ?case using sys_write_progress(1)[of fd p w r w'] by (cases p) simp_all
qed

declare write_loop.simps [simp del]

definition write_all :: "int \<Rightarrow> bytes \<Rightarrow> int io" where
  "write_all fd buf = do {
     ok \<leftarrow> State (write_loop fd buf);
     ret (if ok then int (length buf) else -1) }"



text \<open>What one call does on the socket, and the loops over it, under every plan.\<close>

definition calm :: "outcome list \<Rightarrow> bool" where
  "calm io \<longleftrightarrow> (\<forall>x\<in>set io. x \<noteq> Zero \<and> (\<forall>e. x = Fail e \<longrightarrow> e = EINTR))"

lemma calm_Nil [simp]: "calm []"
  by (simp add: calm_def)

lemma calm_Cons [simp]:
  "calm (x # xs) \<longleftrightarrow> x \<noteq> Zero \<and> (\<forall>e. x = Fail e \<longrightarrow> e = EINTR) \<and> calm xs"
  by (auto simp: calm_def)

lemma calm_suffix: "calm io \<Longrightarrow> suffix io' io \<Longrightarrow> calm io'"
  by (auto simp: calm_def suffix_def)

text \<open>
  Where bytes come from and where they go: a \<open>byte_source\<close> is a descriptor on which one \<open>read\<close>
  takes some bytes off the front of what is available, a \<open>byte_sink\<close> one on which a \<open>write\<close>
  appends some of the buffer.  The loops are verified once for each; sockets and regular files
  are the instances.
\<close>

locale byte_source =
  fixes fd :: int and live :: "world \<Rightarrow> bool" and avail :: "world \<Rightarrow> bytes"
    and adv :: "nat \<Rightarrow> world \<Rightarrow> world"
  assumes read_step: "live w \<Longrightarrow> run_state (sys_read fd n) w = ((r, bs), w') \<Longrightarrow>
      \<exists>io e k. suffix io (w_io w) \<and> w' = (adv k w)\<lparr>w_io := io, w_errno := e\<rparr>
        \<and> bs = take k (avail w) \<and> k \<le> length (avail w) \<and> k \<le> n \<and> (r < 0 \<longrightarrow> k = 0) \<and> (0 \<le> r \<longrightarrow> r = int k)
        \<and> (calm (w_io w) \<longrightarrow> 0 < n \<longrightarrow> avail w \<noteq> [] \<longrightarrow> r < 0 \<and> e = EINTR \<or> 0 < r)"
    and adv_live: "live w \<Longrightarrow> k \<le> length (avail w) \<Longrightarrow> live ((adv k w)\<lparr>w_io := io, w_errno := e\<rparr>)"
    and adv_avail: "live w \<Longrightarrow> avail ((adv k w)\<lparr>w_io := io, w_errno := e\<rparr>) = drop k (avail w)"
    and adv_adv: "live w \<Longrightarrow> (adv j ((adv k w)\<lparr>w_io := io, w_errno := e\<rparr>))\<lparr>w_io := io', w_errno := e'\<rparr>
      = (adv (k + j) w)\<lparr>w_io := io', w_errno := e'\<rparr>"
    and adv_0: "live w \<Longrightarrow> adv 0 w = w"
begin

lemma read_loop_spec:
  assumes "live w" "read_loop fd n acc w = (res, w')"
  shows "\<exists>io e k. suffix io (w_io w) \<and> w' = (adv k w)\<lparr>w_io := io, w_errno := e\<rparr>
           \<and> k \<le> length (avail w)
           \<and> (\<forall>bs. res = Some bs \<longrightarrow> k = n \<and> bs = acc @ take n (avail w))
           \<and> (calm (w_io w) \<longrightarrow> n \<le> length (avail w) \<longrightarrow> res \<noteq> None)"
  using assms
proof (induction "length (w_io w) + n" arbitrary: n acc w rule: less_induct)
  case less
  show ?case
  proof (cases "n = 0")
    case True
    with less.prems have "res = Some acc" "w' = w"
      by (simp_all add: read_loop.simps[of fd 0 acc w])
    with True adv_0[OF less.prems(1)] show ?thesis
      by (intro exI[of _ "w_io w"] exI[of _ "w_errno w"] exI[of _ 0]) simp
  next
    case False
    obtain r bs w1 where s: "run_state (sys_read fd n) w = ((r, bs), w1)" by (metis prod.exhaust)
    from read_step[OF less.prems(1) s] obtain io e k where k: "suffix io (w_io w)"
      "w1 = (adv k w)\<lparr>w_io := io, w_errno := e\<rparr>" "bs = take k (avail w)"
      "k \<le> length (avail w)" "k \<le> n" "r < 0 \<longrightarrow> k = 0" "0 \<le> r \<longrightarrow> r = int k"
      "calm (w_io w) \<longrightarrow> 0 < n \<longrightarrow> avail w \<noteq> [] \<longrightarrow> r < 0 \<and> e = EINTR \<or> 0 < r" by blast
    have w1: "live w1" "w_io w1 = io" "avail w1 = drop k (avail w)" "w_errno w1 = e"
      using k(2) adv_live[OF less.prems(1) k(4)] adv_avail[OF less.prems(1)] by simp_all
    note unfold = less.prems(2)[unfolded read_loop.simps[of fd n acc w]]
    consider (intr) "r < 0" "e = EINTR" | (err) "r < 0" "e \<noteq> EINTR" | (eof) "r = 0" | (data) "0 < r"
      by linarith
    then show ?thesis
    proof cases
      case intr
      have "length (w_io w1) < length (w_io w)"
        using sys_read_progress(2)[OF s] intr w1(4) by simp
      moreover have "read_loop fd n acc w1 = (res, w')" using unfold False s w1 intr by simp
      ultimately obtain io' e' k' where "suffix io' io" "w' = (adv k' w1)\<lparr>w_io := io', w_errno := e'\<rparr>"
        "k' \<le> length (avail w1)" "\<forall>bs. res = Some bs \<longrightarrow> k' = n \<and> bs = acc @ take n (avail w1)"
        "calm io \<longrightarrow> n \<le> length (avail w1) \<longrightarrow> res \<noteq> None"
        using less.hyps[of w1 n acc] w1 by auto
      with k w1 intr adv_adv[OF less.prems(1), where j = k'] show ?thesis
        by (intro exI[of _ io'] exI[of _ e'] exI[of _ k'])
           (auto intro: suffix_order.trans dest: calm_suffix)
    next
      case err
      then have "res = None" "w' = w1" using unfold False s w1 by simp_all
      with k err False show ?thesis by (intro exI[of _ io] exI[of _ e] exI[of _ k]) auto
    next
      case eof
      then have "res = None" "w' = w1\<lparr>w_errno := EPIPE\<rparr>" using unfold False s w1 by simp_all
      with k eof False show ?thesis by (intro exI[of _ io] exI[of _ EPIPE] exI[of _ k]) auto
    next
      case data
      have "length (w_io w1) + (n - k) < length (w_io w) + n"
        using sys_read_progress(1)[OF s] data k False by linarith
      moreover have "read_loop fd (n - k) (acc @ bs) w1 = (res, w')"
        using unfold False s w1 data k by auto
      ultimately obtain io' e' k' where "suffix io' io" "w' = (adv k' w1)\<lparr>w_io := io', w_errno := e'\<rparr>"
        "k' \<le> length (avail w1)"
        "\<forall>xs. res = Some xs \<longrightarrow> k' = n - k \<and> xs = acc @ take k (avail w) @ take (n - k) (avail w1)"
        "calm io \<longrightarrow> n - k \<le> length (avail w1) \<longrightarrow> res \<noteq> None"
        using less.hyps[of w1 "n - k" "acc @ bs"] w1 k by auto
      moreover have "take n (avail w) = take k (avail w) @ take (n - k) (drop k (avail w))"
        using k(5) by (metis le_add_diff_inverse take_add)
      ultimately show ?thesis using k data w1 adv_adv[OF less.prems(1), where j = k']
        by (intro exI[of _ io'] exI[of _ e'] exI[of _ "k + k'"])
           (auto intro: suffix_order.trans dest: calm_suffix)
    qed
  qed
qed

lemma wp_read_all:
  assumes "live w"
    and "\<And>io e k r. suffix io (w_io w) \<Longrightarrow> k \<le> length (avail w) \<Longrightarrow>
      (\<And>bs. r = Some bs \<Longrightarrow> k = n \<and> bs = take n (avail w)) \<Longrightarrow>
      (r = None \<Longrightarrow> calm (w_io w) \<Longrightarrow> length (avail w) < n) \<Longrightarrow>
      Q r ((adv k w)\<lparr>w_io := io, w_errno := e\<rparr>)"
  shows "wp (read_all fd n) Q w"
proof (rule wpI)
  fix r w' assume "run_state (read_all fd n) w = (r, w')"
  then have "read_loop fd n [] w = (r, w')" by (simp add: read_all_def)
  from read_loop_spec[OF assms(1) this] obtain io e k where "suffix io (w_io w)"
    "w' = (adv k w)\<lparr>w_io := io, w_errno := e\<rparr>" "k \<le> length (avail w)"
    "\<forall>bs. r = Some bs \<longrightarrow> k = n \<and> bs = take n (avail w)"
    "calm (w_io w) \<longrightarrow> n \<le> length (avail w) \<longrightarrow> r \<noteq> None" by auto
  with assms(2)[of io k r e] show "Q r w'" by (auto simp: not_le)
qed

end

locale byte_sink =
  fixes fd :: int and live :: "world \<Rightarrow> bool" and app :: "bytes \<Rightarrow> world \<Rightarrow> world"
  assumes write_step: "live w \<Longrightarrow> run_state (sys_write fd p) w = (r, w') \<Longrightarrow>
      \<exists>io e k. suffix io (w_io w) \<and> w' = (app (take k p) w)\<lparr>w_io := io, w_errno := e\<rparr>
        \<and> k \<le> length p \<and> (r < 0 \<longrightarrow> k = 0) \<and> (0 \<le> r \<longrightarrow> r = int k)
        \<and> (calm (w_io w) \<longrightarrow> p \<noteq> [] \<longrightarrow> r < 0 \<and> e = EINTR \<or> 0 < r)"
    and app_live: "live w \<Longrightarrow> live ((app bs w)\<lparr>w_io := io, w_errno := e\<rparr>)"
    and app_app: "live w \<Longrightarrow> (app cs ((app bs w)\<lparr>w_io := io, w_errno := e\<rparr>))\<lparr>w_io := io', w_errno := e'\<rparr>
      = (app (bs @ cs) w)\<lparr>w_io := io', w_errno := e'\<rparr>"
    and app_Nil: "live w \<Longrightarrow> app [] w = w"
begin

lemma write_loop_spec:
  assumes "live w" "write_loop fd p w = (ok, w')"
  shows "\<exists>io e k. suffix io (w_io w) \<and> w' = (app (take k p) w)\<lparr>w_io := io, w_errno := e\<rparr>
           \<and> (ok \<longrightarrow> k = length p) \<and> (calm (w_io w) \<longrightarrow> ok)"
  using assms
proof (induction "length (w_io w) + length p" arbitrary: p w rule: less_induct)
  case less
  show ?case
  proof (cases "p = []")
    case True
    with less.prems have "ok" "w' = w" by (simp_all add: write_loop.simps[of fd "[]" w])
    with True app_Nil[OF less.prems(1)] show ?thesis
      by (intro exI[of _ "w_io w"] exI[of _ "w_errno w"] exI[of _ 0]) simp
  next
    case False
    obtain r w1 where s: "run_state (sys_write fd p) w = (r, w1)" by (metis prod.exhaust)
    from write_step[OF less.prems(1) s] obtain io e k where k: "suffix io (w_io w)"
      "w1 = (app (take k p) w)\<lparr>w_io := io, w_errno := e\<rparr>" "k \<le> length p"
      "r < 0 \<longrightarrow> k = 0" "0 \<le> r \<longrightarrow> r = int k"
      "calm (w_io w) \<longrightarrow> p \<noteq> [] \<longrightarrow> r < 0 \<and> e = EINTR \<or> 0 < r" by blast
    have w1: "live w1" "w_io w1 = io" "w_errno w1 = e"
      using k(2) app_live[OF less.prems(1)] by simp_all
    note unfold = less.prems(2)[unfolded write_loop.simps[of fd p w]]
    consider (intr) "r < 0" "e = EINTR" | (err) "r < 0" "e \<noteq> EINTR" | (eof) "r = 0" | (data) "0 < r"
      by linarith
    then show ?thesis
    proof cases
      case intr
      have "length (w_io w1) < length (w_io w)"
        using sys_write_progress(2)[OF s] intr w1(3) by simp
      moreover have "write_loop fd p w1 = (ok, w')" using unfold False s w1 intr by simp
      ultimately obtain io' e' k' where "suffix io' io"
        "w' = (app (take k' p) w1)\<lparr>w_io := io', w_errno := e'\<rparr>"
        "ok \<longrightarrow> k' = length p" "calm io \<longrightarrow> ok"
        using less.hyps[of w1 p] w1 by auto
      with k w1 intr app_app[OF less.prems(1), where bs = "[]" and cs = "take k' p"] app_Nil[OF less.prems(1)] show ?thesis
        by (intro exI[of _ io'] exI[of _ e'] exI[of _ k'])
           (auto intro: suffix_order.trans dest: calm_suffix)
    next
      case err
      then have "\<not> ok" "w' = w1" using unfold False s w1 by simp_all
      with k err False show ?thesis by (intro exI[of _ io] exI[of _ e] exI[of _ k]) auto
    next
      case eof
      then have "\<not> ok" "w' = w1\<lparr>w_errno := EPIPE\<rparr>" using unfold False s w1 by simp_all
      with k eof False show ?thesis by (intro exI[of _ io] exI[of _ EPIPE] exI[of _ k]) auto
    next
      case data
      have "length (w_io w1) + length (drop k p) < length (w_io w) + length p"
        using sys_write_progress(1)[OF s] data k False by simp
      moreover have "write_loop fd (drop k p) w1 = (ok, w')"
        using unfold False s w1 data k by auto
      ultimately obtain io' e' k' where "suffix io' io"
        "w' = (app (take k' (drop k p)) w1)\<lparr>w_io := io', w_errno := e'\<rparr>"
        "ok \<longrightarrow> k' = length p - k" "calm io \<longrightarrow> ok"
        using less.hyps[of w1 "drop k p"] w1 by auto
      with k data w1 app_app[OF less.prems(1), where cs = "take k' (drop k p)" and bs = "take k p"] show ?thesis
        by (intro exI[of _ io'] exI[of _ e'] exI[of _ "k + k'"])
           (auto intro: suffix_order.trans dest: calm_suffix simp: take_add)
    qed
  qed
qed

lemma wp_write_all:
  assumes "live w"
    and "\<And>io e k r. suffix io (w_io w) \<Longrightarrow> -1 \<le> r \<Longrightarrow>
      (0 \<le> r \<Longrightarrow> k = length p \<and> r = int (length p)) \<Longrightarrow> (calm (w_io w) \<Longrightarrow> 0 \<le> r) \<Longrightarrow>
      Q r ((app (take k p) w)\<lparr>w_io := io, w_errno := e\<rparr>)"
  shows "wp (write_all fd p) Q w"
proof -
  obtain ok w' where r: "write_loop fd p w = (ok, w')" by (metis prod.exhaust)
  from write_loop_spec[OF assms(1) r] obtain io e k where *: "suffix io (w_io w)"
    "w' = (app (take k p) w)\<lparr>w_io := io, w_errno := e\<rparr>" "ok \<longrightarrow> k = length p"
    "calm (w_io w) \<longrightarrow> ok" by blast
  from assms(2)[of io "if ok then int (length p) else -1" k e] * show ?thesis
    by (auto simp: write_all_def wp_def r)
qed

end


subsection \<open>Sockets and files\<close>

definition sock_live :: "int \<Rightarrow> world \<Rightarrow> bool" where
  "sock_live fd w \<longleftrightarrow> w_fds w fd = Some OSock"

definition file_at :: "int \<Rightarrow> string \<Rightarrow> world \<Rightarrow> bool" where
  "file_at fd p w \<longleftrightarrow> (\<exists>pos c. w_fds w fd = Some (OFile p pos) \<and> w_files w p = Some (Reg c))"

definition file_pos :: "int \<Rightarrow> world \<Rightarrow> nat" where
  "file_pos fd w = (case w_fds w fd of Some (OFile _ pos) \<Rightarrow> pos | _ \<Rightarrow> 0)"

definition file_end :: "int \<Rightarrow> string \<Rightarrow> world \<Rightarrow> bool" where
  "file_end fd p w \<longleftrightarrow>
     (\<exists>c. w_files w p = Some (Reg c) \<and> w_fds w fd = Some (OFile p (length c)))"

definition file_app :: "int \<Rightarrow> string \<Rightarrow> bytes \<Rightarrow> world \<Rightarrow> world" where
  "file_app fd p bs w = w\<lparr>w_files := (w_files w)(p \<mapsto> Reg (file_content w p @ bs)),
     w_fds := (w_fds w)(fd \<mapsto> OFile p (length (file_content w p) + length bs))\<rparr>"

text \<open>The plan of a single call, as the first outcome and the rest.\<close>

definition first_io :: "world \<Rightarrow> outcome" where
  "first_io w = (case w_io w of [] \<Rightarrow> Done | y # ys \<Rightarrow> y)"

lemma first_io_calm: "calm (w_io w) \<Longrightarrow> first_io w \<noteq> Zero \<and> (\<forall>e. first_io w = Fail e \<longrightarrow> e = EINTR)"
  by (auto simp: first_io_def split: list.splits)

lemma rest_io: "(case w_io w of [] \<Rightarrow> w | y # ys \<Rightarrow> w\<lparr>w_io := ys\<rparr>) = w\<lparr>w_io := tl (w_io w)\<rparr>"
  by (auto split: list.split)

lemma io_cap_pos: "x \<noteq> Zero \<Longrightarrow> 0 < n \<Longrightarrow> 0 < io_cap x n"
  by (cases x) simp_all

lemma suffix_tl_io: "suffix (tl (w_io w)) (w_io w)"
  by (rule suffix_tl)

text \<open>A call that does not fail.\<close>

lemma run_sys_read_ok:
  "\<nexists>e. first_io w = Fail e \<Longrightarrow> run_state (sys_read fd n) w =
     (let w' = w\<lparr>w_io := tl (w_io w)\<rparr>; m = io_cap (first_io w) n
      in case w_fds w fd of
           None \<Rightarrow> ((-1, []), w'\<lparr>w_errno := EBADF\<rparr>)
         | Some OSock \<Rightarrow> (let bs = take m (w_sin w) in ((int (length bs), bs), w'\<lparr>w_sin := drop m (w_sin w)\<rparr>))
         | Some (OFile p pos) \<Rightarrow>
             if w_files w p = Some Dir then ((-1, []), w'\<lparr>w_errno := EISDIR\<rparr>)
             else (let bs = take m (drop pos (file_content w p))
              in ((int (length bs), bs), w'\<lparr>w_fds := (w_fds w)(fd \<mapsto> OFile p (pos + length bs))\<rparr>)))"
  by (cases "first_io w") (simp_all add: run_sys_read rest_io first_io_def[symmetric] Let_def del: io_cap.simps)

lemma run_sys_write_ok:
  "\<nexists>e. first_io w = Fail e \<Longrightarrow> run_state (sys_write fd bs) w =
     (let w' = w\<lparr>w_io := tl (w_io w)\<rparr>; acc = take (io_cap (first_io w) (length bs)) bs
      in case w_fds w fd of
           None \<Rightarrow> (-1, w'\<lparr>w_errno := EBADF\<rparr>)
         | Some OSock \<Rightarrow> (int (length acc), w'\<lparr>w_sout := w_sout w @ acc\<rparr>)
         | Some (OFile p pos) \<Rightarrow>
             (let c = file_content w p in
              if w_files w p = None then (int (length acc), w')
              else (int (length acc), w'\<lparr>w_files := (w_files w)(p \<mapsto> Reg (take pos c @ acc @ drop (pos + length acc) c)),
                 w_fds := (w_fds w)(fd \<mapsto> OFile p (pos + length acc))\<rparr>)))"
  by (cases "first_io w") (simp_all add: run_sys_write rest_io first_io_def[symmetric] Let_def del: io_cap.simps)

interpretation sock_src: byte_source fd "sock_live fd" w_sin "\<lambda>k w. w\<lparr>w_sin := drop k (w_sin w)\<rparr>" for fd
proof (unfold_locales, goal_cases)
  case (1 w n r bs w')
  show ?case
  proof (cases "\<exists>e. first_io w = Fail e")
    case True
    then obtain e where e: "first_io w = Fail e" by blast
    with 1 first_io_calm[of w] show ?thesis
      by (intro exI[of _ "tl (w_io w)"] exI[of _ e] exI[of _ 0])
         (auto simp: run_sys_read rest_io first_io_def[symmetric] Let_def suffix_tl)
  next
    case False
    let ?m = "min (length (w_sin w)) (io_cap (first_io w) n)"
    let ?c = "io_cap (first_io w) n"
    have "r = int ?m" "bs = take ?c (w_sin w)"
      "w' = w\<lparr>w_sin := drop ?c (w_sin w), w_io := tl (w_io w), w_errno := w_errno w\<rparr>"
      using 1 by (auto simp: run_sys_read_ok[OF False] sock_live_def Let_def)
    moreover have "take ?c (w_sin w) = take ?m (w_sin w)" "drop ?c (w_sin w) = drop ?m (w_sin w)"
      by (simp_all add: min_def)
    moreover have "?m \<le> n" "?m \<le> length (w_sin w)" using io_cap_le[of "first_io w" n] by simp_all
    moreover have "calm (w_io w) \<Longrightarrow> 0 < n \<Longrightarrow> w_sin w \<noteq> [] \<Longrightarrow> 0 < ?m"
      using io_cap_pos[of "first_io w" n] first_io_calm[of w] by simp
    moreover define m where "m = ?m"
    ultimately have "r = int m" "bs = take m (w_sin w)" "m \<le> n" "m \<le> length (w_sin w)"
      "w' = w\<lparr>w_sin := drop m (w_sin w), w_io := tl (w_io w), w_errno := w_errno w\<rparr>"
      "calm (w_io w) \<Longrightarrow> 0 < n \<Longrightarrow> w_sin w \<noteq> [] \<Longrightarrow> 0 < m" by simp_all
    then show ?thesis
      by (intro exI[of _ "tl (w_io w)"] exI[of _ "w_errno w"] exI[of _ m]) (auto simp: suffix_tl)
  qed
qed (simp_all add: sock_live_def add.commute)

interpretation sock_snk: byte_sink fd "sock_live fd" "\<lambda>bs w. w\<lparr>w_sout := w_sout w @ bs\<rparr>" for fd
proof (unfold_locales, goal_cases)
  case (1 w p r w')
  show ?case
  proof (cases "\<exists>e. first_io w = Fail e")
    case True
    then obtain e where e: "first_io w = Fail e" by blast
    with 1 first_io_calm[of w] show ?thesis
      by (intro exI[of _ "tl (w_io w)"] exI[of _ e] exI[of _ 0])
         (auto simp: run_sys_write rest_io first_io_def[symmetric] Let_def suffix_tl)
  next
    case False
    let ?m = "io_cap (first_io w) (length p)"
    have m: "?m \<le> length p" by (rule io_cap_le)
    have "r = int ?m" "w' = w\<lparr>w_io := tl (w_io w), w_sout := w_sout w @ take ?m p\<rparr>"
      using 1 m by (auto simp: run_sys_write_ok[OF False] sock_live_def Let_def min_absorb2)
    with m io_cap_pos[of "first_io w" "length p"] first_io_calm[of w] show ?thesis
      by (intro exI[of _ "tl (w_io w)"] exI[of _ "w_errno w"] exI[of _ ?m]) (auto simp: suffix_tl)
  qed
qed (simp_all add: sock_live_def)

interpretation file_src: byte_source fd "file_at fd p" "\<lambda>w. drop (file_pos fd w) (file_content w p)"
  "\<lambda>k w. w\<lparr>w_fds := (w_fds w)(fd \<mapsto> OFile p (file_pos fd w + k))\<rparr>" for fd p
proof (unfold_locales, goal_cases)
  case (1 w n r bs w')
  from 1(1) obtain pos c where f: "w_fds w fd = Some (OFile p pos)" "w_files w p = Some (Reg c)"
    by (auto simp: file_at_def)
  then have g: "file_pos fd w = pos" "file_content w p = c" by (simp_all add: file_pos_def file_content_def)
  show ?case
  proof (cases "\<exists>e. first_io w = Fail e")
    case True
    then obtain e where e: "first_io w = Fail e" by blast
    have "(w_fds w)(fd \<mapsto> OFile p pos) = w_fds w" using f by (simp add: fun_upd_idem)
    with e 1 f g first_io_calm[of w] show ?thesis
      by (intro exI[of _ "tl (w_io w)"] exI[of _ e] exI[of _ 0])
         (auto simp: run_sys_read rest_io first_io_def[symmetric] Let_def suffix_tl)
  next
    case False
    let ?m = "min (length (drop pos c)) (io_cap (first_io w) n)"
    let ?c = "io_cap (first_io w) n"
    have "r = int ?m" "bs = take ?c (drop pos c)"
      "w' = w\<lparr>w_fds := (w_fds w)(fd \<mapsto> OFile p (pos + ?m)), w_io := tl (w_io w), w_errno := w_errno w\<rparr>"
      using 1 f g by (auto simp: run_sys_read_ok[OF False] Let_def)
    moreover have "take ?c (drop pos c) = take ?m (drop pos c)" by (simp add: min_def)
    moreover have "?m \<le> n" "?m \<le> length (drop pos c)" using io_cap_le[of "first_io w" n] by simp_all
    moreover have "calm (w_io w) \<Longrightarrow> 0 < n \<Longrightarrow> drop pos c \<noteq> [] \<Longrightarrow> 0 < ?m"
      using io_cap_pos[of "first_io w" n] first_io_calm[of w] by simp
    moreover define m where "m = ?m"
    ultimately have "r = int m" "bs = take m (drop pos c)" "m \<le> n" "m \<le> length (drop pos c)"
      "w' = w\<lparr>w_fds := (w_fds w)(fd \<mapsto> OFile p (pos + m)), w_io := tl (w_io w), w_errno := w_errno w\<rparr>"
      "calm (w_io w) \<Longrightarrow> 0 < n \<Longrightarrow> drop pos c \<noteq> [] \<Longrightarrow> 0 < m" by simp_all
    then show ?thesis using g
      by (intro exI[of _ "tl (w_io w)"] exI[of _ "w_errno w"] exI[of _ m]) (auto simp: suffix_tl)
  qed
next
  case (5 w)
  then show ?case by (auto simp: file_at_def file_pos_def fun_upd_idem)
qed (auto simp: file_at_def file_pos_def file_content_def ac_simps)

interpretation file_snk: byte_sink fd "file_end fd p" "file_app fd p" for fd p
proof (unfold_locales, goal_cases)
  case (1 w q r w')
  from 1(1) obtain c where f: "w_fds w fd = Some (OFile p (length c))" "w_files w p = Some (Reg c)"
    by (auto simp: file_end_def)
  then have g: "file_content w p = c" by (simp add: file_content_def)
  have idem: "file_app fd p [] w = w" using f g by (simp add: file_app_def fun_upd_idem)
  show ?case
  proof (cases "\<exists>e. first_io w = Fail e")
    case True
    then obtain e where e: "first_io w = Fail e" by blast
    with 1 first_io_calm[of w] idem show ?thesis
      by (intro exI[of _ "tl (w_io w)"] exI[of _ e] exI[of _ 0])
         (auto simp: run_sys_write rest_io first_io_def[symmetric] Let_def suffix_tl)
  next
    case False
    let ?m = "io_cap (first_io w) (length q)"
    have m: "?m \<le> length q" by (rule io_cap_le)
    have "r = int ?m" "w' = (file_app fd p (take ?m q) w)\<lparr>w_io := tl (w_io w)\<rparr>"
      using 1 m f g by (auto simp: run_sys_write_ok[OF False] Let_def file_app_def min_absorb2)
    with m io_cap_pos[of "first_io w" "length q"] first_io_calm[of w] show ?thesis
      by (intro exI[of _ "tl (w_io w)"] exI[of _ "w_errno w"] exI[of _ ?m])
         (auto simp: suffix_tl file_app_def)
  qed
next
  case (4 w)
  then show ?case by (auto simp: file_end_def file_app_def file_content_def fun_upd_idem)
qed (auto simp: file_end_def file_app_def file_content_def add.assoc)

text \<open>
  The same facts as rules for \<open>wp\<close>: under every plan, and for a connection on which every
  call makes progress (\<open>conn fd w\<close>: short transfers and interruptions are allowed).
\<close>

definition conn :: "int \<Rightarrow> world \<Rightarrow> bool" where
  "conn fd w \<longleftrightarrow> w_plan w = [] \<and> calm (w_io w) \<and> w_fds w fd = Some OSock"

lemma wp_read_all_conn:
  assumes "conn fd w" "n \<le> length (w_sin w)"
    and "\<And>io e. calm io \<Longrightarrow>
      Q (Some (take n (w_sin w))) (w\<lparr>w_sin := drop n (w_sin w), w_io := io, w_errno := e\<rparr>)"
  shows "wp (read_all fd n) Q w"
proof (rule sock_src.wp_read_all)
  fix io e k r assume "suffix io (w_io w)" "\<And>bs. r = Some bs \<Longrightarrow> k = n \<and> bs = take n (w_sin w)"
    "r = None \<Longrightarrow> calm (w_io w) \<Longrightarrow> length (w_sin w) < n"
  with assms(1,2) assms(3)[of io e] show "Q r (w\<lparr>w_sin := drop k (w_sin w), w_io := io, w_errno := e\<rparr>)"
    by (cases r) (auto simp: conn_def dest: calm_suffix)
qed (use assms in \<open>simp add: conn_def sock_live_def\<close>)

lemma wp_write_all_conn:
  assumes "conn fd w"
    and "\<And>io e. calm io \<Longrightarrow>
      Q (int (length p)) (w\<lparr>w_sout := w_sout w @ p, w_io := io, w_errno := e\<rparr>)"
  shows "wp (write_all fd p) Q w"
proof (rule sock_snk.wp_write_all)
  fix io e k r assume "suffix io (w_io w)" "0 \<le> r \<Longrightarrow> k = length p \<and> r = int (length p)"
    "calm (w_io w) \<Longrightarrow> 0 \<le> r"
  with assms(1) assms(2)[of io e]
  show "Q r (w\<lparr>w_sout := w_sout w @ take k p, w_io := io, w_errno := e\<rparr>)"
    by (auto simp: conn_def dest: calm_suffix)
qed (use assms in \<open>simp add: conn_def sock_live_def\<close>)

lemma conn_upd [simp]:
  "conn fd (w\<lparr>w_sin := i, w_io := io, w_errno := e\<rparr>) \<longleftrightarrow> w_plan w = [] \<and> calm io \<and> w_fds w fd = Some OSock"
  "conn fd (w\<lparr>w_sout := o', w_io := io, w_errno := e\<rparr>) \<longleftrightarrow> w_plan w = [] \<and> calm io \<and> w_fds w fd = Some OSock"
  "conn fd (w\<lparr>w_errno := e\<rparr>) = conn fd w"
  by (simp_all add: conn_def)

lemma connD: "conn fd w \<Longrightarrow> w_plan w = []" "conn fd w \<Longrightarrow> w_fds w fd = Some OSock"
  "conn fd w \<Longrightarrow> calm (w_io w)"
  by (simp_all add: conn_def)

text \<open>Frames of the loops: a frame closed under the system call is closed under the loop.\<close>

context effect_frame
begin

lemma read_loop_frame:
  assumes "\<And>n. keeps R (sys_read fd n)"
  shows "R w (snd (read_loop fd n acc w))"
  using assms
proof (induction fd n acc w rule: read_loop.induct)
  case (1 fd n acc w)
  show ?case
  proof (cases "n = 0")
    case False
    obtain r bs w1 where s: "run_state (sys_read fd n) w = ((r, bs), w1)" by (metis prod.exhaust)
    have step: "R w w1" using 1(3) s by (rule keepsD)
    show ?thesis
      using False s step 1(1)[OF False s[symmetric] refl] 1(2)[OF False s[symmetric] refl] 1(3)
      by (auto simp: read_loop.simps[of fd n acc w] intro: frame_trans frame_errno)
  qed (simp add: read_loop.simps[of fd 0 acc w] frame_refl)
qed

lemma keeps_read_all_of: "(\<And>n. keeps R (sys_read fd n)) \<Longrightarrow> keeps R (read_all fd n)"
  by (rule keepsI) (simp add: read_all_def, rule read_loop_frame)

lemma write_loop_frame:
  assumes "\<And>p. keeps R (sys_write fd p)"
  shows "R w (snd (write_loop fd p w))"
  using assms
proof (induction fd p w rule: write_loop.induct)
  case (1 fd p w)
  show ?case
  proof (cases "p = []")
    case False
    obtain r w1 where s: "run_state (sys_write fd p) w = (r, w1)" by (metis prod.exhaust)
    have step: "R w w1" using 1(3) s by (rule keepsD)
    show ?thesis
      using False s step 1(1)[OF False s[symmetric]] 1(2)[OF False s[symmetric]] 1(3)
      by (auto simp: write_loop.simps[of fd p w] intro: frame_trans frame_errno)
  qed (simp add: write_loop.simps[of fd "[]" w] frame_refl)
qed

lemma keeps_write_all_of:
  assumes "\<And>p. keeps R (sys_write fd p)"
  shows "keeps R (write_all fd p)"
proof -
  have "keeps R (State (write_loop fd p))"
    by (rule keepsI) (simp, rule write_loop_frame, rule assms)
  then show ?thesis unfolding write_all_def by (intro keeps_intros)
qed

end

context fd_frame
begin

lemma keeps_read_all [keeps_intros]: "keeps R (read_all fd n)"
  by (rule keeps_read_all_of) (rule keeps_sys_read)

end

context file_frame
begin

lemma keeps_write_all [keeps_intros]: "keeps R (write_all fd p)"
  by (rule keeps_write_all_of) (rule keeps_sys_write)

end

end
