(* ===== verification/Codec.thy ===== *)
theory Codec
  imports CommonIO
begin

text \<open>
  \<open>common.c\<close>, text and hex: \<open>parse_long_long\<close>, the character whitelist behind every name the
  server turns into a path, and the two hex codecs of the program (\<open>common.c\<close> writes upper
  case, \<open>ed25519.c\<close> lower case; both read either case).  The locale \<open>hex_nibbles\<close> holds what
  the codecs share, \<open>char_whitelist\<close> what a whitelist has to exclude so that a checked name is
  one path component.
\<close>

unbundle bit_operations_syntax


section \<open>Integers\<close>

text \<open>\<open>Inl\<close> is the error number, \<open>Inr\<close> the parsed value; trailing white space is allowed.\<close>

definition parse_long_long :: "string \<Rightarrow> int + int" where
  "parse_long_long str = (case strtoll str of (v, rest, erange) \<Rightarrow>
     if rest = str then Inl EINVAL
     else if \<not> list_all c_isspace rest then Inl EINVAL
     else if erange then Inl ERANGE
     else Inr v)"

lemma parse_print_lld:
  assumes "LLONG_MIN \<le> v" "v \<le> LLONG_MAX" "list_all c_isspace sp"
  shows "parse_long_long (print_lld v @ sp) = Inr v"
proof -
  have "sp = [] \<or> \<not> c_isdigit (hd sp)" using assms(3) digit_not_space by (cases sp) auto
  from strtoll_print_lld[OF assms(1,2) this] assms(3) show ?thesis
    by (simp add: parse_long_long_def)
qed

lemma parse_long_long_range: "parse_long_long s = Inr v \<Longrightarrow> LLONG_MIN \<le> v \<and> v \<le> LLONG_MAX"
  by (auto simp: parse_long_long_def strtoll_def Let_def split: option.splits if_splits)

text \<open>Exactly the strings blank* sign? digit+ blank* within range are accepted.\<close>

lemma parse_long_long_iff:
  "parse_long_long s = Inr v \<longleftrightarrow>
     (\<exists>neg n rest. scan_dec s = Some (neg, n, rest) \<and> list_all c_isspace rest \<and>
        v = (if neg then - int n else int n) \<and> LLONG_MIN \<le> v \<and> v \<le> LLONG_MAX)"
proof (cases "scan_dec s")
  case None
  then show ?thesis by (simp add: parse_long_long_def strtoll_def)
next
  case (Some r)
  obtain neg n rest where r: "r = (neg, n, rest)" by (metis prod.exhaust)
  with Some scan_dec_suffix[of s neg n rest] have "rest \<noteq> s" by auto
  with Some r show ?thesis
    by (auto simp: parse_long_long_def strtoll_def Let_def)
qed


section \<open>Character whitelists\<close>

definition check_allowed_chars :: "string \<Rightarrow> string \<Rightarrow> bool" where
  "check_allowed_chars s whitelist = list_all (\<lambda>c. c \<in> set (cstr whitelist)) (cstr s)"

lemma check_allowed_chars_append:
  "nul_free s \<Longrightarrow> nul_free t \<Longrightarrow>
   check_allowed_chars (s @ t) wl \<longleftrightarrow> check_allowed_chars s wl \<and> check_allowed_chars t wl"
  by (simp add: check_allowed_chars_def)

text \<open>The components of a path.\<close>

fun path_parts :: "string \<Rightarrow> string list" where
  "path_parts [] = [[]]"
| "path_parts (c # s) = (case path_parts s of
     [] \<Rightarrow> [[c]] | p # ps \<Rightarrow> if c = CHR ''/'' then [] # p # ps else (c # p) # ps)"

lemma path_parts_ne [simp]: "path_parts s \<noteq> []"
  by (induction s) (auto split: list.splits)

lemma path_parts_noslash: "CHR ''/'' \<notin> set s \<Longrightarrow> path_parts s = [s]"
  by (induction s) auto

lemma path_parts_join: "path_parts (s @ CHR ''/'' # t) = path_parts s @ path_parts t"
proof (induction s)
  case Nil
  then show ?case by (cases "path_parts t") simp_all
next
  case (Cons c s)
  obtain p ps where p: "path_parts s = p # ps" using path_parts_ne[of s] by (cases "path_parts s") blast+
  from Cons show ?case by (simp add: p)
qed

text \<open>A path that climbs or hides: some component is \<open>.\<close>, \<open>..\<close> or starts with a dot.\<close>

definition dotted :: "string list \<Rightarrow> bool" where
  "dotted ps \<longleftrightarrow> (\<exists>p\<in>set ps. p \<noteq> [] \<and> hd p = CHR ''.'')"

locale char_whitelist =
  fixes wl :: string and verify :: "string \<Rightarrow> bool"
  assumes verify_eq: "verify s = check_allowed_chars s wl"
    and no_slash: "CHR ''/'' \<notin> set wl" and no_dot: "CHR ''.'' \<notin> set wl"
begin

lemma allowed: "verify s \<Longrightarrow> c \<in> set (cstr s) \<Longrightarrow> c \<in> set wl"
  by (auto simp: verify_eq check_allowed_chars_def list_all_iff cstr_def dest: set_takeWhileD)

lemma no_slash_in: "verify s \<Longrightarrow> CHR ''/'' \<notin> set (cstr s)"
  using allowed no_slash by blast

lemma no_dot_in: "verify s \<Longrightarrow> CHR ''.'' \<notin> set (cstr s)"
  using allowed no_dot by blast

text \<open>A checked name appended to a directory adds exactly one component, not a dotted one.\<close>

lemma one_component:
  assumes "verify s"
  shows "path_parts (dir @ CHR ''/'' # cstr s) = path_parts dir @ [cstr s]"
  using path_parts_noslash[OF no_slash_in[OF assms]] by (simp add: path_parts_join)

lemma not_dotted: "verify s \<Longrightarrow> \<not> dotted [cstr s]"
  using no_dot_in[of s] by (cases "cstr s") (auto simp: dotted_def)

end


section \<open>Hex\<close>

fun hex_of :: "(nat \<Rightarrow> char) \<Rightarrow> bytes \<Rightarrow> string" where
  "hex_of nib [] = []"
| "hex_of nib (b # bs) = nib (code b div 16) # nib (code b mod 16) # hex_of nib bs"

fun unhex :: "(char \<Rightarrow> int) \<Rightarrow> string \<Rightarrow> bytes option" where
  "unhex val (h # l # s) =
     (if val h < 0 \<or> val l < 0 then None
      else case unhex val s of None \<Rightarrow> None | Some bs \<Rightarrow> Some (char_of (nat (16 * val h + val l)) # bs))"
| "unhex val _ = Some []"

lemma code_lt: "code c < 256"
  by (rule nat_of_char_less_256)

lemma code_nib: "code c div 16 < 16"
  using code_lt[of c] by (simp add: less_mult_imp_div_less)

locale hex_nibbles =
  fixes nib :: "nat \<Rightarrow> char" and val :: "char \<Rightarrow> int"
  assumes val_nib: "n < 16 \<Longrightarrow> val (nib n) = int n" and nib_nul: "n < 16 \<Longrightarrow> nib n \<noteq> NUL"
    and val_bound: "val c < 16"
begin

lemma length_hex_of [simp]: "length (hex_of nib bs) = 2 * length bs"
  by (induction bs) simp_all

lemma nul_free_hex_of [simp]: "nul_free (hex_of nib bs)"
proof (induction bs)
  case (Cons b bs)
  have "code b div 16 < 16" by (rule code_nib)
  with Cons show ?case by (simp add: nib_nul)
qed simp

lemma unhex_hex_of [simp]: "unhex val (hex_of nib bs) = Some bs"
proof (induction bs)
  case (Cons b bs)
  have "code b div 16 < 16" by (rule code_nib)
  moreover have "nat (16 * (int (code b) div 16) + int (code b) mod 16) = code b"
    by (metis mult.commute div_mult_mod_eq nat_int)
  moreover have "\<not> int (code b) div 16 < 0" "\<not> int (code b) mod 16 < 0" by simp_all
  ultimately show ?case using Cons by (simp add: val_nib zdiv_int zmod_int)
qed simp

lemma hex_of_inject: "hex_of nib bs = hex_of nib cs \<longleftrightarrow> bs = cs"
  by (metis unhex_hex_of option.inject)

lemma length_unhex: "unhex val s = Some bs \<Longrightarrow> length bs = length s div 2"
proof (induction val s arbitrary: bs rule: unhex.induct)
  case (1 v h l s)
  then show ?case by (auto split: if_splits option.splits)
qed auto

end


subsection \<open>common.c\<close>

definition hex_upper :: string where "hex_upper = ''0123456789ABCDEF''"

definition buf_to_hex :: "bytes \<Rightarrow> string" where
  "buf_to_hex buf = concat (map (\<lambda>c. let top = code c div 16; bottom = code c mod 16
                                      in [hex_upper ! top, hex_upper ! bottom]) buf)"

definition malloc_buf_to_hex :: "bytes \<Rightarrow> string option io" where
  "malloc_buf_to_hex buf = do {
     ok \<leftarrow> c_malloc;
     if \<not> ok then ret None else ret (Some (buf_to_hex buf)) }"

definition hexchartoval :: "char \<Rightarrow> int" where
  "hexchartoval c =
     (if code CHR ''0'' \<le> code c \<and> code c \<le> code CHR ''9'' then int (code c) - int (code CHR ''0'')
      else if code CHR ''a'' \<le> code c \<and> code c \<le> code CHR ''f'' then int (code c) - int (code CHR ''a'') + 10
      else if code CHR ''A'' \<le> code c \<and> code c \<le> code CHR ''F'' then int (code c) - int (code CHR ''A'') + 10
      else -1)"

text \<open>
  An \<open>int\<close> stored in a plain \<open>char\<close> and promoted again: \<open>char\<close> is signed on x86 and unsigned on
  the arm64 devices this code runs on, so the signedness is an argument.
\<close>

definition via_char :: "bool \<Rightarrow> int \<Rightarrow> int" where
  "via_char signed v = (let u = v mod 256 in if signed \<and> 128 \<le> u then u - 256 else u)"

fun hex_to_buf_loop :: "bool \<Rightarrow> string \<Rightarrow> bytes option" where
  "hex_to_buf_loop signed (h # l # s) =
     (let top = via_char signed (hexchartoval h); bottom = via_char signed (hexchartoval l) in
      if top < 0 \<or> bottom < 0 then None
      else case hex_to_buf_loop signed s of None \<Rightarrow> None
           | Some out \<Rightarrow> Some (char_of (nat ((16 * top + bottom) mod 256)) # out))"
| "hex_to_buf_loop signed _ = Some []"

definition malloc_hex_to_buf :: "bool \<Rightarrow> string \<Rightarrow> bytes option io" where
  "malloc_hex_to_buf signed hex = do {
     let hexlen = c_int (int (strlen hex));
     if hexlen mod 2 \<noteq> 0 then fail_with EINVAL None
     else do {
       ok \<leftarrow> c_malloc;
       if \<not> ok \<or> hexlen < 0 then fail_with ENOMEM None
       else case hex_to_buf_loop signed (cstr hex) of
           None \<Rightarrow> fail_with EINVAL None
         | Some output \<Rightarrow> ret (Some output) } }"


subsection \<open>ed25519.c\<close>

definition hex_lower :: string where "hex_lower = ''0123456789abcdef''"

definition hex_char_value :: "char \<Rightarrow> int" where
  "hex_char_value c =
     (if code CHR ''0'' \<le> code c \<and> code c \<le> code CHR ''9'' then int (code c) - int (code CHR ''0'')
      else if code CHR ''a'' \<le> code c \<and> code c \<le> code CHR ''f'' then int (code c) - int (code CHR ''a'') + 10
      else if code CHR ''A'' \<le> code c \<and> code c \<le> code CHR ''F'' then int (code c) - int (code CHR ''A'') + 10
      else -1)"

fun hex_to_bytes_loop :: "string \<Rightarrow> bytes option" where
  "hex_to_bytes_loop (h # l # s) =
     (let hi = hex_char_value h; lo = hex_char_value l in
      if hi < 0 \<or> lo < 0 then None
      else case hex_to_bytes_loop s of None \<Rightarrow> None
           | Some out \<Rightarrow> Some (char_of (nat ((push_bit 4 hi) OR lo)) # out))"
| "hex_to_bytes_loop _ = Some []"

definition hex_to_bytes :: "string \<Rightarrow> nat \<Rightarrow> int + bytes" where
  "hex_to_bytes hex out_len =
     (if strlen hex \<noteq> out_len * 2 then Inl EINVAL
      else case hex_to_bytes_loop (cstr hex) of None \<Rightarrow> Inl EINVAL | Some out \<Rightarrow> Inr out)"

definition bytes_to_hex :: "bytes \<Rightarrow> nat \<Rightarrow> int + string" where
  "bytes_to_hex inp out_size =
     (if out_size < length inp * 2 + 1 then Inl ENOSPC
      else Inr (concat (map (\<lambda>b. [hex_lower ! (drop_bit 4 (code b) AND 15), hex_lower ! (code b AND 15)]) inp)))"


subsection \<open>The codecs as instances\<close>

lemma all_lt_16: "(\<forall>n<16. P n) \<longleftrightarrow> list_all P [0,1,2,3,4,5,6,7,8,9,10,11,12,13,14,15::nat]"
proof -
  have "[0..<16] = [0,1,2,3,4,5,6,7,8,9,10,11,12,13,14,15::nat]" by (simp add: upt_rec)
  moreover have "(\<forall>n<16. P n) \<longleftrightarrow> list_all P [0..<16]" by (auto simp: list_all_iff)
  ultimately show ?thesis by simp
qed

lemma hexchartoval_eq: "hexchartoval = hex_char_value"
  by (simp add: fun_eq_iff hexchartoval_def hex_char_value_def)

lemma hex_char_value_range: "-1 \<le> hex_char_value c \<and> hex_char_value c < 16"
  by (auto simp: hex_char_value_def)

interpretation hex_up: hex_nibbles "\<lambda>n. hex_upper ! n" hexchartoval
proof (unfold_locales, goal_cases)
  case (1 n)
  have "\<forall>n<16. hexchartoval (hex_upper ! n) = int n"
    unfolding all_lt_16 by (simp add: hex_upper_def hexchartoval_def)
  with 1 show ?case by blast
next
  case (2 n)
  have "\<forall>n<16. hex_upper ! n \<noteq> NUL" unfolding all_lt_16 by (simp add: hex_upper_def)
  with 2 show ?case by blast
qed (simp add: hexchartoval_eq hex_char_value_range)

interpretation hex_lo: hex_nibbles "\<lambda>n. hex_lower ! n" hex_char_value
proof (unfold_locales, goal_cases)
  case (1 n)
  have "\<forall>n<16. hex_char_value (hex_lower ! n) = int n"
    unfolding all_lt_16 by (simp add: hex_lower_def hex_char_value_def)
  with 1 show ?case by blast
next
  case (2 n)
  have "\<forall>n<16. hex_lower ! n \<noteq> NUL" unfolding all_lt_16 by (simp add: hex_lower_def)
  with 2 show ?case by blast
qed (simp add: hex_char_value_range)

lemma buf_to_hex_eq: "buf_to_hex bs = hex_of (\<lambda>n. hex_upper ! n) bs"
  by (induction bs) (simp_all add: buf_to_hex_def)

lemma nibble_or: "0 \<le> lo \<Longrightarrow> lo < 16 \<Longrightarrow> (push_bit 4 hi) OR lo = 16 * hi + (lo::int)"
proof -
  assume "0 \<le> lo" "lo < 16"
  then have "take_bit 4 lo = lo" by (simp add: take_bit_int_eq_self_iff)
  with concat_bit_eq[of 4 lo hi] concat_bit_def[of 4 lo hi] show ?thesis
    by (simp add: or.commute push_bit_eq_mult)
qed

lemma nibble_and: "(n::nat) AND 15 = n mod 16"
proof -
  have "(mask 4 :: nat) = 15" by (simp add: mask_eq_exp_minus_1)
  moreover have "n AND mask 4 = n mod 16" by (simp add: take_bit_eq_mask[symmetric] take_bit_eq_mod)
  ultimately show ?thesis by simp
qed

lemma bytes_to_hex_eq:
  "bytes_to_hex inp n = (if n < length inp * 2 + 1 then Inl ENOSPC else Inr (hex_of (\<lambda>n. hex_lower ! n) inp))"
proof -
  have "drop_bit 4 (code b) AND 15 = code b div 16" for b :: char
  proof -
    have "code b div 16 < 16" by (rule code_nib)
    then show ?thesis by (simp add: nibble_and drop_bit_eq_div)
  qed
  then have "concat (map (\<lambda>b. [hex_lower ! (drop_bit 4 (code b) AND 15), hex_lower ! (code b AND 15)]) inp)
      = hex_of (\<lambda>n. hex_lower ! n) inp"
    by (induction inp) (simp_all add: nibble_and)
  then show ?thesis by (simp add: bytes_to_hex_def)
qed

lemma hex_to_bytes_loop_eq: "hex_to_bytes_loop s = unhex hex_char_value s"
proof (induction s rule: hex_to_bytes_loop.induct)
  case (1 h l s)
  have "\<not> hex_char_value l < 0 \<Longrightarrow>
    (push_bit 4 (hex_char_value h)) OR (hex_char_value l) = 16 * hex_char_value h + hex_char_value l"
    using hex_char_value_range[of l] by (intro nibble_or) auto
  with 1 show ?case by (auto simp: Let_def split: option.split)
qed auto

lemma via_char_signed: "-1 \<le> v \<Longrightarrow> v < 16 \<Longrightarrow> via_char True v = v"
proof -
  assume a: "-1 \<le> v" "v < 16"
  show ?thesis
  proof (cases "v = -1")
    case True
    then show ?thesis by (simp add: via_char_def)
  next
    case False
    with a have "v mod 256 = v" by (intro mod_pos_pos_trivial) auto
    with a show ?thesis by (simp add: via_char_def Let_def)
  qed
qed

lemma via_char_nonneg: "0 \<le> v \<Longrightarrow> v < 16 \<Longrightarrow> via_char sg v = v"
proof -
  assume a: "0 \<le> v" "v < 16"
  then have "v mod 256 = v" by (intro mod_pos_pos_trivial) auto
  with a show ?thesis by (simp add: via_char_def Let_def)
qed

lemma hex_to_buf_loop_signed: "hex_to_buf_loop True s = unhex hexchartoval s"
proof (induction "True" s rule: hex_to_buf_loop.induct)
  case (1 h l s)
  let ?v = hexchartoval
  have v: "via_char True (?v c) = ?v c" for c
    using hex_char_value_range[of c] via_char_signed by (simp add: hexchartoval_eq)
  have "0 \<le> ?v h \<Longrightarrow> 0 \<le> ?v l \<Longrightarrow> (16 * ?v h + ?v l) mod 256 = 16 * ?v h + ?v l"
    using hex_char_value_range[of h] hex_char_value_range[of l]
    by (intro mod_pos_pos_trivial) (auto simp: hexchartoval_eq)
  with 1 v show ?case by (auto simp: Let_def split: option.split)
qed auto

lemma hex_to_buf_loop_hex: "hex_to_buf_loop sg (hex_of (\<lambda>n. hex_upper ! n) bs) = Some bs"
proof (induction bs)
  case (Cons b bs)
  let ?t = "code b div 16" and ?l = "code b mod 16"
  have lt: "?t < 16" "?l < 16" using code_nib[of b] by simp_all
  have v: "via_char sg (hexchartoval (hex_upper ! ?t)) = int ?t"
    "via_char sg (hexchartoval (hex_upper ! ?l)) = int ?l"
    using hex_up.val_nib[OF lt(1)] hex_up.val_nib[OF lt(2)] lt
      via_char_nonneg[of "int ?t" sg] via_char_nonneg[of "int ?l" sg] by simp_all
  have "nat ((16 * int ?t + int ?l) mod 256) = code b"
  proof -
    have "16 * int ?t + int ?l = int (code b)"
      by (metis div_mult_mod_eq mult.commute of_nat_add of_nat_mult of_nat_numeral)
    then show ?thesis using code_lt[of b] by (simp add: mod_pos_pos_trivial)
  qed
  with Cons v show ?case by (simp add: Let_def del: of_nat_mod)
qed simp

end
