(* ===== verification/Ed25519.thy ===== *)
theory Ed25519
  imports Codec
begin

text \<open>
  \<open>ed25519.c\<close>: key generation, signing and verification with hex-encoded keys.  OpenSSL is a
  parameter (\<open>crypto\<close>): its one-shot sign and verify functions on raw bytes and the key pair
  its generator delivers.  Every OpenSSL call can fail, by the world's plan.  What the code
  relies on is \<open>key_pair\<close>: a signature made with the private key is 64 bytes long and is
  accepted under the public key.
\<close>

definition ED25519_PUBLIC_KEY_SIZE :: nat where "ED25519_PUBLIC_KEY_SIZE = 32"
definition ED25519_PRIVATE_KEY_SIZE :: nat where "ED25519_PRIVATE_KEY_SIZE = 32"
definition ED25519_SIGNATURE_SIZE :: nat where "ED25519_SIGNATURE_SIZE = 64"
definition ED25519_PUBLIC_KEY_HEX_SIZE :: nat where
  "ED25519_PUBLIC_KEY_HEX_SIZE = ED25519_PUBLIC_KEY_SIZE * 2 + 1"
definition ED25519_PRIVATE_KEY_HEX_SIZE :: nat where
  "ED25519_PRIVATE_KEY_HEX_SIZE = ED25519_PRIVATE_KEY_SIZE * 2 + 1"
definition ED25519_SIGNATURE_HEX_SIZE :: nat where
  "ED25519_SIGNATURE_HEX_SIZE = ED25519_SIGNATURE_SIZE * 2 + 1"

lemmas ed_sizes = ED25519_PUBLIC_KEY_SIZE_def ED25519_PRIVATE_KEY_SIZE_def ED25519_SIGNATURE_SIZE_def
  ED25519_PUBLIC_KEY_HEX_SIZE_def ED25519_PRIVATE_KEY_HEX_SIZE_def ED25519_SIGNATURE_HEX_SIZE_def

record crypto =
  cr_keygen :: "bytes \<times> bytes"
  cr_sign :: "bytes \<Rightarrow> bytes \<Rightarrow> bytes"
  cr_verify :: "bytes \<Rightarrow> bytes \<Rightarrow> bytes \<Rightarrow> int"

definition key_pair :: "crypto \<Rightarrow> bytes \<Rightarrow> bytes \<Rightarrow> bool" where
  "key_pair c pub priv \<longleftrightarrow> length pub = ED25519_PUBLIC_KEY_SIZE \<and> length priv = ED25519_PRIVATE_KEY_SIZE \<and>
     (\<forall>d. length (cr_sign c priv d) = ED25519_SIGNATURE_SIZE \<and> cr_verify c pub d (cr_sign c priv d) = 1)"

text \<open>An OpenSSL call whose failure the code reports as \<open>EIO\<close>.\<close>

definition openssl_call :: "bool io" where
  "openssl_call = do { ok \<leftarrow> fallible; if ok then ret True else fail_with EIO False }"

definition ed25519_generate_keypair_hex :: "crypto \<Rightarrow> (string \<times> string) option io" where
  "ed25519_generate_keypair_hex c = do {
     ctx \<leftarrow> openssl_call;
     if \<not> ctx then ret None
     else do {
       ini \<leftarrow> openssl_call;
       if \<not> ini then ret None
       else do {
         gen \<leftarrow> openssl_call;
         if \<not> gen then ret None
         else do {
           raw1 \<leftarrow> openssl_call;
           let (public_key, private_key) = cr_keygen c;
           if \<not> raw1 \<or> length public_key \<noteq> ED25519_PUBLIC_KEY_SIZE then fail_with EIO None
           else do {
             raw2 \<leftarrow> openssl_call;
             if \<not> raw2 \<or> length private_key \<noteq> ED25519_PRIVATE_KEY_SIZE then fail_with EIO None
             else case bytes_to_hex public_key ED25519_PUBLIC_KEY_HEX_SIZE of
                 Inl e \<Rightarrow> fail_with e None
               | Inr public_hex \<Rightarrow> (case bytes_to_hex private_key ED25519_PRIVATE_KEY_HEX_SIZE of
                     Inl e \<Rightarrow> fail_with e None
                   | Inr private_hex \<Rightarrow> ret (Some (public_hex, private_hex))) } } } } }"

definition ed25519_sign_hex :: "crypto \<Rightarrow> string \<Rightarrow> bytes \<Rightarrow> string option io" where
  "ed25519_sign_hex c private_hex data =
     (case hex_to_bytes private_hex ED25519_PRIVATE_KEY_SIZE of
        Inl e \<Rightarrow> fail_with e None
      | Inr private_key \<Rightarrow> do {
          pkey \<leftarrow> openssl_call;
          if \<not> pkey then ret None
          else do {
            ctx \<leftarrow> openssl_call;
            if \<not> ctx then ret None
            else do {
              ini \<leftarrow> openssl_call;
              if \<not> ini then ret None
              else do {
                sg \<leftarrow> openssl_call;
                let signature = cr_sign c private_key data;
                if \<not> sg then ret None
                else if length signature \<noteq> ED25519_SIGNATURE_SIZE then fail_with EIO None
                else case bytes_to_hex signature ED25519_SIGNATURE_HEX_SIZE of
                    Inl e \<Rightarrow> fail_with e None
                  | Inr signature_hex \<Rightarrow> ret (Some signature_hex) } } } })"

definition ed25519_verify_hex :: "crypto \<Rightarrow> string \<Rightarrow> bytes \<Rightarrow> string \<Rightarrow> int io" where
  "ed25519_verify_hex c public_hex data signature_hex =
     (case hex_to_bytes public_hex ED25519_PUBLIC_KEY_SIZE of
        Inl e \<Rightarrow> fail_with e (-1)
      | Inr public_key \<Rightarrow> (case hex_to_bytes signature_hex ED25519_SIGNATURE_SIZE of
          Inl e \<Rightarrow> fail_with e (-1)
        | Inr signature \<Rightarrow> do {
            pkey \<leftarrow> openssl_call;
            if \<not> pkey then ret (-1)
            else do {
              ctx \<leftarrow> openssl_call;
              if \<not> ctx then ret (-1)
              else do {
                ini \<leftarrow> openssl_call;
                if \<not> ini then ret (-1)
                else do {
                  let verify_ret = cr_verify c public_key data signature;
                  if verify_ret = 1 then ret 0
                  else if verify_ret = 0 then fail_with EPERM (-1)
                  else fail_with EIO (-1) } } } }))"


section \<open>Frames and results\<close>

context effect_frame
begin

lemma keeps_case_sum [keeps_intros]:
  "(\<And>x. keeps R (f x)) \<Longrightarrow> (\<And>x. keeps R (g x)) \<Longrightarrow> keeps R (case z of Inl x \<Rightarrow> f x | Inr x \<Rightarrow> g x)"
  by (cases z) simp_all

lemma keeps_openssl_call [keeps_intros]: "keeps R openssl_call"
  unfolding openssl_call_def by (intro keeps_intros)

lemma keeps_ed25519_sign [keeps_intros]: "keeps R (ed25519_sign_hex c k d)"
  unfolding ed25519_sign_hex_def by (intro keeps_intros)

lemma keeps_ed25519_verify [keeps_intros]: "keeps R (ed25519_verify_hex c k d s)"
  unfolding ed25519_verify_hex_def by (intro keeps_intros)

lemma keeps_ed25519_generate [keeps_intros]: "keeps R (ed25519_generate_keypair_hex c)"
  unfolding ed25519_generate_keypair_hex_def by (intro keeps_intros)

end

lemma wp_case_sum [simp]:
  "wp (case z of Inl x \<Rightarrow> f x | Inr x \<Rightarrow> g x) Q =
   (\<lambda>w. case z of Inl x \<Rightarrow> wp (f x) Q w | Inr x \<Rightarrow> wp (g x) Q w)"
  by (simp add: fun_eq_iff split: sum.split)

lemma wp_openssl_call_any:
  "(\<And>b w'. plan_step w w' \<Longrightarrow> b \<or> w_errno w' = EIO \<Longrightarrow> Q b w') \<Longrightarrow> wp openssl_call Q w"
  unfolding openssl_call_def wp_bind by (rule wp_fallible_any) simp

lemma wp_openssl_call_from:
  "plan_step w0 w \<Longrightarrow> (\<And>b w'. plan_step w0 w' \<Longrightarrow> b \<or> w_errno w' = EIO \<Longrightarrow> Q b w') \<Longrightarrow>
   wp openssl_call Q w"
  by (rule wp_openssl_call_any) (blast intro: plan_step_trans)

lemma wp_openssl_call_quiet: "w_plan w = [] \<Longrightarrow> wp openssl_call Q w = Q True w"
  by (simp add: openssl_call_def wp_fallible_quiet)

lemmas quiet_calls = wp_fallible_quiet wp_openssl_call_quiet wp_malloc_quiet

text \<open>What a decoded key and a decoded signature are.\<close>

definition unhex_key :: "string \<Rightarrow> nat \<Rightarrow> bytes option" where
  "unhex_key hex n = (case hex_to_bytes hex n of Inl _ \<Rightarrow> None | Inr k \<Rightarrow> Some k)"

lemma unhex_key_hex_of [simp]:
  "length k = n \<Longrightarrow> hex_to_bytes (hex_of (\<lambda>n. hex_lower ! n) k) n = Inr k"
  by (simp add: hex_to_bytes_def hex_to_bytes_loop_eq)

definition ed_signature :: "crypto \<Rightarrow> bytes \<Rightarrow> bytes \<Rightarrow> string" where
  "ed_signature c key data = hex_of (\<lambda>n. hex_lower ! n) (cr_sign c key data)"

definition ed_valid :: "crypto \<Rightarrow> string \<Rightarrow> bytes \<Rightarrow> string \<Rightarrow> bool" where
  "ed_valid c public_hex data signature_hex \<longleftrightarrow>
     (\<exists>k s. hex_to_bytes public_hex ED25519_PUBLIC_KEY_SIZE = Inr k \<and>
            hex_to_bytes signature_hex ED25519_SIGNATURE_SIZE = Inr s \<and> cr_verify c k data s = 1)"

lemma wp_sign_any:
  assumes "\<And>r w'. plan_step w w' \<Longrightarrow>
      (\<And>h. r = Some h \<Longrightarrow> \<exists>k. hex_to_bytes priv ED25519_PRIVATE_KEY_SIZE = Inr k
        \<and> length (cr_sign c k d) = ED25519_SIGNATURE_SIZE \<and> h = ed_signature c k d) \<Longrightarrow> Q r w'"
  shows "wp (ed25519_sign_hex c priv d) Q w"
proof (cases "hex_to_bytes priv ED25519_PRIVATE_KEY_SIZE")
  case (Inl e)
  with assms[of _ None] show ?thesis by (simp add: ed25519_sign_hex_def)
next
  case (Inr k)
  have "plan_step w w' \<Longrightarrow> Q None w'" for w' using assms[of w' None] by simp
  moreover have "plan_step w w' \<Longrightarrow> length (cr_sign c k d) = 64 \<Longrightarrow> Q (Some (ed_signature c k d)) w'" for w'
    using assms[of w' "Some (ed_signature c k d)"] Inr by (simp add: ed_sizes)
  ultimately show ?thesis
    unfolding ed25519_sign_hex_def Inr
    by (auto simp: Let_def bytes_to_hex_eq ed_sizes ed_signature_def
        intro!: wp_openssl_call_from[of w])
qed

lemma wp_verify_any:
  assumes "\<And>r w'. plan_step w w' \<Longrightarrow> r = 0 \<and> ed_valid c pub d s \<or> r = -1 \<and> w_errno w' \<noteq> 0 \<Longrightarrow> Q r w'"
  shows "wp (ed25519_verify_hex c pub d s) Q w"
proof -
  have fail: "plan_step w w' \<Longrightarrow> w_errno w' \<noteq> 0 \<Longrightarrow> Q (-1) w'" for w' by (rule assms) simp_all
  have einval: "hex_to_bytes h n = Inl e \<Longrightarrow> e = EINVAL" for h n e
    by (auto simp: hex_to_bytes_def split: if_splits option.splits)
  consider (nokey) e where "hex_to_bytes pub ED25519_PUBLIC_KEY_SIZE = Inl e"
    | (nosig) k e where "hex_to_bytes pub ED25519_PUBLIC_KEY_SIZE = Inr k"
        "hex_to_bytes s ED25519_SIGNATURE_SIZE = Inl e"
    | (both) k g where "hex_to_bytes pub ED25519_PUBLIC_KEY_SIZE = Inr k"
        "hex_to_bytes s ED25519_SIGNATURE_SIZE = Inr g"
    by (metis sumE)
  then show ?thesis
  proof cases
    case both
    have "plan_step w w' \<Longrightarrow> cr_verify c k d g = 1 \<Longrightarrow> Q 0 w'" for w'
      by (rule assms) (simp_all add: ed_valid_def both)
    with fail show ?thesis unfolding ed25519_verify_hex_def both
      by (auto simp: Let_def intro!: wp_openssl_call_from[of w])
  qed (use fail in \<open>auto simp: ed25519_verify_hex_def dest: einval\<close>)
qed

lemma wp_sign_quiet:
  assumes "w_plan w = []" "hex_to_bytes priv ED25519_PRIVATE_KEY_SIZE = Inr k"
    and "length (cr_sign c k d) = ED25519_SIGNATURE_SIZE"
  shows "wp (ed25519_sign_hex c priv d) Q w = Q (Some (ed_signature c k d)) w"
  using assms by (simp add: ed25519_sign_hex_def quiet_calls Let_def bytes_to_hex_eq ed_signature_def ed_sizes)

lemma wp_verify_quiet:
  assumes "w_plan w = []" "hex_to_bytes pub ED25519_PUBLIC_KEY_SIZE = Inr k"
    and "hex_to_bytes s ED25519_SIGNATURE_SIZE = Inr g"
  shows "wp (ed25519_verify_hex c pub d s) Q w =
    (if cr_verify c k d g = 1 then Q 0 w
     else Q (-1) (w\<lparr>w_errno := if cr_verify c k d g = 0 then EPERM else EIO\<rparr>))"
  using assms by (simp add: ed25519_verify_hex_def quiet_calls Let_def)

lemma ed_signature_decodes:
  "length (cr_sign c k d) = ED25519_SIGNATURE_SIZE \<Longrightarrow>
   hex_to_bytes (ed_signature c k d) ED25519_SIGNATURE_SIZE = Inr (cr_sign c k d)"
  by (simp add: ed_signature_def)

lemma length_ed_signature:
  "length (cr_sign c k d) = ED25519_SIGNATURE_SIZE \<Longrightarrow> length (ed_signature c k d) = 2 * ED25519_SIGNATURE_SIZE"
  by (simp add: ed_signature_def)

lemma nul_free_ed_signature [simp]: "nul_free (ed_signature c k d)"
  by (simp add: ed_signature_def)

end
