(* ===== verification/Wire.thy ===== *)
theory Wire
  imports CommonIO
begin

text \<open>
  \<open>common.c\<close>, the wire formats: 16-bit numbers in network order, length-prefixed strings and
  length-prefixed files.  The locale \<open>wire_format\<close> is the contract between a writer and its
  reader on the two ends of a stream socket; numbers, strings and lists of them are instances.
\<close>


section \<open>Operations\<close>

definition parse_ushort :: "string \<Rightarrow> int io" where
  "parse_ushort str = do {
     set_errno 0;
     let (v, rest, erange) = strtoul str;
     (if erange then set_errno ERANGE else ret ());
     e \<leftarrow> get_errno;
     let r = c_llong v;
     if e \<noteq> 0 then ret (-1)
     else if rest = str \<or> rest \<noteq> [] then fail_with EINVAL (-1)
     else if r < 0 \<or> int USHRT_MAX < r then fail_with ERANGE (-1)
     else ret r }"

definition read_ushort :: "int \<Rightarrow> int io" where
  "read_ushort fd = do {
     r \<leftarrow> read_all fd 2;
     case r of None \<Rightarrow> ret (-1) | Some bs \<Rightarrow> ret (int (of_be bs)) }"

definition write_ushort :: "int \<Rightarrow> int \<Rightarrow> int io" where
  "write_ushort fd v = do {
     let ns = be16 (nat (v mod 65536));
     r \<leftarrow> write_all fd ns;
     if r < 0 then ret r else ret 0 }"

definition read_byte :: "int \<Rightarrow> int io" where
  "read_byte fd = do {
     (r, bs) \<leftarrow> sys_read fd 1;
     if r < 0 then ret r
     else if r \<noteq> 1 then fail_with EPIPE (-1)
     else ret (of_char (hd bs)) }"

definition write_byte :: "int \<Rightarrow> byte \<Rightarrow> int io" where
  "write_byte fd c = do {
     r \<leftarrow> sys_write fd [c];
     if r < 0 then ret r
     else if r \<noteq> 1 then fail_with EPIPE (-1)
     else ret 1 }"

definition malloc_read_string :: "int \<Rightarrow> string option io" where
  "malloc_read_string fd = do {
     len \<leftarrow> read_ushort fd;
     if len < 0 then ret None
     else if int MAX_STRING \<le> len then fail_with EOVERFLOW None
     else do {
       ok \<leftarrow> c_malloc;
       if \<not> ok then fail_with ENOMEM None
       else do {
         r \<leftarrow> read_all fd (nat len);
         case r of None \<Rightarrow> ret None | Some dest \<Rightarrow> ret (Some (cstr dest)) } } }"

definition write_string :: "int \<Rightarrow> string \<Rightarrow> int io" where
  "write_string fd s = do {
     let len = strlen s;
     if USHRT_MAX < len + 1 \<or> MAX_STRING \<le> len then fail_with EOVERFLOW (-1)
     else do {
       r \<leftarrow> write_ushort fd (int len);
       if r < 0 then ret r
       else do {
         r \<leftarrow> write_all fd (cstr s);
         if r < 0 then ret r else ret 0 } } }"

definition write_file :: "int \<Rightarrow> string \<Rightarrow> int io" where
  "write_file fd path = do {
     srcfd \<leftarrow> sys_open path [];
     if srcfd < 0 then ret srcfd
     else do {
       st \<leftarrow> sys_fstat srcfd;
       case st of None \<Rightarrow> do { sys_close srcfd; ret (-1) }
       | Some (isreg, st_size) \<Rightarrow>
           if \<not> isreg then do { sys_close srcfd; fail_with EINVAL (-1) }
           else do {
             let size = st_size mod 4294967296;
             if MAX_FILE_SIZE < size \<or> size \<le> 0 then do { sys_close srcfd; fail_with EFBIG (-1) }
             else do {
               ok \<leftarrow> c_malloc;
               if \<not> ok then do { sys_close srcfd; ret (-1) }
               else do {
                 r \<leftarrow> read_all srcfd size;
                 case r of None \<Rightarrow> do { sys_close srcfd; ret (-1) }
                 | Some buf \<Rightarrow> do {
                     err \<leftarrow> write_all fd (be32 size);
                     if err < 0 then do { sys_close srcfd; ret (-1) }
                     else do {
                       err \<leftarrow> write_all fd buf;
                       if err < 0 then do { sys_close srcfd; ret (-1) }
                       else do { sys_close srcfd; ret 0 } } } } } } } }"

definition read_file :: "int \<Rightarrow> string \<Rightarrow> int io" where
  "read_file fd dest = do {
     destfd \<leftarrow> sys_open dest [O_WRITE, O_CREAT, O_TRUNC];
     if destfd < 0 then ret (-1)
     else do {
       r \<leftarrow> read_all fd 4;
       case r of None \<Rightarrow> do { sys_close destfd; sys_unlink dest; ret (-1) }
       | Some hdr \<Rightarrow> do {
           let size = of_be hdr;
           if MAX_FILE_SIZE < size
           then do { sys_close destfd; sys_unlink dest; fail_with EFBIG (-1) }
           else do {
             ok \<leftarrow> c_malloc;
             if \<not> ok then do { sys_unlink dest; sys_close destfd; ret (-1) }
             else do {
               r \<leftarrow> read_all fd size;
               case r of None \<Rightarrow> do { sys_unlink dest; sys_close destfd; ret (-1) }
               | Some buf \<Rightarrow> do {
                   err \<leftarrow> write_all destfd buf;
                   if err < 0 then do { sys_unlink dest; sys_close destfd; ret (-1) }
                   else do { sys_close destfd; ret 0 } } } } } } }"


section \<open>Frames\<close>

context fd_frame
begin

lemma keeps_read_ushort [keeps_intros]: "keeps R (read_ushort fd)"
  unfolding read_ushort_def by (intro keeps_intros)

lemma keeps_malloc_read_string [keeps_intros]: "keeps R (malloc_read_string fd)"
  unfolding malloc_read_string_def by (intro keeps_intros)

lemma keeps_read_byte [keeps_intros]: "keeps R (read_byte fd)"
  unfolding read_byte_def by (intro keeps_intros)

end

context file_frame
begin

lemma keeps_write_ushort [keeps_intros]: "keeps R (write_ushort fd v)"
  unfolding write_ushort_def by (intro keeps_intros)

lemma keeps_write_byte [keeps_intros]: "keeps R (write_byte fd c)"
  unfolding write_byte_def by (intro keeps_intros)

lemma keeps_write_string [keeps_intros]: "keeps R (write_string fd s)"
  unfolding write_string_def by (intro keeps_intros)

lemma keeps_write_file [keeps_intros]: "keeps R (write_file fd p)"
  unfolding write_file_def by (intro keeps_intros)

lemma keeps_read_file [keeps_intros]: "keeps R (read_file fd p)"
  unfolding read_file_def by (intro keeps_intros)

end


section \<open>The contract of a writer and its reader\<close>

text \<open>Sending and receiving a list element by element, stopping at the first failure.\<close>

fun send_each :: "('a \<Rightarrow> int io) \<Rightarrow> 'a list \<Rightarrow> int io" where
  "send_each put [] = ret 0"
| "send_each put (x # xs) = do { r \<leftarrow> put x; if r < 0 then ret r else send_each put xs }"

fun recv_each :: "'b option io \<Rightarrow> nat \<Rightarrow> 'b list option io" where
  "recv_each get 0 = ret (Some [])"
| "recv_each get (Suc n) = do {
     x \<leftarrow> get;
     case x of None \<Rightarrow> ret None
     | Some v \<Rightarrow> do {
         xs \<leftarrow> recv_each get n;
         case xs of None \<Rightarrow> ret None | Some vs \<Rightarrow> ret (Some (v # vs)) } }"

locale wire_format =
  fixes put :: "int \<Rightarrow> 'a \<Rightarrow> int io" and get :: "int \<Rightarrow> 'b io"
    and enc :: "'a \<Rightarrow> bytes" and res :: "'a \<Rightarrow> 'b" and ok :: "'a \<Rightarrow> bool"
  assumes put_conn: "ok x \<Longrightarrow> conn fd w \<Longrightarrow>
      (\<And>io e. calm io \<Longrightarrow> P 0 (w\<lparr>w_sout := w_sout w @ enc x, w_io := io, w_errno := e\<rparr>)) \<Longrightarrow>
      wp (put fd x) P w"
    and get_conn: "ok x \<Longrightarrow> conn fd w \<Longrightarrow> w_sin w = enc x @ rest \<Longrightarrow>
      (\<And>io e. calm io \<Longrightarrow> Q (res x) (w\<lparr>w_sin := rest, w_io := io, w_errno := e\<rparr>)) \<Longrightarrow>
      wp (get fd) Q w"
begin

text \<open>What was sent is received, whatever the fragmentation on both sides.\<close>

lemma put_get:
  assumes "ok x" "conn fd ws" "conn fd' wr"
    and "run_state (put fd x) ws = (r, ws')"
    and "w_sin wr = drop (length (w_sout ws)) (w_sout ws') @ rest"
    and "run_state (get fd') wr = (v, wr')"
  shows "r = 0 \<and> v = res x \<and> w_sin wr' = rest"
proof -
  have "wp (put fd x) (\<lambda>r w'. r = 0 \<and> w_sout w' = w_sout ws @ enc x) ws"
    by (rule put_conn[OF assms(1,2)]) simp
  from wpD[OF this assms(4)] have s: "r = 0" "w_sin wr = enc x @ rest" using assms(5) by simp_all
  have "wp (get fd') (\<lambda>v w'. v = res x \<and> w_sin w' = rest) wr"
    by (rule get_conn[OF assms(1,3) s(2)]) simp
  from wpD[OF this assms(6)] s show ?thesis by simp
qed

lemma put_each_conn:
  assumes "\<forall>x\<in>set xs. ok x" "conn fd w"
    and "\<And>io e. calm io \<Longrightarrow>
      P 0 (w\<lparr>w_sout := w_sout w @ concat (map enc xs), w_io := io, w_errno := e\<rparr>)"
  shows "wp (send_each (put fd) xs) P w"
  using assms
proof (induction xs arbitrary: w)
  case Nil
  from Nil(3)[of "w_io w" "w_errno w"] Nil(2) show ?case by (simp add: conn_def)
next
  case (Cons x xs)
  have "wp (put fd x) (\<lambda>r w. if r < 0 then P r w else wp (send_each (put fd) xs) P w) w"
  proof (rule put_conn[of x])
    fix io e assume io: "calm io"
    let ?w = "w\<lparr>w_sout := w_sout w @ enc x, w_io := io, w_errno := e\<rparr>"
    have "wp (send_each (put fd) xs) P ?w"
    proof (rule Cons.IH)
      fix io' e' assume "calm io'"
      from Cons.prems(3)[OF this, of e'] show
        "P 0 (?w\<lparr>w_sout := w_sout ?w @ concat (map enc xs), w_io := io', w_errno := e'\<rparr>)" by simp
    qed (use Cons.prems io in \<open>auto simp: conn_def\<close>)
    then show "if (0::int) < 0 then P 0 ?w else wp (send_each (put fd) xs) P ?w" by simp
  qed (use Cons.prems in auto)
  then show ?case by (simp cong: if_cong split del: if_split)
qed

end


section \<open>The formats\<close>

lemma wp_write_ushort_conn:
  assumes "conn fd w"
    and "\<And>io e. calm io \<Longrightarrow>
      P 0 (w\<lparr>w_sout := w_sout w @ be16 (nat (v mod 65536)), w_io := io, w_errno := e\<rparr>)"
  shows "wp (write_ushort fd v) P w"
  unfolding write_ushort_def Let_def wp_bind
  by (rule wp_write_all_conn[OF assms(1)]) (simp add: assms(2))

lemma wp_read_ushort_conn:
  assumes "conn fd w" "2 \<le> length (w_sin w)"
    and "\<And>io e. calm io \<Longrightarrow> P (int (of_be (take 2 (w_sin w))))
      (w\<lparr>w_sin := drop 2 (w_sin w), w_io := io, w_errno := e\<rparr>)"
  shows "wp (read_ushort fd) P w"
  unfolding read_ushort_def Let_def wp_bind
  by (rule wp_read_all_conn[OF assms(1,2)]) (simp add: assms(3))

interpretation ushort: wire_format write_ushort read_ushort "\<lambda>v. be16 (nat (v mod 65536))" "\<lambda>v. v"
  "\<lambda>v. 0 \<le> v \<and> v \<le> 65535"
proof (unfold_locales, goal_cases)
  case (1 x fd w P)
  show ?case by (rule wp_write_ushort_conn[OF 1(2)]) (rule 1(3))
next
  case (2 x fd w rest Q)
  have "of_be (be16 (nat (x mod 65536))) = nat x" using 2(1) by (simp add: of_be_be16 mod_pos_pos_trivial nat_less_iff)
  with 2 show ?case
    by (intro wp_read_ushort_conn) (auto simp del: nat_mod_as_int)
qed

definition string_ok :: "string \<Rightarrow> bool" where
  "string_ok s \<longleftrightarrow> nul_free s \<and> length s < MAX_STRING"

definition string_enc :: "string \<Rightarrow> bytes" where
  "string_enc s = be16 (length s) @ s"

interpretation str: wire_format write_string malloc_read_string string_enc Some string_ok
proof (unfold_locales, goal_cases)
  case (1 x fd w P)
  then have len: "length x < 4096" "nul_free x" by (simp_all add: string_ok_def MAX_STRING_def)
  from len(1) have m: "nat (int (length x) mod 65536) = length x" by (simp add: nat_mod_distrib)
  show ?case
    using len apply (simp add: write_string_def Let_def MAX_STRING_def)
    apply (rule wp_write_ushort_conn[OF 1(2)])
    apply simp
    apply (rule wp_write_all_conn)
    using 1(2) apply (simp add: conn_def)
    using 1(3) m by (simp add: string_enc_def)
next
  case (2 x fd w rest Q)
  then have len: "length x < 4096" "nul_free x" by (simp_all add: string_ok_def MAX_STRING_def)
  have b: "of_be (be16 (length x)) = length x" using len(1) by (simp add: of_be_be16)
  show ?case
    apply (simp add: malloc_read_string_def)
    apply (rule wp_read_ushort_conn[OF 2(2)])
    using 2(3) apply (simp add: string_enc_def)
    using 2(3) len b 2(2) apply (simp add: string_enc_def MAX_STRING_def wp_malloc_quiet conn_def)
    apply (rule wp_read_all_conn)
    using 2(3) apply (simp add: conn_def)
    apply simp
    using 2(4) by (simp)
qed

end
