(* ===== verification/Payload.thy ===== *)
theory Payload
  imports Ed25519 Wire
begin

text \<open>
  \<open>dumbpayload.c\<close>: the signed, expiring command record (\<open>struct DUMB_PAYLOAD\<close>) that the server
  hands out and the phone executes.  The record has the struct's fields as raw bytes of their C
  sizes; \<open>dp_bytes\<close>/\<open>dp_of_bytes\<close> are its memory layout (168 bytes before the data, three of
  them padding).  Functions that modify the struct return the new one.
\<close>

definition EXPIRE_SIZE :: nat where "EXPIRE_SIZE = 16"
definition COMMAND_SIZE :: nat where "COMMAND_SIZE = 16"
definition DEFAULT_EXPIRE_TIME :: int where "DEFAULT_EXPIRE_TIME = 60"
definition DUMB_PAYLOAD_DATA_MAX_SIZE :: nat where "DUMB_PAYLOAD_DATA_MAX_SIZE = 536870912"
definition SECRET_CODE_ALLOWED_CHARS :: string where
  "SECRET_CODE_ALLOWED_CHARS = ''qwertyuiopasdfghjklzxcvbnm0123456789-_''"

record dumb_payload =
  dp_signature :: bytes
  dp_expire :: bytes
  dp_command :: bytes
  dp_pad :: bytes
  dp_data_size :: bytes
  dp_payload :: bytes

definition sizeof_payload :: nat where
  "sizeof_payload = ED25519_SIGNATURE_HEX_SIZE + EXPIRE_SIZE + COMMAND_SIZE + 3 + 4"

lemmas dp_sizes = ed_sizes EXPIRE_SIZE_def COMMAND_SIZE_def sizeof_payload_def

definition dp_bytes :: "dumb_payload \<Rightarrow> bytes" where
  "dp_bytes p = dp_signature p @ dp_expire p @ dp_command p @ dp_pad p @ dp_data_size p @ dp_payload p"

definition dp_of_bytes :: "bytes \<Rightarrow> dumb_payload" where
  "dp_of_bytes bs = \<lparr>dp_signature = take 129 bs, dp_expire = take 16 (drop 129 bs),
     dp_command = take 16 (drop 145 bs), dp_pad = take 3 (drop 161 bs),
     dp_data_size = take 4 (drop 164 bs), dp_payload = drop 168 bs\<rparr>"

definition dp_wf :: "dumb_payload \<Rightarrow> bool" where
  "dp_wf p \<longleftrightarrow> length (dp_signature p) = 129 \<and> length (dp_expire p) = 16 \<and>
     length (dp_command p) = 16 \<and> length (dp_pad p) = 3 \<and> length (dp_data_size p) = 4"

definition dp_get_base_size :: nat where
  "dp_get_base_size = sizeof_payload"

definition dumb_code_verify_chars :: "string \<Rightarrow> bool" where
  "dumb_code_verify_chars s = check_allowed_chars s SECRET_CODE_ALLOWED_CHARS"


section \<open>Data\<close>

definition dp_create_new :: "dumb_payload option io" where
  "dp_create_new = do {
     ok \<leftarrow> c_malloc;
     if \<not> ok then ret None
     else ret (Some \<lparr>dp_signature = zeros 129, dp_expire = zeros 16, dp_command = zeros 16,
       dp_pad = zeros 3, dp_data_size = zeros 4, dp_payload = []\<rparr>) }"

text \<open>Setters return the error number (also in \<open>errno\<close>) or the changed record.\<close>

definition dp_set_command :: "dumb_payload \<Rightarrow> string \<Rightarrow> int + dumb_payload" where
  "dp_set_command p command =
     (if COMMAND_SIZE \<le> strnlen command COMMAND_SIZE then Inl EOVERFLOW
      else Inr (p\<lparr>dp_command := (strncpy_field command COMMAND_SIZE)[COMMAND_SIZE - 1 := NUL]\<rparr>))"

definition dp_get_command :: "dumb_payload \<Rightarrow> int + string" where
  "dp_get_command p =
     (let str = dp_command p in
      if COMMAND_SIZE \<le> strnlen str COMMAND_SIZE then Inl EOVERFLOW else Inr (cstr str))"

definition dp_set_expire_str :: "dumb_payload \<Rightarrow> string \<Rightarrow> int + dumb_payload" where
  "dp_set_expire_str p expire_string =
     (if EXPIRE_SIZE \<le> strnlen expire_string EXPIRE_SIZE then Inl EOVERFLOW
      else Inr (p\<lparr>dp_expire := (strncpy_field expire_string EXPIRE_SIZE)[EXPIRE_SIZE - 1 := NUL]\<rparr>))"

definition dp_get_expire_str :: "dumb_payload \<Rightarrow> int + string" where
  "dp_get_expire_str p =
     (let str = dp_expire p in
      if EXPIRE_SIZE \<le> strnlen str EXPIRE_SIZE then Inl EOVERFLOW else Inr (cstr str))"

definition dp_set_signature :: "dumb_payload \<Rightarrow> string \<Rightarrow> int + dumb_payload" where
  "dp_set_signature p signature =
     (if strnlen signature ED25519_SIGNATURE_HEX_SIZE \<noteq> ED25519_SIGNATURE_HEX_SIZE - 1 then Inl EINVAL
      else Inr (p\<lparr>dp_signature := cstr signature @ [NUL]\<rparr>))"

definition dp_get_signature :: "dumb_payload \<Rightarrow> string option" where
  "dp_get_signature p =
     (let signature = dp_signature p in
      if strnlen signature ED25519_SIGNATURE_HEX_SIZE \<noteq> ED25519_SIGNATURE_HEX_SIZE - 1 then None
      else Some (cstr signature))"

definition dp_set_data_size :: "dumb_payload \<Rightarrow> nat \<Rightarrow> int + dumb_payload" where
  "dp_set_data_size p sz =
     (if DUMB_PAYLOAD_DATA_MAX_SIZE < sz then Inl EOVERFLOW else Inr (p\<lparr>dp_data_size := be32 sz\<rparr>))"

definition dp_get_data_size :: "dumb_payload \<Rightarrow> int + nat" where
  "dp_get_data_size p =
     (let sz = of_be (dp_data_size p) in
      if DUMB_PAYLOAD_DATA_MAX_SIZE < sz then Inl EOVERFLOW else Inr sz)"

definition dp_set_data :: "dumb_payload \<Rightarrow> bytes \<Rightarrow> dumb_payload option io" where
  "dp_set_data p data =
     (case dp_set_data_size p (length data) of
        Inl e \<Rightarrow> fail_with e None
      | Inr p' \<Rightarrow> do {
          ok \<leftarrow> c_malloc;
          if \<not> ok then ret None else ret (Some (p'\<lparr>dp_payload := data\<rparr>)) })"

text \<open>\<open>Inl e\<close>: NULL with \<open>errno = e\<close>; \<open>e = 0\<close> when there is no data.\<close>

definition dp_get_data :: "dumb_payload \<Rightarrow> int + bytes" where
  "dp_get_data p =
     (case dp_get_data_size p of
        Inl e \<Rightarrow> Inl e
      | Inr sz \<Rightarrow> if sz = 0 then Inl 0 else Inr (take sz (dp_payload p)))"

definition dp_malloc_get_data :: "dumb_payload \<Rightarrow> bytes option io" where
  "dp_malloc_get_data p =
     (case dp_get_data p of
        Inl e \<Rightarrow> fail_with e None
      | Inr data_src \<Rightarrow> do { ok \<leftarrow> c_malloc; if \<not> ok then ret None else ret (Some data_src) })"

definition dp_validate_size :: "dumb_payload \<Rightarrow> nat \<Rightarrow> bool" where
  "dp_validate_size p detected_full_size =
     (if detected_full_size < sizeof_payload then False
      else case dp_get_data_size p of
          Inl _ \<Rightarrow> False
        | Inr data_size \<Rightarrow> data_size + sizeof_payload = detected_full_size)"


section \<open>Signature\<close>

definition clear_signature :: "dumb_payload \<Rightarrow> dumb_payload" where
  "clear_signature p = p\<lparr>dp_signature := zeros 129\<rparr>"

definition dp_sign :: "crypto \<Rightarrow> dumb_payload \<Rightarrow> nat \<Rightarrow> string \<Rightarrow> (int \<times> dumb_payload) io" where
  "dp_sign c payload sz private_key_hex =
     (if strlen private_key_hex \<noteq> ED25519_PRIVATE_KEY_HEX_SIZE - 1 then fail_with EINVAL (-1, payload)
      else if sz < sizeof_payload then fail_with EINVAL (-1, payload)
      else do {
        let payload = clear_signature payload;
        sg \<leftarrow> ed25519_sign_hex c private_key_hex (take sz (dp_bytes payload));
        case sg of
          None \<Rightarrow> ret (-1, payload)
        | Some signature \<Rightarrow> ret (0, payload\<lparr>dp_signature := signature @ [NUL]\<rparr>) })"

definition dp_verify :: "crypto \<Rightarrow> dumb_payload \<Rightarrow> nat \<Rightarrow> string \<Rightarrow> (int \<times> dumb_payload) io" where
  "dp_verify c payload sz pubkey_hex =
     (if strlen pubkey_hex \<noteq> ED25519_PUBLIC_KEY_HEX_SIZE - 1 then fail_with EINVAL (-1, payload)
      else if \<not> dp_validate_size payload sz then fail_with EINVAL (-1, payload)
      else do {
        let signature = (dp_signature payload)[ED25519_SIGNATURE_HEX_SIZE - 1 := NUL];
        let payload = clear_signature payload;
        r \<leftarrow> ed25519_verify_hex c pubkey_hex (take sz (dp_bytes payload)) (cstr signature);
        ret (r, payload) })"


section \<open>Expiry\<close>

definition dp_set_expire :: "dumb_payload \<Rightarrow> int \<Rightarrow> dumb_payload" where
  "dp_set_expire p expire = p\<lparr>dp_expire := snprintf_field (zeros EXPIRE_SIZE) EXPIRE_SIZE (print_lld expire)\<rparr>"

definition dp_get_expire :: "dumb_payload \<Rightarrow> int" where
  "dp_get_expire p =
     (let buf = dp_expire p @ [NUL] in
      case parse_long_long (cstr buf) of Inl _ \<Rightarrow> -1 | Inr expire \<Rightarrow> expire)"

text \<open>\<open>memmove(expire, expire + 1, EXPIRE_SIZE - 1)\<close>: the last byte keeps its value.\<close>

definition shift_expire :: "dumb_payload \<Rightarrow> dumb_payload" where
  "shift_expire p = p\<lparr>dp_expire := drop 1 (dp_expire p) @ [last (dp_expire p)]\<rparr>"

definition dp_get_expire_or_set :: "dumb_payload \<Rightarrow> (int \<times> dumb_payload) io" where
  "dp_get_expire_or_set payload = do {
     let expire = dp_get_expire payload;
     if expire = -1 then do {
       (expire, payload) \<leftarrow>
         (if hd (dp_expire payload) = CHR '':'' then do {
            let payload = shift_expire payload;
            let expire = dp_get_expire payload;
            t \<leftarrow> c_time;
            if expire = -1 then ret (c_llong (t + DEFAULT_EXPIRE_TIME), payload)
            else ret (c_llong (expire + t), payload) }
          else do {
            t \<leftarrow> c_time;
            ret (c_llong (t + DEFAULT_EXPIRE_TIME), payload) });
       ret (expire, dp_set_expire payload expire) }
     else ret (expire, payload) }"

definition dp_is_expired :: "dumb_payload \<Rightarrow> (bool \<times> dumb_payload) io" where
  "dp_is_expired payload = do {
     (expire, payload) \<leftarrow> dp_get_expire_or_set payload;
     if expire = 0 then ret (False, payload)
     else do { t \<leftarrow> c_time; ret (expire \<le> t, payload) } }"

definition dp_is_expired_compare :: "dumb_payload \<Rightarrow> int \<Rightarrow> (bool \<times> dumb_payload) io" where
  "dp_is_expired_compare payload cur_time = do {
     (expire, payload) \<leftarrow> dp_get_expire_or_set payload;
     if expire = 0 then ret (False, payload)
     else ret (expire \<le> cur_time, payload) }"


section \<open>Files\<close>

text \<open>The result of \<open>read_all\<close> is stored in an \<open>int\<close>, so a size from 2 GiB up reads as an error.\<close>

definition dp_malloc_load :: "string \<Rightarrow> bytes option io" where
  "dp_malloc_load path = do {
     fd \<leftarrow> sys_open path [];
     if fd < 0 then ret None
     else do {
       st \<leftarrow> sys_fstat fd;
       case st of None \<Rightarrow> do { sys_close fd; ret None }
       | Some (_, sz) \<Rightarrow>
           if sz < sizeof_payload then do { set_errno EINVAL; sys_close fd; ret None }
           else if 18446744073709551614 < sz then do { set_errno EOVERFLOW; sys_close fd; ret None }
           else do {
             ok \<leftarrow> c_malloc;
             if \<not> ok then do { sys_close fd; ret None }
             else do {
               r \<leftarrow> read_all fd sz;
               case r of None \<Rightarrow> do { sys_close fd; ret None }
               | Some payload \<Rightarrow>
                   if c_int (int sz) < 0 then do { sys_close fd; ret None }
                   else do { sys_close fd; ret (Some payload) } } } } }"

definition dp_write_to_file :: "dumb_payload \<Rightarrow> string \<Rightarrow> int io" where
  "dp_write_to_file payload pathname = do {
     fd \<leftarrow> sys_open pathname [O_WRITE, O_CREAT, O_TRUNC];
     if fd < 0 then ret (-1)
     else case dp_get_data_size payload of
         Inl err \<Rightarrow> do { sys_close fd; fail_with err (-1) }
       | Inr sz \<Rightarrow> do {
           r \<leftarrow> write_all fd (take (sz + sizeof_payload) (dp_bytes payload));
           if r < 0 then do { err \<leftarrow> get_errno; sys_close fd; fail_with err (-1) }
           else do { sys_close fd; ret 0 } } }"


section \<open>Frames\<close>

context effect_frame
begin

lemma keeps_dp_sign [keeps_intros]: "keeps R (dp_sign c p n k)"
  unfolding dp_sign_def Let_def by (intro keeps_intros)

lemma keeps_dp_verify [keeps_intros]: "keeps R (dp_verify c p n k)"
  unfolding dp_verify_def Let_def by (intro keeps_intros)

lemma keeps_expire_or_set [keeps_intros]: "keeps R (dp_get_expire_or_set p)"
  unfolding dp_get_expire_or_set_def Let_def by (intro keeps_intros)

lemma keeps_is_expired [keeps_intros]: "keeps R (dp_is_expired p)"
  unfolding dp_is_expired_def by (intro keeps_intros)

lemma keeps_is_expired_compare [keeps_intros]: "keeps R (dp_is_expired_compare p t)"
  unfolding dp_is_expired_compare_def by (intro keeps_intros)

lemma keeps_dp_malloc_get_data [keeps_intros]: "keeps R (dp_malloc_get_data p)"
  unfolding dp_malloc_get_data_def by (intro keeps_intros)

lemma keeps_dp_set_data [keeps_intros]: "keeps R (dp_set_data p d)"
  unfolding dp_set_data_def by (intro keeps_intros)

end

section \<open>Layout and fields\<close>

lemma dp_of_bytes_bytes: "dp_wf p \<Longrightarrow> dp_of_bytes (dp_bytes p) = p"
  by (cases p) (simp add: dp_wf_def dp_bytes_def dp_of_bytes_def)

lemma dp_bytes_of_bytes:
  assumes "168 \<le> length bs"
  shows "dp_bytes (dp_of_bytes bs) = bs" "dp_wf (dp_of_bytes bs)"
proof -
  have t: "take n (drop k bs) @ drop (k + n) bs = drop k bs" for n k
    by (metis append_take_drop_id drop_drop add.commute)
  have "take 4 (drop 164 bs) @ drop 168 bs = drop 164 bs"
    "take 3 (drop 161 bs) @ drop 164 bs = drop 161 bs"
    "take 16 (drop 145 bs) @ drop 161 bs = drop 145 bs"
    "take 16 (drop 129 bs) @ drop 145 bs = drop 129 bs"
    using t[of 4 164] t[of 3 161] t[of 16 145] t[of 16 129] by simp_all
  then show "dp_bytes (dp_of_bytes bs) = bs"
    by (simp add: dp_bytes_def dp_of_bytes_def)
  show "dp_wf (dp_of_bytes bs)"
    using assms by (simp add: dp_wf_def dp_of_bytes_def)
qed

lemma length_dp_bytes: "dp_wf p \<Longrightarrow> length (dp_bytes p) = sizeof_payload + length (dp_payload p)"
  by (simp add: dp_wf_def dp_bytes_def dp_sizes)

lemma dp_wf_clear [simp]: "dp_wf p \<Longrightarrow> dp_wf (clear_signature p)"
  by (simp add: dp_wf_def clear_signature_def)

lemma clear_signature_fields [simp]:
  "dp_expire (clear_signature p) = dp_expire p" "dp_command (clear_signature p) = dp_command p"
  "dp_payload (clear_signature p) = dp_payload p" "dp_data_size (clear_signature p) = dp_data_size p"
  "clear_signature (p\<lparr>dp_signature := s\<rparr>) = clear_signature p"
  "clear_signature (clear_signature p) = clear_signature p"
  by (simp_all add: clear_signature_def)

lemma clear_bytes_inject:
  assumes "dp_wf p" "dp_wf q" "dp_bytes (clear_signature p) = dp_bytes (clear_signature q)"
  shows "q\<lparr>dp_signature := dp_signature p\<rparr> = p"
proof -
  have "clear_signature p = clear_signature q"
    using assms by (metis dp_of_bytes_bytes dp_wf_clear)
  then show ?thesis by (cases p; cases q) (simp add: clear_signature_def)
qed

lemma dp_get_data_size_fields [simp]:
  "dp_get_data_size (clear_signature p) = dp_get_data_size p"
  "dp_get_data_size (p\<lparr>dp_signature := s\<rparr>) = dp_get_data_size p"
  "dp_get_data_size (p\<lparr>dp_expire := x\<rparr>) = dp_get_data_size p"
  by (simp_all add: dp_get_data_size_def clear_signature_def)

lemma dp_validate_size_fields [simp]:
  "dp_validate_size (clear_signature p) n = dp_validate_size p n"
  "dp_validate_size (p\<lparr>dp_signature := s\<rparr>) n = dp_validate_size p n"
  "dp_validate_size (p\<lparr>dp_expire := x\<rparr>) n = dp_validate_size p n"
  by (simp_all add: dp_validate_size_def)

lemma dp_validate_size_iff:
  "dp_validate_size p n \<longleftrightarrow>
     of_be (dp_data_size p) \<le> DUMB_PAYLOAD_DATA_MAX_SIZE \<and> n = of_be (dp_data_size p) + sizeof_payload"
  by (auto simp: dp_validate_size_def dp_get_data_size_def Let_def)

text \<open>
  A fixed-size text field: what the setter stores, the getter returns; both refuse text that
  does not fit with its terminator.
\<close>

locale cfield =
  fixes put :: "'s \<Rightarrow> string \<Rightarrow> int + 's" and get :: "'s \<Rightarrow> int + string" and cap :: nat
  assumes put_fits: "strlen s < cap \<Longrightarrow> \<exists>p'. put p s = Inr p' \<and> get p' = Inr (cstr s)"
    and put_big: "cap \<le> strlen s \<Longrightarrow> put p s = Inl EOVERFLOW"
    and get_fits: "get p = Inr s \<Longrightarrow> nul_free s \<and> length s < cap"
begin

lemma put_iff: "(\<exists>p'. put p s = Inr p') \<longleftrightarrow> strlen s < cap"
  by (metis put_fits put_big Inl_Inr_False not_le)

lemma put_get: "put p s = Inr p' \<Longrightarrow> get p' = Inr (cstr s)"
  by (metis put_fits put_big Inl_Inr_False Inr_inject not_le)

lemma get_put_get: "get p = Inr s \<Longrightarrow> \<exists>q. put r s = Inr q \<and> get q = Inr s"
  using get_fits put_fits[of s r] by fastforce

end

lemma field_get:
  assumes "strlen s < 16"
  shows "strlen ((strncpy_field s 16)[15 := NUL]) = strlen s"
    and "cstr ((strncpy_field s 16)[15 := NUL]) = cstr s"
proof -
  let ?t = "cstr s"
  have n: "length ?t < 16" using assms by (simp add: strlen_def)
  have "strncpy_field s 16 = ?t @ replicate (16 - length ?t) NUL"
    using n by (simp add: strncpy_field_def Let_def)
  moreover have "(?t @ replicate (16 - length ?t) NUL)[15 := NUL] = ?t @ replicate (16 - length ?t) NUL"
    using n by (intro list_update_same_conv[THEN iffD2]) (auto simp: nth_append)
  ultimately have e: "(strncpy_field s 16)[15 := NUL] = ?t @ replicate (16 - length ?t) NUL" by simp
  show "cstr ((strncpy_field s 16)[15 := NUL]) = cstr s" by (simp add: e)
  then show "strlen ((strncpy_field s 16)[15 := NUL]) = strlen s"
    by (simp add: strlen_def)
qed

interpretation command_field: cfield dp_set_command dp_get_command COMMAND_SIZE
proof (unfold_locales, goal_cases)
  case (1 s p)
  then show ?case
    using field_get[of s] by (simp add: dp_set_command_def dp_get_command_def Let_def dp_sizes strnlen_eq)
next
  case (2 s p)
  then show ?case by (simp add: dp_set_command_def strnlen_eq)
next
  case (3 p s)
  then show ?case by (auto simp: dp_get_command_def Let_def dp_sizes strnlen_eq strlen_def split: if_splits)
qed

interpretation expire_field: cfield dp_set_expire_str dp_get_expire_str EXPIRE_SIZE
proof (unfold_locales, goal_cases)
  case (1 s p)
  then show ?case
    using field_get[of s] by (simp add: dp_set_expire_str_def dp_get_expire_str_def Let_def dp_sizes strnlen_eq)
next
  case (2 s p)
  then show ?case by (simp add: dp_set_expire_str_def strnlen_eq)
next
  case (3 p s)
  then show ?case by (auto simp: dp_get_expire_str_def Let_def dp_sizes strnlen_eq strlen_def split: if_splits)
qed

interpretation code_chars: char_whitelist SECRET_CODE_ALLOWED_CHARS dumb_code_verify_chars
  by unfold_locales (simp_all add: dumb_code_verify_chars_def SECRET_CODE_ALLOWED_CHARS_def)

end
