(* ===== verification/Samples.thy ===== *)
theory Samples
  imports Payload
begin

text \<open>
  Concrete values at which the properties are instantiated: a world in which every call
  succeeds, one with a connected socket, a signature scheme that accepts exactly what it
  produces for a key, and an empty payload.
\<close>

definition idle_world :: world where
  "idle_world = \<lparr>w_plan = [], w_io = [], w_errno = 0, w_now = 1000, w_ticks = [], w_files = (\<lambda>_. None),
     w_fds = (\<lambda>_. None), w_nextfd = 3, w_sin = [], w_sout = [], w_execs = [], w_exits = [], w_verbosity = 387, w_db = []\<rparr>"

definition sock_world :: "bytes \<Rightarrow> world" where
  "sock_world i = idle_world\<lparr>w_fds := (\<lambda>_. None)(5 \<mapsto> OSock), w_nextfd := 6, w_sin := i\<rparr>"

text \<open>The signature repeats the key and two bytes that depend on the data.\<close>

definition toy_sig :: "bytes \<Rightarrow> bytes \<Rightarrow> bytes" where
  "toy_sig k d = take 62 (k @ k @ zeros 62) @ [char_of (length d), char_of (foldr (\<lambda>c n. n + of_char c) d (0::nat))]"

definition toy_crypto :: crypto where
  "toy_crypto = \<lparr>cr_keygen = (zeros 32, zeros 32), cr_sign = toy_sig,
     cr_verify = (\<lambda>k d s. if s = toy_sig k d then 1 else 0)\<rparr>"

definition zero_key :: string where
  "zero_key = hex_of (\<lambda>n. hex_lower ! n) (zeros 32)"

definition blank_payload :: dumb_payload where
  "blank_payload = \<lparr>dp_signature = zeros 129, dp_expire = zeros 16, dp_command = zeros 16,
       dp_pad = zeros 3, dp_data_size = zeros 4, dp_payload = []\<rparr>"

lemma idle_world_fields [simp]:
  "w_plan idle_world = []" "w_io idle_world = []" "w_now idle_world = 1000" "w_ticks idle_world = []"
  "w_files idle_world = (\<lambda>_. None)" "w_fds idle_world = (\<lambda>_. None)" "w_nextfd idle_world = 3"
  "w_sin idle_world = []" "w_sout idle_world = []" "w_execs idle_world = []" "w_exits idle_world = []"
  by (simp_all add: idle_world_def)

lemma sock_world_fields [simp]:
  "w_plan (sock_world i) = []" "w_io (sock_world i) = []" "w_now (sock_world i) = 1000"
  "w_ticks (sock_world i) = []" "w_files (sock_world i) = (\<lambda>_. None)"
  "w_fds (sock_world i) = (\<lambda>_. None)(5 \<mapsto> OSock)" "w_nextfd (sock_world i) = 6"
  "w_sin (sock_world i) = i" "w_sout (sock_world i) = []" "w_execs (sock_world i) = []"
  by (simp_all add: sock_world_def)

lemma conn_sock_world [simp]: "conn 5 (sock_world i)"
  by (simp add: conn_def)

lemma length_toy_sig [simp]: "length (toy_sig k d) = 64"
  by (simp add: toy_sig_def)

lemma toy_key_pair: "length k = 32 \<Longrightarrow> key_pair toy_crypto k k"
  by (simp add: key_pair_def toy_crypto_def ed_sizes)

lemma blank_payload_wf [simp]: "dp_wf blank_payload"
  by (simp add: dp_wf_def blank_payload_def)

lemma blank_payload_size [simp]: "dp_validate_size blank_payload 168"
  by (simp add: dp_validate_size_iff blank_payload_def of_be_def dp_sizes numeral_eq_Suc)

end
