(* ===== verification/RequestId.thy ===== *)
theory RequestId
  imports Payload Samples
begin

text \<open>
  \<open>requestid.c\<close>: signed, expiring, one-time request identifiers of the phone's HTTP requests,
  and the user record that holds the phone's private key.
\<close>

definition DUMBOS_USERNAME_MAXLEN :: nat where "DUMBOS_USERNAME_MAXLEN = 64"
definition DUMBOS_FANCY_NAME_MAXLEN :: nat where "DUMBOS_FANCY_NAME_MAXLEN = 127"
definition REQUEST_ID_LEN :: nat where "REQUEST_ID_LEN = 64"
definition REQUEST_ID_MAGIC :: string where "REQUEST_ID_MAGIC = ''af123oidoo''"
definition DUMBOS_USER_ALLOWED_CHARS :: string where
  "DUMBOS_USER_ALLOWED_CHARS = ''qwertyuiopasdfghjklzxcvbnmQWERTYUIOPASDFGHJKLZXCVBNM-_1234567890''"
definition REQUESTID_ALLOWED_CHARS :: string where
  "REQUESTID_ALLOWED_CHARS = ''qwertyuiopasdfghjklzxcvbnmQWERTYUIOPASDFGHJKLZXCVBNM1234567890''"
definition DUMBOS_USER_DATA_MAGIC :: bytes where
  "DUMBOS_USER_DATA_MAGIC = ''dp2js9chakqkqe1'' @ [NUL]"
definition DUMBOS_USER_DATA_PATH :: string where
  "DUMBOS_USER_DATA_PATH = ''/dev/dumbos-userdata''"

definition request_id_verify_chars :: "string \<Rightarrow> bool" where
  "request_id_verify_chars request = check_allowed_chars request REQUESTID_ALLOWED_CHARS"

definition dumbos_user_verify_chars :: "string \<Rightarrow> bool" where
  "dumbos_user_verify_chars user = check_allowed_chars user DUMBOS_USER_ALLOWED_CHARS"


section \<open>Requests\<close>

text \<open>The signed text: \<open>asprintf("%s%s%s%lld", user, magic, id, time)\<close>; it may fail to allocate.\<close>

definition request_text :: "string \<Rightarrow> string \<Rightarrow> string \<Rightarrow> string" where
  "request_text user request_id time_str = cstr user @ REQUEST_ID_MAGIC @ cstr request_id @ cstr time_str"

definition request_id_sign ::
  "crypto \<Rightarrow> string \<Rightarrow> string \<Rightarrow> int \<Rightarrow> string \<Rightarrow> (int \<times> string) io" where
  "request_id_sign c user request_id request_time priv_key_hex =
     (if \<not> check_allowed_chars request_id REQUESTID_ALLOWED_CHARS then ret (EINVAL, [])
      else do {
        ok \<leftarrow> fallible;
        if \<not> ok then do { err \<leftarrow> get_errno; ret (err, []) }
        else do {
          sg \<leftarrow> ed25519_sign_hex c priv_key_hex (request_text user request_id (print_lld request_time));
          case sg of
            None \<Rightarrow> do { err \<leftarrow> get_errno; ret (err, []) }
          | Some output \<Rightarrow> ret (0, output) } })"

text \<open>
  \<open>getrandom\<close> delivers \<open>random\<close> (fewer bytes when it is cut short); every byte picks a character
  of the whitelist, as the remainder of a possibly negative \<open>char\<close> converted to \<open>size_t\<close>.
\<close>

definition request_id_generate :: "bool \<Rightarrow> bytes \<Rightarrow> string option" where
  "request_id_generate signed random =
     (if length random \<noteq> REQUEST_ID_LEN then None
      else Some (map (\<lambda>b. REQUESTID_ALLOWED_CHARS !
          nat ((via_char signed (int (code b)) mod (ULONG_MAX + 1)) mod int (strlen REQUESTID_ALLOWED_CHARS))) random))"

definition request_id_verify ::
  "crypto \<Rightarrow> string \<Rightarrow> string \<Rightarrow> string \<Rightarrow> string \<Rightarrow> string \<Rightarrow> int io" where
  "request_id_verify c user request_id request_time_str signature pub_key_hex = do {
     ok \<leftarrow> fallible;
     if \<not> ok then do { err \<leftarrow> get_errno; ret err }
     else do {
       err \<leftarrow> ed25519_verify_hex c pub_key_hex (request_text user request_id request_time_str) signature;
       if err \<noteq> 0 then do { e \<leftarrow> get_errno; ret e }
       else case parse_long_long (cstr request_time_str) of
           Inl _ \<Rightarrow> fail_with EINVAL EINVAL
         | Inr request_time \<Rightarrow> do {
             now \<leftarrow> c_time;
             if c_llong (request_time + DEFAULT_EXPIRE_TIME) < now then fail_with EKEYEXPIRED EKEYEXPIRED
             else ret 0 } } }"


section \<open>User data\<close>

record user_data =
  ud_magic :: bytes
  ud_username :: bytes
  ud_null_byte :: char
  ud_fancy_name :: bytes
  ud_fancy_null_byte :: char
  ud_priv_key_hex :: bytes

definition sizeof_user_data :: nat where
  "sizeof_user_data = 16 + DUMBOS_USERNAME_MAXLEN + 1 + DUMBOS_FANCY_NAME_MAXLEN + 1 + ED25519_PRIVATE_KEY_HEX_SIZE"

lemma sizeof_user_data: "sizeof_user_data = 274"
  by (simp add: sizeof_user_data_def DUMBOS_USERNAME_MAXLEN_def DUMBOS_FANCY_NAME_MAXLEN_def ed_sizes)

definition dumbos_user_data_size :: nat where
  "dumbos_user_data_size = sizeof_user_data"

definition ud_of_bytes :: "bytes \<Rightarrow> user_data" where
  "ud_of_bytes bs = \<lparr>ud_magic = take 16 bs, ud_username = take 64 (drop 16 bs), ud_null_byte = bs ! 80,
     ud_fancy_name = take 127 (drop 81 bs), ud_fancy_null_byte = bs ! 208,
     ud_priv_key_hex = take 65 (drop 209 bs)\<rparr>"

definition ud_bytes :: "user_data \<Rightarrow> bytes" where
  "ud_bytes d = ud_magic d @ ud_username d @ [ud_null_byte d] @ ud_fancy_name d @
     [ud_fancy_null_byte d] @ ud_priv_key_hex d"

text \<open>
  \<open>fread\<close> of the whole record from a file opened with \<open>fopen\<close>: the bytes read, and whether the
  stream is in error or at its end.
\<close>

datatype stream_end = At_data | At_error int | At_eof

definition c_fread :: "string \<Rightarrow> nat \<Rightarrow> (bytes \<times> stream_end) io" where
  "c_fread path n = do {
     x \<leftarrow> next_io;
     cont \<leftarrow> gets (\<lambda>w. file_content w path);
     case x of
       Fail e \<Rightarrow> do { set_errno e; ret ([], At_error e) }
     | _ \<Rightarrow> ret (take n cont, if length cont < n then At_eof else At_data) }"

definition dumbos_alloc_get_user :: "user_data option io" where
  "dumbos_alloc_get_user = do {
     ok \<leftarrow> c_malloc;
     if \<not> ok then ret None
     else do {
       fd \<leftarrow> sys_open DUMBOS_USER_DATA_PATH [];
       if fd < 0 then ret None
       else do {
         set_errno 0;
         (bs, st) \<leftarrow> c_fread DUMBOS_USER_DATA_PATH sizeof_user_data;
         if length bs \<noteq> sizeof_user_data then do {
           err \<leftarrow> get_errno;
           let err = (if st \<noteq> At_data then EIO else err);
           sys_close fd;
           fail_with err None }
         else do {
           sys_close fd;
           let rt = ud_of_bytes bs;
           if ud_magic rt \<noteq> DUMBOS_USER_DATA_MAGIC then fail_with EINVAL None
           else ret (Some (rt\<lparr>ud_null_byte := NUL,
                  ud_priv_key_hex := (ud_priv_key_hex rt)[ED25519_PRIVATE_KEY_HEX_SIZE - 1 := NUL]\<rparr>)) } } } }"

text \<open>
  \<open>memset\<close> runs before the test for NULL, so a failed \<open>malloc\<close> is a crash in the code, not an
  error; the model covers the other case.
\<close>

definition dumbos_alloc_new_user :: "string \<Rightarrow> string \<Rightarrow> int + user_data" where
  "dumbos_alloc_new_user user priv_key_hex =
     (if DUMBOS_USERNAME_MAXLEN - 1 < strlen user then Inl EINVAL
      else if strlen priv_key_hex \<noteq> ED25519_PRIVATE_KEY_HEX_SIZE - 1 then Inl EINVAL
      else Inr \<lparr>ud_magic = DUMBOS_USER_DATA_MAGIC,
        ud_username = snprintf_field (zeros 64) DUMBOS_USERNAME_MAXLEN user,
        ud_null_byte = NUL, ud_fancy_name = zeros 127, ud_fancy_null_byte = NUL,
        ud_priv_key_hex = snprintf_field (zeros 65) ED25519_PRIVATE_KEY_HEX_SIZE priv_key_hex\<rparr>)"

text \<open>The C string at a member runs on into the following members.\<close>

definition dumbos_get_fancy_name :: "user_data \<Rightarrow> string" where
  "dumbos_get_fancy_name data =
     (if ud_fancy_null_byte data \<noteq> NUL then cstr (drop 16 (ud_bytes data))
      else if strlen (drop 81 (ud_bytes data)) = 0 then cstr (drop 16 (ud_bytes data))
      else cstr (drop 81 (ud_bytes data)))"

definition dumbos_set_fancy_name :: "user_data \<Rightarrow> string \<Rightarrow> int + user_data" where
  "dumbos_set_fancy_name data name =
     (let len = strnlen name (DUMBOS_USERNAME_MAXLEN + 1) in
      if DUMBOS_USERNAME_MAXLEN < len then Inl E2BIG
      else Inr (data\<lparr>ud_fancy_name := cstr name @ [NUL] @ drop (len + 1) (ud_fancy_name data),
                     ud_fancy_null_byte := NUL\<rparr>))"


section \<open>Character whitelists\<close>

interpretation user_chars: char_whitelist DUMBOS_USER_ALLOWED_CHARS dumbos_user_verify_chars
  by unfold_locales (simp_all add: dumbos_user_verify_chars_def DUMBOS_USER_ALLOWED_CHARS_def)

interpretation request_chars: char_whitelist REQUESTID_ALLOWED_CHARS request_id_verify_chars
  by unfold_locales (simp_all add: request_id_verify_chars_def REQUESTID_ALLOWED_CHARS_def)

context effect_frame
begin

lemma keeps_request_id_verify [keeps_intros]: "keeps R (request_id_verify c u r t s p)"
  unfolding request_id_verify_def by (intro keeps_intros)

lemma keeps_request_id_sign [keeps_intros]: "keeps R (request_id_sign c u r t p)"
  unfolding request_id_sign_def by (intro keeps_intros)

end


section \<open>Properties\<close>

lemma wp_c_time_quiet: "w_ticks w = [] \<Longrightarrow> wp c_time Q w = Q (w_now w) w"
  by (simp add: wp_def io_simps)

text \<open>
  C26: A request signed by the phone is accepted by the server until 60 seconds after its time
  stamp and refused with EKEYEXPIRED from then on, when the keys match.
\<close>

theorem request_sign_verify:
  assumes "key_pair c pub priv" "request_id_verify_chars rid" "nul_free rid" "nul_free user"
    and "LLONG_MIN \<le> t" "t \<le> LLONG_MAX - 60"
    and "w_plan w = []" "w_plan v = []" "w_ticks v = []"
  shows "\<exists>sig. run_state (request_id_sign c user rid t (hex_of (\<lambda>n. hex_lower ! n) priv)) w = ((0, sig), w) \<and>
    fst (run_state (request_id_verify c user rid (print_lld t) sig (hex_of (\<lambda>n. hex_lower ! n) pub)) v)
      = (if w_now v \<le> t + 60 then 0 else EKEYEXPIRED)"
proof -
  let ?d = "request_text user rid (print_lld t)"
  have k: "length pub = 32" "length priv = 32" "length (cr_sign c priv d) = 64"
    "cr_verify c pub d (cr_sign c priv d) = 1" for d
    using assms(1) by (simp_all add: key_pair_def ed_sizes)
  have "wp (request_id_sign c user rid t (hex_of (\<lambda>n. hex_lower ! n) priv))
      (\<lambda>r w'. r = (0, ed_signature c priv ?d) \<and> w' = w) w"
    using assms(2,7) k by (simp add: request_id_sign_def request_id_verify_chars_def quiet_calls
        wp_fallible_quiet wp_sign_quiet[where k = priv] ed_sizes)
  moreover have "hex_to_bytes (ed_signature c priv ?d) 64 = Inr (cr_sign c priv ?d)"
    by (simp add: ed_signature_def k(3))
  moreover have "parse_long_long (print_lld t) = Inr t"
    using parse_print_lld[of t "[]"] assms(5,6) by simp
  ultimately have "wp (request_id_verify c user rid (print_lld t) (ed_signature c priv ?d) (hex_of (\<lambda>n. hex_lower ! n) pub))
      (\<lambda>r _. r = (if w_now v \<le> t + 60 then 0 else EKEYEXPIRED)) v"
    using assms(5,6,8,9) k by (simp add: request_id_verify_def wp_fallible_quiet
        wp_verify_quiet[where k = pub and g = "cr_sign c priv ?d"] ed_sizes wp_c_time_quiet DEFAULT_EXPIRE_TIME_def)
  with \<open>wp (request_id_sign _ _ _ _ _) _ _\<close> show ?thesis
    by (auto simp: wp_run prod_eq_iff)
qed


lemma request_sign_verify_witness:
  "\<exists>sig. run_state (request_id_sign toy_crypto ''joe'' ''req1'' 990 zero_key) idle_world = ((0, sig), idle_world) \<and>
    fst (run_state (request_id_verify toy_crypto ''joe'' ''req1'' (print_lld 990) sig zero_key) idle_world) = 0"
  unfolding zero_key_def
  using request_sign_verify[OF toy_key_pair, of "zeros 32" "''req1''" "''joe''" 990 idle_world idle_world]
  by (simp add: request_id_verify_chars_def check_allowed_chars_def REQUESTID_ALLOWED_CHARS_def cstr_Cons)

lemma wp_c_time: "(\<And>w'. Q (w_now w) w') \<Longrightarrow> wp c_time Q w"
  by (simp add: wp_def c_time_def)

lemma wp_request_id_verify:
  assumes "\<forall>e. Fail e \<in> set (w_plan w) \<longrightarrow> e \<noteq> 0"
  shows "wp (request_id_verify c user rid ts sig pub) (\<lambda>r w'. r = 0 \<longrightarrow> ed_valid c pub (request_text user rid ts) sig \<and>
    (\<exists>t. parse_long_long (cstr ts) = Inr t \<and> w_now w \<le> c_llong (t + 60))) w"
proof -
  let ?Q = "\<lambda>r w'. r = 0 \<longrightarrow> ed_valid c pub (request_text user rid ts) sig \<and>
    (\<exists>t. parse_long_long (cstr ts) = Inr t \<and> w_now w \<le> c_llong (t + 60))"
  have check: "wp (ed25519_verify_hex c pub (request_text user rid ts) sig) (\<lambda>err w'.
      if err \<noteq> 0 then ?Q (w_errno w') w'
      else wp (case parse_long_long (cstr ts) of
           Inl _ \<Rightarrow> fail_with EINVAL EINVAL
         | Inr request_time \<Rightarrow> do {
             now \<leftarrow> c_time;
             if c_llong (request_time + DEFAULT_EXPIRE_TIME) < now then fail_with EKEYEXPIRED EKEYEXPIRED
             else ret 0 }) ?Q w') w1"
    if "plan_step w w1" for w1
  proof (rule wp_verify_any)
    fix r :: int and w2
    assume 2: "plan_step w1 w2" "r = 0 \<and> ed_valid c pub (request_text user rid ts) sig \<or> r = -1 \<and> w_errno w2 \<noteq> 0"
    have now: "w_now w2 = w_now w" using plan_step_same(2)[OF 2(1)] plan_step_same(2)[OF that] by simp
    have "wp (case parse_long_long (cstr ts) of
           Inl _ \<Rightarrow> fail_with EINVAL EINVAL
         | Inr request_time \<Rightarrow> do {
             now \<leftarrow> c_time;
             if c_llong (request_time + DEFAULT_EXPIRE_TIME) < now then fail_with EKEYEXPIRED EKEYEXPIRED
             else ret 0 }) ?Q w2" if "ed_valid c pub (request_text user rid ts) sig"
    proof (cases "parse_long_long (cstr ts)")
      case (Inr t)
      with that now show ?thesis
        by (auto simp: DEFAULT_EXPIRE_TIME_def not_less intro!: wp_c_time)
    qed simp
    note ok = this
    show "if r \<noteq> 0 then ?Q (w_errno w2) w2
      else wp (case parse_long_long (cstr ts) of
           Inl _ \<Rightarrow> fail_with EINVAL EINVAL
         | Inr request_time \<Rightarrow> do {
             now \<leftarrow> c_time;
             if c_llong (request_time + DEFAULT_EXPIRE_TIME) < now then fail_with EKEYEXPIRED EKEYEXPIRED
             else ret 0 }) ?Q w2"
    proof (cases "r = 0")
      case True
      with 2(2) have "ed_valid c pub (request_text user rid ts) sig" by simp
      from ok[OF this] show ?thesis by (simp only: True simp_thms if_False)
    next
      case False
      with 2(2) show ?thesis by simp
    qed
  qed
  show ?thesis
    unfolding request_id_verify_def wp_bind
  proof (rule wp_fallible_errno)
    fix b w1 assume 1: "plan_step w w1" "b \<or> Fail (w_errno w1) \<in> set (w_plan w)"
    show "wp (if \<not> b then do { err \<leftarrow> get_errno; ret err }
     else do {
       err \<leftarrow> ed25519_verify_hex c pub (request_text user rid ts) sig;
       if err \<noteq> 0 then do { e \<leftarrow> get_errno; ret e }
       else case parse_long_long (cstr ts) of
           Inl _ \<Rightarrow> fail_with EINVAL EINVAL
         | Inr request_time \<Rightarrow> do {
             now \<leftarrow> c_time;
             if c_llong (request_time + DEFAULT_EXPIRE_TIME) < now then fail_with EKEYEXPIRED EKEYEXPIRED
             else ret 0 } }) ?Q w1"
    proof (cases b)
      case True
      with check[OF 1(1)] show ?thesis by (simp cong: if_cong split del: if_split)
    next
      case False
      with 1(2) assms show ?thesis by auto
    qed
  qed
qed

text \<open>
  Whatever fails, \<open>request_id_verify\<close> returns 0 only for a signature OpenSSL accepts over user,
  id and time, with a numeric time at most 60 seconds in the past; any other outcome is non-zero
  as long as the failing call sets a non-zero error number.
\<close>

theorem request_id_verify_sound:
  assumes "run_state (request_id_verify c user rid ts sig pub) w = (r, w')" "r = 0"
    and "\<forall>e. Fail e \<in> set (w_plan w) \<longrightarrow> e \<noteq> 0"
  shows "ed_valid c pub (request_text user rid ts) sig \<and>
    (\<exists>t. parse_long_long (cstr ts) = Inr t \<and> w_now w \<le> c_llong (t + 60))"
  using wpD[OF wp_request_id_verify[OF assms(3)] assms(1)] assms(2) by simp

lemma request_id_verify_sound_witness:
  "\<exists>sig. ed_valid toy_crypto zero_key (request_text ''joe'' ''req1'' (print_lld 990)) sig \<and>
    (\<exists>t. parse_long_long (cstr (print_lld 990)) = Inr t \<and> 1000 \<le> c_llong (t + 60))"
proof -
  obtain sig w1 where 1: "run_state (request_id_verify toy_crypto ''joe'' ''req1'' (print_lld 990) sig zero_key) idle_world = (0, w1)"
  proof -
    assume *: "\<And>sig w1. run_state (request_id_verify toy_crypto ''joe'' ''req1'' (print_lld 990) sig zero_key) idle_world = (0, w1) \<Longrightarrow> thesis"
    let ?d = "request_text ''joe'' ''req1'' (print_lld 990)"
    have "wp (request_id_verify toy_crypto ''joe'' ''req1'' (print_lld 990) (hex_of (\<lambda>n. hex_lower ! n) (toy_sig (zeros 32) ?d)) zero_key)
        (\<lambda>r w. r = 0) idle_world"
      using parse_print_lld[of 990 "[]"]
      by (simp add: request_id_verify_def wp_fallible_quiet zero_key_def wp_c_time_quiet DEFAULT_EXPIRE_TIME_def
          wp_verify_quiet[where k = "zeros 32" and g = "toy_sig (zeros 32) ?d"] ed_sizes toy_crypto_def)
    then show thesis using * by (simp add: wp_run) (metis prod.collapse)
  qed
  from request_id_verify_sound[OF 1] show ?thesis by auto
qed

text \<open>A 9 in front of a number's digits.\<close>

lemma dec_nine_front:
  "0 < n \<Longrightarrow> dec (9 * 10 ^ length (dec n) + n) = CHR ''9'' # dec n"
proof (induction n rule: dec.induct)
  case (1 n)
  show ?case
  proof (cases "n < 10")
    case True
    have "(90 + n) div 10 = 9" by (rule div_nat_eqI) (use True in simp_all)
    moreover have "(90 + n) mod 10 = n" by (rule mod_nat_eqI) (use True in simp_all)
    moreover have "dec (90 + n) = dec ((90 + n) div 10) @ [digit_char ((90 + n) mod 10)]"
      by (subst dec.simps) simp
    moreover have "dec n = [digit_char n]" "dec 9 = [digit_char 9]" using True by (simp_all add: dec.simps[of n] dec.simps[of 9])
    ultimately show ?thesis by simp
  next
    case False
    have "length (dec n) = Suc (length (dec (n div 10)))" by (simp add: dec.simps[of n] False)
    then have e: "9 * 10 ^ length (dec n) + n = 10 * (9 * 10 ^ length (dec (n div 10))) + n" by simp
    have "dec (9 * 10 ^ length (dec n) + n) =
        dec ((9 * 10 ^ length (dec n) + n) div 10) @ [digit_char ((9 * 10 ^ length (dec n) + n) mod 10)]"
      using False by (subst dec.simps) simp
    also have "(9 * 10 ^ length (dec n) + n) div 10 = 9 * 10 ^ length (dec (n div 10)) + n div 10"
      unfolding e by simp
    also have "(9 * 10 ^ length (dec n) + n) mod 10 = n mod 10" unfolding e by (rule mod_mult_self4)
    finally show ?thesis using 1 False by (simp add: dec.simps[of n])
  qed
qed

lemma ten_digits_nine_front:
  assumes "1000000000 \<le> t" "t < 10000000000"
  shows "CHR ''9'' # print_lld t = print_lld (90000000000 + t)"
proof -
  have "1000000000 \<le> nat t" "nat t < 10000000000" using assms by simp_all
  then have "length (dec (nat t)) = 10"
    using length_dec_le[of "nat t" 10] length_dec_ge[of 9 "nat t"] by simp
  with dec_nine_front[of "nat t"] assms show ?thesis by (simp add: print_lld_def nat_add_distrib)
qed

text \<open>
  C28: The signed text does not separate the id from the time.  Dropping a final 9 of the id and
  putting it before the ten-digit time gives the same text, so the signature of a request is also
  a signature of another id with a time stamp thousands of years ahead, which is never too old.
\<close>

theorem request_replay:
  assumes "key_pair c pub priv" "nul_free rid" "request_id_verify_chars rid"
    and "1000000000 \<le> t" "t < 10000000000" "w_plan w = []" "w_plan v = []" "w_ticks v = []"
    and "w_now v \<le> 90000000000"
  shows "\<exists>sig. fst (run_state (request_id_sign c user (rid @ ''9'') t (hex_of (\<lambda>n. hex_lower ! n) priv)) w) = (0, sig) \<and>
    fst (run_state (request_id_verify c user rid (CHR ''9'' # print_lld t) sig (hex_of (\<lambda>n. hex_lower ! n) pub)) v) = 0"
proof -
  let ?T = "90000000000 + t"
  let ?d = "request_text user (rid @ ''9'') (print_lld t)"
  have T: "CHR ''9'' # print_lld t = print_lld ?T"
    by (rule ten_digits_nine_front[OF assms(4,5)])
  have same: "request_text user rid (CHR ''9'' # print_lld t) = ?d"
    using assms(2) by (simp add: request_text_def cstr_Cons)
  have rid9: "request_id_verify_chars (rid @ ''9'')"
    using assms(2,3) by (simp add: request_id_verify_chars_def check_allowed_chars_append)
       (simp add: check_allowed_chars_def REQUESTID_ALLOWED_CHARS_def cstr_Cons)
  have k: "length pub = 32" "length priv = 32" "length (cr_sign c priv d) = 64"
    "cr_verify c pub d (cr_sign c priv d) = 1" for d
    using assms(1) by (simp_all add: key_pair_def ed_sizes)
  have 1: "wp (request_id_sign c user (rid @ ''9'') t (hex_of (\<lambda>n. hex_lower ! n) priv))
      (\<lambda>r w'. r = (0, ed_signature c priv ?d)) w"
    using rid9 assms(6) k by (simp add: request_id_sign_def request_id_verify_chars_def quiet_calls
        wp_fallible_quiet wp_sign_quiet[where k = priv] ed_sizes)
  have dec9: "hex_to_bytes (ed_signature c priv ?d) 64 = Inr (cr_sign c priv ?d)"
    by (simp add: ed_signature_def k(3))
  have "cstr (CHR ''9'' # print_lld t) = CHR ''9'' # print_lld t" by (simp add: cstr_Cons)
  then have "parse_long_long (cstr (CHR ''9'' # print_lld t)) = Inr ?T"
    using parse_print_lld[of ?T "[]"] assms(4,5) T by simp
  then have 2: "wp (request_id_verify c user rid (CHR ''9'' # print_lld t) (ed_signature c priv ?d) (hex_of (\<lambda>n. hex_lower ! n) pub))
      (\<lambda>r _. r = 0) v"
    using assms(4,5,7,8,9) k dec9 by (simp add: request_id_verify_def wp_fallible_quiet same
        wp_verify_quiet[where k = pub and g = "cr_sign c priv ?d"] ed_sizes wp_c_time_quiet DEFAULT_EXPIRE_TIME_def)
  from 1 2 show ?thesis by (auto simp: wp_run)
qed

lemma request_replay_witness:
  "\<exists>sig. fst (run_state (request_id_sign toy_crypto ''joe'' ''abc9'' 1700000000 zero_key) idle_world) = (0, sig) \<and>
    fst (run_state (request_id_verify toy_crypto ''joe'' ''abc'' (CHR ''9'' # print_lld 1700000000) sig zero_key)
      (idle_world\<lparr>w_now := 1900000000\<rparr>)) = 0"
  unfolding zero_key_def
  using request_replay[OF toy_key_pair, of "zeros 32" "''abc''" 1700000000 idle_world "idle_world\<lparr>w_now := 1900000000\<rparr>" "''joe''"]
  by (simp add: request_id_verify_chars_def check_allowed_chars_def REQUESTID_ALLOWED_CHARS_def cstr_Cons)



section \<open>Generated identifiers and the user record\<close>

lemma request_id_generate_chars:
  assumes "request_id_generate signed random = Some rid"
  shows "length rid = 64 \<and> nul_free rid \<and> request_id_verify_chars rid"
proof -
  let ?n = "\<lambda>b. nat ((via_char signed (int (code b)) mod (ULONG_MAX + 1)) mod int (strlen REQUESTID_ALLOWED_CHARS))"
  have len: "strlen REQUESTID_ALLOWED_CHARS = 62" "length REQUESTID_ALLOWED_CHARS = 62"
    by (simp_all add: REQUESTID_ALLOWED_CHARS_def)
  have nf: "nul_free REQUESTID_ALLOWED_CHARS" by (simp add: REQUESTID_ALLOWED_CHARS_def)
  have "?n b < 62" for b by (simp add: len nat_less_iff)
  then have mem: "REQUESTID_ALLOWED_CHARS ! ?n b \<in> set REQUESTID_ALLOWED_CHARS" for b
    by (intro nth_mem) (simp add: len)
  let ?r = "map (\<lambda>b. REQUESTID_ALLOWED_CHARS ! ?n b) random"
  have r: "rid = ?r" "length random = 64"
    using assms by (simp_all add: request_id_generate_def REQUEST_ID_LEN_def split: if_splits)
  have "set ?r \<subseteq> set REQUESTID_ALLOWED_CHARS" using mem by auto
  moreover from this nf have "nul_free ?r" by (auto simp: nul_free_def)
  ultimately show ?thesis
    using nf r by (auto simp: request_id_verify_chars_def check_allowed_chars_def list_all_iff)
qed

text \<open>
  A generated request id has 64 characters, all of the whitelist, whatever the random bytes
  and whether \<open>char\<close> is signed.
\<close>

theorem request_id_generate_ok:
  "case request_id_generate signed random of
     None \<Rightarrow> length random \<noteq> 64
   | Some rid \<Rightarrow> length rid = 64 \<and> nul_free rid \<and> request_id_verify_chars rid"
proof (cases "request_id_generate signed random")
  case None
  then show ?thesis by (simp add: request_id_generate_def REQUEST_ID_LEN_def split: if_splits)
next
  case (Some rid)
  from request_id_generate_chars[OF this] Some show ?thesis by simp
qed

definition ud_wf :: "user_data \<Rightarrow> bool" where
  "ud_wf d \<longleftrightarrow> ud_magic d = DUMBOS_USER_DATA_MAGIC \<and> length (ud_username d) = 64 \<and> ud_null_byte d = NUL \<and>
     length (ud_fancy_name d) = 127 \<and> length (ud_priv_key_hex d) = 65 \<and> ud_priv_key_hex d ! 64 = NUL"

lemma length_magic: "length DUMBOS_USER_DATA_MAGIC = 16"
  by (simp add: DUMBOS_USER_DATA_MAGIC_def)

lemma length_ud_bytes: "ud_wf d \<Longrightarrow> length (ud_bytes d) = 274"
  by (simp add: ud_wf_def ud_bytes_def length_magic)

lemma ud_of_bytes_bytes: "ud_wf d \<Longrightarrow> ud_of_bytes (ud_bytes d) = d"
  by (cases d) (simp add: ud_wf_def ud_bytes_def ud_of_bytes_def length_magic nth_append)

lemma ud_wf_terminated:
  assumes "ud_wf d"
  shows "d\<lparr>ud_null_byte := NUL, ud_priv_key_hex := (ud_priv_key_hex d)[64 := NUL]\<rparr> = d"
proof -
  have "(ud_priv_key_hex d)[64 := NUL] = ud_priv_key_hex d"
    using assms by (simp add: ud_wf_def list_update_same_conv)
  then show ?thesis using assms by (cases d) (simp add: ud_wf_def)
qed

lemma dumbos_alloc_new_user_wf: "dumbos_alloc_new_user u k = Inr d \<Longrightarrow> ud_wf d"
  by (auto simp: dumbos_alloc_new_user_def ud_wf_def snprintf_field_def Let_def strlen_def nth_append
      DUMBOS_USERNAME_MAXLEN_def ed_sizes split: if_splits)

lemma wp_fread_done:
  "w_io w = [] \<Longrightarrow> w_files w path = Some (Reg bs) \<Longrightarrow> length bs = n \<Longrightarrow>
   wp (c_fread path n) Q w = Q (bs, At_data) w"
  by (simp add: wp_def c_fread_def next_io_def file_content_def)

lemma new_user_fields:
  assumes "dumbos_alloc_new_user u k = Inr d"
  shows "cstr (ud_username d) = cstr u" "cstr (ud_priv_key_hex d) = cstr k"
  using assms by (auto simp: dumbos_alloc_new_user_def DUMBOS_USERNAME_MAXLEN_def ed_sizes
      cstr_snprintf_field strlen_def split: if_splits)

lemma wp_get_user_stored:
  assumes "ud_wf d" "w_plan w = []" "w_io w = []" "w_files w DUMBOS_USER_DATA_PATH = Some (Reg (ud_bytes d))"
    and "0 \<le> w_nextfd w"
  shows "wp dumbos_alloc_get_user (\<lambda>r _. r = Some d) w"
  using assms length_ud_bytes[OF assms(1)] ud_of_bytes_bytes[OF assms(1)] ud_wf_terminated[OF assms(1)]
  by (simp add: dumbos_alloc_get_user_def wp_malloc_quiet wp_open_rdonly_quiet sizeof_user_data
      wp_fread_done[where bs = "ud_bytes d"] ed_sizes ud_wf_def)

text \<open>
  The record made for a user and a private key, stored on the device, is loaded back by
  \<open>dumbos_alloc_get_user\<close> with exactly that user name and key; its display name is the user name.
\<close>

theorem user_data_roundtrip:
  assumes "dumbos_alloc_new_user u k = Inr d"
    and "w_plan w = []" "w_io w = []" "w_files w DUMBOS_USER_DATA_PATH = Some (Reg (ud_bytes d))"
    and "0 \<le> w_nextfd w"
  shows "fst (run_state dumbos_alloc_get_user w) = Some d \<and> cstr (ud_username d) = cstr u \<and>
    cstr (ud_priv_key_hex d) = cstr k \<and> dumbos_get_fancy_name d = cstr u"
proof -
  have wf: "ud_wf d" using assms(1) by (rule dumbos_alloc_new_user_wf)
  have "wp dumbos_alloc_get_user (\<lambda>r _. r = Some d) w"
    by (rule wp_get_user_stored[OF wf]) (use assms in simp_all)
  moreover have f: "ud_username d = snprintf_field (zeros 64) 64 u" "ud_fancy_name d = zeros 127"
      "ud_fancy_null_byte d = NUL" "ud_magic d = DUMBOS_USER_DATA_MAGIC" "ud_null_byte d = NUL"
      "ud_priv_key_hex d = snprintf_field (zeros 65) 65 k" "strlen u \<le> 63" "strlen k = 64"
    using assms(1) by (auto simp: dumbos_alloc_new_user_def DUMBOS_USERNAME_MAXLEN_def ed_sizes split: if_splits)
  moreover note new_user_fields[OF assms(1)]
  moreover have "dumbos_get_fancy_name d = cstr u"
  proof -
    have "drop 81 (ud_bytes d) = zeros 127 @ [NUL] @ ud_priv_key_hex d"
      using wf f(2,3) by (simp add: ud_bytes_def ud_wf_def length_magic)
    then have "strlen (drop 81 (ud_bytes d)) = 0" by (simp add: strlen_def cstr_Cons numeral_eq_Suc)
    moreover have "drop 16 (ud_bytes d) = ud_username d @ NUL # zeros 127 @ [NUL] @ ud_priv_key_hex d"
      using wf f(2,3,5) by (simp add: ud_bytes_def ud_wf_def length_magic)
    moreover have "ud_username d = cstr u @ NUL # drop (Suc (length (cstr u))) (zeros 64)"
      using f(1,7) by (simp add: snprintf_field_def Let_def strlen_def)
    ultimately show ?thesis using f(3) by (simp add: dumbos_get_fancy_name_def)
  qed
  ultimately show ?thesis by (simp add: wp_run)
qed

text \<open>
  The display name field holds 126 characters, but \<open>dumbos_set_fancy_name\<close> tests against the
  user name's limit: names of 65 characters and more are refused with E2BIG although they fit,
  shorter ones are stored and returned.
\<close>

theorem fancy_name_limit:
  assumes "ud_wf d" "nul_free name" "name \<noteq> []"
  shows "case dumbos_set_fancy_name d name of
      Inl e \<Rightarrow> e = E2BIG \<and> 64 < length name
    | Inr d' \<Rightarrow> length name \<le> 64 \<and> dumbos_get_fancy_name d' = name"
proof (cases "64 < length name")
  case True
  with assms(2) show ?thesis
    by (simp add: dumbos_set_fancy_name_def strnlen_eq DUMBOS_USERNAME_MAXLEN_def)
next
  case False
  let ?d = "d\<lparr>ud_fancy_name := name @ [NUL] @ drop (length name + 1) (ud_fancy_name d), ud_fancy_null_byte := NUL\<rparr>"
  have set: "dumbos_set_fancy_name d name = Inr ?d"
    using False assms(2) by (simp add: dumbos_set_fancy_name_def strnlen_eq DUMBOS_USERNAME_MAXLEN_def Let_def)
  have "\<exists>t. drop 81 (ud_bytes ?d) = name @ NUL # t"
    using assms(1) False by (simp add: ud_bytes_def ud_wf_def length_magic)
  then obtain t where "drop 81 (ud_bytes ?d) = name @ NUL # t" by blast
  with assms(2,3) have "dumbos_get_fancy_name ?d = name" by (simp add: dumbos_get_fancy_name_def strlen_def)
  with set False show ?thesis by simp
qed

lemma blank_user: "\<exists>d. dumbos_alloc_new_user ''joe'' zero_key = Inr d"
  by (simp add: dumbos_alloc_new_user_def DUMBOS_USERNAME_MAXLEN_def ed_sizes zero_key_def)

lemma user_data_roundtrip_witness:
  "\<exists>d. dumbos_alloc_new_user ''joe'' zero_key = Inr d \<and>
     fst (run_state dumbos_alloc_get_user
       (idle_world\<lparr>w_files := [DUMBOS_USER_DATA_PATH \<mapsto> Reg (ud_bytes d)]\<rparr>)) = Some d"
proof -
  obtain d where d: "dumbos_alloc_new_user ''joe'' zero_key = Inr d" using blank_user by blast
  from user_data_roundtrip[OF d, of "idle_world\<lparr>w_files := [DUMBOS_USER_DATA_PATH \<mapsto> Reg (ud_bytes d)]\<rparr>"] d
  show ?thesis by simp
qed

lemma fancy_name_limit_witness:
  "\<exists>d. dumbos_alloc_new_user ''joe'' zero_key = Inr d \<and>
     (case dumbos_set_fancy_name d ''Joe Doe'' of Inl e \<Rightarrow> False | Inr d' \<Rightarrow> dumbos_get_fancy_name d' = ''Joe Doe'')"
proof -
  obtain d where d: "dumbos_alloc_new_user ''joe'' zero_key = Inr d" using blank_user by blast
  from fancy_name_limit[OF dumbos_alloc_new_user_wf[OF d], of "''Joe Doe''"] d
  show ?thesis by (auto split: sum.splits)
qed

end
