(* ===== verification/Server.thy ===== *)
theory Server
  imports Payload RequestId
begin

text \<open>
  The server (\<open>server/src/dp_load.c\<close>, \<open>main.c\<close>, \<open>dumb_handler.c\<close>, \<open>dumb_log.c\<close>): HTTP requests
  that hand out signed payloads to authenticated users, each request id once.  libmicrohttpd is
  outside: it calls \<open>handle_request\<close> as its documentation says, and creating or queueing a
  response may fail by the world's plan.  The query arguments of a connection are a function to
  C strings.  A stdio stream that is written delivers its contents when it is closed; \<open>asprintf\<close>
  is taken to succeed where the code does not look at its result.
\<close>

definition CODE_FILE_PATH :: string where "CODE_FILE_PATH = ''dumb-codes/''"
definition CODE_FILE_PREFIX :: string where "CODE_FILE_PREFIX = ''code-''"
definition USERDATA_PREFIX :: string where "USERDATA_PREFIX = ''user/''"
definition SERVER_USER_PUBKEY_FILE :: string where "SERVER_USER_PUBKEY_FILE = ''pubkey''"

text \<open>What is not in the sources: OpenSSL, the private key, and the local time as text.\<close>

record server =
  sv_crypto :: crypto
  sv_privkey :: string
  sv_timestamp :: "int \<Rightarrow> string"

type_synonym query = "string \<Rightarrow> string option"

definition query_value :: "query \<Rightarrow> string \<Rightarrow> string option" where
  "query_value q k = map_option cstr (q k)"


section \<open>Loading and signing a code's payload\<close>

definition check_load_fd :: "crypto \<Rightarrow> int \<Rightarrow> string \<Rightarrow> (dumb_payload \<times> nat) option io" where
  "check_load_fd c codefd private_key = do {
     st \<leftarrow> sys_fstat codefd;
     case st of
       None \<Rightarrow> do { sys_close codefd; ret None }
     | Some (_, sz) \<Rightarrow>
         if sz < sizeof_payload then do { set_errno EINVAL; sys_close codefd; ret None }
         else do {
           ok \<leftarrow> c_malloc;
           if \<not> ok then do { sys_close codefd; ret None }
           else do {
             r \<leftarrow> read_all codefd sz;
             case r of
               None \<Rightarrow> do { sys_close codefd; ret None }
             | Some bs \<Rightarrow>
                 if c_int (int sz) < 0 then do { sys_close codefd; ret None }
                 else do {
                   (expired, payload) \<leftarrow> dp_is_expired (dp_of_bytes bs);
                   if expired then do { sys_close codefd; ret None }
                   else do {
                     l \<leftarrow> sys_lseek0 codefd;
                     err \<leftarrow> (if l < 0 then ret l else write_all codefd (take sz (dp_bytes payload)));
                     sys_close codefd;
                     if err < 0 then ret None
                     else do {
                       (err, payload) \<leftarrow> dp_sign c payload sz private_key;
                       if err < 0 then ret None else ret (Some (payload, sz)) } } } } } }"

definition dp_malloc_check_load ::
  "crypto \<Rightarrow> string \<Rightarrow> string \<Rightarrow> string \<Rightarrow> (dumb_payload \<times> nat) option io" where
  "dp_malloc_check_load c scode username private_key =
     (if \<not> check_allowed_chars scode SECRET_CODE_ALLOWED_CHARS then ret None
      else do {
        ok \<leftarrow> c_malloc;
        let path = CODE_FILE_PATH @ CODE_FILE_PREFIX @ scode;
        if \<not> ok then ret None
        else if PATH_MAX \<le> length path then ret None
        else do {
          ok \<leftarrow> c_malloc;
          let userpath = USERDATA_PREFIX @ username @ ''/'' @ CODE_FILE_PREFIX @ scode;
          if \<not> ok then ret None
          else if PATH_MAX \<le> length userpath then ret None
          else do {
            codefd \<leftarrow> sys_open userpath [O_WRITE];
            codefd \<leftarrow> (if codefd < 0 then sys_open path [O_WRITE] else ret codefd);
            if codefd < 0 then ret None
            else check_load_fd c codefd private_key } } })"


section \<open>Responses\<close>

record http_response =
  hr_status :: nat
  hr_headers :: "(string \<times> string) list"
  hr_body :: bytes

text \<open>What a callback gives back: \<open>MHD_NO\<close>, \<open>MHD_YES\<close> alone, or \<open>MHD_YES\<close> with a response queued.\<close>

datatype reply = MHD_NO | MHD_YES | Queued http_response

abbreviation (input) MHD_HTTP_OK :: nat where "MHD_HTTP_OK \<equiv> 200"
abbreviation (input) MHD_HTTP_BAD_REQUEST :: nat where "MHD_HTTP_BAD_REQUEST \<equiv> 400"
abbreviation (input) MHD_HTTP_NOT_FOUND :: nat where "MHD_HTTP_NOT_FOUND \<equiv> 404"
abbreviation (input) MHD_HTTP_METHOD_NOT_ALLOWED :: nat where "MHD_HTTP_METHOD_NOT_ALLOWED \<equiv> 405"
abbreviation (input) MHD_HTTP_CONTENT_TOO_LARGE :: nat where "MHD_HTTP_CONTENT_TOO_LARGE \<equiv> 413"
abbreviation (input) MHD_HTTP_URI_TOO_LONG :: nat where "MHD_HTTP_URI_TOO_LONG \<equiv> 414"
abbreviation (input) MHD_HTTP_INTERNAL_SERVER_ERROR :: nat where "MHD_HTTP_INTERNAL_SERVER_ERROR \<equiv> 500"

definition queue_response :: "http_response \<Rightarrow> reply io" where
  "queue_response r = do {
     ok \<leftarrow> fallible;
     if \<not> ok then ret MHD_NO
     else do { ok \<leftarrow> fallible; ret (if ok then Queued r else MHD_NO) } }"

definition server_headers :: "string \<Rightarrow> (string \<times> string) list" where
  "server_headers content_type = [(''Content-Type'', content_type), (''X-Server'', ''c-http-server-demo'')]"

definition queue_bytes_response :: "nat \<Rightarrow> string \<Rightarrow> bytes \<Rightarrow> reply io" where
  "queue_bytes_response status content_type d =
     queue_response \<lparr>hr_status = status, hr_headers = server_headers content_type, hr_body = d\<rparr>"

definition queue_text_response :: "nat \<Rightarrow> string \<Rightarrow> string \<Rightarrow> reply io" where
  "queue_text_response status content_type body =
     queue_response \<lparr>hr_status = status, hr_headers = server_headers content_type, hr_body = cstr body\<rparr>"

definition queue_owned_file_response :: "nat \<Rightarrow> string \<Rightarrow> bytes \<Rightarrow> reply io" where
  "queue_owned_file_response status content_type d =
     queue_response \<lparr>hr_status = status, hr_headers = server_headers content_type, hr_body = d\<rparr>"

abbreviation (input) NL :: char where "NL \<equiv> CHR 0x0A"
abbreviation (input) TEXT_PLAIN :: string where "TEXT_PLAIN \<equiv> ''text/plain; charset=utf-8''"

definition queue_method_not_allowed :: "reply io" where
  "queue_method_not_allowed = queue_response
     \<lparr>hr_status = MHD_HTTP_METHOD_NOT_ALLOWED, hr_headers = [(''Content-Type'', TEXT_PLAIN), (''Allow'', ''GET, POST'')],
      hr_body = ''405 Method Not Allowed'' @ [NL]\<rparr>"

definition not_found :: "reply io" where
  "not_found = queue_text_response MHD_HTTP_NOT_FOUND TEXT_PLAIN (''404 Not Found'' @ [NL])"


section \<open>The secret code endpoint\<close>

text \<open>
  Authenticating the request and claiming its id: the descriptor of the new request file, or
  \<open>None\<close> for a 404.
\<close>

definition claim_request :: "server \<Rightarrow> string \<Rightarrow> string \<Rightarrow> string \<Rightarrow> string \<Rightarrow> int option io" where
  "claim_request sv user requestid requestsig requesttime = do {
     let userpath = USERDATA_PREFIX @ user @ ''/'';
     let user_pubkey_path = userpath @ SERVER_USER_PUBKEY_FILE;
     let request_data_path = userpath @ ''/request-'' @ requestid;
     user_pubkey_file \<leftarrow> sys_open user_pubkey_path [];
     if user_pubkey_file < 0 then ret None
     else do {
       set_errno 0;
       (user_pubkey, st) \<leftarrow> c_fread user_pubkey_path (ED25519_PUBLIC_KEY_HEX_SIZE - 1);
       if length user_pubkey \<noteq> ED25519_PUBLIC_KEY_HEX_SIZE - 1 then do { sys_close user_pubkey_file; ret None }
       else do {
         sys_close user_pubkey_file;
         err \<leftarrow> request_id_verify (sv_crypto sv) user requestid requesttime requestsig (cstr (user_pubkey @ [NUL]));
         if err \<noteq> 0 then ret None
         else do {
           fd \<leftarrow> sys_open request_data_path [O_WRITE, O_CREAT, O_EXCL];
           if fd < 0 then ret None
           else do {
             ok \<leftarrow> fallible;
             ret (if ok then Some fd else None) } } } } }"

text \<open>The payload of the code, after the request has been claimed.\<close>

definition serve_code :: "server \<Rightarrow> string \<Rightarrow> string \<Rightarrow> int \<Rightarrow> reply io" where
  "serve_code sv scode user request_file = do {
     response \<leftarrow> dp_malloc_check_load (sv_crypto sv) scode user (sv_privkey sv);
     case response of
       None \<Rightarrow> do { sys_close request_file; not_found }
     | Some (response, responselen) \<Rightarrow> do {
         t \<leftarrow> c_time;
         write_all request_file (cstr (sv_timestamp sv t) @ [NL] @ dp_command response @ [NL]);
         sys_close request_file;
         queue_bytes_response MHD_HTTP_OK TEXT_PLAIN (take responselen (dp_bytes response)) } }"

definition dumb_handler :: "server \<Rightarrow> query \<Rightarrow> reply io" where
  "dumb_handler sv q =
     (case (query_value q ''code'', query_value q ''user'', query_value q ''requestid'',
         query_value q ''requestsig'', query_value q ''time'') of
        (Some scode, Some user, Some requestid, Some requestsig, Some requesttime) \<Rightarrow>
          if \<not> check_allowed_chars user DUMBOS_USER_ALLOWED_CHARS then not_found
          else if \<not> check_allowed_chars requestid REQUESTID_ALLOWED_CHARS then not_found
          else do {
            request_file \<leftarrow> claim_request sv user requestid requestsig requesttime;
            case request_file of
              None \<Rightarrow> not_found
            | Some fd \<Rightarrow> serve_code sv scode user fd }
      | _ \<Rightarrow> not_found)"


section \<open>Uploads\<close>

text \<open>The state of a request; a \<open>NULL\<close> body is the empty one, the length is the body's.\<close>

record request_state =
  rs_body :: bytes
  rs_body_too_large :: bool
  rs_allocation_failed :: bool

definition MAX_UPLOAD_BYTES :: nat where "MAX_UPLOAD_BYTES = 65536"

definition append_upload_data :: "request_state \<Rightarrow> bytes \<Rightarrow> (bool \<times> request_state) io" where
  "append_upload_data st d =
     (if d = [] then ret (True, st)
      else if MAX_UPLOAD_BYTES < length (rs_body st) + length d then ret (False, st\<lparr>rs_body_too_large := True\<rparr>)
      else do {
        ok \<leftarrow> c_malloc;
        if \<not> ok then ret (False, st\<lparr>rs_allocation_failed := True\<rparr>)
        else ret (True, st\<lparr>rs_body := rs_body st @ d\<rparr>) })"

definition dumb_log_upload_handler :: "server \<Rightarrow> query \<Rightarrow> request_state \<Rightarrow> reply io" where
  "dumb_log_upload_handler sv q st =
     (case (query_value q ''user'', query_value q ''requestsig'', query_value q ''requestid'') of
        (Some user, Some requestsig, Some requestid) \<Rightarrow>
          if \<not> check_allowed_chars user DUMBOS_USER_ALLOWED_CHARS then not_found
          else if rs_body_too_large st \<or> rs_allocation_failed st then not_found
          else do {
            let user_pubkey_file_path = USERDATA_PREFIX @ user @ ''/'' @ SERVER_USER_PUBKEY_FILE;
            user_pubkey_file \<leftarrow> sys_open user_pubkey_file_path [];
            if user_pubkey_file < 0 then not_found
            else do {
              set_errno 0;
              (user_pubkey_hex, e) \<leftarrow> c_fread user_pubkey_file_path (ED25519_PUBLIC_KEY_HEX_SIZE - 1);
              if length user_pubkey_hex \<noteq> ED25519_PUBLIC_KEY_HEX_SIZE - 1 then do { sys_close user_pubkey_file; not_found }
              else do {
                err \<leftarrow> request_id_verify (sv_crypto sv) user requestid ''TODO'' requestsig (cstr (user_pubkey_hex @ [NUL]));
                if err \<noteq> 0 then not_found
                else queue_text_response MHD_HTTP_OK TEXT_PLAIN (''ok'' @ [NL]) } } }
      | _ \<Rightarrow> not_found)"


section \<open>Routes\<close>

definition handle_get :: "server \<Rightarrow> query \<Rightarrow> string \<Rightarrow> reply io" where
  "handle_get sv q url =
     (if url = ''/dumb'' then dumb_handler sv q
      else if url = ''/time'' then do {
        t \<leftarrow> c_time;
        queue_text_response MHD_HTTP_OK TEXT_PLAIN (print_lld t) }
      else not_found)"

definition handle_post :: "server \<Rightarrow> query \<Rightarrow> string \<Rightarrow> request_state \<Rightarrow> reply io" where
  "handle_post sv q url st =
     (if rs_allocation_failed st then
        queue_text_response MHD_HTTP_INTERNAL_SERVER_ERROR TEXT_PLAIN (''500 Failed to allocate memory'' @ [NL])
      else if rs_body_too_large st then
        queue_text_response MHD_HTTP_CONTENT_TOO_LARGE TEXT_PLAIN (''413 Request body too large'' @ [NL])
      else if url = ''/logupload'' then dumb_log_upload_handler sv q st
      else if url = ''/echo'' then queue_bytes_response MHD_HTTP_OK TEXT_PLAIN (rs_body st)
      else queue_text_response MHD_HTTP_NOT_FOUND TEXT_PLAIN (''404 POST route not found'' @ [NL]))"

definition handle_request ::
  "server \<Rightarrow> query \<Rightarrow> string \<Rightarrow> string \<Rightarrow> bytes \<Rightarrow> request_state option \<Rightarrow> (reply \<times> request_state option) io" where
  "handle_request sv q url method upload_data con_cls =
     (case con_cls of
        None \<Rightarrow> do {
          ok \<leftarrow> c_malloc;
          if \<not> ok then ret (MHD_NO, None)
          else ret (MHD_YES, Some \<lparr>rs_body = [], rs_body_too_large = False, rs_allocation_failed = False\<rparr>) }
      | Some st \<Rightarrow>
          if method = ''GET'' then do { r \<leftarrow> handle_get sv q url; ret (r, Some st) }
          else if method = ''POST'' then
            (if upload_data \<noteq> [] then do {
               (ok, st) \<leftarrow> append_upload_data st upload_data;
               ret (MHD_YES, Some st) }
             else do { r \<leftarrow> handle_post sv q url st; ret (r, Some st) })
          else do { r \<leftarrow> queue_method_not_allowed; ret (r, Some st) })"

definition request_completed :: "request_state option \<Rightarrow> request_state option" where
  "request_completed con_cls = None"


section \<open>Static files\<close>

text \<open>Not routed by \<open>handle_get\<close>.\<close>

definition MAX_STATIC_FILE_BYTES :: nat where "MAX_STATIC_FILE_BYTES = 1048576"
definition STATIC_PREFIX :: string where "STATIC_PREFIX = ''/static/''"

definition starts_with :: "string \<Rightarrow> string \<Rightarrow> bool" where
  "starts_with s p \<longleftrightarrow> take (length p) s = p"

text \<open>The suffix from the last dot on (\<open>strrchr\<close>).\<close>

definition last_dot :: "string \<Rightarrow> string option" where
  "last_dot path = (if CHR ''.'' \<in> set path
     then Some (CHR ''.'' # rev (takeWhile (\<lambda>c. c \<noteq> CHR ''.'') (rev path))) else None)"

definition guess_content_type :: "string \<Rightarrow> string" where
  "guess_content_type path =
     (case last_dot path of
        None \<Rightarrow> ''application/octet-stream''
      | Some dot \<Rightarrow>
          if dot = ''.html'' then ''text/html; charset=utf-8''
          else if dot = ''.txt'' then ''text/plain; charset=utf-8''
          else if dot = ''.json'' then ''application/json; charset=utf-8''
          else if dot = ''.css'' then ''text/css; charset=utf-8''
          else if dot = ''.js'' then ''application/javascript; charset=utf-8''
          else if dot = ''.png'' then ''image/png''
          else if dot = ''.jpg'' \<or> dot = ''.jpeg'' then ''image/jpeg''
          else ''application/octet-stream'')"

definition read_file_into_memory :: "string \<Rightarrow> bytes option io" where
  "read_file_into_memory path = do {
     fp \<leftarrow> sys_open path [];
     if fp < 0 then ret None
     else do {
       st \<leftarrow> sys_fstat fp;
       case st of
         None \<Rightarrow> do { sys_close fp; ret None }
       | Some (_, sz) \<Rightarrow>
           if MAX_STATIC_FILE_BYTES < sz then do { sys_close fp; ret None }
           else do {
             s \<leftarrow> sys_lseek0 fp;
             if s < 0 then do { sys_close fp; ret None }
             else do {
               ok \<leftarrow> c_malloc;
               if \<not> ok then do { sys_close fp; ret None }
               else do {
                 (buffer, e) \<leftarrow> c_fread path sz;
                 if length buffer \<noteq> sz then do { sys_close fp; ret None }
                 else do { sys_close fp; ret (Some buffer) } } } } } }"

definition serve_static_file :: "string \<Rightarrow> reply io" where
  "serve_static_file url =
     (let relative_path = drop (length STATIC_PREFIX) url;
          filesystem_path = ''public/'' @ relative_path
      in if relative_path = [] then
           queue_text_response MHD_HTTP_NOT_FOUND TEXT_PLAIN (''404 Static file not found'' @ [NL])
         else if strstr relative_path ''..'' \<or> CHR 0x5C \<in> set relative_path \<or> hd relative_path = CHR ''/'' then
           queue_text_response MHD_HTTP_BAD_REQUEST TEXT_PLAIN (''400 Bad static file path'' @ [NL])
         else if 512 \<le> length filesystem_path then
           queue_text_response MHD_HTTP_URI_TOO_LONG TEXT_PLAIN (''414 URI Too Long'' @ [NL])
         else do {
           d \<leftarrow> read_file_into_memory filesystem_path;
           case d of
             None \<Rightarrow> queue_text_response MHD_HTTP_NOT_FOUND TEXT_PLAIN (''404 Static file not found'' @ [NL])
           | Some file_data \<Rightarrow> queue_owned_file_response MHD_HTTP_OK (guess_content_type filesystem_path) file_data })"


section \<open>Start\<close>

definition parse_port :: "string \<Rightarrow> nat option" where
  "parse_port s =
     (let (v, rest, erange) = strtoul s in
      if erange \<or> rest = s \<or> rest \<noteq> [] then None
      else if v = 0 \<or> 65535 < v then None else Some (nat v))"

text \<open>\<open>main\<close>: the exit status and the port served, if any, until a signal arrives.\<close>

definition server_main :: "string list \<Rightarrow> (nat \<times> nat option) io" where
  "server_main argv =
     (if length argv \<noteq> 2 then ret (1, None)
      else case parse_port (argv ! 1) of
          None \<Rightarrow> ret (1, None)
        | Some port \<Rightarrow> do {
            ok \<leftarrow> fallible;
            if \<not> ok then ret (1, None) else ret (0, Some port) })"

end
