(* ===== verification/ExecWrapper.thy ===== *)
theory ExecWrapper
  imports Samples
begin

text \<open>
  \<open>exec_wrapper.c\<close>: run a program in a child process and wait for it, with the child's \<open>execv\<close>
  error sent back over a close-on-exec pipe.  The programs that were started are recorded in
  \<open>w_execs\<close>; how children end is read from \<open>w_exits\<close>.  What a started program does to the rest
  of the system is outside the model.
\<close>

text \<open>\<open>while (waitpid(pid, &status, 0) < 0) ...\<close> up to the first result that is not \<open>EINTR\<close>.\<close>

definition reap :: "world \<Rightarrow> wstatus option \<times> world" where
  "reap w = (case w_exits w of [] \<Rightarrow> (Some (Exited 0), w) | s # ss \<Rightarrow> (Some s, w\<lparr>w_exits := ss\<rparr>))"

function waitpid_loop :: "world \<Rightarrow> wstatus option \<times> world" where
  "waitpid_loop w = (case w_plan w of
       [] \<Rightarrow> reap w
     | x # xs \<Rightarrow> (let w1 = w\<lparr>w_plan := xs\<rparr> in case x of
           Fail e \<Rightarrow> if e = EINTR then waitpid_loop (w1\<lparr>w_errno := EINTR\<rparr>) else (None, w1\<lparr>w_errno := e\<rparr>)
         | _ \<Rightarrow> reap w1))"
  by pat_completeness auto
termination by (relation "measure (\<lambda>w. length (w_plan w))") auto

declare waitpid_loop.simps [simp del]

definition waitpid_retry :: "wstatus option io" where
  "waitpid_retry = State waitpid_loop"

text \<open>
  \<open>do { n = read(pipe, ...) } while (n < 0 && errno == EINTR)\<close> with \<open>avail\<close> bytes in the pipe and
  the write end closed: the number of bytes read, or -1.
\<close>

function read_pipe_loop :: "nat \<Rightarrow> world \<Rightarrow> int \<times> world" where
  "read_pipe_loop avail w = (case w_io w of
       [] \<Rightarrow> (int avail, w)
     | x # xs \<Rightarrow> (let w1 = w\<lparr>w_io := xs\<rparr> in case x of
           Fail e \<Rightarrow> if e = EINTR then read_pipe_loop avail (w1\<lparr>w_errno := EINTR\<rparr>) else (-1, w1\<lparr>w_errno := e\<rparr>)
         | Short k \<Rightarrow> (int (min avail (Suc k)), w1)
         | _ \<Rightarrow> (int avail, w1)))"
  by pat_completeness auto
termination by (relation "measure (\<lambda>(avail, w). length (w_io w))") auto

declare read_pipe_loop.simps [simp del]

definition read_pipe :: "nat \<Rightarrow> int io" where
  "read_pipe avail = State (read_pipe_loop avail)"

text \<open>
  The child: \<open>None\<close> when the program runs; otherwise the error of \<open>execv\<close>, how much of it was
  written to the pipe, and \<open>_exit(127)\<close>.
\<close>

definition child_exec :: "string \<Rightarrow> string list \<Rightarrow> (int \<times> nat) option io" where
  "child_exec path argv = do {
     x \<leftarrow> next_outcome;
     case x of
       Fail exec_errno \<Rightarrow> do {
         y \<leftarrow> next_io;
         modify (\<lambda>w. w\<lparr>w_exits := Exited 127 # w_exits w\<rparr>);
         ret (Some (exec_errno, case y of Fail _ \<Rightarrow> 0 | _ \<Rightarrow> io_cap y 4)) }
     | _ \<Rightarrow> do {
         modify (\<lambda>w. w\<lparr>w_execs := w_execs w @ [(path, argv)]\<rparr>);
         ret None } }"

text \<open>The parent after \<open>fork\<close>: read the pipe, reap the child, report.\<close>

definition exec_parent :: "(int \<times> nat) option \<Rightarrow> int io" where
  "exec_parent child = do {
     n \<leftarrow> read_pipe (case child of None \<Rightarrow> 0 | Some (_, written) \<Rightarrow> written);
     read_errno \<leftarrow> get_errno;
     let exec_errno = (case child of None \<Rightarrow> 0 | Some (e, _) \<Rightarrow> e);
     if n < 0 then do { waitpid_retry; fail_with read_errno (-1) }
     else if n \<noteq> 0 \<and> n \<noteq> 4 then do { waitpid_retry; fail_with EIO (-1) }
     else if n = 4 then do {
       st \<leftarrow> waitpid_retry;
       case st of None \<Rightarrow> ret (-1) | Some _ \<Rightarrow> fail_with exec_errno (-1) }
     else do {
       st \<leftarrow> waitpid_retry;
       case st of
         None \<Rightarrow> ret (-1)
       | Some (Exited c) \<Rightarrow> ret (int (c mod 256))
       | Some (Signaled s) \<Rightarrow> ret (128 + int s) } }"

definition execv_wrapper :: "string \<Rightarrow> string list \<Rightarrow> int io" where
  "execv_wrapper path argv = do {
     ok \<leftarrow> fallible;
     if \<not> ok then ret (-1)
     else do {
       ok \<leftarrow> fallible;
       if \<not> ok then ret (-1)
       else do {
         ok \<leftarrow> fallible;
         if \<not> ok then ret (-1)
         else do {
           child \<leftarrow> child_exec path argv;
           exec_parent child } } } }"


section \<open>Frames\<close>

context exit_frame
begin

lemma waitpid_loop_frame: "R w (snd (waitpid_loop w))"
proof (induction w rule: waitpid_loop.induct)
  case (1 w)
  have r: "R v (snd (reap v))" for v
    by (auto simp: reap_def frame_refl frame_exits split: list.split)
  show ?case
  proof (cases "w_plan w")
    case Nil
    then show ?thesis using r by (simp add: waitpid_loop.simps[of w])
  next
    case (Cons x xs)
    have p: "R w (w\<lparr>w_plan := xs\<rparr>)" "R w (w\<lparr>w_plan := xs, w_errno := e\<rparr>)" for e
      using Cons frame_trans[OF frame_plan frame_errno, of xs w e] by (auto intro: frame_plan simp: suffix_ConsI)
    show ?thesis
    proof (cases "\<exists>e. x = Fail e")
      case True
      then obtain e where "x = Fail e" by blast
      with 1[OF Cons refl this] Cons p show ?thesis
        by (auto simp: waitpid_loop.simps[of w] Let_def intro: frame_trans)
    next
      case False
      with Cons p r show ?thesis
        by (cases x) (auto simp: waitpid_loop.simps[of w] Let_def intro: frame_trans)
    qed
  qed
qed

lemma keeps_waitpid_retry [keeps_intros]: "keeps R waitpid_retry"
  by (simp add: keeps_def waitpid_retry_def waitpid_loop_frame)

lemma read_pipe_loop_frame: "R w (snd (read_pipe_loop a w))"
proof (induction a w rule: read_pipe_loop.induct)
  case (1 a w)
  show ?case
  proof (cases "w_io w")
    case Nil
    then show ?thesis by (simp add: read_pipe_loop.simps[of a w] frame_refl)
  next
    case (Cons x xs)
    have "R w (w\<lparr>w_io := xs\<rparr>)" by (rule frame_io) (simp add: Cons suffix_ConsI)
    then have p: "R w (w\<lparr>w_io := xs\<rparr>)" "R w (w\<lparr>w_io := xs, w_errno := e\<rparr>)" for e
      by (simp_all add: frame_trans[OF _ frame_errno])
    show ?thesis
    proof (cases "\<exists>e. x = Fail e")
      case True
      then obtain e where "x = Fail e" by blast
      with 1[OF Cons refl this] Cons p show ?thesis
        by (auto simp: read_pipe_loop.simps[of a w] Let_def intro: frame_trans)
    next
      case False
      with Cons p show ?thesis
        by (cases x) (auto simp: read_pipe_loop.simps[of a w] Let_def)
    qed
  qed
qed

lemma keeps_read_pipe [keeps_intros]: "keeps R (read_pipe a)"
  by (simp add: keeps_def read_pipe_def read_pipe_loop_frame)

lemma keeps_case_wstatus [keeps_intros]:
  "(\<And>c. keeps R (f c)) \<Longrightarrow> (\<And>s. keeps R (g s)) \<Longrightarrow> keeps R (case z of Exited c \<Rightarrow> f c | Signaled s \<Rightarrow> g s)"
  by (cases z) simp_all

lemma keeps_exec_parent [keeps_intros]: "keeps R (exec_parent child)"
  unfolding exec_parent_def by (intro keeps_intros)

text \<open>A frame that allows this program to be started allows the whole call.\<close>

lemma keeps_execv_wrapper:
  assumes "\<And>w. R w (w\<lparr>w_execs := w_execs w @ [(path, argv)]\<rparr>)"
  shows "keeps R (execv_wrapper path argv)"
proof -
  have "keeps R (modify (\<lambda>w. w\<lparr>w_execs := w_execs w @ [(path, argv)]\<rparr>))"
    by (simp add: keeps_def assms)
  moreover have "keeps R (modify (\<lambda>w. w\<lparr>w_exits := Exited 127 # w_exits w\<rparr>))"
    by (simp add: keeps_def frame_exits)
  ultimately have "keeps R (child_exec path argv)" unfolding child_exec_def by (intro keeps_intros)
  then show ?thesis unfolding execv_wrapper_def by (intro keeps_intros)
qed

end

lemma keeps_grow_execv [keeps_intros]: "keeps execs_grow (execv_wrapper path argv)"
  by (rule fr_grow.keeps_execv_wrapper) (simp add: execs_grow_def)

lemma keeps_files_execv [keeps_intros]: "keeps same_files (execv_wrapper path argv)"
  by (rule fr_files.keeps_execv_wrapper) (simp add: same_files_def)

lemma keeps_sout_execv [keeps_intros]: "keeps sout_grows (execv_wrapper path argv)"
  by (rule fr_sout.keeps_execv_wrapper) (simp add: sout_grows_def)


section \<open>Results\<close>

lemma waitpid_loop_execs: "w_execs (snd (waitpid_loop w)) = w_execs w"
  using fr_execs.waitpid_loop_frame[of w] by (simp add: same_execs_def)

lemma read_pipe_loop_execs: "w_execs (snd (read_pipe_loop a w)) = w_execs w"
  using fr_execs.read_pipe_loop_frame[of w a] by (simp add: same_execs_def)

lemma read_pipe_loop_exits: "w_exits (snd (read_pipe_loop a w)) = w_exits w"
proof (induction a w rule: read_pipe_loop.induct)
  case (1 a w)
  then show ?case
    by (cases "w_io w") (auto simp: read_pipe_loop.simps[of a w] Let_def split: outcome.split)
qed

lemma read_pipe_loop_bound: "-1 \<le> fst (read_pipe_loop a w) \<and> fst (read_pipe_loop a w) \<le> int a"
proof (induction a w rule: read_pipe_loop.induct)
  case (1 a w)
  then show ?case
    by (cases "w_io w") (auto simp: read_pipe_loop.simps[of a w] Let_def split: outcome.split)
qed

lemma waitpid_loop_status: "fst (waitpid_loop w) = Some s \<Longrightarrow> w_exits w = t # ts \<Longrightarrow> s = t"
proof (induction w rule: waitpid_loop.induct)
  case (1 w)
  then show ?case
    by (cases "w_plan w") (auto simp: waitpid_loop.simps[of w] reap_def Let_def split: outcome.splits if_splits)
qed

lemma wp_read_pipe:
  "(\<And>r w'. -1 \<le> r \<Longrightarrow> r \<le> int a \<Longrightarrow> w_execs w' = w_execs w \<Longrightarrow> w_exits w' = w_exits w \<Longrightarrow> Q r w') \<Longrightarrow>
   wp (read_pipe a) Q w"
  using read_pipe_loop_bound[of a w] by (simp add: read_pipe_def wp_run read_pipe_loop_execs read_pipe_loop_exits)

lemma wp_waitpid:
  "(\<And>r w'. w_execs w' = w_execs w \<Longrightarrow> (\<And>s t ts. r = Some s \<Longrightarrow> w_exits w = t # ts \<Longrightarrow> s = t) \<Longrightarrow> Q r w') \<Longrightarrow>
   wp waitpid_retry Q w"
  using waitpid_loop_status[of w] by (simp add: waitpid_retry_def wp_run waitpid_loop_execs)

lemma wp_next_io_any:
  "(\<And>x w'. w_execs w' = w_execs w \<Longrightarrow> Q x w') \<Longrightarrow> wp next_io Q w"
  by (cases "w_io w") (auto simp: wp_def next_io_def)

lemma wp_next_outcome_any: "(\<And>x w'. plan_step w w' \<Longrightarrow> Q x w') \<Longrightarrow> wp next_outcome Q w"
  by (cases "w_plan w") (auto simp: wp_def next_outcome_def)

lemma wp_case_wstatus [simp]:
  "wp (case z of Exited c \<Rightarrow> f c | Signaled n \<Rightarrow> g n) Q =
   (\<lambda>w. case z of Exited c \<Rightarrow> wp (f c) Q w | Signaled n \<Rightarrow> wp (g n) Q w)"
  by (simp add: fun_eq_iff split: wstatus.split)

lemma wp_case_outcome [simp]:
  "wp (case z of Done \<Rightarrow> a | Short k \<Rightarrow> b k | Zero \<Rightarrow> c | Fail e \<Rightarrow> d e) Q =
   (\<lambda>w. case z of Done \<Rightarrow> wp a Q w | Short k \<Rightarrow> wp (b k) Q w | Zero \<Rightarrow> wp c Q w | Fail e \<Rightarrow> wp (d e) Q w)"
  by (simp add: fun_eq_iff split: outcome.split)

lemma wp_child_exec:
  assumes "\<And>w'. w_execs w' = w_execs w @ [(path, argv)] \<Longrightarrow> Q None w'"
    and "\<And>e k w' ts. w_execs w' = w_execs w \<Longrightarrow> w_exits w' = Exited 127 # ts \<Longrightarrow> Q (Some (e, k)) w'"
  shows "wp (child_exec path argv) Q w"
  unfolding child_exec_def wp_bind
proof (rule wp_next_outcome_any)
  fix x w' assume w': "plan_step w w'"
  note ex = plan_step_same(4)[OF w']
  show "wp (case x of
       Fail exec_errno \<Rightarrow> do {
         y \<leftarrow> next_io;
         modify (\<lambda>w. w\<lparr>w_exits := Exited 127 # w_exits w\<rparr>);
         ret (Some (exec_errno, case y of Fail _ \<Rightarrow> 0 | _ \<Rightarrow> io_cap y 4)) }
     | _ \<Rightarrow> do {
         modify (\<lambda>w. w\<lparr>w_execs := w_execs w @ [(path, argv)]\<rparr>);
         ret None }) Q w'"
    by (cases x) (auto simp: ex intro!: assms wp_next_io_any)
qed

lemma wp_execv:
  assumes "\<And>w'. w_execs w' = w_execs w \<Longrightarrow> Q (-1) w'"
    and "\<And>w'. w_execs w' = w_execs w \<Longrightarrow> Q 127 w'"
    and "\<And>r w'. w_execs w' = w_execs w @ [(path, argv)] \<Longrightarrow> -1 \<le> r \<Longrightarrow> Q r w'"
  shows "wp (execv_wrapper path argv) Q w"
proof -
  have ran: "wp (exec_parent None) Q w'" if "w_execs w' = w_execs w @ [(path, argv)]" for w'
    unfolding exec_parent_def wp_bind
    by (rule wp_read_pipe)
       (auto simp: Let_def that intro!: wp_waitpid assms(3) split: option.split wstatus.split)
  have failed: "wp (exec_parent (Some (e, k))) Q w'"
    if "w_execs w' = w_execs w" "w_exits w' = Exited 127 # ts" for e k w' ts
    unfolding exec_parent_def wp_bind
    by (rule wp_read_pipe)
       (auto simp: Let_def that intro!: wp_waitpid assms(1,2) split: option.split wstatus.split)
  have child: "wp (child_exec path argv) (\<lambda>child. wp (exec_parent child) Q) v" if "plan_step w v" for v
    using plan_step_same(4)[OF that]
    by (intro wp_child_exec) (auto intro!: ran failed)
  have fail: "Q (-1) v" if "plan_step w v" for v
    using plan_step_same(4)[OF that] by (rule assms(1))
  show ?thesis
    unfolding execv_wrapper_def wp_bind
    by (auto intro!: wp_fallible_from[of w] child fail)
qed

text \<open>The status a child's end is reported as.\<close>

definition exit_code :: "wstatus \<Rightarrow> int" where
  "exit_code s = (case s of Exited c \<Rightarrow> int (c mod 256) | Signaled n \<Rightarrow> 128 + int n)"

lemma run_execv_quiet:
  assumes "w_plan w = []" "w_io w = []"
  shows "run_state (execv_wrapper path argv) w =
    (case w_exits w of
       [] \<Rightarrow> (0, w\<lparr>w_execs := w_execs w @ [(path, argv)]\<rparr>)
     | s # ss \<Rightarrow> (exit_code s, w\<lparr>w_execs := w_execs w @ [(path, argv)], w_exits := ss\<rparr>))"
  using assms
  by (auto simp: execv_wrapper_def exec_parent_def child_exec_def read_pipe_def waitpid_retry_def io_simps
      read_pipe_loop.simps waitpid_loop.simps reap_def exit_code_def split: list.split wstatus.split)

text \<open>
  C29: Whatever fails on the way, a run starts at most this one program with these arguments,
  after the programs started before, and reports success (0) only when it did; the only other
  non-negative result of a run that started nothing is 127.
\<close>

theorem execv_wrapper_result:
  assumes "run_state (execv_wrapper path argv) w = (r, w')"
  shows "(w_execs w' = w_execs w \<and> (r = -1 \<or> r = 127)) \<or>
    (w_execs w' = w_execs w @ [(path, argv)] \<and> -1 \<le> r)"
proof -
  have "wp (execv_wrapper path argv) (\<lambda>r w'. (w_execs w' = w_execs w \<and> (r = -1 \<or> r = 127)) \<or>
    (w_execs w' = w_execs w @ [(path, argv)] \<and> -1 \<le> r)) w"
    by (rule wp_execv) simp_all
  from wpD[OF this assms] show ?thesis .
qed


lemma execv_wrapper_result_witness:
  "\<exists>w'. run_state (execv_wrapper ''/bin/true'' [''true'']) idle_world = (0, w') \<and>
     w_execs w' = [(''/bin/true'', [''true''])]"
proof -
  have r: "run_state (execv_wrapper ''/bin/true'' [''true'']) idle_world
      = (0, idle_world\<lparr>w_execs := [(''/bin/true'', [''true''])]\<rparr>)"
    by (simp add: run_execv_quiet)
  from execv_wrapper_result[OF r] r show ?thesis by simp
qed

text \<open>
  When \<open>execv\<close> fails in the child and the pipe and \<open>waitpid\<close> work, the caller gets -1 with
  exactly the child's error number, nothing was started and the child is reaped.
\<close>

theorem execv_error_reported:
  assumes "w_plan w = [Done, Done, Done, Fail e]" "w_io w = Done # replicate n (Fail EINTR)"
  shows "\<exists>w'. run_state (execv_wrapper path argv) w = (-1, w') \<and> w_errno w' = e \<and>
    w_execs w' = w_execs w \<and> w_exits w' = w_exits w"
proof -
  have loop: "w_io v = replicate m (Fail EINTR) \<Longrightarrow>
      \<exists>v'. read_pipe_loop 4 v = (4, v') \<and> w_plan v' = w_plan v \<and> w_execs v' = w_execs v \<and> w_exits v' = w_exits v" for m v
  proof (induction m arbitrary: v)
    case 0
    then show ?case by (simp add: read_pipe_loop.simps[of 4 v])
  next
    case (Suc m)
    let ?v = "v\<lparr>w_io := replicate m (Fail EINTR), w_errno := EINTR\<rparr>"
    from Suc.IH[of ?v] Suc.prems show ?case by (simp add: read_pipe_loop.simps[of 4 v])
  qed
  define v where "v = w\<lparr>w_plan := [], w_io := replicate n (Fail EINTR), w_exits := Exited 127 # w_exits w\<rparr>"
  obtain v' where v': "read_pipe_loop 4 v = (4, v')" "w_plan v' = []" "w_execs v' = w_execs w"
    "w_exits v' = Exited 127 # w_exits w"
    using loop[of v n] by (auto simp: v_def)
  have "run_state (execv_wrapper path argv) w = run_state (exec_parent (Some (e, 4))) v"
    using assms by (simp add: execv_wrapper_def child_exec_def fallible_def next_outcome_def next_io_def v_def)
  also have "\<dots> = (-1, v'\<lparr>w_exits := w_exits w, w_errno := e\<rparr>)"
    using v' by (simp add: exec_parent_def read_pipe_def waitpid_retry_def waitpid_loop.simps[of v'] reap_def)
  finally show ?thesis using v'(3) by simp
qed

lemma execv_error_reported_witness:
  "\<exists>w'. run_state (execv_wrapper ''/bin/none'' [])
      (idle_world\<lparr>w_plan := [Done, Done, Done, Fail ENOENT], w_io := [Done, Fail EINTR]\<rparr>) = (-1, w') \<and> w_errno w' = ENOENT"
  using execv_error_reported[of "idle_world\<lparr>w_plan := [Done, Done, Done, Fail ENOENT], w_io := [Done, Fail EINTR]\<rparr>" ENOENT 1
      "''/bin/none''" "[]"] by auto

end
