(* ===== verification/Curl.thy ===== *)
theory Curl
  imports RequestId
begin

text \<open>
  \<open>daemon/curl.c\<close> and the network half of \<open>daemon/util.c\<close>.  libcurl is a parameter
  (\<open>curl_lib\<close>): whether its calls succeed, what a transfer with given options delivers (the
  pieces handed to the write callback or the header lines, and its code), and its date parser.
  Options are recorded with their values, so that what a transfer was restricted to is visible.
  \<open>CURLOPT_*\<close> are enumeration constants, not macros, so the \<open>#else\<close> branches of
  \<open>#if defined(CURLOPT_...)\<close> are the ones compiled.
\<close>

datatype curlcode = CURLE_OK | CURLE_UNSUPPORTED_PROTOCOL | CURLE_URL_MALFORMAT
  | CURLE_COULDNT_RESOLVE_PROXY | CURLE_COULDNT_RESOLVE_HOST | CURLE_COULDNT_CONNECT
  | CURLE_OPERATION_TIMEDOUT | CURLE_REMOTE_ACCESS_DENIED | CURLE_SSL_CONNECT_ERROR
  | CURLE_SSL_CACERT_BADFILE | CURLE_PEER_FAILED_VERIFICATION | CURLE_HTTP_RETURNED_ERROR
  | CURLE_TOO_MANY_REDIRECTS | CURLE_RECV_ERROR | CURLE_SEND_ERROR | CURLE_OUT_OF_MEMORY
  | CURLE_WRITE_ERROR | CURLE_OTHER nat

datatype curl_val = VLong int | VStr string | VPtr

type_synonym curl_opts = "(string \<times> curl_val) list"

record curl_lib =
  cl_global_ok :: bool
  cl_init_ok :: bool
  cl_setopt :: "string \<Rightarrow> curlcode"
  cl_body :: "curl_opts \<Rightarrow> bytes list"
  cl_headers :: "curl_opts \<Rightarrow> bytes list"
  cl_perform :: "curl_opts \<Rightarrow> curlcode"
  cl_response :: "curl_opts \<Rightarrow> int"
  cl_getdate :: "string \<Rightarrow> int"

definition curlcode_to_errno :: "curlcode \<Rightarrow> int" where
  "curlcode_to_errno rc = (case rc of
       CURLE_OK \<Rightarrow> 0
     | CURLE_UNSUPPORTED_PROTOCOL \<Rightarrow> EPROTONOSUPPORT
     | CURLE_URL_MALFORMAT \<Rightarrow> EINVAL
     | CURLE_COULDNT_RESOLVE_PROXY \<Rightarrow> EHOSTUNREACH
     | CURLE_COULDNT_RESOLVE_HOST \<Rightarrow> EHOSTUNREACH
     | CURLE_COULDNT_CONNECT \<Rightarrow> ECONNREFUSED
     | CURLE_OPERATION_TIMEDOUT \<Rightarrow> ETIMEDOUT
     | CURLE_REMOTE_ACCESS_DENIED \<Rightarrow> EACCES
     | CURLE_SSL_CONNECT_ERROR \<Rightarrow> EACCES
     | CURLE_SSL_CACERT_BADFILE \<Rightarrow> EACCES
     | CURLE_PEER_FAILED_VERIFICATION \<Rightarrow> EACCES
     | CURLE_HTTP_RETURNED_ERROR \<Rightarrow> EPROTO
     | CURLE_TOO_MANY_REDIRECTS \<Rightarrow> ELOOP
     | CURLE_RECV_ERROR \<Rightarrow> ECONNRESET
     | CURLE_SEND_ERROR \<Rightarrow> EPIPE
     | CURLE_OUT_OF_MEMORY \<Rightarrow> ENOMEM
     | CURLE_WRITE_ERROR \<Rightarrow> EIO
     | CURLE_OTHER _ \<Rightarrow> EIO)"

definition starts_with_http_scheme :: "string \<Rightarrow> bool" where
  "starts_with_http_scheme s \<longleftrightarrow> has_prefix s ''http://'' \<or> has_prefix s ''https://''"

definition make_effective_url :: "string \<Rightarrow> string option io" where
  "make_effective_url url =
     (if url = [] then fail_with EINVAL None
      else if starts_with_http_scheme url then do {
        ok \<leftarrow> c_malloc;
        if \<not> ok then fail_with ENOMEM None else ret (Some url) }
      else if strstr url ''://'' then fail_with EPROTONOSUPPORT None
      else do {
        ok \<leftarrow> c_malloc;
        if \<not> ok then fail_with ENOMEM None else ret (Some (''http://'' @ url)) })"

text \<open>\<open>struct download_buffer\<close>: the data, NULL before the first piece, and the callback's error.\<close>

record download_buffer =
  db_data :: "bytes option"
  db_err :: int

definition db_size :: "download_buffer \<Rightarrow> nat" where
  "db_size b = (case db_data b of None \<Rightarrow> 0 | Some d \<Rightarrow> length d)"

text \<open>\<open>write_callback\<close>: the number of bytes taken, and the changed buffer.\<close>

definition write_callback :: "bytes \<Rightarrow> download_buffer \<Rightarrow> (nat \<times> download_buffer) io" where
  "write_callback ptr buf =
     (let incoming = length ptr in
      if incoming = 0 then ret (0, buf)
      else if 18446744073709551615 < db_size buf + incoming then ret (0, buf\<lparr>db_err := EOVERFLOW\<rparr>)
      else do {
        ok \<leftarrow> c_malloc;
        if \<not> ok then ret (0, buf\<lparr>db_err := ENOMEM\<rparr>)
        else ret (incoming,
          buf\<lparr>db_data := Some ((case db_data buf of None \<Rightarrow> [] | Some d \<Rightarrow> d) @ ptr)\<rparr>) })"

text \<open>A transfer stops with \<open>CURLE_WRITE_ERROR\<close> when the callback takes less than it was given.\<close>

fun perform_body :: "bytes list \<Rightarrow> curlcode \<Rightarrow> download_buffer \<Rightarrow> (curlcode \<times> download_buffer) io" where
  "perform_body [] rc buf = ret (rc, buf)"
| "perform_body (c # cs) rc buf = do {
     (n, buf) \<leftarrow> write_callback c buf;
     if n \<noteq> length c then ret (CURLE_WRITE_ERROR, buf) else perform_body cs rc buf }"

text \<open>\<open>SET_CURL_OPT\<close> one after the other: the options set, or the error of the first failure.\<close>

fun set_curl_opts :: "curl_lib \<Rightarrow> curl_opts \<Rightarrow> int + curl_opts" where
  "set_curl_opts lib [] = Inr []"
| "set_curl_opts lib ((n, v) # os) =
     (if cl_setopt lib n \<noteq> CURLE_OK then Inl (curlcode_to_errno (cl_setopt lib n))
      else case set_curl_opts lib os of Inl e \<Rightarrow> Inl e | Inr r \<Rightarrow> Inr ((n, v) # r))"

record custom_certificate =
  cc_ca_pem :: bytes
  cc_ca_file :: string

definition download_opts :: "string \<Rightarrow> curl_opts" where
  "download_opts effective_url =
     [(''URL'', VStr effective_url), (''PROTOCOLS'', VStr ''http,https''),
      (''REDIR_PROTOCOLS'', VStr ''http,https''), (''WRITEFUNCTION'', VPtr), (''WRITEDATA'', VPtr),
      (''NOSIGNAL'', VLong 1), (''FAILONERROR'', VLong 1), (''FOLLOWLOCATION'', VLong 1),
      (''MAXREDIRS'', VLong 5), (''CONNECTTIMEOUT_MS'', VLong 10000), (''TIMEOUT_MS'', VLong 60000),
      (''SSL_VERIFYPEER'', VLong 1), (''SSL_VERIFYHOST'', VLong 2)]"

definition cert_opts :: "custom_certificate option \<Rightarrow> int + curl_opts" where
  "cert_opts cert = (case cert of
       None \<Rightarrow> Inr []
     | Some c \<Rightarrow> if cc_ca_pem c \<noteq> [] then Inl ENOTSUP
                else if cc_ca_file c \<noteq> [] then Inr [(''CAINFO'', VStr (cc_ca_file c))]
                else Inr [])"

text \<open>The label \<open>fail\<close>: clean up, report the saved error.\<close>

definition download_fail :: "int \<Rightarrow> bytes option io" where
  "download_fail saved_errno = fail_with (if saved_errno \<noteq> 0 then saved_errno else EIO) None"

definition download_perform :: "curl_lib \<Rightarrow> curl_opts \<Rightarrow> bytes option io" where
  "download_perform lib opts = do {
     (rc, buf) \<leftarrow> perform_body (cl_body lib opts) (cl_perform lib opts) \<lparr>db_data = None, db_err = 0\<rparr>;
     if rc \<noteq> CURLE_OK
     then download_fail (if db_err buf \<noteq> 0 then db_err buf else curlcode_to_errno rc)
     else case db_data buf of
         Some d \<Rightarrow> ret (Some d)
       | None \<Rightarrow> do {
           ok \<leftarrow> c_malloc;
           if \<not> ok then download_fail ENOMEM else ret (Some []) } }"

definition download_url :: "curl_lib \<Rightarrow> string \<Rightarrow> custom_certificate option \<Rightarrow> bytes option io" where
  "download_url lib url cert =
     (if url = [] then fail_with EINVAL None
      else do {
        eff \<leftarrow> make_effective_url url;
        case eff of None \<Rightarrow> ret None
        | Some effective_url \<Rightarrow>
            if \<not> cl_global_ok lib then fail_with ENOMEM None
            else if \<not> cl_init_ok lib then fail_with ENOMEM None
            else case set_curl_opts lib (download_opts effective_url) of
                Inl e \<Rightarrow> download_fail e
              | Inr opts \<Rightarrow> (case cert_opts cert of
                    Inl e \<Rightarrow> download_fail e
                  | Inr extra \<Rightarrow> (case set_curl_opts lib (extra @ [(''ERRORBUFFER'', VPtr)]) of
                        Inl e \<Rightarrow> download_fail e
                      | Inr opts2 \<Rightarrow> download_perform lib (opts @ opts2))) })"

definition post_opts :: "string \<Rightarrow> bytes \<Rightarrow> curl_opts" where
  "post_opts url data =
     [(''URL'', VStr url), (''POST'', VLong 1), (''POSTFIELDS'', VStr data),
      (''POSTFIELDSIZE'', VLong (c_llong (int (length data)))), (''HTTPHEADER'', VPtr),
      (''SSL_VERIFYPEER'', VLong 1), (''SSL_VERIFYHOST'', VLong 2),
      (''PROTOCOLS_STR'', VStr ''http,https''), (''REDIR_PROTOCOLS_STR'', VStr ''http,https''),
      (''NOSIGNAL'', VLong 1), (''FAILONERROR'', VLong 1)]"

text \<open>The result and the HTTP response code.\<close>

definition post_buffer :: "curl_lib \<Rightarrow> string \<Rightarrow> bytes \<Rightarrow> (int \<times> int option) io" where
  "post_buffer lib url data =
     (if \<not> cl_init_ok lib then fail_with ENOMEM (-1, None)
      else case set_curl_opts lib (post_opts url data) of
          Inl e \<Rightarrow> fail_with e (-1, None)
        | Inr opts \<Rightarrow>
            (let res = cl_perform lib opts in
             if res \<noteq> CURLE_OK then fail_with (curlcode_to_errno res) (-1, None)
             else ret (0, Some (cl_response lib opts))))"


section \<open>Network time\<close>

text \<open>\<open>geturltime_header_callback\<close> on one header line; the time is \<open>-1\<close> until a line sets it.\<close>

definition is_blank :: "char \<Rightarrow> bool" where
  "is_blank c \<longleftrightarrow> c = CHR '' '' \<or> c = CHR 0x09"

definition is_eol :: "char \<Rightarrow> bool" where
  "is_eol c \<longleftrightarrow> c = CHR 0x0D \<or> c = CHR 0x0A"

definition trim_eol :: "bytes \<Rightarrow> bytes" where
  "trim_eol s = rev (dropWhile is_eol (rev s))"

definition geturltime_header_callback :: "curl_lib \<Rightarrow> bytes \<Rightarrow> int \<Rightarrow> int" where
  "geturltime_header_callback lib line remote_epoch =
     (if 5 < length line \<and> strcaseeq (take 5 line) ''date:'' then
        (let date_value = cstr (trim_eol (dropWhile is_blank (drop 5 line)));
             parsed_time = cl_getdate lib date_value
         in if parsed_time \<noteq> -1 then parsed_time else remote_epoch)
      else remote_epoch)"

text \<open>The results of \<open>curl_easy_setopt\<close> are not tested here: an option that fails is not in force.\<close>

definition time_opts :: curl_opts where
  "time_opts = [(''URL'', VStr ''https://falundafa.org''), (''NOBODY'', VLong 1), (''SSL_VERIFYPEER'', VLong 1),
     (''SSL_VERIFYHOST'', VLong 2), (''HEADERFUNCTION'', VPtr), (''HEADERDATA'', VPtr),
     (''FAILONERROR'', VLong 1), (''TIMEOUT'', VLong 5)]"

definition get_network_time :: "curl_lib \<Rightarrow> int io" where
  "get_network_time lib =
     (if \<not> cl_init_ok lib then fail_with ENOMEM (-1)
      else do {
        let opts = filter (\<lambda>(n, v). cl_setopt lib n = CURLE_OK) time_opts;
        let remote_epoch = foldl (\<lambda>t l. geturltime_header_callback lib l t) (-1) (cl_headers lib opts);
        let res = cl_perform lib opts;
        if res \<noteq> CURLE_OK \<or> remote_epoch = -1
        then fail_with (if res = CURLE_OUT_OF_MEMORY then ENOMEM else ECOMM) (-1)
        else ret remote_epoch })"

definition alloc_construct_request_URL ::
  "string \<Rightarrow> string \<Rightarrow> string \<Rightarrow> string \<Rightarrow> int \<Rightarrow> string option \<Rightarrow> string option io" where
  "alloc_construct_request_URL baseURL user requestid requestsig net_time scode = do {
     let code_str = (case scode of Some c \<Rightarrow> c | None \<Rightarrow> ''dummy'');
     ok \<leftarrow> fallible;
     if \<not> ok then ret None
     else ret (Some (baseURL @ ''?code='' @ code_str @ ''&user='' @ user @ ''&requestid='' @ requestid @
       ''&requestsig='' @ requestsig @ ''&time='' @ print_lld net_time)) }"


section \<open>Frames\<close>

context effect_frame
begin

lemma keeps_make_effective_url [keeps_intros]: "keeps R (make_effective_url u)"
  unfolding make_effective_url_def by (intro keeps_intros)

lemma keeps_write_callback [keeps_intros]: "keeps R (write_callback p b)"
  unfolding write_callback_def by (intro keeps_intros)

lemma keeps_perform_body [keeps_intros]: "keeps R (perform_body cs rc b)"
  by (induction cs arbitrary: b) (auto intro!: keeps_intros)

lemma keeps_download_fail [keeps_intros]: "keeps R (download_fail e)"
  unfolding download_fail_def by (intro keeps_intros)

lemma keeps_download_perform [keeps_intros]: "keeps R (download_perform lib opts)"
  unfolding download_perform_def by (intro keeps_intros)

lemma keeps_download_url [keeps_intros]: "keeps R (download_url lib u c)"
  unfolding download_url_def by (intro keeps_intros)

lemma keeps_post_buffer [keeps_intros]: "keeps R (post_buffer lib u d)"
  unfolding post_buffer_def by (intro keeps_intros)

lemma keeps_get_network_time [keeps_intros]: "keeps R (get_network_time lib)"
  unfolding get_network_time_def by (intro keeps_intros)

lemma keeps_construct_URL [keeps_intros]: "keeps R (alloc_construct_request_URL a b c d e f)"
  unfolding alloc_construct_request_URL_def by (intro keeps_intros)

end



section \<open>What a download returns\<close>

lemma set_curl_opts_all: "set_curl_opts lib os = Inr r \<Longrightarrow> r = os"
proof (induction os arbitrary: r)
  case (Cons o1 os)
  then show ?case by (cases o1) (auto split: if_splits sum.splits)
qed simp

lemma set_curl_opts_error: "set_curl_opts lib os = Inl e \<Longrightarrow> e \<noteq> 0"
proof (induction os arbitrary: e)
  case (Cons o1 os)
  then show ?case
    by (cases o1) (auto simp: curlcode_to_errno_def split: if_splits sum.splits curlcode.splits)
qed simp

lemma curlcode_to_errno_pos: "rc \<noteq> CURLE_OK \<Longrightarrow> curlcode_to_errno rc \<noteq> 0"
  by (cases rc) (simp_all add: curlcode_to_errno_def)

lemma wp_write_callback:
  assumes "\<And>w'. plan_step w w' \<Longrightarrow> Q (length c, b\<lparr>db_data := Some ((case db_data b of None \<Rightarrow> [] | Some d \<Rightarrow> d) @ c)\<rparr>) w'"
    and "\<And>w' n b'. plan_step w w' \<Longrightarrow> n \<noteq> length c \<or> c = [] \<and> b' = b \<Longrightarrow> Q (n, b') w'"
  shows "wp (write_callback c b) Q w"
  unfolding write_callback_def Let_def
  using assms by (auto intro!: wp_malloc_any)

text \<open>A transfer that ends well has collected all pieces, in order.\<close>

lemma wp_perform_body:
  assumes "plan_step w0 w"
    and "\<And>w' rc' b'. plan_step w0 w' \<Longrightarrow> (rc' = CURLE_OK \<Longrightarrow> rc = CURLE_OK \<and>
      (case db_data b' of None \<Rightarrow> [] | Some d \<Rightarrow> d) = (case db_data b of None \<Rightarrow> [] | Some d \<Rightarrow> d) @ concat cs) \<Longrightarrow>
      Q (rc', b') w'"
  shows "wp (perform_body cs rc b) Q w"
  using assms
proof (induction cs arbitrary: b w)
  case Nil
  then show ?case by simp
next
  case (Cons c cs)
  have "wp (write_callback c b) (\<lambda>(n, b'). wp (if n \<noteq> length c then ret (CURLE_WRITE_ERROR, b') else perform_body cs rc b') Q) w"
  proof (rule wp_write_callback, goal_cases)
    case (1 w')
    have st: "plan_step w0 w'" using Cons.prems(1) 1 by (rule plan_step_trans)
    show ?case
      by (simp, rule Cons.IH[OF st], rule Cons.prems(2)) auto
  next
    case (2 w' n b')
    have st: "plan_step w0 w'" using Cons.prems(1) 2(1) by (rule plan_step_trans)
    show ?case
    proof (cases "n = length c")
      case True
      with 2(2) have "c = []" "b' = b" by auto
      with True show ?thesis
        by (simp, intro Cons.IH[OF st] Cons.prems(2)) auto
    qed (use Cons.prems(2)[OF st] in auto)
  qed
  then show ?case by (simp add: case_prod_beta')
qed

text \<open>
  \<open>d\<close> is the whole body of one completed transfer that verified the server's certificate and was
  confined to http and https, redirects included.
\<close>

definition verified_body :: "curl_lib \<Rightarrow> bytes \<Rightarrow> bool" where
  "verified_body lib d \<longleftrightarrow> (\<exists>opts u. d = concat (cl_body lib opts) \<and> cl_perform lib opts = CURLE_OK \<and>
     starts_with_http_scheme u \<and> (''URL'', VStr u) \<in> set opts \<and>
     (''SSL_VERIFYPEER'', VLong 1) \<in> set opts \<and> (''SSL_VERIFYHOST'', VLong 2) \<in> set opts \<and>
     (''PROTOCOLS'', VStr ''http,https'') \<in> set opts \<and> (''REDIR_PROTOCOLS'', VStr ''http,https'') \<in> set opts)"

lemma wp_download_perform:
  assumes "opts = download_opts u @ rest" "starts_with_http_scheme u"
  shows "wp (download_perform lib opts) (\<lambda>r w'. case r of None \<Rightarrow> w_errno w' \<noteq> 0 | Some d \<Rightarrow> verified_body lib d) v"
  unfolding download_perform_def wp_bind
proof (rule wp_perform_body[OF plan_stepI(1)], goal_cases)
  case (1 w' rc' b')
  have ok: "verified_body lib (concat (cl_body lib opts))" if "rc' = CURLE_OK"
    unfolding verified_body_def
    using 1(2)[OF that] assms
    by (intro exI[of _ opts] exI[of _ u]) (auto simp: download_opts_def)
  have d: "rc' = CURLE_OK \<Longrightarrow> (case db_data b' of None \<Rightarrow> [] | Some d \<Rightarrow> d) = concat (cl_body lib opts)"
    using 1(2) by simp
  show ?case
  proof (cases "rc' = CURLE_OK")
    case True
    have v: "verified_body lib (case db_data b' of None \<Rightarrow> [] | Some d \<Rightarrow> d)"
      using ok[OF True] d[OF True] by (simp only:)
    with True show ?thesis
      by (cases "db_data b'") (auto intro!: wp_malloc_any simp: download_fail_def)
  qed (simp add: download_fail_def)
qed


text \<open>The simplest transport: every call works, a transfer delivers its pieces.\<close>

definition plain_lib :: "bytes list \<Rightarrow> bytes list \<Rightarrow> curl_lib" where
  "plain_lib body hdr = \<lparr>cl_global_ok = True, cl_init_ok = True, cl_setopt = (\<lambda>_. CURLE_OK),
     cl_body = (\<lambda>_. body), cl_headers = (\<lambda>_. hdr), cl_perform = (\<lambda>_. CURLE_OK), cl_response = (\<lambda>_. 200),
     cl_getdate = (\<lambda>s. int (length s))\<rparr>"

lemma set_curl_opts_plain [simp]: "set_curl_opts (plain_lib b h) os = Inr os"
  by (induction os) (auto simp: plain_lib_def)


end
