(* ===== verification/Device.thy ===== *)
theory Device
  imports ExecWrapper Curl
begin

text \<open>
  What the daemon's command code uses of its surroundings (\<open>device\<close>: the public key compiled in,
  the crypto and transfer libraries, the temporary directory and server addresses of
  \<open>daemon.c\<close>, random bytes, the entries of \<open>/sys/block\<close>, libc's error texts, the copy service of
  \<open>mount_copy_ns.c\<close>), and the system switches of
  \<open>daemon/util.c\<close>.
\<close>

record device =
  dv_crypto :: crypto
  dv_pubkey :: string
  dv_curl :: curl_lib
  dv_random :: bytes
  dv_signed_char :: bool
  dv_tmpdir :: string
  dv_server_code :: string
  dv_server_upload :: string
  dv_sysblock :: "string list"
  dv_strerror :: "int \<Rightarrow> string"
  dv_mount_copy :: "string \<Rightarrow> string \<Rightarrow> string \<Rightarrow> string option \<Rightarrow> string \<Rightarrow> string \<Rightarrow> int io"


section \<open>System switches\<close>

text \<open>The status of a command, with the error number of a failed start.\<close>

definition status_or_errno :: "int \<Rightarrow> int io" where
  "status_or_errno err = (if err < 0 then get_errno else ret err)"

definition set_oem_lock :: "bool \<Rightarrow> int io" where
  "set_oem_lock status = do {
     err \<leftarrow> (if status
        then execv_wrapper ''/system/bin/service''
               [''/system/bin/service'', ''call'', ''oem_lock'', ''4'', ''i32'', ''0'']
        else execv_wrapper ''/system/bin/service''
               [''/system/bin/service'', ''call'', ''oem_lock'', ''4'', ''i32'', ''1'']);
     status_or_errno err }"

definition set_wifi_enabled :: "bool \<Rightarrow> int io" where
  "set_wifi_enabled status = do {
     err \<leftarrow> (if status
        then execv_wrapper ''/system/bin/start'' [''/system/bin/start'', ''wificond'']
        else execv_wrapper ''/system/bin/stop'' [''/system/bin/stop'', ''wificond'']);
     status_or_errno err }"

definition settings_put :: "string \<Rightarrow> string \<Rightarrow> int io" where
  "settings_put key v =
     execv_wrapper ''/system/bin/settings'' [''/system/bin/settings'', ''put'', ''global'', key, v]"

definition set_adb_enabled :: "bool \<Rightarrow> int io" where
  "set_adb_enabled status = do {
     err \<leftarrow> (if status then do {
          err \<leftarrow> settings_put ''development_settings_enabled'' ''1'';
          if err = 0 then settings_put ''adb_enabled'' ''1'' else ret err }
        else do {
          err \<leftarrow> settings_put ''adb_enabled'' ''0'';
          if err = 0 then settings_put ''development_settings_enabled'' ''0'' else ret err });
     status_or_errno err }"

text \<open>
  \<open>find_removable_blockdev\<close>: the entries of \<open>/sys/block\<close> in directory order are an argument;
  each entry's \<open>removable\<close> file is opened and at most seven bytes are read once.
\<close>

definition physical_device :: "string \<Rightarrow> bool" where
  "physical_device n \<longleftrightarrow> has_prefix n ''sd'' \<or> has_prefix n ''mmcblk'' \<or> has_prefix n ''nvme''"

fun find_removable :: "string list \<Rightarrow> string option io" where
  "find_removable [] = ret None"
| "find_removable (d_name # ents) =
     (if \<not> physical_device d_name then find_removable ents
      else do {
        fd \<leftarrow> sys_open (take (PATH_MAX - 1) (''/sys/block/'' @ d_name @ ''/removable'')) [];
        if fd < 0 then find_removable ents
        else do {
          (n, buf) \<leftarrow> sys_read fd 7;
          sys_close fd;
          if n \<le> 0 then find_removable ents
          else if takeWhile (\<lambda>c. c \<noteq> CHR 0x0A) (cstr buf) = [] \<or> hd buf \<noteq> CHR ''1'' then find_removable ents
          else do {
            ok \<leftarrow> c_malloc;
            if \<not> ok then ret None else ret (Some d_name) } } })"

definition find_removable_blockdev :: "string list \<Rightarrow> string option io" where
  "find_removable_blockdev entries = do {
     ok \<leftarrow> fallible;
     if \<not> ok then ret None
     else do {
       r \<leftarrow> find_removable entries;
       case r of None \<Rightarrow> fail_with ENODEV None | Some d \<Rightarrow> ret (Some d) } }"

text \<open>
  \<open>rm_r\<close>: the directory's entries are an argument.  Despite its name it unlinks the files of one
  directory only; what cannot be unlinked is left.
\<close>

fun unlink_entries :: "string \<Rightarrow> string list \<Rightarrow> unit io" where
  "unlink_entries path [] = ret ()"
| "unlink_entries path (d_name # ents) =
     (if d_name \<noteq> ''..'' \<and> d_name \<noteq> ''.'' then do {
        sys_unlink (take (PATH_MAX - 1) (path @ ''/'' @ d_name));
        unlink_entries path ents }
      else unlink_entries path ents)"

definition rm_r :: "string \<Rightarrow> string list \<Rightarrow> int io" where
  "rm_r path entries = do {
     d \<leftarrow> fallible;
     if \<not> d then ret (-1)
     else do {
       buf \<leftarrow> c_malloc;
       if \<not> buf then ret (-1)
       else do { unlink_entries path entries; ret 0 } } }"

text \<open>
  \<open>mkdir_p\<close>: one \<open>mkdir\<close> for every prefix that ends before a slash, then for the whole path,
  stopping at the first error other than \<open>EEXIST\<close>.
\<close>

definition sys_mkdir :: "string \<Rightarrow> int io" where
  "sys_mkdir p = do {
     ok \<leftarrow> fallible;
     if \<not> ok then ret (-1)
     else if p = [] then fail_with ENOENT (-1)
     else do {
       n \<leftarrow> gets (\<lambda>w. w_files w p);
       case n of
         Some _ \<Rightarrow> fail_with EEXIST (-1)
       | None \<Rightarrow> do { modify (\<lambda>w. w\<lparr>w_files := (w_files w)(p \<mapsto> Dir)\<rparr>); ret 0 } } }"

fun mkdir_prefixes :: "string \<Rightarrow> string \<Rightarrow> int io" where
  "mkdir_prefixes pre [] = ret 0"
| "mkdir_prefixes pre (c # rest) =
     (if c = CHR ''/'' then do {
        err \<leftarrow> sys_mkdir pre;
        e \<leftarrow> get_errno;
        if err < 0 \<and> e \<noteq> EEXIST then ret err else mkdir_prefixes (pre @ [c]) rest }
      else mkdir_prefixes (pre @ [c]) rest)"

definition mkdir_p :: "string \<Rightarrow> int io" where
  "mkdir_p path =
     (let len = length path in
      if len = 0 then ret 0
      else if PATH_MAX \<le> len then fail_with ENAMETOOLONG (-1)
      else do {
        ok \<leftarrow> c_malloc;
        if \<not> ok then ret (-1)
        else do {
          let tmp = (if last path = CHR ''/'' then butlast path else path);
          err \<leftarrow> mkdir_prefixes (take 1 tmp) (drop 1 tmp);
          if err < 0 then ret err
          else do {
            err \<leftarrow> sys_mkdir tmp;
            e \<leftarrow> get_errno;
            if err < 0 \<and> e \<noteq> EEXIST then ret err else ret 0 } } })"


section \<open>Frames\<close>

context effect_frame
begin

lemma keeps_status_or_errno [keeps_intros]: "keeps R (status_or_errno e)"
  unfolding status_or_errno_def by (intro keeps_intros)

end

context fd_frame
begin

lemma keeps_find_removable [keeps_intros]:
  assumes "\<And>p. keeps R (sys_open p [])"
  shows "keeps R (find_removable es)"
proof (induction es)
  case Nil
  then show ?case by (auto intro: keeps_intros)
next
  case (Cons e es)
  show ?case unfolding find_removable.simps by (intro keeps_intros assms Cons)
qed

end

context file_frame
begin

lemma keeps_find_removable_blockdev [keeps_intros]: "keeps R (find_removable_blockdev es)"
  unfolding find_removable_blockdev_def by (intro keeps_intros)

lemma keeps_sys_mkdir [keeps_intros]: "keeps R (sys_mkdir p)"
  unfolding sys_mkdir_def by (intro keeps_intros keeps_mod_files)

lemma keeps_mkdir_prefixes [keeps_intros]: "keeps R (mkdir_prefixes p q)"
  by (induction p q rule: mkdir_prefixes.induct) (auto intro!: keeps_intros)

lemma keeps_mkdir_p [keeps_intros]: "keeps R (mkdir_p p)"
  unfolding mkdir_p_def by (intro keeps_intros)

end

end
