(* ===== verification/PayloadCmd.thy ===== *)
theory PayloadCmd
  imports Device Wire
begin

text \<open>
  \<open>daemon/payload_cmd.c\<close>: the commands a verified payload can carry.  Each function gets the
  payload's data and size and the client's socket, and returns the status the client will see.
  \<open>payload_cmd_composite\<close> runs a list of nested payloads through a handler it is given (the
  handler is \<open>handle_one_payload\<close>, which calls back here).
\<close>

definition FIREWALL_CONFFILE :: string where
  "FIREWALL_CONFFILE = ''/data/local/tmp/dumb/dumbos-firewall.conf''"
definition FIREWALL_RELOAD_SCRIPT :: string where
  "FIREWALL_RELOAD_SCRIPT = ''/system/bin/dumbos-firewall.sh''"

text \<open>A message to the client whose result is ignored.\<close>

definition tell :: "int \<Rightarrow> string \<Rightarrow> unit io" where
  "tell sockfd s = do { write_string sockfd s; ret () }"


section \<open>Install\<close>

definition install_run :: "int \<Rightarrow> string \<Rightarrow> int io" where
  "install_run sockfd path = do {
     err \<leftarrow> execv_wrapper ''/system/bin/pm'' [''/system/bin/pm'', ''install'', path];
     sys_unlink path;
     if err < 0 then do { tell sockfd ''internal error''; get_errno }
     else if err \<noteq> 0 then do { tell sockfd ''internal error''; ret err }
     else do { tell sockfd ''done''; ret 0 } }"

definition payload_cmd_install_this :: "device \<Rightarrow> bytes \<Rightarrow> nat \<Rightarrow> int \<Rightarrow> int io" where
  "payload_cmd_install_this dev apk apk_size sockfd = do {
     err \<leftarrow> execv_wrapper FIREWALL_RELOAD_SCRIPT [FIREWALL_RELOAD_SCRIPT];
     if err \<noteq> 0 then ret err
     else do {
       ok \<leftarrow> c_malloc;
       if \<not> ok then do { err \<leftarrow> get_errno; tell sockfd ''Out of memory''; ret err }
       else do {
         ok \<leftarrow> fallible;
         let path = dv_tmpdir dev @ ''tmp.apk'';
         if \<not> ok then do { err \<leftarrow> get_errno; tell sockfd ''Internal error''; ret err }
         else if PATH_MAX \<le> length path then do { tell sockfd ''filename too long''; ret ENAMETOOLONG }
         else do {
           fd \<leftarrow> sys_open path [O_CREAT, O_WRITE, O_TRUNC];
           if fd < 0 then do { err \<leftarrow> get_errno; tell sockfd ''internal error''; ret err }
           else do {
             r \<leftarrow> write_all fd (take apk_size apk);
             if r < 0 then do {
               err \<leftarrow> get_errno;
               sys_close fd;
               sys_unlink path;
               tell sockfd ''internal Error'';
               ret err }
             else do {
               sys_close fd;
               install_run sockfd path } } } } } }"

definition payload_cmd_install_path :: "bytes \<Rightarrow> nat \<Rightarrow> int \<Rightarrow> int io" where
  "payload_cmd_install_path strings sz sockfd = ret ENOSYS"

definition payload_cmd_set_adb_enabled :: "bool \<Rightarrow> int io" where
  "payload_cmd_set_adb_enabled enabled = set_adb_enabled enabled"

definition payload_cmd_set_wifi_enabled :: "bool \<Rightarrow> int io" where
  "payload_cmd_set_wifi_enabled enabled = set_wifi_enabled enabled"

definition payload_cmd_set_oem_unlock_enabled :: "bool \<Rightarrow> int io" where
  "payload_cmd_set_oem_unlock_enabled enabled = set_oem_lock (\<not> enabled)"


section \<open>Composite payloads\<close>

text \<open>\<open>remaining\<close> payloads are still to be handled, the next one starts at \<open>offset\<close>.\<close>

fun composite_loop ::
  "(dumb_payload \<Rightarrow> nat \<Rightarrow> int io) \<Rightarrow> bytes \<Rightarrow> nat \<Rightarrow> int \<Rightarrow> nat \<Rightarrow> nat \<Rightarrow> int io" where
  "composite_loop handle data sz sockfd offset 0 = ret 0"
| "composite_loop handle data sz sockfd offset (Suc remaining) =
     (if sz < offset + 4 then do { tell sockfd ''invalid''; ret EINVAL }
      else
        let payload_size = of_be (take 4 (drop offset data)); offset = offset + 4 in
        if sz < offset + payload_size then do { tell sockfd ''invalid''; ret EINVAL }
        else if payload_size < sizeof_payload then do { tell sockfd ''invalid''; ret EINVAL }
        else do {
          err \<leftarrow> handle (dp_of_bytes (drop offset data)) (payload_size - sizeof_payload);
          if err \<noteq> 0 then do { tell sockfd ''something went wrong''; ret err }
          else composite_loop handle data sz sockfd (offset + payload_size) remaining })"

definition payload_cmd_composite ::
  "(dumb_payload \<Rightarrow> nat \<Rightarrow> int io) \<Rightarrow> bytes \<Rightarrow> nat \<Rightarrow> int \<Rightarrow> int io" where
  "payload_cmd_composite handle data sz sockfd =
     (if sz < 2 then do { tell sockfd ''invalid''; ret EINVAL }
      else composite_loop handle data sz sockfd 2 (of_be (take 2 data)))"


section \<open>Import and export\<close>

definition try_mount_copy ::
  "device \<Rightarrow> string \<Rightarrow> string \<Rightarrow> string \<Rightarrow> string option \<Rightarrow> string \<Rightarrow> string \<Rightarrow> int io" where
  "try_mount_copy dev devname mountpoint fstype mount_data copy_src copy_dst = do {
     let at = (\<lambda>suffix. take (PATH_MAX - 1) (''/dev/block/'' @ devname @ suffix));
     err \<leftarrow> dv_mount_copy dev (at ''1'') mountpoint fstype mount_data copy_src copy_dst;
     if err = 0 then ret 0
     else do {
       err \<leftarrow> dv_mount_copy dev (at ''p1'') mountpoint fstype mount_data copy_src copy_dst;
       if err = 0 then ret 0
       else dv_mount_copy dev (at '''') mountpoint fstype mount_data copy_src copy_dst } }"

definition payload_cmd_files_import :: "device \<Rightarrow> int \<Rightarrow> int io" where
  "payload_cmd_files_import dev sockfd = do {
     now \<leftarrow> c_time;
     ok \<leftarrow> fallible;
     if \<not> ok then do { err \<leftarrow> get_errno; tell sockfd ''internal error''; ret err }
     else do {
       let import_path = ''/sdcard/import-'' @ print_lld now;
       d \<leftarrow> find_removable_blockdev (dv_sysblock dev);
       case d of
         None \<Rightarrow> do { err \<leftarrow> get_errno; tell sockfd ''no removable drive found''; ret err }
       | Some devname \<Rightarrow> do {
           err \<leftarrow> try_mount_copy dev devname ''/tmp/'' ''exfat'' None ''/tmp/'' import_path;
           if err \<noteq> 0 then do {
             err \<leftarrow> get_errno;
             tell sockfd ''copying failed'';
             tell sockfd (dv_strerror dev err);
             ret err }
           else do { tell sockfd ''done''; ret 0 } } } }"

definition payload_cmd_files_export :: "device \<Rightarrow> int \<Rightarrow> int io" where
  "payload_cmd_files_export dev sockfd = do {
     now \<leftarrow> c_time;
     ok \<leftarrow> fallible;
     if \<not> ok then do { err \<leftarrow> get_errno; tell sockfd ''internal error''; ret err }
     else do {
       let export_path = ''/tmp/export-'' @ print_lld now;
       d \<leftarrow> find_removable_blockdev (dv_sysblock dev);
       case d of
         None \<Rightarrow> do { err \<leftarrow> get_errno; tell sockfd ''no removable drive found''; ret err }
       | Some devname \<Rightarrow> do {
           err \<leftarrow> try_mount_copy dev devname ''/tmp/'' ''exfat'' (Some ''fmask=00117,dmask=00007,uid=0,gid=0'')
                   ''/sdcard/'' export_path;
           if err \<noteq> 0 then do {
             err \<leftarrow> get_errno;
             tell sockfd ''copying failed'';
             tell sockfd (dv_strerror dev err);
             if err = ENOENT then do {
               ok \<leftarrow> fallible;
               if \<not> ok then do { err \<leftarrow> get_errno; tell sockfd ''internal error''; ret err }
               else do {
                 tell sockfd (''make sure '' @ [CHR 0x27] @ ''/sdcard/'' @ [CHR 0x27] @
                   '' exists! that should be the location of all the files to export (or possibly your USB is unplugged or not detected)'');
                 ret err } }
             else ret err }
           else do { tell sockfd ''done''; ret 0 } } } }"


section \<open>Firewall and proxy scripts\<close>

text \<open>
  The loop of \<open>script_helper\<close> on the bytes up to and including the forced final NUL: one argument
  per string; the argument list is reallocated for every string.
\<close>

function script_args :: "bytes \<Rightarrow> string list \<Rightarrow> string list option io" where
  "script_args data acc =
     (if length data \<le> 1 then ret (Some acc)
      else do {
        ok \<leftarrow> c_malloc;
        if \<not> ok then ret None else script_args (drop (strlen data + 1) data) (acc @ [cstr data]) })"
  by pat_completeness auto
termination by (relation "measure (\<lambda>(data, acc). length data)") auto

declare script_args.simps [simp del]

definition script_run :: "int \<Rightarrow> string list \<Rightarrow> int io" where
  "script_run sockfd argv = do {
     err \<leftarrow> execv_wrapper (hd argv) argv;
     if err < 0 then do { err \<leftarrow> get_errno; tell sockfd ''internal error''; ret err }
     else if 0 < err then do { tell sockfd ''internal error''; ret err }
     else do { tell sockfd ''done''; ret 0 } }"

definition script_helper :: "int \<Rightarrow> string \<Rightarrow> string \<Rightarrow> bytes \<Rightarrow> nat \<Rightarrow> int io" where
  "script_helper sockfd argv0 argv1 data sz =
     (if sz = 0 then ret 0
      else if hd data = NUL \<or> sz \<le> 1 then ret EINVAL
      else do {
        args \<leftarrow> script_args ((take sz data)[sz - 1 := NUL]) [];
        case args of
          None \<Rightarrow> get_errno
        | Some strs \<Rightarrow> script_run sockfd (argv0 # argv1 # strs) })"

datatype firewall_policy = FIREWALL_POLICY_ALLOW | FIREWALL_POLICY_DENY | FIREWALL_POLICY_ALLOW_TEMP

definition firewall_helper :: "int \<Rightarrow> firewall_policy \<Rightarrow> bytes \<Rightarrow> nat \<Rightarrow> int io" where
  "firewall_helper sockfd policy data sz =
     (let policy_str = (if policy = FIREWALL_POLICY_ALLOW then ''allow''
        else if policy = FIREWALL_POLICY_DENY then ''deny'' else ''allow-temp'')
      in script_helper sockfd ''/system/bin/dumbos-firewallctl.sh'' policy_str data sz)"

definition payload_cmd_firewall_flush :: "int io" where
  "payload_cmd_firewall_flush = do {
     r \<leftarrow> sys_unlink FIREWALL_CONFFILE;
     e \<leftarrow> get_errno;
     if r < 0 \<and> e \<noteq> ENOENT then ret e
     else do {
       err \<leftarrow> execv_wrapper FIREWALL_RELOAD_SCRIPT [FIREWALL_RELOAD_SCRIPT];
       if err < 0 then get_errno
       else if 0 < err then ret err
       else ret 0 } }"

definition payload_cmd_firewall_add :: "int \<Rightarrow> bytes \<Rightarrow> nat \<Rightarrow> int io" where
  "payload_cmd_firewall_add sockfd data sz = firewall_helper sockfd FIREWALL_POLICY_ALLOW data sz"

definition payload_cmd_firewall_remove :: "int \<Rightarrow> bytes \<Rightarrow> nat \<Rightarrow> int io" where
  "payload_cmd_firewall_remove sockfd data sz = firewall_helper sockfd FIREWALL_POLICY_DENY data sz"

definition payload_cmd_firewall_add_temp :: "int \<Rightarrow> bytes \<Rightarrow> nat \<Rightarrow> int io" where
  "payload_cmd_firewall_add_temp sockfd data sz = firewall_helper sockfd FIREWALL_POLICY_ALLOW_TEMP data sz"

definition payload_cmd_singbox_add :: "int \<Rightarrow> bytes \<Rightarrow> nat \<Rightarrow> int io" where
  "payload_cmd_singbox_add sockfd data sz = script_helper sockfd ''/system/bin/sing-box-wrapper.sh'' ''add'' data sz"

definition payload_cmd_singbox_del :: "int \<Rightarrow> bytes \<Rightarrow> nat \<Rightarrow> int io" where
  "payload_cmd_singbox_del sockfd data sz = script_helper sockfd ''/system/bin/sing-box-wrapper.sh'' ''del'' data sz"



section \<open>Congruence\<close>

text \<open>
  Composite payloads only hand down payloads smaller than themselves; this is what the recursion
  through the handler rests on.
\<close>

lemma composite_loop_cong:
  assumes "\<And>p n. n < sz \<Longrightarrow> h p n = h' p n"
  shows "composite_loop h data sz fd off k = composite_loop h' data sz fd off k"
proof (induction k arbitrary: off)
  case (Suc k)
  have "h p (n - sizeof_payload) = h' p (n - sizeof_payload)" if "\<not> sz < off + 4 + n" "\<not> n < sizeof_payload" for p n
    using that by (intro assms) (simp add: dp_sizes)
  with Suc show ?case by (simp add: Let_def cong: if_cong)
qed simp

lemma payload_cmd_composite_cong:
  assumes "\<And>p n. n < sz \<Longrightarrow> h p n = h' p n"
  shows "payload_cmd_composite h data sz fd = payload_cmd_composite h' data sz fd"
  unfolding payload_cmd_composite_def using composite_loop_cong[OF assms] by simp


section \<open>Frames\<close>

context file_frame
begin

lemma keeps_tell [keeps_intros]: "keeps R (tell fd s)"
  unfolding tell_def by (intro keeps_intros)

lemma keeps_script_args [keeps_intros]: "keeps R (script_args data acc)"
proof (induction data acc rule: script_args.induct)
  case (1 data acc)
  show ?case
    by (subst script_args.simps) (intro keeps_intros 1)
qed

lemma keeps_composite_loop:
  assumes "\<And>p n. keeps R (h p n)"
  shows "keeps R (composite_loop h data sz fd off k)"
proof (induction k arbitrary: off)
  case (Suc k)
  show ?case unfolding composite_loop.simps by (intro keeps_intros assms Suc)
qed (auto intro: keeps_intros)

lemma keeps_composite:
  assumes "\<And>p n. keeps R (h p n)"
  shows "keeps R (payload_cmd_composite h data sz fd)"
  unfolding payload_cmd_composite_def by (intro keeps_intros keeps_composite_loop assms)

end

end
