(* ===== verification/PayloadProps.thy ===== *)
theory PayloadProps
  imports Payload Samples
begin

text \<open>
  What \<open>dumbpayload.c\<close> guarantees: a signed payload verifies and an accepted one was signed,
  field by field; an expiry time is fixed at the first use and then read back; data and files
  come back as they were stored; loading a file leaks no descriptor.
\<close>


section \<open>Signatures\<close>

lemma dp_sign_quiet:
  assumes "key_pair c pub priv" "w_plan w = []" "sizeof_payload \<le> n"
  shows "run_state (dp_sign c p n (hex_of (\<lambda>n. hex_lower ! n) priv)) w =
    ((0, p\<lparr>dp_signature := ed_signature c priv (take n (dp_bytes (clear_signature p))) @ [NUL]\<rparr>), w)"
proof -
  let ?d = "take n (dp_bytes (clear_signature p))"
  have k: "length priv = 32" "length (cr_sign c priv d) = 64" for d
    using assms(1) by (simp_all add: key_pair_def ed_sizes)
  have "wp (dp_sign c p n (hex_of (\<lambda>n. hex_lower ! n) priv))
    (\<lambda>r w'. r = (0, p\<lparr>dp_signature := ed_signature c priv ?d @ [NUL]\<rparr>) \<and> w' = w) w"
    using assms(2,3) k
    by (simp add: dp_sign_def Let_def wp_sign_quiet[where k = priv] ed_sizes clear_signature_def)
  then show ?thesis by (simp add: wp_run prod_eq_iff)
qed

lemma dp_verify_quiet:
  assumes "w_plan w = []" "length pub = 32" "dp_validate_size p n"
    and "hex_to_bytes (cstr ((dp_signature p)[128 := NUL])) 64 = Inr s"
  shows "run_state (dp_verify c p n (hex_of (\<lambda>n. hex_lower ! n) pub)) w =
    (let v = cr_verify c pub (take n (dp_bytes (clear_signature p))) s in
     if v = 1 then ((0, clear_signature p), w)
     else ((-1, clear_signature p), w\<lparr>w_errno := if v = 0 then EPERM else EIO\<rparr>))"
proof -
  let ?v = "cr_verify c pub (take n (dp_bytes (clear_signature p))) s"
  have "wp (dp_verify c p n (hex_of (\<lambda>n. hex_lower ! n) pub))
    (\<lambda>r w'. (r, w') = (if ?v = 1 then ((0, clear_signature p), w)
       else ((-1, clear_signature p), w\<lparr>w_errno := if ?v = 0 then EPERM else EIO\<rparr>))) w"
    using assms by (simp add: dp_verify_def Let_def wp_verify_quiet[where k = pub and g = s] ed_sizes)
  then show ?thesis by (simp add: wp_run prod_eq_iff Let_def)
qed



lemma dp_verify_cases:
  assumes "run_state (dp_verify c p n pub) w = ((r, p'), w')"
  shows "(r = 0 \<and> p' = clear_signature p \<and> dp_validate_size p n \<and>
      ed_valid c pub (take n (dp_bytes (clear_signature p))) (cstr ((dp_signature p)[128 := NUL]))) \<or>
      r = -1 \<and> (p' = p \<or> p' = clear_signature p)"
proof -
  have "wp (dp_verify c p n pub) (\<lambda>(r, p') w'. (r = 0 \<and> p' = clear_signature p \<and> dp_validate_size p n \<and>
      ed_valid c pub (take n (dp_bytes (clear_signature p))) (cstr ((dp_signature p)[128 := NUL]))) \<or>
      r = -1 \<and> (p' = p \<or> p' = clear_signature p)) w"
    by (auto simp: dp_verify_def Let_def ed_sizes intro!: wp_verify_any)
  from wpD[OF this assms] show ?thesis by simp
qed

text \<open>
  C23: Whatever fails underneath, \<open>dp_verify\<close> returns 0 only for a payload whose declared data
  size matches its real size and whose signature OpenSSL accepted over every byte outside the
  signature field; it never changes another field.
\<close>

theorem dp_verify_sound:
  assumes "run_state (dp_verify c p n pub) w = ((r, p'), w')"
  shows "(r = 0 \<or> r = -1) \<and> p'\<lparr>dp_signature := dp_signature p\<rparr> = p \<and>
    (r = 0 \<longrightarrow> p' = clear_signature p \<and> n = sizeof_payload + of_be (dp_data_size p) \<and>
       ed_valid c pub (take n (dp_bytes (clear_signature p))) (cstr ((dp_signature p)[128 := NUL])))"
  using dp_verify_cases[OF assms] by (auto simp: dp_validate_size_iff clear_signature_def)

lemma dp_verify_sound_witness:
  "run_state (dp_verify toy_crypto blank_payload 0 zero_key) idle_world
     = ((-1, blank_payload), idle_world\<lparr>w_errno := EINVAL\<rparr>) \<and>
   ((-1::int) = 0 \<or> (-1::int) = -1)"
proof -
  have r: "run_state (dp_verify toy_crypto blank_payload 0 zero_key) idle_world
     = ((-1, blank_payload), idle_world\<lparr>w_errno := EINVAL\<rparr>)"
    by (simp add: dp_verify_def dp_validate_size_def dp_sizes)
  with dp_verify_sound[OF r] show ?thesis by blast
qed


section \<open>Expiry\<close>

lemma length_print_lld:
  "-99999999999999 \<le> t \<Longrightarrow> t \<le> 999999999999999 \<Longrightarrow> length (print_lld t) \<le> 15"
  using length_dec_le[of "nat t" 15] length_dec_le[of "nat (- t)" 14]
  by (auto simp: print_lld_def nat_less_iff)

lemma dp_set_expire_field:
  "length (print_lld t) \<le> 15 \<Longrightarrow>
   dp_expire (dp_set_expire p t) = print_lld t @ replicate (16 - length (print_lld t)) NUL"
proof -
  assume l: "length (print_lld t) \<le> 15"
  then have "16 - length (print_lld t) = Suc (15 - length (print_lld t))" by simp
  with l show ?thesis
    by (simp add: dp_set_expire_def snprintf_field_def EXPIRE_SIZE_def Let_def)
qed

lemma cstr_field_NUL [simp]: "nul_free s \<Longrightarrow> cstr ((s @ replicate k NUL) @ [NUL]) = s"
  by (cases k) simp_all

lemma dp_get_set_expire:
  assumes "-99999999999999 \<le> t" "t \<le> 999999999999999"
  shows "dp_get_expire (dp_set_expire p t) = t"
proof -
  have "parse_long_long (print_lld t) = Inr t" using parse_print_lld[of t "[]"] assms by simp
  with dp_set_expire_field[OF length_print_lld[OF assms], of p] show ?thesis
    by (simp add: dp_get_expire_def Let_def del: append_assoc)
qed

lemma dp_wf_set_expire: "dp_wf p \<Longrightarrow> dp_wf (dp_set_expire p t)"
  by (simp add: dp_wf_def dp_set_expire_def length_snprintf_field EXPIRE_SIZE_def)



lemma run_c_time_fst: "fst (run_state c_time w) = w_now w"
  by (simp add: c_time_def)

lemma c_time_split: "run_state c_time w = (w_now w, snd (run_state c_time w))"
  by (metis prod.collapse run_c_time_fst)

lemma colon_not_number: "parse_long_long (CHR '':'' # s) = Inl EINVAL"
  by (simp add: parse_long_long_def strtoll_def scan_dec_def c_isspace_def c_isdigit_def)

text \<open>
  C25: A relative expiry \<open>:k\<close> set by \<open>dp_set_expire_str\<close> starts to run at the first use: used at
  time \<open>t\<close>, the payload is stamped with \<open>t + k\<close> and is expired exactly from that moment on.
\<close>

theorem relative_expiry:
  assumes "dp_set_expire_str p (CHR '':'' # print_lld k) = Inr q" "0 \<le> k"
    and "0 \<le> w_now w" "w_now w + k \<le> 999999999999999" "0 < w_now w + k"
    and "run_state (dp_is_expired_compare q t) w = ((b, q'), w')"
  shows "(b \<longleftrightarrow> w_now w + k \<le> t) \<and> dp_get_expire q' = w_now w + k"
proof -
  let ?s = "print_lld k"
  have len: "length ?s < 15"
    using assms(1) by (simp add: dp_set_expire_str_def dp_sizes strnlen_eq split: if_splits)
  have "strlen (CHR '':'' # ?s) < 16" using len by simp
  from field_get(2)[OF this] have c: "cstr (dp_expire q) = CHR '':'' # ?s"
    using assms(1) by (auto simp: dp_set_expire_str_def dp_sizes split: if_splits)
  have e: "dp_expire q = CHR '':'' # ?s @ replicate (15 - length ?s) NUL"
  proof -
    have "dp_expire q = (CHR '':'' # ?s @ replicate (15 - length ?s) NUL)[15 := NUL]"
      using assms(1) len by (auto simp: dp_set_expire_str_def dp_sizes strncpy_field_def Let_def split: if_splits)
    moreover have "(CHR '':'' # ?s @ replicate (15 - length ?s) NUL)[15 := NUL]
        = CHR '':'' # ?s @ replicate (15 - length ?s) NUL"
      using len by (intro list_update_same_conv[THEN iffD2]) (auto simp: nth_append nth_Cons')
    ultimately show ?thesis by simp
  qed
  have inv: "dp_get_expire q = -1"
    using e by (simp add: dp_get_expire_def Let_def cstr_Cons colon_not_number del: append_assoc)
  have l: "last (dp_expire q) = NUL" using e len by (simp add: last_replicate)
  have "dp_expire (shift_expire q) = ?s @ replicate (15 - length ?s) NUL @ [NUL]"
    using e l by (simp add: shift_expire_def)
  then have "dp_expire (shift_expire q) = ?s @ replicate (16 - length ?s) NUL"
    using len by (simp add: replicate_app_Cons_same Suc_diff_le numeral_eq_Suc flip: replicate_Suc)
  then have sh: "dp_get_expire (shift_expire q) = k"
    using parse_print_lld[of k "[]"] assms(2,3,4) by (simp add: dp_get_expire_def Let_def del: append_assoc)
  obtain w1 where t: "run_state c_time w = (w_now w, w1)" using c_time_split by blast
  have ll: "c_llong (k + w_now w) = w_now w + k" using assms(2-4) by (simp add: add.commute)
  have hd: "hd (dp_expire q) = CHR '':''" using e by simp
  have "run_state (dp_get_expire_or_set q) w = ((w_now w + k, dp_set_expire (shift_expire q) (w_now w + k)), w1)"
    using inv hd sh t ll assms(2) by (simp add: dp_get_expire_or_set_def Let_def)
  then have "b = (w_now w + k \<le> t) \<and> q' = dp_set_expire (shift_expire q) (w_now w + k)"
    using assms(5,6) by (auto simp: dp_is_expired_compare_def)
  with assms(2-4) show ?thesis
    by (simp_all add: dp_get_set_expire)
qed


lemma relative_expiry_witness:
  "\<exists>q b q' w'. dp_set_expire_str blank_payload (CHR '':'' # print_lld 30) = Inr q \<and>
     run_state (dp_is_expired_compare q 1029) idle_world = ((b, q'), w') \<and> \<not> b \<and> dp_get_expire q' = 1030"
proof -
  have "strlen (CHR '':'' # print_lld 30) < EXPIRE_SIZE"
    by (simp add: print_lld_def dec.simps EXPIRE_SIZE_def strlen_def cstr_Cons)
  then obtain q where q: "dp_set_expire_str blank_payload (CHR '':'' # print_lld 30) = Inr q"
    using expire_field.put_fits by blast
  obtain b q' w' where r: "run_state (dp_is_expired_compare q 1029) idle_world = ((b, q'), w')"
    by (metis prod.exhaust)
  from relative_expiry[OF q _ _ _ _ r] q r show ?thesis by auto
qed

text \<open>
  An absolute expiry with 16 digits does not fit the field with its terminator:
  \<open>dp_set_expire\<close> drops the last digit, so the payload expires at a tenth of the time asked for.
\<close>

theorem dp_set_expire_truncates:
  assumes "1000000000000000 \<le> t" "t < 10000000000000000"
  shows "dp_get_expire (dp_set_expire p t) = t div 10"
proof -
  let ?n = "nat t"
  let ?d = "dec (?n div 10)"
  have n: "\<not> ?n < 10" "?n div 10 < 10 ^ 15" using assms by (auto simp: nat_less_iff zdiv_int[symmetric])
  have "print_lld t = ?d @ [digit_char (?n mod 10)]"
    using assms(1) n(1) by (simp add: print_lld_def dec.simps[of ?n])
  moreover have "length ?d = 15"
  proof -
    have "100000000000000 \<le> ?n div 10" using assms by linarith
    then have "10 ^ 14 \<le> ?n div 10" by simp
    from length_dec_ge[OF this] length_dec_le[OF n(2)] show ?thesis by simp
  qed
  moreover have "cstr (?d @ [digit_char (?n mod 10)]) = ?d @ [digit_char (?n mod 10)]"
    using digit_not_nul[of "digit_char (?n mod 10)"] by (intro cstr_nul_free) simp
  ultimately have "dp_expire (dp_set_expire p t) = ?d @ [NUL]"
    by (simp add: dp_set_expire_def snprintf_field_def EXPIRE_SIZE_def Let_def)
  then have "dp_get_expire (dp_set_expire p t) = (case parse_long_long ?d of Inl _ \<Rightarrow> -1 | Inr e \<Rightarrow> e)"
    by (simp add: dp_get_expire_def Let_def)
  moreover have "?d = print_lld (t div 10)" using assms(1) by (simp add: print_lld_def nat_div_distrib)
  moreover have "parse_long_long (print_lld (t div 10)) = Inr (t div 10)"
    using parse_print_lld[of "t div 10" "[]"] assms by simp
  ultimately show ?thesis by simp
qed

lemma dp_set_expire_truncates_witness:
  "dp_get_expire (dp_set_expire blank_payload 1234567890123456) = 123456789012345"
  using dp_set_expire_truncates[of 1234567890123456 blank_payload] by simp

text \<open>
  A relative expiry that fills all 16 bytes is shifted without a terminator following it, so
  its last digit counts twice: fifteen digits are read as sixteen.
\<close>

theorem relative_expiry_unterminated:
  "dp_get_expire (shift_expire (p\<lparr>dp_expire := '':123456789012345''\<rparr>)) = 1234567890123455"
proof -
  have "dec 1234567890123455 = ''1234567890123455''" by (simp add: dec.simps)
  then have "print_lld 1234567890123455 = ''1234567890123455''" by (simp add: print_lld_def)
  with parse_print_lld[of 1234567890123455 "[]"] show ?thesis
    by (simp add: dp_get_expire_def shift_expire_def cstr_Cons)
qed



section \<open>Data\<close>

text \<open>
  \<open>dp_set_data\<close> accepts exactly data up to 512 MiB; the record it makes has a consistent
  size and \<open>dp_get_data\<close> returns the same data (NULL with \<open>errno = 0\<close> when it is empty).
\<close>

theorem dp_data_roundtrip:
  assumes "dp_wf p" "w_plan w = []"
  shows "case fst (run_state (dp_set_data p d) w) of
      None \<Rightarrow> DUMB_PAYLOAD_DATA_MAX_SIZE < length d
    | Some q \<Rightarrow> length d \<le> DUMB_PAYLOAD_DATA_MAX_SIZE \<and> dp_wf q \<and>
        dp_validate_size q (length (dp_bytes q)) \<and> dp_get_data q = (if d = [] then Inl 0 else Inr d)"
proof (cases "DUMB_PAYLOAD_DATA_MAX_SIZE < length d")
  case False
  then have b: "of_be (be32 (length d)) = length d"
    by (simp add: of_be_be32 DUMB_PAYLOAD_DATA_MAX_SIZE_def)
  let ?q = "p\<lparr>dp_data_size := be32 (length d), dp_payload := d\<rparr>"
  have wf: "dp_wf ?q" using assms(1) by (simp add: dp_wf_def)
  have "fst (run_state (dp_set_data p d) w) = Some ?q"
    using False assms(2) by (simp add: dp_set_data_def dp_set_data_size_def io_simps)
  moreover have "dp_validate_size ?q (length (dp_bytes ?q))"
    using False b length_dp_bytes[OF wf] by (simp add: dp_validate_size_iff)
  ultimately show ?thesis
    using False b wf by (simp add: dp_get_data_def dp_get_data_size_def)
qed (simp add: dp_set_data_def dp_set_data_size_def)

lemma dp_data_roundtrip_witness:
  "case fst (run_state (dp_set_data blank_payload ''abc'') idle_world) of
      None \<Rightarrow> False | Some q \<Rightarrow> dp_get_data q = Inr ''abc''"
  using dp_data_roundtrip[of blank_payload idle_world "''abc''"]
  by (simp add: DUMB_PAYLOAD_DATA_MAX_SIZE_def split: option.splits)


section \<open>Files\<close>

text \<open>What writing a payload does to the world when nothing fails.\<close>

lemma dp_write_quiet:
  assumes "dp_wf p" "dp_validate_size p (length (dp_bytes p))" "w_plan w = []" "calm (w_io w)"
    and "w_files w path \<noteq> Some Dir"
    and "\<And>w'. w_plan w' = [] \<Longrightarrow> calm (w_io w') \<Longrightarrow> w_files w' = (w_files w)(path \<mapsto> Reg (dp_bytes p)) \<Longrightarrow>
           w_fds w' = (w_fds w)(w_nextfd w := None) \<Longrightarrow> w_nextfd w' = w_nextfd w + 1 \<Longrightarrow> Q 0 w'"
    and "0 \<le> w_nextfd w"
  shows "wp (dp_write_to_file p path) Q w"
proof -
  let ?fd = "w_nextfd w" and ?bs = "dp_bytes p"
  let ?w = "w\<lparr>w_files := (w_files w)(path \<mapsto> Reg []), w_fds := (w_fds w)(?fd \<mapsto> OFile path 0), w_nextfd := ?fd + 1\<rparr>"
  have sz: "dp_get_data_size p = Inr (length (dp_payload p))"
    using assms(2) length_dp_bytes[OF assms(1)]
    by (auto simp: dp_validate_size_iff dp_get_data_size_def Let_def)
  have len: "length (dp_payload p) + sizeof_payload = length ?bs" using length_dp_bytes[OF assms(1)] by simp
  have live: "file_end ?fd path ?w" by (simp add: file_end_def)
  have "wp (write_all ?fd ?bs) (\<lambda>r w'. if r < 0 then wp (do { err \<leftarrow> get_errno; sys_close ?fd; fail_with err (-1) }) Q w'
      else wp (do { sys_close ?fd; ret 0 }) Q w') ?w"
  proof (rule file_snk.wp_write_all[OF live])
    fix io e k r
    assume a: "suffix io (w_io ?w)" "-1 \<le> r" "0 \<le> r \<Longrightarrow> k = length ?bs \<and> r = int (length ?bs)"
      "calm (w_io ?w) \<Longrightarrow> 0 \<le> r"
    with assms(4) have k: "0 \<le> r" "k = length ?bs" "calm io" by (auto dest: calm_suffix)
    then show "if r < 0 then wp (do { err \<leftarrow> get_errno; sys_close ?fd; fail_with err (-1) }) Q
          ((file_app ?fd path (take k ?bs) ?w)\<lparr>w_io := io, w_errno := e\<rparr>)
        else wp (do { sys_close ?fd; ret 0 }) Q ((file_app ?fd path (take k ?bs) ?w)\<lparr>w_io := io, w_errno := e\<rparr>)"
      by (auto simp: file_app_def file_content_def assms(3) intro!: assms(6))
  qed
  then show ?thesis
    using assms(3,5,7) len
    by (simp add: dp_write_to_file_def wp_open_trunc_quiet sz cong: if_cong split del: if_split)
qed

lemma dp_load_quiet:
  assumes "w_plan w = []" "calm (w_io w)" "w_files w path = Some (Reg bs)"
    and "168 \<le> length bs" "length bs \<le> 2147483647" "0 \<le> w_nextfd w"
    and "\<And>w'. w_plan w' = [] \<Longrightarrow> calm (w_io w') \<Longrightarrow> w_files w' = w_files w \<Longrightarrow>
           w_fds w' = (w_fds w)(w_nextfd w := None) \<Longrightarrow> w_nextfd w' = w_nextfd w + 1 \<Longrightarrow> Q (Some bs) w'"
  shows "wp (dp_malloc_load path) Q w"
proof -
  let ?fd = "w_nextfd w"
  let ?w = "w\<lparr>w_fds := (w_fds w)(?fd \<mapsto> OFile path 0), w_nextfd := ?fd + 1\<rparr>"
  let ?k = "\<lambda>r. case r of None \<Rightarrow> do { sys_close ?fd; ret None }
               | Some payload \<Rightarrow>
                   if c_int (int (length bs)) < 0 then do { sys_close ?fd; ret None }
                   else do { sys_close ?fd; ret (Some payload) }"
  have live: "file_at ?fd path ?w" using assms(3) by (simp add: file_at_def)
  have av: "drop (file_pos ?fd ?w) (file_content ?w path) = bs"
    using assms(3) by (simp add: file_pos_def file_content_def)
  have "wp (read_all ?fd (length bs)) (\<lambda>r. wp (?k r) Q) ?w"
  proof (rule file_src.wp_read_all[OF live], unfold av)
    fix io e k and r :: "bytes option"
    assume a: "suffix io (w_io ?w)" "k \<le> length bs" "\<And>ba. r = Some ba \<Longrightarrow> k = length bs \<and> ba = take (length bs) bs"
      "r = None \<Longrightarrow> calm (w_io ?w) \<Longrightarrow> length bs < length bs"
    then have "r = Some bs" "calm io" using assms(2) by (cases r; auto dest: calm_suffix)+
    with assms(5) show "wp (?k r) Q (?w\<lparr>w_fds := (w_fds ?w)(?fd \<mapsto> OFile path (file_pos ?fd ?w + k)), w_io := io, w_errno := e\<rparr>)"
      by (auto simp: assms(1) intro!: assms(7))
  qed
  then show ?thesis
    using assms(1,3,4,5,6) live
    by (simp add: dp_malloc_load_def wp_open_rdonly_quiet wp_fstat_quiet[where p = path and c = bs]
        wp_malloc_quiet dp_sizes cong: option.case_cong)
qed

text \<open>
  A well-formed payload written by \<open>dp_write_to_file\<close> is read back unchanged by
  \<open>dp_malloc_load\<close>, however the two transfers are fragmented or interrupted.
\<close>

theorem dp_file_roundtrip:
  assumes "dp_wf p" "dp_validate_size p (length (dp_bytes p))" "w_plan w = []" "calm (w_io w)"
    and "w_files w path \<noteq> Some Dir" "0 \<le> w_nextfd w"
    and "run_state (dp_write_to_file p path) w = (r, w1)"
    and "calm io" "run_state (dp_malloc_load path) (w1\<lparr>w_io := io\<rparr>) = (res, w2)"
  shows "r = 0 \<and> res = Some (dp_bytes p) \<and> w_files w2 = (w_files w)(path \<mapsto> Reg (dp_bytes p))"
proof -
  have "wp (dp_write_to_file p path) (\<lambda>r w1. r = 0 \<and> w_plan w1 = [] \<and> 0 \<le> w_nextfd w1 \<and>
      w_files w1 = (w_files w)(path \<mapsto> Reg (dp_bytes p))) w"
    by (rule dp_write_quiet) (use assms in simp_all)
  from wpD[OF this assms(7)] have w1: "r = 0" "w_plan w1 = []" "0 \<le> w_nextfd w1"
    "w_files w1 = (w_files w)(path \<mapsto> Reg (dp_bytes p))" by simp_all
  have len: "168 \<le> length (dp_bytes p)" "length (dp_bytes p) \<le> 2147483647"
    using assms(2) by (simp_all add: dp_validate_size_iff dp_sizes DUMB_PAYLOAD_DATA_MAX_SIZE_def)
  have "wp (dp_malloc_load path) (\<lambda>res w2. res = Some (dp_bytes p) \<and> w_files w2 = w_files w1) (w1\<lparr>w_io := io\<rparr>)"
    by (rule dp_load_quiet) (use assms(8) w1 len in simp_all)
  from wpD[OF this assms(9)] w1 show ?thesis by simp
qed

lemma dp_file_roundtrip_witness:
  "\<exists>w1 w2. run_state (dp_write_to_file blank_payload ''p'') idle_world = (0, w1) \<and>
     run_state (dp_malloc_load ''p'') (w1\<lparr>w_io := [Short 9, Fail EINTR, Short 0]\<rparr>) = (Some (dp_bytes blank_payload), w2)"
proof -
  obtain r w1 where 1: "run_state (dp_write_to_file blank_payload ''p'') idle_world = (r, w1)" by (metis prod.exhaust)
  obtain res w2 where 2: "run_state (dp_malloc_load ''p'') (w1\<lparr>w_io := [Short 9, Fail EINTR, Short 0]\<rparr>) = (res, w2)"
    by (metis prod.exhaust)
  have "dp_validate_size blank_payload (length (dp_bytes blank_payload))"
  proof -
    have "length (dp_bytes blank_payload) = 168" by (simp add: dp_bytes_def blank_payload_def)
    then show ?thesis by (simp del: One_nat_def)
  qed
  from dp_file_roundtrip[OF _ this _ _ _ _ 1 _ 2] 1 2 show ?thesis by simp
qed

text \<open>
  \<open>dp_malloc_load\<close> leaks no descriptor and changes no file on any path, failing or not, and
  what it returns is the whole content of a regular file of at least the header's size.
\<close>

theorem dp_malloc_load_frame:
  assumes "w_fds w (w_nextfd w) = None" "0 \<le> w_nextfd w" "run_state (dp_malloc_load path) w = (r, w')"
  shows "w_fds w' = w_fds w \<and> w_files w' = w_files w \<and>
    (\<forall>bs. r = Some bs \<longrightarrow> w_files w path = Some (Reg bs) \<and> sizeof_payload \<le> length bs)"
proof -
  let ?fd = "w_nextfd w"
  let ?Q = "\<lambda>r w'. w_fds w' = w_fds w \<and> w_files w' = w_files w \<and>
    (\<forall>bs. r = Some bs \<longrightarrow> w_files w path = Some (Reg bs) \<and> sizeof_payload \<le> length bs)"
  have upd: "(w_fds w)(?fd := None) = w_fds w" using assms(1) by (simp add: fun_upd_idem)
  have "wp (dp_malloc_load path) ?Q w"
    unfolding dp_malloc_load_def wp_bind
  proof (rule wp_open_rdonly, goal_cases)
    case (1 w')
    then show ?case by (simp add: plan_step_same)
  next
    case (2 w0 nd)
    let ?wA = "w0\<lparr>w_fds := (w_fds w)(?fd \<mapsto> OFile path 0), w_nextfd := ?fd + 1\<rparr>"
    have wA: "w_files ?wA = w_files w" "w_fds ?wA = (w_fds w)(?fd \<mapsto> OFile path 0)"
      using plan_step_same[OF 2(1)] by simp_all
    have closed: "plan_step ?wA v \<Longrightarrow> w_files v = w_files w \<and> (w_fds v)(?fd := None) = w_fds w" for v
      using plan_step_same(1,5)[of ?wA v] wA upd by simp
    have read: "wp (read_all ?fd n) (\<lambda>r w'. (w_fds w')(?fd := None) = w_fds w \<and> w_files w' = w_files w \<and>
        (\<forall>bs. r = Some bs \<longrightarrow> bs = take n c)) v"
      if "plan_step ?wA v" "w_files w path = Some (Reg c)" for n c v
    proof -
      have v: "w_files v = w_files w" "w_fds v = (w_fds w)(?fd \<mapsto> OFile path 0)"
        using plan_step_same(1,5)[OF that(1)] wA by simp_all
      then have live: "file_at ?fd path v" using that(2) by (simp add: file_at_def)
      have av: "drop (file_pos ?fd v) (file_content v path) = c"
        using that(2) v by (simp add: file_pos_def file_content_def)
      show ?thesis
        by (rule file_src.wp_read_all[OF live], unfold av) (use v upd in auto)
    qed
    have nn: "\<not> w_nextfd w < 0" using assms(2) by simp
    show ?case
      unfolding if_not_P[OF nn] wp_bind
    proof (rule wp_fstat_any, goal_cases)
      case (1 v)
      then show ?case using closed[OF 1] by simp
    next
      case (2 v reg n)
      note st = 2
      show ?case
      proof (cases "n < sizeof_payload \<or> 18446744073709551614 < n")
        case True
        then show ?thesis using closed[OF st(1)] by auto
      next
        case False
        from \<open>w_files w path = Some nd\<close> st(2,3) wA False obtain c where c: "nd = Reg c" "n = length c"
          by (cases nd) (auto simp: dp_sizes)
        have "wp c_malloc (\<lambda>ok. wp (if \<not> ok then do { sys_close ?fd; ret None }
             else do {
               r \<leftarrow> read_all ?fd n;
               case r of None \<Rightarrow> do { sys_close ?fd; ret None }
               | Some payload \<Rightarrow>
                   if c_int (int n) < 0 then do { sys_close ?fd; ret None }
                   else do { sys_close ?fd; ret (Some payload) } }) ?Q) v"
        proof (rule wp_malloc_from[OF st(1)])
          fix b v' assume v': "plan_step ?wA v'"
          have "wp (read_all ?fd n) (\<lambda>r. wp (case r of None \<Rightarrow> do { sys_close ?fd; ret None }
               | Some payload \<Rightarrow>
                   if c_int (int n) < 0 then do { sys_close ?fd; ret None }
                   else do { sys_close ?fd; ret (Some payload) }) ?Q) v'"
          proof (rule wp_mono[OF read[OF v', of c n]], goal_cases)
            case 1
            then show ?case using \<open>w_files w path = Some nd\<close> c(1) by simp
          next
            case (2 r u)
            then show ?case using \<open>w_files w path = Some nd\<close> c False by (cases r) simp_all
          qed
          then show "wp (if \<not> b then do { sys_close ?fd; ret None }
             else do {
               r \<leftarrow> read_all ?fd n;
               case r of None \<Rightarrow> do { sys_close ?fd; ret None }
               | Some payload \<Rightarrow>
                   if c_int (int n) < 0 then do { sys_close ?fd; ret None }
                   else do { sys_close ?fd; ret (Some payload) } }) ?Q v'"
            using closed[OF v'] by (cases b) simp_all
        qed
        then show ?thesis using False by (simp cong: if_cong option.case_cong split del: if_split)
      qed
    qed
  qed
  from wpD[OF this assms(3)] show ?thesis .
qed

lemma dp_malloc_load_frame_witness:
  "\<exists>r w'. run_state (dp_malloc_load ''none'') (idle_world\<lparr>w_plan := [Fail EACCES]\<rparr>) = (r, w') \<and>
     w_fds w' = (\<lambda>_. None) \<and> w_files w' = (\<lambda>_. None)"
proof -
  obtain r w' where 1: "run_state (dp_malloc_load ''none'') (idle_world\<lparr>w_plan := [Fail EACCES]\<rparr>) = (r, w')"
    by (metis prod.exhaust)
  from dp_malloc_load_frame[OF _ _ 1] 1 show ?thesis by simp
qed

end
