(* ===== verification/SecretCode.thy ===== *)
theory SecretCode
  imports PayloadCmd PayloadProps RequestId Curl ExecWrapper
begin

text \<open>
  \<open>daemon/secret_code.c\<close>: checking a payload's expiry and signature and running its command
  (\<open>handle_one_payload\<close>, recursive through composite payloads), and fetching the payload of a
  secret code from the server (\<open>secret_code\<close>).
\<close>

section \<open>One payload\<close>

definition payload_dispatch ::
  "device \<Rightarrow> int \<Rightarrow> string \<Rightarrow> bytes \<Rightarrow> nat \<Rightarrow> (dumb_payload \<Rightarrow> nat \<Rightarrow> int io) \<Rightarrow> int io" where
  "payload_dispatch dev sockfd cmd data payload_size handle =
     (if cmd = ''ok'' then do { tell sockfd ''ok''; ret 0 }
      else if cmd = ''install-this'' then payload_cmd_install_this dev data payload_size sockfd
      else if cmd = ''install-path'' then payload_cmd_install_path data payload_size sockfd
      else if cmd = ''export-files'' then payload_cmd_files_export dev sockfd
      else if cmd = ''import-files'' then payload_cmd_files_import dev sockfd
      else if cmd = ''adb-enable'' then payload_cmd_set_adb_enabled True
      else if cmd = ''adb-disable'' then payload_cmd_set_adb_enabled False
      else if cmd = ''wifi-enable'' then payload_cmd_set_wifi_enabled True
      else if cmd = ''wifi-disable'' then payload_cmd_set_wifi_enabled False
      else if cmd = ''oem-unlock'' then payload_cmd_set_oem_unlock_enabled True
      else if cmd = ''oem-lock'' then payload_cmd_set_oem_unlock_enabled False
      else if cmd = ''composite'' then payload_cmd_composite handle data payload_size sockfd
      else if cmd = ''fw-allow'' then payload_cmd_firewall_add sockfd data payload_size
      else if cmd = ''fw-deny'' then payload_cmd_firewall_remove sockfd data payload_size
      else if cmd = ''fw-tmp-add'' then payload_cmd_firewall_add_temp sockfd data payload_size
      else if cmd = ''fw-flush'' then payload_cmd_firewall_flush
      else if cmd = ''singboxadd'' then payload_cmd_singbox_add sockfd data payload_size
      else if cmd = ''singboxdel'' then payload_cmd_singbox_del sockfd data payload_size
      else do { tell sockfd ''unknown command:''; tell sockfd cmd; ret ENOSYS })"

lemma payload_dispatch_cong [fundef_cong]:
  assumes "dev = dev'" "sockfd = sockfd'" "cmd = cmd'" "data = data'" "n = n'"
    and "\<And>p m. m < n' \<Longrightarrow> h p m = h' p m"
  shows "payload_dispatch dev sockfd cmd data n h = payload_dispatch dev' sockfd' cmd' data' n' h'"
  using assms payload_cmd_composite_cong[of n' h h'] unfolding payload_dispatch_def by simp

text \<open>\<open>payload->command\<close> after the forced terminator.\<close>

definition payload_command :: "dumb_payload \<Rightarrow> string" where
  "payload_command p = cstr ((dp_command p)[COMMAND_SIZE - 1 := NUL])"

lemma state_bind_cong [fundef_cong]:
  "m = m' \<Longrightarrow> (\<And>a. f a = f' a) \<Longrightarrow> State_Monad.bind m f = State_Monad.bind m' f'"
  by (simp add: fun_eq_iff cong: state.map_cong) (metis ext)

function handle_one_payload :: "device \<Rightarrow> int \<Rightarrow> dumb_payload \<Rightarrow> int \<Rightarrow> nat \<Rightarrow> int io" where
  "handle_one_payload dev sockfd payload time payload_size = do {
     (expired, payload) \<leftarrow> dp_is_expired_compare payload time;
     if expired then do { tell sockfd ''code expired''; ret EKEYEXPIRED }
     else do {
       (r, payload) \<leftarrow> dp_verify (dv_crypto dev) payload (payload_size + sizeof_payload) (dv_pubkey dev);
       if r \<noteq> 0 then do { err \<leftarrow> get_errno; tell sockfd ''invalid signature''; ret err }
       else do {
         tell sockfd ''loading...'';
         tell sockfd ''command is'';
         tell sockfd (payload_command payload);
         payload_dispatch dev sockfd (payload_command payload) (dp_payload payload) payload_size
           (\<lambda>p n. handle_one_payload dev sockfd p time n) } } }"
  by pat_completeness auto
termination by (relation "measure (\<lambda>(dev, sockfd, payload, time, n). n)") auto

declare handle_one_payload.simps [simp del]



section \<open>A secret code\<close>

text \<open>
  The signed request for a code: user, request id, signature and time in the URL.  \<open>Inl\<close> is the
  status returned to the client when no request could be made.
\<close>

definition code_request_url :: "device \<Rightarrow> int \<Rightarrow> string \<Rightarrow> (int + string) io" where
  "code_request_url dev net_time scode = do {
     u \<leftarrow> dumbos_alloc_get_user;
     case u of
       None \<Rightarrow> do { e \<leftarrow> get_errno; ret (Inl e) }
     | Some userdata \<Rightarrow>
         (let username = cstr (ud_username userdata @ [ud_null_byte userdata]);
              key = cstr (ud_priv_key_hex userdata)
          in case request_id_generate (dv_signed_char dev) (dv_random dev) of
               None \<Rightarrow> do { e \<leftarrow> get_errno; ret (Inl e) }
             | Some requestid \<Rightarrow> do {
                 ok \<leftarrow> c_malloc;
                 if \<not> ok then do { e \<leftarrow> get_errno; ret (Inl e) }
                 else do {
                   (err, request_signature) \<leftarrow> request_id_sign (dv_crypto dev) username requestid net_time key;
                   if err \<noteq> 0 then ret (Inl err)
                   else do {
                     url \<leftarrow> alloc_construct_request_URL (dv_server_code dev) username requestid
                              request_signature net_time (Some scode);
                     case url of None \<Rightarrow> ret (Inl err) | Some url \<Rightarrow> ret (Inr url) } } }) }"

text \<open>With the URL: the download, and its payload.\<close>

definition code_run :: "device \<Rightarrow> int \<Rightarrow> string \<Rightarrow> int \<Rightarrow> int io" where
  "code_run dev sockfd url net_time = do {
     tell sockfd ''downloading...'';
     d \<leftarrow> download_url (dv_curl dev) url None;
     case d of
       None \<Rightarrow> do {
         err \<leftarrow> get_errno;
         tell sockfd (if err = ECONNREFUSED then ''check your connection''
           else if err = EPROTO then ''invalid code''
           else ''failed to download, either bad code or bad connection'');
         ret err }
     | Some buf \<Rightarrow>
         if length buf < sizeof_payload then do { tell sockfd ''invalid''; ret EINVAL }
         else handle_one_payload dev sockfd (dp_of_bytes buf) net_time (length buf - sizeof_payload) }"

definition secret_code :: "device \<Rightarrow> string list \<Rightarrow> int \<Rightarrow> int io" where
  "secret_code dev argv sockfd =
     (if length argv \<noteq> 1 then do {
        tell sockfd (''secret_code: expected exactly ONE code'' @ [CHR 0x0A]); ret EINVAL }
      else do {
        let scode = hd argv;
        let secret_len_max = (int PATH_MAX - (int (length (dv_tmpdir dev)) + 1)) mod (ULONG_MAX + 1);
        if secret_len_max < int (strlen scode) then do { tell sockfd ''secret_code: secret too long''; ret ENAMETOOLONG }
        else do {
          net_time \<leftarrow> get_network_time (dv_curl dev);
          if net_time < 0 then do {
            tell sockfd ''failed to get time from network (check your connection?)''; get_errno }
          else do {
            req \<leftarrow> code_request_url dev net_time scode;
            case req of
              Inl e \<Rightarrow> ret e
            | Inr url \<Rightarrow> code_run dev sockfd url net_time } } })"


section \<open>What a payload may do\<close>

text \<open>
  The programs a single command can start, given its data: the scripts of the firewall and the
  proxy get the strings in the data as arguments, the package manager the one temporary file.
\<close>

definition script_exec :: "string \<Rightarrow> string \<Rightarrow> (string \<times> string list) set" where
  "script_exec path arg = {(path, argv) |argv. \<exists>strs. argv = path # arg # strs}"

definition command_execs :: "device \<Rightarrow> string \<Rightarrow> (string \<times> string list) set" where
  "command_execs dev cmd =
     (if cmd = ''install-this'' then
        {(FIREWALL_RELOAD_SCRIPT, [FIREWALL_RELOAD_SCRIPT]),
         (''/system/bin/pm'', [''/system/bin/pm'', ''install'', dv_tmpdir dev @ ''tmp.apk''])}
      else if cmd = ''adb-enable'' \<or> cmd = ''adb-disable'' then
        {(''/system/bin/settings'', [''/system/bin/settings'', ''put'', ''global'', k, v]) | k v.
           k \<in> {''development_settings_enabled'', ''adb_enabled''} \<and>
           v = (if cmd = ''adb-enable'' then ''1'' else ''0'')}
      else if cmd = ''wifi-enable'' then {(''/system/bin/start'', [''/system/bin/start'', ''wificond''])}
      else if cmd = ''wifi-disable'' then {(''/system/bin/stop'', [''/system/bin/stop'', ''wificond''])}
      else if cmd = ''oem-unlock'' then
        {(''/system/bin/service'', [''/system/bin/service'', ''call'', ''oem_lock'', ''4'', ''i32'', ''1''])}
      else if cmd = ''oem-lock'' then
        {(''/system/bin/service'', [''/system/bin/service'', ''call'', ''oem_lock'', ''4'', ''i32'', ''0''])}
      else if cmd = ''fw-allow'' then script_exec ''/system/bin/dumbos-firewallctl.sh'' ''allow''
      else if cmd = ''fw-deny'' then script_exec ''/system/bin/dumbos-firewallctl.sh'' ''deny''
      else if cmd = ''fw-tmp-add'' then script_exec ''/system/bin/dumbos-firewallctl.sh'' ''allow-temp''
      else if cmd = ''fw-flush'' then {(FIREWALL_RELOAD_SCRIPT, [FIREWALL_RELOAD_SCRIPT])}
      else if cmd = ''singboxadd'' then script_exec ''/system/bin/sing-box-wrapper.sh'' ''add''
      else if cmd = ''singboxdel'' then script_exec ''/system/bin/sing-box-wrapper.sh'' ''del''
      else {})"

text \<open>
  A payload that may run at a time: its declared size is its real size and the signature in it is
  valid over all its other bytes, in the form in which the expiry test let it pass.
\<close>

definition authentic :: "device \<Rightarrow> dumb_payload \<Rightarrow> nat \<Rightarrow> bool" where
  "authentic dev p n \<longleftrightarrow> n = of_be (dp_data_size p) \<and>
     ed_valid (dv_crypto dev) (dv_pubkey dev) (take (sizeof_payload + n) (dp_bytes (clear_signature p)))
       (cstr ((dp_signature p)[128 := NUL]))"

definition unexpired :: "dumb_payload \<Rightarrow> int \<Rightarrow> bool" where
  "unexpired p time \<longleftrightarrow> (\<exists>q w w'. run_state (dp_is_expired_compare q time) w = ((False, p), w'))"

text \<open>Programs are only started by authentic, unexpired payloads, as their command says.\<close>

definition allowed_execs :: "device \<Rightarrow> int \<Rightarrow> (string \<times> string list) set" where
  "allowed_execs dev time =
     {x. \<exists>p n. authentic dev p n \<and> unexpired p time \<and> x \<in> command_execs dev (payload_command p)}"

definition execs_in :: "(string \<times> string list) set \<Rightarrow> world \<Rightarrow> world \<Rightarrow> bool" where
  "execs_in A w w' \<longleftrightarrow> (\<exists>xs. w_execs w' = w_execs w @ xs \<and> set xs \<subseteq> A)"

interpretation fr_in: file_frame "execs_in A" for A
proof (unfold_locales, goal_cases)
  case (2 w w' w'')
  then obtain xs ys where "w_execs w'' = w_execs w @ xs @ ys" "set xs \<subseteq> A" "set ys \<subseteq> A"
    by (auto simp: execs_in_def)
  then show ?case unfolding execs_in_def by (intro exI[of _ "xs @ ys"]) simp
qed (auto simp: execs_in_def)

lemma keeps_in_execv: "(path, argv) \<in> A \<Longrightarrow> keeps (execs_in A) (execv_wrapper path argv)"
  by (rule fr_in.keeps_execv_wrapper) (auto simp: execs_in_def)


lemma keeps_bind_dep:
  assumes "keeps (execs_in A) m" "\<And>w a w'. run_state m w = (a, w') \<Longrightarrow> keeps (execs_in A) (f a)"
  shows "keeps (execs_in A) (State_Monad.bind m f)"
proof (rule keepsI)
  fix w
  obtain a w' where r: "run_state m w = (a, w')" by (metis prod.exhaust)
  have "execs_in A w w'" using assms(1) r by (rule keepsD)
  moreover have "execs_in A w' (snd (run_state (f a) w'))" using assms(2)[OF r] by (rule keeps_snd)
  ultimately show "execs_in A w (snd (run_state (State_Monad.bind m f) w))"
    using r by (auto intro: fr_in.frame_trans)
qed

lemma keeps_in_script_helper:
  assumes "script_exec path arg \<subseteq> A"
  shows "keeps (execs_in A) (script_helper fd path arg data n)"
proof -
  have "(path, path # arg # strs) \<in> A" for strs using assms by (auto simp: script_exec_def)
  then have "keeps (execs_in A) (script_run fd (path # arg # strs))" for strs
    unfolding script_run_def list.sel by (intro keeps_intros keeps_in_execv)
  then show ?thesis unfolding script_helper_def by (intro keeps_intros)
qed

lemma keeps_in_adb: "command_execs dev (if b then ''adb-enable'' else ''adb-disable'') \<subseteq> A \<Longrightarrow>
  keeps (execs_in A) (set_adb_enabled b)"
proof -
  assume a: "command_execs dev (if b then ''adb-enable'' else ''adb-disable'') \<subseteq> A"
  have "keeps (execs_in A) (settings_put k (if b then ''1'' else ''0''))"
    if "k \<in> {''development_settings_enabled'', ''adb_enabled''}" for k
    unfolding settings_put_def
    by (rule keeps_in_execv, rule subsetD[OF a]) (use that in \<open>auto simp: command_execs_def\<close>)
  then show ?thesis unfolding set_adb_enabled_def
    by (cases b) (auto intro!: keeps_intros)
qed

lemma keeps_in_dispatch:
  assumes "command_execs dev cmd \<subseteq> A" "\<And>p n. keeps (execs_in A) (h p n)"
    and "\<And>a b c d e f. keeps (execs_in A) (dv_mount_copy dev a b c d e f)"
  shows "keeps (execs_in A) (payload_dispatch dev fd cmd data n h)"
proof -
  have adb: "cmd = ''adb-enable'' \<Longrightarrow> keeps (execs_in A) (set_adb_enabled True)"
    "cmd = ''adb-disable'' \<Longrightarrow> keeps (execs_in A) (set_adb_enabled False)"
    using keeps_in_adb[of dev True A] keeps_in_adb[of dev False A] assms(1) by simp_all
  have fw: "keeps (execs_in A) (firewall_helper fd pol data n)"
    if "script_exec ''/system/bin/dumbos-firewallctl.sh''
        (if pol = FIREWALL_POLICY_ALLOW then ''allow'' else if pol = FIREWALL_POLICY_DENY then ''deny'' else ''allow-temp'') \<subseteq> A" for pol
    unfolding firewall_helper_def Let_def using that by (rule keeps_in_script_helper)
  have mc: "keeps (execs_in A) (try_mount_copy dev a b c d e f)" for a b c d e f
    unfolding try_mount_copy_def Let_def by (intro keeps_intros assms(3))
  have inst: "keeps (execs_in A) (payload_cmd_install_this dev data n fd)" if "cmd = ''install-this''"
    using assms(1) that unfolding payload_cmd_install_this_def install_run_def Let_def
    by (intro keeps_intros keeps_in_execv) (auto simp: command_execs_def)
  have wifi: "keeps (execs_in A) (set_wifi_enabled b)" if "cmd = (if b then ''wifi-enable'' else ''wifi-disable'')" for b
    using assms(1) that unfolding set_wifi_enabled_def
    by (intro keeps_intros keeps_in_execv) (auto simp: command_execs_def split: if_splits)
  have oem: "keeps (execs_in A) (set_oem_lock b)" if "cmd = (if b then ''oem-lock'' else ''oem-unlock'')" for b
    using assms(1) that unfolding set_oem_lock_def
    by (intro keeps_intros keeps_in_execv) (auto simp: command_execs_def split: if_splits)
  have flush: "keeps (execs_in A) payload_cmd_firewall_flush" if "cmd = ''fw-flush''"
    using assms(1) that unfolding payload_cmd_firewall_flush_def
    by (intro keeps_intros keeps_in_execv) (auto simp: command_execs_def)
  have imp: "keeps (execs_in A) (payload_cmd_files_import dev fd)"
    "keeps (execs_in A) (payload_cmd_files_export dev fd)"
    unfolding payload_cmd_files_import_def payload_cmd_files_export_def by (intro keeps_intros mc)+
  have comp: "keeps (execs_in A) (payload_cmd_composite h data n fd)"
    by (rule fr_in.keeps_composite) (rule assms(2))
  show ?thesis
    unfolding payload_dispatch_def payload_cmd_install_path_def payload_cmd_set_adb_enabled_def
      payload_cmd_set_wifi_enabled_def payload_cmd_set_oem_unlock_enabled_def
      payload_cmd_firewall_add_def payload_cmd_firewall_remove_def payload_cmd_firewall_add_temp_def
      payload_cmd_singbox_add_def payload_cmd_singbox_del_def
    by (intro keeps_intros imp comp inst adb wifi oem flush fw keeps_in_script_helper)
       (use assms(1) in \<open>auto simp: command_execs_def\<close>)
qed

text \<open>The handler only uses smaller payloads, so its effect on those is enough.\<close>

lemma keeps_in_dispatch_below:
  assumes "command_execs dev cmd \<subseteq> A" "\<And>p m. m < n \<Longrightarrow> keeps (execs_in A) (h p m)"
    and "\<And>a b c d e f. keeps (execs_in A) (dv_mount_copy dev a b c d e f)"
  shows "keeps (execs_in A) (payload_dispatch dev fd cmd data n h)"
proof -
  let ?h = "\<lambda>p m. if m < n then h p m else ret 0"
  have "payload_dispatch dev fd cmd data n h = payload_dispatch dev fd cmd data n ?h"
    by (rule payload_dispatch_cong) simp_all
  moreover have "keeps (execs_in A) (payload_dispatch dev fd cmd data n ?h)"
    by (intro keeps_in_dispatch keeps_intros assms)
  ultimately show ?thesis by simp
qed

lemma expired_compare_command:
  "run_state (dp_is_expired_compare p t) w = ((b, q), w') \<Longrightarrow>
   dp_command q = dp_command p \<and> dp_data_size q = dp_data_size p"
  by (auto simp: dp_is_expired_compare_def dp_get_expire_or_set_def Let_def dp_set_expire_def
      shift_expire_def c_time_def split: prod.splits if_splits list.splits)

lemma unexpired_clear [simp]: "payload_command (clear_signature p) = payload_command p"
  by (simp add: payload_command_def)

lemma keeps_in_handle:
  assumes mc: "\<And>a b c d e f. keeps (execs_in (allowed_execs dev time)) (dv_mount_copy dev a b c d e f)"
  shows "keeps (execs_in (allowed_execs dev time)) (handle_one_payload dev fd p time n)"
proof (induction n arbitrary: p rule: less_induct)
  case (less n)
  let ?A = "allowed_execs dev time"
  have run: "keeps (execs_in ?A) (do {
         tell fd ''loading...''; tell fd ''command is'';
         tell fd (payload_command r);
         payload_dispatch dev fd (payload_command r) (dp_payload r) n
           (\<lambda>p n. handle_one_payload dev fd p time n) })"
    if "run_state (dp_is_expired_compare p time) w = ((False, q), w')"
       "run_state (dp_verify (dv_crypto dev) q (n + sizeof_payload) (dv_pubkey dev)) v = ((0, r), v')" for q r w w' v v'
  proof -
    from dp_verify_cases[OF that(2)] have "authentic dev q n" "payload_command r = payload_command q"
      by (auto simp: authentic_def dp_validate_size_iff add.commute)
    moreover have "unexpired q time" using that(1) unfolding unexpired_def by blast
    ultimately have "command_execs dev (payload_command r) \<subseteq> ?A" by (auto simp: allowed_execs_def)
    then show ?thesis
      by (intro keeps_intros keeps_in_dispatch_below less.IH mc)
  qed
  show ?case
    by (subst handle_one_payload.simps)
       (auto intro!: keeps_bind_dep[OF fr_in.keeps_is_expired_compare] keeps_bind_dep[OF fr_in.keeps_dp_verify]
          keeps_intros run)
qed

text \<open>The same for a whole code: the time is the one of the network.\<close>

definition network_time :: "device \<Rightarrow> int \<Rightarrow> bool" where
  "network_time dev t \<longleftrightarrow> 0 \<le> t \<and> (\<exists>w w'. run_state (get_network_time (dv_curl dev)) w = (t, w'))"

definition code_execs :: "device \<Rightarrow> (string \<times> string list) set" where
  "code_execs dev = {x. \<exists>t. network_time dev t \<and> x \<in> allowed_execs dev t}"

lemma execs_in_mono: "A \<subseteq> B \<Longrightarrow> keeps (execs_in A) m \<Longrightarrow> keeps (execs_in B) m"
  by (fastforce simp: keeps_def execs_in_def)

lemma same_execs_in: "keeps same_execs m \<Longrightarrow> keeps (execs_in A) m"
  by (fastforce simp: keeps_def execs_in_def same_execs_def)

context file_frame
begin

lemma keeps_alloc_get_user [keeps_intros]: "keeps R dumbos_alloc_get_user"
  unfolding dumbos_alloc_get_user_def c_fread_def Let_def by (intro keeps_intros)

lemma keeps_code_request_url [keeps_intros]: "keeps R (code_request_url dev t s)"
  unfolding code_request_url_def Let_def by (intro keeps_intros)

end

lemma keeps_in_secret_code:
  assumes mc: "\<And>a b c d e f. keeps same_execs (dv_mount_copy dev a b c d e f)"
  shows "keeps (execs_in (code_execs dev)) (secret_code dev argv fd)"
proof -
  have "keeps (execs_in (code_execs dev)) (handle_one_payload dev fd p t n)"
    if "run_state (get_network_time (dv_curl dev)) w = (t, w')" "\<not> t < 0" for p t n w w'
  proof (rule execs_in_mono)
    have "network_time dev t" using that by (auto simp: network_time_def)
    then show "allowed_execs dev t \<subseteq> code_execs dev" by (auto simp: code_execs_def)
    show "keeps (execs_in (allowed_execs dev t)) (handle_one_payload dev fd p t n)"
      by (intro keeps_in_handle same_execs_in mc)
  qed
  then show ?thesis
    unfolding secret_code_def code_run_def Let_def
    by (intro keeps_intros keeps_bind_dep[OF fr_in.keeps_get_network_time])
qed

end
