(* ===== verification/SecretProps.thy ===== *)
theory SecretProps
  imports SecretCode
begin

text \<open>
  What \<open>secret_code.c\<close> and \<open>payload_cmd.c\<close> guarantee: programs are started only for authentic,
  unexpired payloads; a payload that is not authentic or has expired changes nothing but the
  client's socket; the strings of a payload reach the firewall script as separate arguments.
\<close>


section \<open>Effects on the socket alone\<close>

definition only_sock :: "int \<Rightarrow> world \<Rightarrow> world \<Rightarrow> bool" where
  "only_sock fd w w' \<longleftrightarrow> (w_fds w fd = Some OSock \<longrightarrow>
     w_files w' = w_files w \<and> w_execs w' = w_execs w \<and> w_db w' = w_db w \<and> w_fds w' = w_fds w)"

interpretation fr_only: effect_frame "only_sock fd" for fd
  by unfold_locales (auto simp: only_sock_def)

lemma keeps_only_write_all [keeps_intros]: "keeps (only_sock fd) (write_all fd p)"
proof (rule keepsI)
  fix w
  have "wp (write_all fd p) (\<lambda>_. only_sock fd w) w" if "w_fds w fd = Some OSock"
    by (rule sock_snk.wp_write_all) (use that in \<open>simp_all add: sock_live_def only_sock_def\<close>)
  then show "only_sock fd w (snd (run_state (write_all fd p) w))"
    by (cases "w_fds w fd = Some OSock") (auto simp: wp_run only_sock_def)
qed

lemma keeps_only_read_all [keeps_intros]: "keeps (only_sock fd) (read_all fd n)"
proof (rule keepsI)
  fix w
  have "wp (read_all fd n) (\<lambda>_. only_sock fd w) w" if "w_fds w fd = Some OSock"
    by (rule sock_src.wp_read_all) (use that in \<open>simp_all add: sock_live_def only_sock_def\<close>)
  then show "only_sock fd w (snd (run_state (read_all fd n) w))"
    by (cases "w_fds w fd = Some OSock") (auto simp: wp_run only_sock_def)
qed

lemma keeps_only_write_string [keeps_intros]: "keeps (only_sock fd) (write_string fd s)"
  unfolding write_string_def write_ushort_def by (intro keeps_intros)

lemma keeps_only_tell [keeps_intros]: "keeps (only_sock fd) (tell fd s)"
  unfolding tell_def by (intro keeps_intros)


section \<open>Authorisation\<close>

text \<open>The smallest device: every library call works, the copy service does nothing.\<close>

definition toy_device :: device where
  "toy_device = \<lparr>dv_crypto = toy_crypto, dv_pubkey = zero_key, dv_curl = plain_lib [] [''date: now''],
     dv_random = zeros 64, dv_signed_char = True, dv_tmpdir = ''/t/'', dv_server_code = ''http://h/code'',
     dv_server_upload = ''h/up'', dv_sysblock = [], dv_strerror = (\<lambda>_. ''error''),
     dv_mount_copy = (\<lambda>_ _ _ _ _ _. ret 0)\<rparr>"

lemma toy_device_fields:
  "dv_crypto toy_device = toy_crypto" "dv_pubkey toy_device = zero_key" "dv_signed_char toy_device"
  "dv_random toy_device = zeros 64" "dv_server_code toy_device = ''http://h/code''" "dv_tmpdir toy_device = ''/t/''"
  by (simp_all add: toy_device_def)

lemma toy_mount_copy: "keeps R (dv_mount_copy toy_device a b c d e f) \<longleftrightarrow> keeps R (ret (0::int))"
  by (simp add: toy_device_def)

lemma dp_verify_errno: "wp (dp_verify c p n k) (\<lambda>(r, q) w'. r \<noteq> 0 \<longrightarrow> w_errno w' \<noteq> 0) w"
  by (auto simp: dp_verify_def Let_def intro!: wp_verify_any)

lemma handle_not_authentic:
  assumes "\<And>v v' q. run_state (dp_is_expired_compare p time) v = ((False, q), v') \<Longrightarrow> \<not> authentic dev q n"
  shows "wp (handle_one_payload dev fd p time n) (\<lambda>r w'. r \<noteq> 0 \<and> only_sock fd w w') w"
proof -
  obtain b q w1 where e: "run_state (dp_is_expired_compare p time) w = ((b, q), w1)" by (metis prod.exhaust)
  obtain s q' w2 where v: "run_state (dp_verify (dv_crypto dev) q (n + sizeof_payload) (dv_pubkey dev)) w1 = ((s, q'), w2)"
    by (metis prod.exhaust)
  have err: "s \<noteq> 0 \<Longrightarrow> w_errno w2 \<noteq> 0" using wpD[OF dp_verify_errno v] by simp
  have rej: "\<not> b \<Longrightarrow> s \<noteq> 0"
    using dp_verify_cases[OF v] assms e by (auto simp: authentic_def dp_validate_size_iff add.commute)
  have t: "only_sock fd w w1" "only_sock fd w1 w2"
    using keepsD[OF fr_only.keeps_is_expired_compare e] keepsD[OF fr_only.keeps_dp_verify v] by simp_all
  have told: "only_sock fd v (snd (run_state (tell fd m) v))" for v m
    by (rule keeps_snd) (rule keeps_only_tell)
  show ?thesis
  proof (cases b)
    case True
    then show ?thesis using e t(1) told
      by (subst handle_one_payload.simps) (auto simp: wp_run intro: fr_only.frame_trans)
  next
    case False
    then show ?thesis using e v t told err rej
      by (subst handle_one_payload.simps) (auto simp: wp_run intro: fr_only.frame_trans)
  qed
qed

section \<open>Running a payload\<close>

text \<open>With an empty plan a message is one write of the length and one of the text.\<close>

definition smooth :: "int \<Rightarrow> world \<Rightarrow> bool" where
  "smooth fd w \<longleftrightarrow> w_plan w = [] \<and> w_io w = [] \<and> w_fds w fd = Some OSock"

lemma smooth_upd [simp]:
  "smooth fd (w\<lparr>w_sout := o'\<rparr>) = smooth fd w" "smooth fd (w\<lparr>w_execs := xs\<rparr>) = smooth fd w"
  "smooth fd (w\<lparr>w_errno := e\<rparr>) = smooth fd w"
  by (simp_all add: smooth_def)

lemma run_write_all_smooth:
  "smooth fd w \<Longrightarrow> run_state (write_all fd p) w = (int (length p), w\<lparr>w_sout := w_sout w @ p\<rparr>)"
  by (cases "p = []")
     (simp_all add: smooth_def write_all_def write_loop.simps[of fd p] write_loop.simps[of fd "[]"] run_sys_write)

lemma run_tell_smooth:
  "smooth fd w \<Longrightarrow> string_ok s \<Longrightarrow>
   run_state (tell fd s) w = ((), w\<lparr>w_sout := w_sout w @ string_enc s\<rparr>)"
  by (simp add: tell_def write_string_def write_ushort_def Let_def run_write_all_smooth string_ok_def
      string_enc_def MAX_STRING_def nat_mod_distrib)

text \<open>A payload signed with the toy scheme.\<close>

definition toy_payload :: "string \<Rightarrow> bytes \<Rightarrow> dumb_payload" where
  "toy_payload cmd data =
     (let p = \<lparr>dp_signature = zeros 129, dp_expire = strncpy_field ''0'' 16,
        dp_command = strncpy_field cmd 16, dp_pad = zeros 3, dp_data_size = be32 (length data), dp_payload = data\<rparr>
      in p\<lparr>dp_signature := ed_signature toy_crypto (zeros 32) (dp_bytes p) @ [NUL]\<rparr>)"

lemma toy_payload_fields:
  assumes "length cmd < 16" "nul_free cmd"
  shows "dp_wf (toy_payload cmd data)" "dp_get_expire (toy_payload cmd data) = 0" "payload_command (toy_payload cmd data) = cmd"
    "dp_data_size (toy_payload cmd data) = be32 (length data)" "dp_payload (toy_payload cmd data) = data"
proof -
  let ?p = "toy_payload cmd data"
  have f: "dp_expire ?p = strncpy_field ''0'' 16" "dp_command ?p = strncpy_field cmd 16"
    by (simp_all add: toy_payload_def Let_def)
  show "dp_data_size ?p = be32 (length data)" "dp_payload ?p = data" by (simp_all add: toy_payload_def Let_def)
  show "dp_wf ?p" by (simp add: dp_wf_def toy_payload_def Let_def ed_signature_def toy_crypto_def be32_def)
  have "cstr (strncpy_field ''0'' 16 @ [NUL]) = print_lld 0"
    using cstr_field_NUL[of "''0''" 15] by (simp add: strncpy_field_def cstr_Cons print_lld_def dec.simps)
  then show "dp_get_expire ?p = 0"
    using parse_print_lld[of 0 "[]"] by (simp add: dp_get_expire_def f Let_def)
  show "payload_command ?p = cmd"
    using field_get(2)[of cmd] assms by (simp add: payload_command_def f COMMAND_SIZE_def)
qed

lemma run_toy_payload:
  assumes "smooth fd w" "length cmd < 16" "nul_free cmd" "length data < 1000" "dv_crypto dev = toy_crypto"
    "dv_pubkey dev = zero_key"
  shows "run_state (handle_one_payload dev fd (toy_payload cmd data) t (length data)) w =
    run_state (payload_dispatch dev fd cmd data (length data) (\<lambda>p n. handle_one_payload dev fd p t n))
      (w\<lparr>w_sout := w_sout w @ string_enc ''loading...'' @ string_enc ''command is'' @ string_enc cmd\<rparr>)"
proof -
  let ?p = "toy_payload cmd data"
  have sz: "of_be (be32 (length data)) = length data" using assms(4) by (simp add: of_be_be32)
  note toy = toy_payload_fields[OF assms(2,3), of data]
  have f: "dp_expire ?p = strncpy_field ''0'' 16" "dp_command ?p = strncpy_field cmd 16"
    "dp_data_size ?p = be32 (length data)" "dp_payload ?p = data"
    "length (dp_pad ?p) = 3"
    by (simp_all add: toy_payload_def Let_def)
  have e: "run_state (dp_is_expired_compare ?p t) w = ((False, ?p), w)"
    using toy(2) by (simp add: dp_is_expired_compare_def dp_get_expire_or_set_def)
  let ?d = "dp_bytes (clear_signature ?p)"
  have sg: "dp_signature ?p = ed_signature toy_crypto (zeros 32) ?d @ [NUL]"
    by (simp add: toy_payload_def Let_def clear_signature_def)
  have k: "length (cr_sign toy_crypto (zeros 32) d) = ED25519_SIGNATURE_SIZE" for d
    by (simp add: toy_crypto_def ed_sizes)
  have v: "run_state (dp_verify toy_crypto ?p (length data + sizeof_payload) zero_key) w = ((0, clear_signature ?p), w)"
  proof -
    have l: "length (ed_signature toy_crypto (zeros 32) ?d) = 128"
      using length_ed_signature[OF k, of ?d] by (simp add: ed_sizes)
    have c: "cstr ((dp_signature ?p)[128 := NUL]) = ed_signature toy_crypto (zeros 32) ?d"
      by (simp add: sg list_update_append l)
    have len: "length ?d = length data + sizeof_payload"
      using assms(2) by (simp add: dp_bytes_def clear_signature_def f dp_sizes be32_def)
    have "cr_verify toy_crypto (zeros 32) ?d (cr_sign toy_crypto (zeros 32) ?d) = 1"
      by (simp add: toy_crypto_def)
    then show ?thesis
      unfolding zero_key_def
      using dp_verify_quiet[of w "zeros 32" ?p "length data + sizeof_payload" "cr_sign toy_crypto (zeros 32) ?d" toy_crypto]
        ed_signature_decodes[OF k, of ?d] assms(1,4) c len
      by (simp add: smooth_def dp_validate_size_iff f sz DUMB_PAYLOAD_DATA_MAX_SIZE_def ed_sizes)
  qed
  note cmd = toy(3)
  have ok: "string_ok cmd" "string_ok ''loading...''" "string_ok ''command is''"
    using assms(2,3) by (simp_all add: string_ok_def MAX_STRING_def)
  show ?thesis
    unfolding handle_one_payload.simps[of dev fd ?p] assms(5,6)
    by (simp only: run_state_bind case_prod_conv e v if_False simp_thms run_tell_smooth assms(1) ok
        smooth_upd unexpired_clear cmd f clear_signature_fields) simp
qed


section \<open>A request\<close>

text \<open>Calls that succeed one after the other under a plan that says so.\<close>

lemma wp_fallible_Done: "w_plan w = Done # p \<Longrightarrow> wp fallible Q w = Q True (w\<lparr>w_plan := p\<rparr>)"
  by (simp add: wp_def fallible_def next_outcome_def)

lemma wp_malloc_Done: "w_plan w = Done # p \<Longrightarrow> wp c_malloc Q w = Q True (w\<lparr>w_plan := p\<rparr>)"
  by (simp add: wp_def c_malloc_def next_outcome_def)

lemma wp_openssl_Done: "w_plan w = Done # p \<Longrightarrow> wp openssl_call Q w = Q True (w\<lparr>w_plan := p\<rparr>)"
  by (simp add: openssl_call_def wp_fallible_Done)

lemma wp_fallible_Fail: "w_plan w = Fail e # p \<Longrightarrow> wp fallible Q w = Q False (w\<lparr>w_plan := p, w_errno := e\<rparr>)"
  by (simp add: wp_def fallible_def next_outcome_def)

lemma wp_open_Done:
  "w_plan w = Done # p \<Longrightarrow> w_files w path = Some nd \<Longrightarrow> wp (sys_open path []) Q w =
     Q (w_nextfd w) (w\<lparr>w_plan := p, w_fds := (w_fds w)(w_nextfd w \<mapsto> OFile path 0), w_nextfd := w_nextfd w + 1\<rparr>)"
  by (auto simp: sys_open_def wp_fallible_Done split: node.split)

lemmas done_calls = wp_fallible_Done wp_malloc_Done wp_openssl_Done wp_open_Done wp_fallible_Fail

lemma wp_sign_Done:
  assumes "w_plan w = Done # Done # Done # Done # p" "hex_to_bytes priv ED25519_PRIVATE_KEY_SIZE = Inr k"
    and "length (cr_sign c k d) = ED25519_SIGNATURE_SIZE"
  shows "wp (ed25519_sign_hex c priv d) Q w = Q (Some (ed_signature c k d)) (w\<lparr>w_plan := p\<rparr>)"
  using assms by (simp add: ed25519_sign_hex_def done_calls Let_def bytes_to_hex_eq ed_signature_def ed_sizes)

lemma wp_alloc_get_user_Done:
  assumes "dumbos_alloc_new_user u k = Inr d" "w_plan w = Done # Done # p" "w_io w = []"
    and "w_files w DUMBOS_USER_DATA_PATH = Some (Reg (ud_bytes d))" "0 \<le> w_nextfd w"
  shows "wp dumbos_alloc_get_user Q w = Q (Some d) (w\<lparr>w_plan := p, w_nextfd := w_nextfd w + 1,
    w_errno := 0, w_fds := (w_fds w)(w_nextfd w := None)\<rparr>)"
proof -
  have wf: "ud_wf d" using assms(1) by (rule dumbos_alloc_new_user_wf)
  then show ?thesis
    using assms length_ud_bytes[OF wf] ud_of_bytes_bytes[OF wf] ud_wf_terminated[OF wf]
    by (simp add: dumbos_alloc_get_user_def wp_malloc_Done wp_open_Done sizeof_user_data
        wp_fread_done[where bs = "ud_bytes d"] ed_sizes ud_wf_def)
qed

text \<open>The calls of \<open>code_request_url\<close> before the last one, which builds the URL.\<close>

lemma wp_code_request_url_Done:
  assumes "dumbos_alloc_new_user u (hex_of (\<lambda>n. hex_lower ! n) priv) = Inr d" "key_pair (dv_crypto dev) pub priv"
    and "length (dv_random dev) = 64" "w_plan w = replicate 8 Done @ p" "w_io w = []"
    and "w_files w DUMBOS_USER_DATA_PATH = Some (Reg (ud_bytes d))" "0 \<le> w_nextfd w"
    and "\<And>url w'. has_prefix url (dv_server_code dev) \<Longrightarrow> w' = w\<lparr>w_nextfd := w_nextfd w + 1, w_errno := 0, w_fds := (w_fds w)(w_nextfd w := None), w_plan := p\<rparr>
      \<Longrightarrow> wp fallible (\<lambda>ok. if ok then Q (Inr url) else Q (Inl 0)) w'"
  shows "wp (code_request_url dev t scode) Q w"
proof -
  have k: "length priv = 32" "length (cr_sign (dv_crypto dev) priv d) = 64" for d
    using assms(2) by (simp_all add: key_pair_def ed_sizes)
  have key: "cstr (ud_priv_key_hex d) = hex_of (\<lambda>n. hex_lower ! n) priv"
    using new_user_fields(2)[OF assms(1)] by simp
  obtain rid where rid: "request_id_generate (dv_signed_char dev) (dv_random dev) = Some rid"
    using assms(3) by (simp add: request_id_generate_def REQUEST_ID_LEN_def)
  let ?url = "dv_server_code dev @ ''?code='' @ scode @ ''&user='' @ cstr (ud_username d @ [ud_null_byte d]) @
    ''&requestid='' @ rid @ ''&requestsig='' @ ed_signature (dv_crypto dev) priv (request_text
      (cstr (ud_username d @ [ud_null_byte d])) rid (print_lld t)) @ ''&time='' @ print_lld t"
  have chars: "check_allowed_chars rid REQUESTID_ALLOWED_CHARS"
    using request_id_generate_chars[OF rid] by (simp add: request_id_verify_chars_def)
  have plan: "w_plan w = Done # Done # replicate 6 Done @ p" "replicate 6 Done = [Done, Done, Done, Done, Done, Done]"
    using assms(4) by (simp_all add: numeral_eq_Suc)
  show ?thesis
    unfolding code_request_url_def wp_bind wp_alloc_get_user_Done[OF assms(1) plan(1) assms(5-7)]
    using k key rid chars plan(2)
    by (simp add: Let_def wp_malloc_Done wp_fallible_Done request_id_sign_def alloc_construct_request_URL_def
        wp_sign_Done[where k = priv] ed_sizes)
       (rule wp_mono[OF assms(8)[of ?url, OF _ refl]], simp_all add: has_prefix_def split: if_splits)
qed


text \<open>A whole code, up to the point where its URL is built.\<close>

lemma wp_secret_code_Done:
  assumes "dumbos_alloc_new_user u (hex_of (\<lambda>n. hex_lower ! n) priv) = Inr d" "key_pair (dv_crypto dev) pub priv"
    and "length (dv_random dev) = 64" "w_plan w = replicate 8 Done @ p" "w_io w = []"
    and "w_files w DUMBOS_USER_DATA_PATH = Some (Reg (ud_bytes d))" "0 \<le> w_nextfd w"
    and "run_state (get_network_time (dv_curl dev)) w = (t, w)" "0 \<le> t"
    and "length (dv_tmpdir dev) + 1 + strlen scode \<le> PATH_MAX"
    and "\<And>url w'. has_prefix url (dv_server_code dev) \<Longrightarrow> w' = w\<lparr>w_nextfd := w_nextfd w + 1, w_errno := 0, w_fds := (w_fds w)(w_nextfd w := None), w_plan := p\<rparr>
      \<Longrightarrow> wp fallible (\<lambda>ok. if ok then wp (code_run dev fd url t) Q else Q 0) w'"
  shows "wp (secret_code dev [scode] fd) Q w"
proof -
  have "(int PATH_MAX - (int (length (dv_tmpdir dev)) + 1)) mod (ULONG_MAX + 1)
      = int PATH_MAX - (int (length (dv_tmpdir dev)) + 1)"
    using assms(10) by (intro mod_pos_pos_trivial) simp_all
  then have len: "\<not> (int PATH_MAX - (int (length (dv_tmpdir dev)) + 1)) mod (ULONG_MAX + 1) < int (strlen scode)"
    using assms(10) by simp
  have "wp (code_request_url dev t scode) (\<lambda>req. wp (case req of Inl e \<Rightarrow> ret e | Inr url \<Rightarrow> code_run dev fd url t) Q) w"
    by (rule wp_code_request_url_Done[OF assms(1-7)]) (simp add: assms(11) cong: if_cong)
  then show ?thesis
    using len assms(8,9) unfolding secret_code_def by (simp add: Let_def wp_def[of "get_network_time (dv_curl dev)"])
qed

text \<open>
  Handling a payload, with all payloads nested in it, starts a program only as the command of
  a payload that had not expired and whose bytes, outside the signature, carry a signature valid
  under the device's key; the copy service is assumed to start only programs so allowed.
\<close>

theorem payload_execs_authorised:
  assumes "\<And>a b c d e f. keeps same_execs (dv_mount_copy dev a b c d e f)"
    and "run_state (handle_one_payload dev fd p time n) w = (r, w')"
    and "x \<in> set (drop (length (w_execs w)) (w_execs w'))"
  shows "\<exists>q m. authentic dev q m \<and> unexpired q time \<and> x \<in> command_execs dev (payload_command q)"
  using keepsD[OF keeps_in_handle[OF same_execs_in[OF assms(1)]] assms(2)] assms(3)
  by (auto simp: execs_in_def allowed_execs_def)

lemma payload_execs_authorised_witness:
  "\<exists>q m. authentic toy_device q m \<and> unexpired q 7 \<and>
     (''/system/bin/start'', [''/system/bin/start'', ''wificond'']) \<in> command_execs toy_device (payload_command q)"
proof -
  have sm: "smooth 5 (sock_world [])" by (simp add: smooth_def)
  obtain r w' where r: "run_state (handle_one_payload toy_device 5 (toy_payload ''wifi-enable'' []) 7 0) (sock_world []) = (r, w')"
    by (metis prod.exhaust)
  have x: "w_execs w' = [(''/system/bin/start'', [''/system/bin/start'', ''wificond''])]"
    using r run_toy_payload[OF sm, of "''wifi-enable''" "[]" toy_device 7]
    by (auto simp: toy_device_fields payload_dispatch_def payload_cmd_set_wifi_enabled_def set_wifi_enabled_def
        run_execv_quiet status_or_errno_def sock_world_def)
  show ?thesis
    by (rule payload_execs_authorised[OF _ r]) (simp_all add: toy_mount_copy fr_execs.keeps_return x)
qed

text \<open>
  Entering a secret code starts a program only as the command of an authentic payload that
  had not expired at a time the network delivered, whatever the server sent back.
\<close>

theorem secret_code_execs_authorised:
  assumes "\<And>a b c d e f. keeps same_execs (dv_mount_copy dev a b c d e f)"
    and "run_state (secret_code dev argv fd) w = (r, w')"
    and "x \<in> set (drop (length (w_execs w)) (w_execs w'))"
  shows "\<exists>q m t. network_time dev t \<and> authentic dev q m \<and> unexpired q t \<and>
    x \<in> command_execs dev (payload_command q)"
proof -
  have "x \<in> code_execs dev"
    using keepsD[OF keeps_in_secret_code[OF assms(1)] assms(2)] assms(3) by (auto simp: execs_in_def)
  then show ?thesis by (fastforce simp: allowed_execs_def code_execs_def)
qed


lemma run_download_plain:
  assumes "w_plan w = []" "has_prefix url ''http://''" "body \<noteq> []" "length body < 1000"
  shows "run_state (download_url (plain_lib [body] h) url None) w = (Some body, w)"
proof -
  have "url \<noteq> []" using assms(2) by (auto simp: has_prefix_def)
  then show ?thesis
    using assms
    by (simp add: download_url_def make_effective_url_def starts_with_http_scheme_def cert_opts_def
        download_perform_def Let_def io_simps)
       (simp add: plain_lib_def write_callback_def db_size_def Let_def io_simps)
qed

lemma secret_code_execs_authorised_witness:
  "\<exists>body q m t. network_time (toy_device\<lparr>dv_curl := plain_lib [body] [''date: now'']\<rparr>) t \<and>
     authentic (toy_device\<lparr>dv_curl := plain_lib [body] [''date: now'']\<rparr>) q m \<and> unexpired q t \<and>
     (''/system/bin/start'', [''/system/bin/start'', ''wificond'']) \<in>
       command_execs (toy_device\<lparr>dv_curl := plain_lib [body] [''date: now'']\<rparr>) (payload_command q)"
proof -
  let ?p = "toy_payload ''wifi-enable'' []"
  let ?body = "dp_bytes ?p"
  let ?dev = "toy_device\<lparr>dv_curl := plain_lib [?body] [''date: now'']\<rparr>"
  obtain d where d: "dumbos_alloc_new_user ''joe'' zero_key = Inr d" using blank_user by blast
  let ?w = "(sock_world [])\<lparr>w_files := [DUMBOS_USER_DATA_PATH \<mapsto> Reg (ud_bytes d)], w_plan := replicate 8 Done\<rparr>"
  obtain r w' where r: "run_state (secret_code ?dev [''abc''] 5) ?w = (r, w')" by (metis prod.exhaust)
  have t: "run_state (get_network_time (dv_curl ?dev)) ?w = (3, ?w)"
    by (simp add: get_network_time_def plain_lib_def geturltime_header_callback_def Let_def strcaseeq_def c_tolower_def
        trim_eol_def is_eol_def is_blank_def cstr_Cons)
  have pair: "key_pair (dv_crypto ?dev) (zeros 32) (zeros 32)" by (simp add: toy_device_fields toy_key_pair)
  have wf: "dp_wf ?p" by (rule toy_payload_fields) simp_all
  have len: "length ?body = 168" using length_dp_bytes[OF wf] by (simp add: dp_sizes toy_payload_def Let_def)
  have "wp (secret_code ?dev [''abc''] 5) (\<lambda>r w'. w_execs w' = [(''/system/bin/start'', [''/system/bin/start'', ''wificond''])]) ?w"
  proof (rule wp_secret_code_Done[OF d[unfolded zero_key_def] pair, where p = "[]" and t = 3], goal_cases)
    case (9 url w1)
    have sm: "smooth 5 w1" using 9(2) by (simp add: smooth_def)
    have "take 13 url = ''http://h/code''" using 9(1) by (simp add: has_prefix_def toy_device_fields numeral_eq_Suc)
    moreover have "take 7 url = take 7 (take 13 url)" by simp
    ultimately have "take 7 url = ''http://''" by (simp only: take_Cons_numeral) simp
    then have pre: "has_prefix url ''http://''" by (simp add: has_prefix_def numeral_eq_Suc)
    let ?w2 = "w1\<lparr>w_sout := w_sout w1 @ string_enc ''downloading...''\<rparr>"
    have sm2: "smooth 5 ?w2" using sm by simp
    have "?body \<noteq> []" "length ?body < 1000" using len by fastforce+
    then have dl: "run_state (download_url (plain_lib [?body] [''date: now'']) url None) ?w2 = (Some ?body, ?w2)"
      using sm2 pre by (intro run_download_plain) (simp_all add: smooth_def)
    have "run_state (code_run ?dev 5 url 3) w1 = run_state (handle_one_payload ?dev 5 ?p 3 0) ?w2"
      using len dp_of_bytes_bytes[OF wf]
      by (simp add: code_run_def run_tell_smooth[OF sm] string_ok_def MAX_STRING_def dl dp_sizes)
    moreover have "w_execs w1 = []" "w_exits w1 = []" "w_plan w1 = []" "w_io w1 = []"
      using 9(2) by (simp_all add: sock_world_def idle_world_def)
    ultimately show ?case
      using run_toy_payload[OF sm2, of "''wifi-enable''" "[]" ?dev 3]
      by (simp add: io_simps wp_run toy_device_fields payload_dispatch_def payload_cmd_set_wifi_enabled_def
          set_wifi_enabled_def run_execv_quiet status_or_errno_def)
  qed (use t in \<open>simp_all add: toy_device_fields\<close>)
  then have x: "w_execs w' = [(''/system/bin/start'', [''/system/bin/start'', ''wificond''])]" using r by (simp add: wp_run)
  have mc: "keeps same_execs (dv_mount_copy ?dev a b c d e f)" for a b c d e f
    using toy_mount_copy[of same_execs a b c d e f] by (simp add: fr_execs.keeps_return toy_device_def)
  have "(''/system/bin/start'', [''/system/bin/start'', ''wificond'']) \<in> set (drop (length (w_execs ?w)) (w_execs w'))"
    using x by simp
  from secret_code_execs_authorised[OF mc r this] show ?thesis by blast
qed

text \<open>
  C40: When the memory for the request's URL cannot be allocated, \<open>secret_code\<close> returns 0, the
  status of success, though no code was fetched and the client was told nothing.
\<close>

theorem url_failure_reported_as_success:
  assumes "dumbos_alloc_new_user u (hex_of (\<lambda>n. hex_lower ! n) priv) = Inr d" "key_pair (dv_crypto dev) pub priv"
    and "length (dv_random dev) = 64" "w_plan w = replicate 8 Done @ [Fail ENOMEM]" "w_io w = []"
    and "w_files w DUMBOS_USER_DATA_PATH = Some (Reg (ud_bytes d))" "0 \<le> w_nextfd w"
    and "run_state (get_network_time (dv_curl dev)) w = (t, w)" "0 \<le> t"
    and "length (dv_tmpdir dev) + 1 + strlen scode \<le> PATH_MAX"
  shows "\<exists>w'. run_state (secret_code dev [scode] fd) w = (0, w') \<and>
    w_sout w' = w_sout w \<and> w_execs w' = w_execs w \<and> w_files w' = w_files w"
proof -
  have "wp (secret_code dev [scode] fd) (\<lambda>r w'. r = 0 \<and> w_sout w' = w_sout w \<and> w_execs w' = w_execs w \<and>
      w_files w' = w_files w) w"
    by (rule wp_secret_code_Done[OF assms]) (simp add: wp_fallible_Fail)
  then show ?thesis by (auto simp: wp_run prod_eq_iff)
qed

lemma url_failure_reported_as_success_witness:
  "\<exists>w w'. run_state (secret_code toy_device [''abc''] 5) w = (0, w') \<and> w_sout w' = [] \<and> w_execs w' = []"
proof -
  obtain d where d: "dumbos_alloc_new_user ''joe'' zero_key = Inr d" using blank_user by blast
  let ?w = "(sock_world [])\<lparr>w_files := [DUMBOS_USER_DATA_PATH \<mapsto> Reg (ud_bytes d)], w_plan := replicate 8 Done @ [Fail ENOMEM]\<rparr>"
  have t: "run_state (get_network_time (dv_curl toy_device)) ?w = (3, ?w)"
    by (simp add: get_network_time_def plain_lib_def geturltime_header_callback_def Let_def strcaseeq_def c_tolower_def
        trim_eol_def is_eol_def is_blank_def cstr_Cons toy_device_def time_opts_def)
  have pair: "key_pair (dv_crypto toy_device) (zeros 32) (zeros 32)" by (simp add: toy_device_fields toy_key_pair)
  from url_failure_reported_as_success[OF d[unfolded zero_key_def] pair _ _ _ _ _ t, of "''abc''" 5]
  show ?thesis by (auto simp: toy_device_fields)
qed

text \<open>
  C20: A payload that is not signed under the device's key, in any form the expiry test may put it
  in, leaves files, programs, descriptors and the database alone and returns a non-zero status.
\<close>

theorem unauthentic_payload_inert:
  assumes "\<And>v v' q. run_state (dp_is_expired_compare p time) v = ((False, q), v') \<Longrightarrow> \<not> authentic dev q n"
    and "run_state (handle_one_payload dev fd p time n) w = (r, w')" "w_fds w fd = Some OSock"
  shows "r \<noteq> 0 \<and> w_files w' = w_files w \<and> w_execs w' = w_execs w \<and> w_db w' = w_db w \<and> w_fds w' = w_fds w"
  using wpD[OF handle_not_authentic[OF assms(1)] assms(2)] assms(3) by (simp add: only_sock_def)

lemma unauthentic_payload_inert_witness:
  "\<exists>r w'. run_state (handle_one_payload toy_device 5 blank_payload 7 1) (sock_world []) = (r, w') \<and>
     r \<noteq> 0 \<and> w_execs w' = [] \<and> w_files w' = (\<lambda>_. None)"
proof -
  obtain r w' where r: "run_state (handle_one_payload toy_device 5 blank_payload 7 1) (sock_world []) = (r, w')"
    by (metis prod.exhaust)
  have z: "of_be (dp_data_size blank_payload) = 0" by (simp add: blank_payload_def of_be_def numeral_eq_Suc)
  have "\<not> authentic toy_device q 1" if "run_state (dp_is_expired_compare blank_payload 7) v = ((False, q), v')" for v v' q
    using expired_compare_command[OF that] z by (simp add: authentic_def)
  from unauthentic_payload_inert[OF this r] r show ?thesis by auto
qed

text \<open>
  C21: A payload with an explicit expiry that has passed is refused with EKEYEXPIRED before its
  signature is looked at; on a working connection the client gets exactly one message.
\<close>

theorem expired_payload_refused:
  assumes "dp_get_expire p \<noteq> -1" "dp_get_expire p \<noteq> 0" "dp_get_expire p \<le> time" "conn fd w"
    and "run_state (handle_one_payload dev fd p time n) w = (r, w')"
  shows "r = EKEYEXPIRED \<and> w_sout w' = w_sout w @ string_enc ''code expired'' \<and>
    w_files w' = w_files w \<and> w_execs w' = w_execs w"
proof -
  have e: "run_state (dp_is_expired_compare p time) w = ((True, p), w)"
    using assms(1-3) by (simp add: dp_is_expired_compare_def dp_get_expire_or_set_def Let_def)
  have "wp (handle_one_payload dev fd p time n) (\<lambda>r w'. r = EKEYEXPIRED \<and>
      w_sout w' = w_sout w @ string_enc ''code expired'' \<and> w_files w' = w_files w \<and> w_execs w' = w_execs w) w"
    apply (subst handle_one_payload.simps)
    apply (simp add: wp_def[of "dp_is_expired_compare p time"] e tell_def)
    apply (rule str.put_conn[OF _ assms(4)])
    by (simp_all add: string_ok_def MAX_STRING_def)
  from wpD[OF this assms(5)] show ?thesis .
qed



lemma expired_payload_refused_witness:
  "\<exists>w'. run_state (handle_one_payload toy_device 5 (dp_set_expire blank_payload 60) 60 0) (sock_world [])
     = (EKEYEXPIRED, w') \<and> w_sout w' = string_enc ''code expired''"
proof -
  obtain r w' where r: "run_state (handle_one_payload toy_device 5 (dp_set_expire blank_payload 60) 60 0) (sock_world []) = (r, w')"
    by (metis prod.exhaust)
  have "dp_get_expire (dp_set_expire blank_payload 60) = 60" by (rule dp_get_set_expire) simp_all
  with expired_payload_refused[OF _ _ _ _ r] r show ?thesis by simp
qed

end
