(* ===== verification/Lockscreen.thy ===== *)
theory Lockscreen
  imports Samples RequestId
begin

text \<open>
  \<open>daemon/lockscreentext.c\<close>: the user's display name as the owner information on the lock
  screen.  The database table is \<open>w_db\<close>, rows of name, user and value.  SQLite is documented to
  apply the statements between \<open>BEGIN\<close> and \<open>COMMIT\<close> together or, after \<open>ROLLBACK\<close> or when the
  connection is closed first, not at all: the statements work on a copy of the table, which
  \<open>COMMIT\<close> installs.  Any call may fail with any result code (by the plan); the unchecked binding
  of parameters is taken to succeed.
\<close>

abbreviation (input) SQLITE_OK :: int where "SQLITE_OK \<equiv> 0"
abbreviation (input) SQLITE_ERROR :: int where "SQLITE_ERROR \<equiv> 1"
abbreviation (input) SQLITE_DONE :: int where "SQLITE_DONE \<equiv> 101"

type_synonym lock_rows = "(string \<times> int \<times> string) list"

text \<open>A call that succeeds with \<open>good\<close> or fails with some other code.\<close>

definition sqlite_call :: "int \<Rightarrow> int io" where
  "sqlite_call good = do { x \<leftarrow> next_outcome;
     ret (case x of Fail rc \<Rightarrow> if rc \<in> {SQLITE_OK, SQLITE_DONE} then SQLITE_ERROR else rc | _ \<Rightarrow> good) }"

definition replace_locksetting :: "lock_rows \<Rightarrow> string \<Rightarrow> int \<Rightarrow> string \<Rightarrow> (int \<times> lock_rows) io" where
  "replace_locksetting rows name user v = do {
     rc \<leftarrow> sqlite_call SQLITE_OK;
     if rc \<noteq> SQLITE_OK then ret (rc, rows)
     else do {
       rc \<leftarrow> sqlite_call SQLITE_DONE;
       if rc \<noteq> SQLITE_DONE then ret (rc, rows)
       else do {
         let rows = filter (\<lambda>(n, u, _). \<not> (n = name \<and> u = user)) rows;
         rc \<leftarrow> sqlite_call SQLITE_OK;
         if rc \<noteq> SQLITE_OK then ret (rc, rows)
         else do {
           rc \<leftarrow> sqlite_call SQLITE_DONE;
           if rc = SQLITE_DONE then ret (SQLITE_OK, rows @ [(name, user, v)]) else ret (rc, rows) } } } }"

definition set_lock_screen_owner_info :: "string \<Rightarrow> int io" where
  "set_lock_screen_owner_info info = do {
     rc \<leftarrow> sqlite_call SQLITE_OK;
     if rc \<noteq> SQLITE_OK then ret rc
     else do {
       rc \<leftarrow> sqlite_call SQLITE_OK;
       if rc \<noteq> SQLITE_OK then ret rc
       else do {
         rows \<leftarrow> gets w_db;
         (rc, rows) \<leftarrow> replace_locksetting rows ''lock_screen_owner_info'' 0 info;
         if rc \<noteq> SQLITE_OK then do { sqlite_call SQLITE_OK; ret rc }
         else do {
           (rc, rows) \<leftarrow> replace_locksetting rows ''lock_screen_owner_info_enabled'' 0 ''1'';
           if rc \<noteq> SQLITE_OK then do { sqlite_call SQLITE_OK; ret rc }
           else do {
             rc \<leftarrow> sqlite_call SQLITE_OK;
             if rc = SQLITE_OK then do { modify (\<lambda>w. w\<lparr>w_db := rows\<rparr>); ret rc } else ret rc } } } } }"

definition maybe_set_lockscreen_text :: "int io" where
  "maybe_set_lockscreen_text = do {
     u \<leftarrow> dumbos_alloc_get_user;
     case u of
       None \<Rightarrow> fail_with EOWNERDEAD (- EOWNERDEAD)
     | Some user_data \<Rightarrow> do {
         ok \<leftarrow> c_malloc;
         if \<not> ok then ret (-1)
         else do {
           rc \<leftarrow> set_lock_screen_owner_info (dumbos_get_fancy_name user_data);
           if rc \<noteq> SQLITE_OK then fail_with EIO (-1) else ret 0 } } }"


section \<open>All or nothing\<close>

text \<open>The table with a setting replaced.\<close>

definition with_setting :: "string \<Rightarrow> string \<Rightarrow> lock_rows \<Rightarrow> lock_rows" where
  "with_setting name v rows = filter (\<lambda>(n, u, _). \<not> (n = name \<and> u = 0)) rows @ [(name, 0, v)]"

definition with_owner_info :: "string \<Rightarrow> lock_rows \<Rightarrow> lock_rows" where
  "with_owner_info info rows =
     with_setting ''lock_screen_owner_info_enabled'' ''1'' (with_setting ''lock_screen_owner_info'' info rows)"

lemma wp_sqlite_call:
  "(\<And>rc w'. plan_step w w' \<Longrightarrow> rc = good \<or> rc \<notin> {SQLITE_OK, SQLITE_DONE} \<Longrightarrow> Q rc w') \<Longrightarrow> wp (sqlite_call good) Q w"
  by (cases "w_plan w") (auto simp: wp_def sqlite_call_def next_outcome_def split: outcome.split)

lemma wp_sqlite_call_from:
  "plan_step w0 w \<Longrightarrow> (\<And>rc w'. plan_step w0 w' \<Longrightarrow> rc = good \<or> rc \<notin> {SQLITE_OK, SQLITE_DONE} \<Longrightarrow> Q rc w') \<Longrightarrow>
   wp (sqlite_call good) Q w"
  by (rule wp_sqlite_call) (blast intro: plan_step_trans)

lemma wp_replace_locksetting:
  assumes "plan_step w0 w"
    and "\<And>rc rows' w'. plan_step w0 w' \<Longrightarrow> rc = SQLITE_OK \<and> rows' = with_setting name v rows \<or> rc \<noteq> SQLITE_OK \<Longrightarrow>
      Q (rc, rows') w'"
  shows "wp (replace_locksetting rows name 0 v) Q w"
  unfolding replace_locksetting_def Let_def
  using assms by (auto simp: with_setting_def intro!: wp_sqlite_call_from[of w0])

lemma plan_step_db: "plan_step w w' \<Longrightarrow> w_db w' = w_db w"
  unfolding plan_step_def by (drule arg_cong[where f = w_db]) simp

lemma wp_set_owner_info:
  assumes "\<And>rc w1. plan_step w w1 \<Longrightarrow>
    Q rc (if rc = SQLITE_OK then w1\<lparr>w_db := with_owner_info info (w_db w)\<rparr> else w1)"
  shows "wp (set_lock_screen_owner_info info) Q w"
proof -
  have fail: "plan_step w w1 \<Longrightarrow> rc \<noteq> SQLITE_OK \<Longrightarrow> Q rc w1" for rc w1 using assms[of w1 rc] by simp
  have ok: "plan_step w w1 \<Longrightarrow> Q SQLITE_OK (w1\<lparr>w_db := with_owner_info info (w_db w)\<rparr>)" for w1
    using assms[of w1 SQLITE_OK] by simp
  show ?thesis
    unfolding set_lock_screen_owner_info_def
    by (auto simp: plan_step_db with_owner_info_def[symmetric] intro!: wp_sqlite_call_from[of w]
        wp_replace_locksetting[of w] intro: fail ok)
qed

text \<open>Loading the user's record only reads.\<close>

context fd_frame
begin

lemma keeps_open_rdonly: "keeps R (sys_open path [])"
proof -
  have "keeps R (modify (\<lambda>w. w))" by (simp add: keeps_def frame_refl)
  then show ?thesis unfolding sys_open_def by (intro keeps_intros) simp_all
qed

lemma keeps_get_user_rdonly: "keeps R dumbos_alloc_get_user"
  unfolding dumbos_alloc_get_user_def c_fread_def Let_def by (intro keeps_intros keeps_open_rdonly)

end

definition same_db :: "world \<Rightarrow> world \<Rightarrow> bool" where
  "same_db w w' \<longleftrightarrow> w_db w' = w_db w"

interpretation fr_db: fd_frame same_db
  by unfold_locales (simp_all add: same_db_def)




end
