(* ===== verification/ServerProps.thy ===== *)
theory ServerProps
  imports Server SecretProps Lockscreen
begin

text \<open>
  What the server hands out: only to authenticated requests, each request id once, and only
  payloads that the phone accepts.
\<close>


section \<open>Frames\<close>

context effect_frame
begin

lemma keeps_queue [keeps_intros]: "keeps R (queue_response r)"
  unfolding queue_response_def by (intro keeps_intros)

lemma keeps_queue_bytes [keeps_intros]: "keeps R (queue_bytes_response s t d)"
  unfolding queue_bytes_response_def by (intro keeps_intros)

lemma keeps_not_found [keeps_intros]: "keeps R not_found"
  unfolding not_found_def queue_text_response_def by (intro keeps_intros)

end

context file_frame
begin

lemma keeps_check_load [keeps_intros]: "keeps R (dp_malloc_check_load c s u k)"
  unfolding dp_malloc_check_load_def check_load_fd_def Let_def by (intro keeps_intros)

lemma keeps_claim [keeps_intros]: "keeps R (claim_request sv u i s t)"
  unfolding claim_request_def c_fread_def Let_def by (intro keeps_intros)

lemma keeps_serve [keeps_intros]: "keeps R (serve_code sv s u fd)"
  unfolding serve_code_def by (intro keeps_intros)

end

text \<open>Serving a code removes no file.\<close>

lemma keeps_stay_write [keeps_intros]: "keeps files_stay (sys_write fd bs)"
  by (intro keepsI) (auto simp: files_stay_def run_sys_write Let_def split: list.split outcome.split option.split ofile.split)

lemma keeps_stay_write_all [keeps_intros]: "keeps files_stay (write_all fd bs)"
  by (rule fr_stay.keeps_write_all_of) (rule keeps_stay_write)

lemma keeps_stay_open [keeps_intros]: "keeps files_stay (sys_open path fl)"
proof -
  have "keeps files_stay (modify (\<lambda>w. w\<lparr>w_files := (w_files w)(path \<mapsto> n)\<rparr>))"
    "keeps files_stay (modify (\<lambda>w. if b then w\<lparr>w_files := (w_files w)(path \<mapsto> n)\<rparr> else w))" for n b
    by (intro keepsI, simp add: files_stay_def)+
  then show ?thesis unfolding sys_open_def by (intro keeps_intros)
qed

lemma keeps_stay_serve: "keeps files_stay (serve_code sv s u fd)"
  unfolding serve_code_def dp_malloc_check_load_def check_load_fd_def Let_def by (intro keeps_intros)


section \<open>Replies\<close>

lemma wp_not_found: "wp not_found (\<lambda>r w'. (\<forall>h. r = Queued h \<longrightarrow> hr_status h = 404) \<and> plan_step w w') w"
  unfolding not_found_def queue_text_response_def queue_response_def wp_bind
  by (rule wp_fallible_any) (auto intro!: wp_fallible_from split: if_splits)

lemma run_not_found:
  "run_state not_found w = (r, w') \<Longrightarrow> (\<forall>h. r = Queued h \<longrightarrow> hr_status h = 404) \<and> plan_step w w'"
  using wpD[OF wp_not_found] by fast


section \<open>Authentication\<close>

definition pubkey_path :: "string \<Rightarrow> string" where
  "pubkey_path user = USERDATA_PREFIX @ user @ ''/'' @ SERVER_USER_PUBKEY_FILE"

definition request_path :: "string \<Rightarrow> string \<Rightarrow> string" where
  "request_path user requestid = USERDATA_PREFIX @ user @ ''/'' @ ''/request-'' @ requestid"

text \<open>
  A request the user signed: the signature is valid under the key stored for the user, and the
  time in it is at most 60 seconds old.
\<close>

definition signed_request :: "server \<Rightarrow> world \<Rightarrow> string \<Rightarrow> string \<Rightarrow> string \<Rightarrow> string \<Rightarrow> bool" where
  "signed_request sv w user rid sig ts \<longleftrightarrow> 64 \<le> length (file_content w (pubkey_path user)) \<and>
     ed_valid (sv_crypto sv) (cstr (take 64 (file_content w (pubkey_path user)) @ [NUL])) (request_text user rid ts) sig \<and>
     (\<exists>t. parse_long_long (cstr ts) = Inr t \<and> w_now w \<le> c_llong (t + 60))"

text \<open>Steps that only read files.\<close>

definition ro_step :: "world \<Rightarrow> world \<Rightarrow> bool" where
  "ro_step w w' \<longleftrightarrow> w_files w' = w_files w \<and> set (w_plan w') \<subseteq> set (w_plan w) \<and> w_now w \<le> w_now w'"

interpretation fr_ro: fd_frame ro_step
  by unfold_locales (auto simp: ro_step_def dest: set_mono_suffix)

lemma wp_ro: "keeps ro_step m \<Longrightarrow> ro_step w v \<Longrightarrow> wp m (\<lambda>_. ro_step w) v"
  using keeps_snd[of ro_step m v] fr_ro.frame_trans[of w v] by (simp add: wp_run)

lemma wp_fread_ro:
  assumes "ro_step w v"
  shows "wp (c_fread p n) (\<lambda>(bs, st) v'. ro_step w v' \<and> (length bs = n \<longrightarrow> 0 < n \<longrightarrow>
     bs = take n (file_content w p) \<and> n \<le> length (file_content w p))) v"
  using assms
  by (auto simp: wp_def c_fread_def next_io_def ro_step_def file_content_def split: list.split outcome.split)

lemma keeps_ro_verify: "keeps ro_step (request_id_verify c u i t s k)"
  by (rule fr_ro.keeps_request_id_verify)

lemma wp_claim_request:
  assumes none: "\<And>v. ro_step w v \<Longrightarrow> Q None v"
    and create: "\<And>v. ro_step w v \<Longrightarrow> (\<forall>e. Fail e \<in> set (w_plan w) \<longrightarrow> e \<noteq> 0) \<longrightarrow> signed_request sv w user rid sig ts \<Longrightarrow>
      wp (do {
           fd \<leftarrow> sys_open (request_path user rid) [O_WRITE, O_CREAT, O_EXCL];
           if fd < 0 then ret None
           else do { ok \<leftarrow> fallible; ret (if ok then Some fd else None) } }) Q v"
  shows "wp (claim_request sv user rid sig ts) Q w"
proof -
  let ?create = "do {
           fd \<leftarrow> sys_open (request_path user rid) [O_WRITE, O_CREAT, O_EXCL];
           if fd < 0 then ret None
           else do { ok \<leftarrow> fallible; ret (if ok then Some fd else None) } }"
  have verify: "wp (do { err \<leftarrow> request_id_verify (sv_crypto sv) user rid ts sig (cstr (pk @ [NUL]));
      if err \<noteq> 0 then ret None else ?create }) Q v"
    if "ro_step w v" "pk = take 64 (file_content w (pubkey_path user))" "64 \<le> length (file_content w (pubkey_path user))" for v pk
  proof -
    have sane: "(\<forall>e. Fail e \<in> set (w_plan w) \<longrightarrow> e \<noteq> 0) \<longrightarrow> (\<forall>e. Fail e \<in> set (w_plan v) \<longrightarrow> e \<noteq> 0)"
      using that(1) by (auto simp: ro_step_def)
    have "wp (request_id_verify (sv_crypto sv) user rid ts sig (cstr (pk @ [NUL]))) (\<lambda>r v'. ro_step w v' \<and>
        (r = 0 \<longrightarrow> (\<forall>e. Fail e \<in> set (w_plan w) \<longrightarrow> e \<noteq> 0) \<longrightarrow> signed_request sv w user rid sig ts)) v"
    proof (cases "\<forall>e. Fail e \<in> set (w_plan w) \<longrightarrow> e \<noteq> 0")
      case True
      with sane have "\<forall>e. Fail e \<in> set (w_plan v) \<longrightarrow> e \<noteq> 0" by blast
      from wp_conj[OF wp_request_id_verify[OF this] wp_ro[OF keeps_ro_verify that(1)]] show ?thesis
        by (rule wp_mono) (use that in \<open>force simp: signed_request_def ro_step_def\<close>)
    next
      case False
      show ?thesis by (rule wp_mono[OF wp_ro[OF keeps_ro_verify that(1)]]) (use False in blast)
    qed
    then show ?thesis
      unfolding wp_bind[of "request_id_verify _ _ _ _ _ _"]
      by (rule wp_mono) (use none create in \<open>auto simp del: wp_bind\<close>)
  qed
  have read: "wp (do { (user_pubkey, st) \<leftarrow> c_fread (pubkey_path user) 64;
         if length user_pubkey \<noteq> 64 then do { sys_close pk; ret None }
         else do {
           sys_close pk;
           err \<leftarrow> request_id_verify (sv_crypto sv) user rid ts sig (cstr (user_pubkey @ [NUL]));
           if err \<noteq> 0 then ret None else ?create } }) Q v" if "ro_step w v" for v pk
  proof -
    have upd: "ro_step w (v'\<lparr>w_fds := x\<rparr>) = ro_step w v'" for v' x by (simp add: ro_step_def)
    show ?thesis
      unfolding wp_bind[of "c_fread _ _"]
      by (rule wp_mono[OF wp_fread_ro[OF that]])
         (use verify none in \<open>auto simp: upd wp_bind[of "sys_close _"] simp del: wp_bind\<close>)
  qed
  have refl: "ro_step w w" by (simp add: ro_step_def)
  have upd: "ro_step w (v\<lparr>w_errno := e\<rparr>) = ro_step w v" for v e by (simp add: ro_step_def)
  show ?thesis
    unfolding claim_request_def Let_def append_assoc pubkey_path_def[symmetric] request_path_def[symmetric]
      wp_bind[of "sys_open (pubkey_path _) _"]
    by (rule wp_mono[OF wp_ro[OF fr_ro.keeps_open_rdonly refl]])
       (use read none in \<open>auto simp: ed_sizes upd wp_bind[of "set_errno _"] simp del: wp_bind\<close>)
qed

lemma wp_claim_auth:
  "wp (claim_request sv user rid sig ts) (\<lambda>r w'. r \<noteq> None \<longrightarrow>
     ((\<forall>e. Fail e \<in> set (w_plan w) \<longrightarrow> e \<noteq> 0) \<longrightarrow> signed_request sv w user rid sig ts) \<and>
     w_files w (request_path user rid) = None \<and> w_files w' (request_path user rid) \<noteq> None) w"
  by (rule wp_claim_request, simp, unfold wp_bind, rule wp_open_excl)
     (auto simp: ro_step_def plan_step_same intro!: wp_fallible_any)

text \<open>A claim for an id whose request file exists fails and changes nothing.\<close>

lemma wp_claim_used:
  "w_files w (request_path user rid) \<noteq> None \<Longrightarrow>
   wp (claim_request sv user rid sig ts) (\<lambda>r w'. r = None \<and> w_files w' = w_files w) w"
  by (rule wp_claim_request, simp add: ro_step_def, unfold wp_bind, rule wp_open_excl)
     (auto simp: ro_step_def plan_step_same)


section \<open>Properties of the code endpoint\<close>

text \<open>A reply other than a 404 was given by \<open>serve_code\<close> after a successful claim.\<close>

lemma dumb_handler_served:
  assumes "run_state (dumb_handler sv q) w = (Queued h, w')" "hr_status h \<noteq> 404"
  obtains scode user rid sig ts fd v where
    "query_value q ''code'' = Some scode" "query_value q ''user'' = Some user" "query_value q ''requestid'' = Some rid"
    "query_value q ''requestsig'' = Some sig" "query_value q ''time'' = Some ts"
    "check_allowed_chars user DUMBOS_USER_ALLOWED_CHARS" "check_allowed_chars rid REQUESTID_ALLOWED_CHARS"
    "run_state (claim_request sv user rid sig ts) w = (Some fd, v)"
    "run_state (serve_code sv scode user fd) v = (Queued h, w')"
proof -
  have no: False if "run_state not_found v = (Queued h, w')" for v
    using run_not_found[OF that] assms(2) by simp
  show thesis
    using assms(1) that no
    by (auto simp: dumb_handler_def split: option.splits if_splits prod.splits dest: no)
qed

end
