(* ===== verification/ServerDevice.thy ===== *)
theory ServerDevice
  imports ServerProps
begin

text \<open>
  The server and the phone together: what \<open>dumb_handler\<close> serves, the phone's \<open>handle_one_payload\<close>
  accepts.
\<close>


section \<open>The pinned expiry\<close>

lemma take_dec:
  assumes "10 ^ k \<le> n"
  shows "\<exists>m. take (Suc k) (dec n) = dec m \<and> 10 ^ k \<le> m \<and> m < 10 ^ Suc k"
  using assms
proof (induction n rule: less_induct)
  case (less n)
  show ?case
  proof (cases "n < 10 ^ Suc k")
    case True
    then have "length (dec n) = Suc k" using length_dec_ge[OF less(2)] length_dec_le[of n "Suc k"] by simp
    with less(2) True show ?thesis by (intro exI[of _ n]) simp
  next
    case False
    then have big: "10 ^ k * 10 \<le> n" by simp
    then have "10 ^ k \<le> n div 10" by (simp add: less_eq_div_iff_mult_less_eq)
    moreover have "10 \<le> n" using big one_le_power[of "10::nat" k] by linarith
    ultimately have "10 ^ k \<le> n div 10" "n div 10 < n" "\<not> n < 10" by simp_all
    with less(1)[of "n div 10"] length_dec_ge[of k "n div 10"] show ?thesis
      by (simp add: dec.simps[of n])
  qed
qed

text \<open>Any time from now on that is written into the field is read back as one from now on.\<close>

lemma get_set_expire_later:
  assumes "0 \<le> t" "t < 10 ^ 14" "t < e" "e \<le> LLONG_MAX"
  shows "t < dp_get_expire (dp_set_expire p e)"
proof (cases "e \<le> 999999999999999")
  case True
  with assms show ?thesis by (simp add: dp_get_set_expire)
next
  case False
  then have "10 ^ 14 \<le> nat e" by simp
  then obtain m where m: "take 15 (dec (nat e)) = dec m" "10 ^ 14 \<le> m" "m < 10 ^ 15"
    using take_dec[of 14 "nat e"] by auto
  have "14 < length (dec (nat e))" by (rule length_dec_ge) fact
  with m(1) have l: "length (dec m) = 15" by (metis length_take min.absorb2 Suc_leI eval_nat_numeral(3))
  have "dp_expire (dp_set_expire p e) = dec m @ [NUL]"
    using assms(1,3) m(1) l by (simp add: dp_set_expire_def snprintf_field_def EXPIRE_SIZE_def Let_def print_lld_nat)
  moreover have "parse_long_long (dec m) = Inr (int m)"
    using parse_print_lld[of "int m" "[]"] m(3) by (simp add: print_lld_nat)
  ultimately have "dp_get_expire (dp_set_expire p e) = int m" by (simp add: dp_get_expire_def Let_def)
  with m(2) assms(2) show ?thesis by simp
qed

definition served_expiry :: "int \<Rightarrow> dumb_payload \<Rightarrow> bool" where
  "served_expiry now p \<longleftrightarrow> dp_get_expire p \<noteq> -1 \<and> (dp_get_expire p = 0 \<or> now < dp_get_expire p)"

text \<open>A test that lets a payload pass leaves a pinned expiry in it.\<close>

lemma wp_c_time_up: "(\<And>w'. w_now w \<le> w_now w' \<Longrightarrow> Q (w_now w) w') \<Longrightarrow> wp c_time Q w"
  by (auto simp: wp_def c_time_def split: list.split)

lemma c_llong_le: "c_llong x \<le> LLONG_MAX"
proof -
  have "(x + 9223372036854775808) mod 18446744073709551616 < 18446744073709551616" by simp
  then show ?thesis unfolding c_llong_def by linarith
qed

lemma dp_payload_set_expire [simp]: "dp_payload (dp_set_expire p e) = dp_payload p"
  by (simp add: dp_set_expire_def)

lemma wp_expire_or_set:
  assumes "dp_wf p"
  shows "wp (dp_get_expire_or_set p) (\<lambda>(e, q) w'. w_now w \<le> w_now w' \<and> dp_wf q \<and> dp_payload q = dp_payload p \<and>
     (e = dp_get_expire q \<and> e \<noteq> -1 \<or> (\<exists>x q0. e = c_llong x \<and> q = dp_set_expire q0 e))) w"
proof -
  let ?Q = "\<lambda>(e, q) w'. w_now w \<le> w_now w' \<and> dp_wf q \<and> dp_payload q = dp_payload p \<and>
     (e = dp_get_expire q \<and> e \<noteq> -1 \<or> (\<exists>x q0. e = c_llong x \<and> q = dp_set_expire q0 e))"
  let ?s = "shift_expire p"
  have sh: "dp_wf ?s" "dp_payload ?s = dp_payload p" using assms by (auto simp: dp_wf_def shift_expire_def)
  have time: "wp (do { t \<leftarrow> c_time; ret (c_llong (f t), q) }) (\<lambda>(e, q). ?Q (e, dp_set_expire q e)) w"
    if "dp_wf q" "dp_payload q = dp_payload p" for f q
    unfolding wp_bind by (rule wp_c_time_up) (use that in \<open>auto simp: dp_wf_set_expire\<close>)
  have shifted: "wp (do { t \<leftarrow> c_time; if dp_get_expire ?s = -1 then ret (c_llong (t + DEFAULT_EXPIRE_TIME), ?s)
      else ret (c_llong (dp_get_expire ?s + t), ?s) }) (\<lambda>(e, q). ?Q (e, dp_set_expire q e)) w"
    using time[OF sh] by (cases "dp_get_expire ?s = -1") simp_all
  show ?thesis
  proof (cases "dp_get_expire p = -1")
    case True
    have "wp (if hd (dp_expire p) = CHR '':'' then do { t \<leftarrow> c_time;
          if dp_get_expire ?s = -1 then ret (c_llong (t + DEFAULT_EXPIRE_TIME), ?s)
          else ret (c_llong (dp_get_expire ?s + t), ?s) }
        else do { t \<leftarrow> c_time; ret (c_llong (t + DEFAULT_EXPIRE_TIME), p) }) (\<lambda>(e, q). ?Q (e, dp_set_expire q e)) w"
      using shifted time[OF assms refl] by simp
    then show ?thesis
      unfolding dp_get_expire_or_set_def Let_def if_P[OF True] wp_bind[of "if hd _ = _ then _ else _"]
      by (rule wp_mono) auto
  qed (use assms in \<open>simp add: dp_get_expire_or_set_def Let_def\<close>)
qed

lemma wp_is_expired_pins:
  assumes "dp_wf p" "0 \<le> t" "t < 10 ^ 14" "t \<le> w_now w"
  shows "wp (dp_is_expired p) (\<lambda>(b, q) w'. dp_wf q \<and> dp_payload q = dp_payload p \<and> (\<not> b \<longrightarrow> served_expiry t q)) w"
proof -
  have pinned: "t < dp_get_expire (dp_set_expire q (c_llong x)) \<and> dp_get_expire (dp_set_expire q (c_llong x)) \<noteq> -1"
    if "t < c_llong x" for q x
    using that get_set_expire_later[OF assms(2,3) _ c_llong_le[of x], of q] assms(2) by simp
  show ?thesis
    unfolding dp_is_expired_def wp_bind[of "dp_get_expire_or_set _"]
  proof (rule wp_mono[OF wp_expire_or_set[OF assms(1)]], goal_cases)
    case (1 a w')
    obtain e q where a: "a = (e, q)" by (metis prod.exhaust)
    with 1 have q: "dp_wf q" "dp_payload q = dp_payload p" "t \<le> w_now w'" using assms(4) by auto
    have "served_expiry t q" if "e = 0 \<or> t < e"
      using 1 that pinned assms(2) unfolding a by (auto simp: served_expiry_def dp_get_set_expire)
    with a q show ?case by (auto intro!: wp_c_time_up)
  qed
qed


section \<open>What is loaded and signed\<close>

lemma read_loop_length: "fst (read_loop fd n acc w) = Some bs \<Longrightarrow> length bs = length acc + n"
proof (induction fd n acc w rule: read_loop.induct)
  case (1 fd n acc w)
  obtain r b w1 where s: "run_state (sys_read fd n) w = ((r, b), w1)" by (metis prod.exhaust)
  have rb: "0 \<le> r \<Longrightarrow> r = int (length b) \<and> length b \<le> n"
    using s by (auto simp: run_sys_read Let_def split: list.splits outcome.splits option.splits ofile.splits if_splits)
  from "1.prems" show ?case
    using "1.IH"[OF _ s[symmetric] refl] rb
    by (cases "n = 0") (auto simp: read_loop.simps[of fd n acc w] read_loop.simps[of fd 0 acc w] s split: if_splits)
qed

lemma read_all_length: "run_state (read_all fd n) w = (Some bs, w') \<Longrightarrow> length bs = n"
  using read_loop_length[of fd n "[]" w bs] by (simp add: read_all_def)

text \<open>A well-formed payload with a pinned expiry, signed over all its bytes.\<close>

definition signed_payload :: "crypto \<Rightarrow> string \<Rightarrow> int \<Rightarrow> dumb_payload \<Rightarrow> nat \<Rightarrow> bool" where
  "signed_payload c key t p n \<longleftrightarrow> dp_wf p \<and> length (dp_bytes p) = n \<and> served_expiry t p \<and>
     (\<exists>k. hex_to_bytes key ED25519_PRIVATE_KEY_SIZE = Inr k \<and>
        dp_signature p = ed_signature c k (dp_bytes (clear_signature p)) @ [NUL])"

lemma served_expiry_signature [simp]: "served_expiry t (p\<lparr>dp_signature := s\<rparr>) = served_expiry t p"
  by (simp add: served_expiry_def dp_get_expire_def)

lemma wp_dp_sign_payload:
  assumes "dp_wf p" "length (dp_bytes p) = n" "served_expiry t p"
  shows "wp (dp_sign c p n key) (\<lambda>(r, q) w'. r < 0 \<or> signed_payload c key t q n) w"
proof -
  have full: "take n (dp_bytes (clear_signature p)) = dp_bytes (clear_signature p)"
    using assms(1,2) length_dp_bytes[OF assms(1)] length_dp_bytes[OF dp_wf_clear[OF assms(1)]] by simp
  have len: "length (ed_signature c k d) = 128" if "length (cr_sign c k d) = ED25519_SIGNATURE_SIZE" for k d
    using that by (simp add: ed_signature_def ed_sizes)
  have ok: "signed_payload c key t (clear_signature p\<lparr>dp_signature := ed_signature c k (dp_bytes (clear_signature p)) @ [NUL]\<rparr>) n"
    if "hex_to_bytes key ED25519_PRIVATE_KEY_SIZE = Inr k"
      "length (cr_sign c k (dp_bytes (clear_signature p))) = ED25519_SIGNATURE_SIZE" for k
    using assms len[OF that(2)] that(1)
    by (simp add: signed_payload_def dp_wf_def dp_bytes_def clear_signature_def)
  show ?thesis
    unfolding dp_sign_def Let_def full
    by (auto intro!: wp_sign_any simp: ok split: option.split)
qed

lemma wp_any: "(\<And>a w'. Q a w') \<Longrightarrow> wp m Q w"
  by (simp add: wp_run)

lemma wp_clock: "keeps clock_up m \<Longrightarrow> t \<le> w_now w \<Longrightarrow> wp m (\<lambda>_ w'. t \<le> w_now w') w"
  using keeps_snd[of clock_up m w] by (simp add: wp_run clock_up_def)

lemma wp_check_load_fd:
  assumes "0 \<le> t" "t < 10 ^ 14" "t \<le> w_now w"
  shows "wp (check_load_fd c fd key) (\<lambda>r w'. \<forall>p n. r = Some (p, n) \<longrightarrow> signed_payload c key t p n) w"
proof -
  let ?Q = "\<lambda>r w'. \<forall>p n. r = Some (p, n) \<longrightarrow> signed_payload c key t p n"
  let ?sign = "\<lambda>q sz. do { (err, payload) \<leftarrow> dp_sign c q sz key; if err < 0 then ret None else ret (Some (payload, sz)) }"
  have sign: "wp (?sign q sz) ?Q v" if "dp_wf q" "length (dp_bytes q) = sz" "served_expiry t q" for q sz v
    unfolding wp_bind[of "dp_sign _ _ _ _"] by (rule wp_mono[OF wp_dp_sign_payload[OF that]]) auto
  let ?store = "\<lambda>q sz. do {
      l \<leftarrow> sys_lseek0 fd;
      err \<leftarrow> (if l < 0 then ret l else write_all fd (take sz (dp_bytes q)));
      sys_close fd;
      if err < 0 then ret None else ?sign q sz }"
  have store: "wp (?store q sz) ?Q v" if "dp_wf q" "length (dp_bytes q) = sz" "served_expiry t q" for q sz v
  proof -
    have sgn: "wp (do { sys_close fd; if err < 0 then ret None else ?sign q sz }) ?Q u" for err :: int and u
      using sign[OF that] by (simp del: wp_bind add: wp_bind[of "sys_close _"])
    show ?thesis
      unfolding wp_bind[of "sys_lseek0 _"] wp_bind[of "if _ then _ else _"]
      by (rule wp_any, rule wp_any, rule sgn)
  qed
  let ?check = "\<lambda>bs sz. do {
      (expired, payload) \<leftarrow> dp_is_expired (dp_of_bytes bs);
      if expired then do { sys_close fd; ret None } else ?store payload sz }"
  have check: "wp (?check bs sz) ?Q v" if "length bs = sz" "sizeof_payload \<le> sz" "t \<le> w_now v" for bs sz v
  proof -
    have wf: "dp_wf (dp_of_bytes bs)" "dp_bytes (dp_of_bytes bs) = bs"
      using dp_bytes_of_bytes[of bs] that(1,2) by (simp_all add: dp_sizes)
    have len: "length (dp_bytes q) = sz" if "dp_wf q" "dp_payload q = dp_payload (dp_of_bytes bs)" for q
      using length_dp_bytes[OF that(1)] length_dp_bytes[OF wf(1)] that(2) wf(2) \<open>length bs = sz\<close> by simp
    show ?thesis
      unfolding wp_bind[of "dp_is_expired _"]
      by (rule wp_mono[OF wp_is_expired_pins[OF wf(1) assms(1,2) that(3)]])
         (use store len in \<open>auto simp del: wp_bind simp: wp_bind[of "sys_close _" "\<lambda>_. ret _"]\<close>)
  qed
  have load: "wp (do {
        r \<leftarrow> read_all fd sz;
        case r of
          None \<Rightarrow> do { sys_close fd; ret None }
        | Some bs \<Rightarrow> if c_int (int sz) < 0 then do { sys_close fd; ret None } else ?check bs sz }) ?Q v"
    if "sizeof_payload \<le> sz" "t \<le> w_now v" for sz v
  proof -
    have "wp (read_all fd sz) (\<lambda>r v'. (\<forall>bs. r = Some bs \<longrightarrow> length bs = sz) \<and> t \<le> w_now v') v"
      by (rule wp_conj[OF _ wp_clock[OF fr_clock.keeps_read_all that(2)]]) (use read_all_length in \<open>auto intro!: wpI\<close>)
    then show ?thesis
      unfolding wp_bind[of "read_all _ _"]
      by (rule wp_mono)
         (use check that(1) in \<open>auto simp del: wp_bind simp: wp_bind[of "sys_close _" "\<lambda>_. ret _"] split: option.split\<close>)
  qed
  have alloc: "wp (do { ok \<leftarrow> c_malloc;
      if \<not> ok then do { sys_close fd; ret None } else do {
        r \<leftarrow> read_all fd sz;
        case r of
          None \<Rightarrow> do { sys_close fd; ret None }
        | Some bs \<Rightarrow> if c_int (int sz) < 0 then do { sys_close fd; ret None } else ?check bs sz } }) ?Q v"
    if "sizeof_payload \<le> sz" "t \<le> w_now v" for sz v
    unfolding wp_bind[of "c_malloc"]
    by (rule wp_mono[OF wp_clock[OF fr_clock.keeps_malloc that(2)]])
       (use load[OF that(1)] in \<open>auto simp del: wp_bind simp: wp_bind[of "sys_close _" "\<lambda>_. ret _"]\<close>)
  show ?thesis
    unfolding check_load_fd_def wp_bind[of "sys_fstat _"]
    by (rule wp_mono[OF wp_clock[OF fr_clock.keeps_fstat assms(3)]])
       (use alloc in \<open>auto simp del: wp_bind simp: wp_bind[of "sys_close _" "\<lambda>_. ret _"] wp_bind[of "set_errno _"] not_less split: option.split\<close>)
qed

lemma wp_check_load:
  assumes "0 \<le> t" "t < 10 ^ 14" "t \<le> w_now w"
  shows "wp (dp_malloc_check_load c s u key) (\<lambda>r w'. \<forall>p n. r = Some (p, n) \<longrightarrow> signed_payload c key t p n) w"
proof -
  let ?Q = "\<lambda>r w'. \<forall>p n. r = Some (p, n) \<longrightarrow> signed_payload c key t p n"
  have load: "wp (if codefd < 0 then ret None else check_load_fd c codefd key) ?Q v" if "t \<le> w_now v" for codefd v
    using wp_check_load_fd[OF assms(1,2) that] by simp
  have opn: "wp (do {
        codefd \<leftarrow> sys_open userpath [O_WRITE];
        codefd \<leftarrow> (if codefd < 0 then sys_open path [O_WRITE] else ret codefd);
        if codefd < 0 then ret None else check_load_fd c codefd key }) ?Q v" if "t \<le> w_now v" for userpath path v
  proof -
    have "wp (do { codefd \<leftarrow> (if fd < 0 then sys_open path [O_WRITE] else ret fd);
        if codefd < 0 then ret None else check_load_fd c codefd key }) ?Q u" if "t \<le> w_now u" for fd :: int and u
      unfolding wp_bind[of "if _ then _ else _"]
      by (rule wp_mono[OF wp_clock[OF _ that]]) (intro keeps_intros, rule load)
    then show ?thesis
      unfolding wp_bind[of "sys_open userpath _"] by (rule wp_mono[OF wp_clock[OF fr_clock.keeps_sys_open that]])
  qed
  have alloc: "wp (do { ok \<leftarrow> c_malloc; if \<not> ok then ret None
      else if b then ret None
      else f }) ?Q v" if "t \<le> w_now v" "\<And>u. t \<le> w_now u \<Longrightarrow> wp f ?Q u" for b f v
    unfolding wp_bind[of c_malloc] by (rule wp_mono[OF wp_clock[OF fr_clock.keeps_malloc that(1)]]) (use that(2) in simp)
  show ?thesis
  proof (cases "\<not> check_allowed_chars s SECRET_CODE_ALLOWED_CHARS")
    case False
    show ?thesis
      unfolding dp_malloc_check_load_def Let_def if_not_P[OF False] by (intro alloc opn assms(3))
  qed (simp add: dp_malloc_check_load_def)
qed

lemma wp_queue: "(\<And>w'. Q MHD_NO w') \<Longrightarrow> (\<And>w'. Q (Queued r) w') \<Longrightarrow> wp (queue_response r) Q w"
  unfolding queue_response_def wp_bind by (auto intro!: wp_any)

lemma wp_serve_code:
  assumes "0 \<le> t" "t < 10 ^ 14" "t \<le> w_now w"
  shows "wp (serve_code sv s u fd) (\<lambda>r w'. \<forall>h. r = Queued h \<longrightarrow> hr_status h \<noteq> 404 \<longrightarrow>
     (\<exists>p. signed_payload (sv_crypto sv) (sv_privkey sv) t p (length (hr_body h)) \<and> hr_body h = dp_bytes p)) w"
proof -
  let ?Q = "\<lambda>r w'. \<forall>h. r = Queued h \<longrightarrow> hr_status h \<noteq> 404 \<longrightarrow>
     (\<exists>p. signed_payload (sv_crypto sv) (sv_privkey sv) t p (length (hr_body h)) \<and> hr_body h = dp_bytes p)"
  have no: "wp not_found ?Q v" for v by (rule wp_mono[OF wp_not_found]) auto
  have yes: "wp (queue_bytes_response 200 ty (take n (dp_bytes p))) ?Q v"
    if "signed_payload (sv_crypto sv) (sv_privkey sv) t p n" for ty n p v
    unfolding queue_bytes_response_def by (rule wp_queue) (use that in \<open>auto simp: signed_payload_def\<close>)
  have sent: "wp (do { k \<leftarrow> c_time;
      write_all fd (cstr (sv_timestamp sv k) @ [NL] @ dp_command p @ [NL]);
      sys_close fd;
      queue_bytes_response 200 ty (take n (dp_bytes p)) }) ?Q v"
    if "signed_payload (sv_crypto sv) (sv_privkey sv) t p n" for ty n p v
    unfolding wp_bind[of c_time] wp_bind[of "write_all _ _"] wp_bind[of "sys_close _"]
    by (rule wp_any, rule wp_any) (use yes[OF that] in simp)
  have closed: "wp (do { sys_close fd; not_found }) ?Q v" for v using no by simp
  show ?thesis
    unfolding serve_code_def wp_bind[of "dp_malloc_check_load _ _ _ _"]
    by (rule wp_mono[OF wp_check_load[OF assms]]) (use sent closed in \<open>auto simp del: wp_bind split: option.split\<close>)
qed


section \<open>The phone accepts what the server serves\<close>

lemma keeps_clock_claim: "keeps clock_up (claim_request sv user rid sig ts)"
  by (rule fr_clock.keeps_claim)

text \<open>What the body of a reply other than a 404 is.\<close>

lemma served_body:
  assumes "run_state (dumb_handler sv q) w = (Queued h, w')" "hr_status h \<noteq> 404" "0 \<le> w_now w" "w_now w < 10 ^ 14"
  obtains "signed_payload (sv_crypto sv) (sv_privkey sv) (w_now w) (dp_of_bytes (hr_body h)) (length (hr_body h))"
proof (rule dumb_handler_served[OF assms(1,2)])
  fix scode user rid sig ts fd v
  assume r: "run_state (claim_request sv user rid sig ts) w = (Some fd, v)"
    "run_state (serve_code sv scode user fd) v = (Queued h, w')"
  have "w_now w \<le> w_now v" using keepsD[OF keeps_clock_claim r(1)] by (simp add: clock_up_def)
  from wpD[OF wp_serve_code[OF assms(3,4) this] r(2)] assms(2) obtain p where
    "signed_payload (sv_crypto sv) (sv_privkey sv) (w_now w) p (length (hr_body h))" "hr_body h = dp_bytes p" by auto
  then show ?thesis using that by (simp add: dp_of_bytes_bytes signed_payload_def)
qed

lemma run_expired_compare_served:
  "served_expiry t p \<Longrightarrow> u \<le> t \<Longrightarrow> run_state (dp_is_expired_compare p u) v = ((False, p), v)"
  by (auto simp: dp_is_expired_compare_def dp_get_expire_or_set_def Let_def served_expiry_def)

lemma run_verify_signed:
  assumes "key_pair c pub priv" "signed_payload c (hex_of (\<lambda>n. hex_lower ! n) priv) t p n" "dp_validate_size p n" "w_plan v = []"
  shows "run_state (dp_verify c p n (hex_of (\<lambda>n. hex_lower ! n) pub)) v = ((0, clear_signature p), v)"
proof -
  have k: "length pub = 32" "length priv = 32" "length (cr_sign c priv d) = 64" "cr_verify c pub d (cr_sign c priv d) = 1" for d
    using assms(1) by (simp_all add: key_pair_def ed_sizes)
  let ?d = "dp_bytes (clear_signature p)"
  have s: "dp_wf p" "length (dp_bytes p) = n" "dp_signature p = ed_signature c priv ?d @ [NUL]"
    using assms(2) k(2) by (auto simp: signed_payload_def ed_sizes)
  have d: "take n ?d = ?d"
    using s(1,2) length_dp_bytes[OF s(1)] length_dp_bytes[OF dp_wf_clear[OF s(1)]] by simp
  have "cstr ((dp_signature p)[128 := NUL]) = ed_signature c priv ?d"
    using k(3) by (simp add: s(3) ed_signature_def list_update_append)
  then have "hex_to_bytes (cstr ((dp_signature p)[128 := NUL])) 64 = Inr (cr_sign c priv ?d)"
    using k(3) by (simp add: ed_signature_def)
  from dp_verify_quiet[OF assms(4) k(1) assms(3) this, of c] d k(4) show ?thesis by simp
qed

text \<open>A payload the server signed, on a phone with the matching key: its command is run on its data.\<close>

lemma run_served_payload:
  assumes "key_pair (dv_crypto dev) pub priv" "dv_pubkey dev = hex_of (\<lambda>n. hex_lower ! n) pub"
    and "signed_payload (dv_crypto dev) (hex_of (\<lambda>n. hex_lower ! n) priv) t p (n + sizeof_payload)"
    and "dp_validate_size p (n + sizeof_payload)" "T \<le> t" "w_plan v = []"
  shows "run_state (handle_one_payload dev fd p T n) v = run_state (do {
      tell fd ''loading...'';
      tell fd ''command is'';
      tell fd (payload_command p);
      payload_dispatch dev fd (payload_command p) (dp_payload p) n (\<lambda>q m. handle_one_payload dev fd q T m) }) v"
proof -
  have e: "served_expiry t p" using assms(3) by (simp add: signed_payload_def)
  have v: "run_state (dp_verify (dv_crypto dev) p (n + sizeof_payload) (dv_pubkey dev)) v = ((0, clear_signature p), v)"
    using run_verify_signed[OF assms(1,3,4,6)] assms(2) by simp
  have c: "payload_command (clear_signature p) = payload_command p" by (simp add: payload_command_def)
  show ?thesis
    by (subst handle_one_payload.simps)
       (simp add: run_expired_compare_served[OF e assms(5)] v c)
qed

end
