(* ===== verification/ServerRun.thy ===== *)
theory ServerRun
  imports ServerDevice
begin

text \<open>
  The server when nothing fails: a request the user signed gets the payload of its code, signed.
  Evaluation of every step of \<open>dumb_handler\<close> in such a world.
\<close>

definition quiet :: "world \<Rightarrow> bool" where
  "quiet w \<longleftrightarrow> w_plan w = [] \<and> w_io w = [] \<and> w_ticks w = []"

lemma quietD [simp]: "quiet w \<Longrightarrow> w_plan w = []" "quiet w \<Longrightarrow> w_io w = []" "quiet w \<Longrightarrow> w_ticks w = []"
  by (simp_all add: quiet_def)

lemma quiet_upd [simp]:
  "quiet (w\<lparr>w_errno := e\<rparr>) = quiet w" "quiet (w\<lparr>w_files := f\<rparr>) = quiet w"
  "quiet (w\<lparr>w_fds := d\<rparr>) = quiet w" "quiet (w\<lparr>w_nextfd := n\<rparr>) = quiet w"
  by (simp_all add: quiet_def del: quietD)

lemma run_read_file:
  assumes "quiet w" "w_fds w fd = Some (OFile p 0)" "w_files w p = Some (Reg c)" "c \<noteq> []"
  shows "run_state (read_all fd (length c)) w = (Some c, w\<lparr>w_fds := (w_fds w)(fd \<mapsto> OFile p (length c))\<rparr>)"
  using assms
  by (simp add: read_all_def read_loop.simps[of fd "length c"] read_loop.simps[of fd 0] run_sys_read Let_def file_content_def)

lemma run_write_file:
  assumes "quiet w" "w_fds w fd = Some (OFile p 0)" "w_files w p = Some (Reg c)" "length c \<le> length d" "d \<noteq> []"
  shows "run_state (write_all fd d) w =
    (int (length d), w\<lparr>w_files := (w_files w)(p \<mapsto> Reg d), w_fds := (w_fds w)(fd \<mapsto> OFile p (length d))\<rparr>)"
  using assms
  by (simp add: write_all_def write_loop.simps[of fd d] write_loop.simps[of fd "[]"] run_sys_write Let_def file_content_def)

lemma run_open_rdonly: "quiet w \<Longrightarrow> w_files w p = Some (Reg c) \<Longrightarrow>
   run_state (sys_open p []) w = (w_nextfd w, w\<lparr>w_fds := (w_fds w)(w_nextfd w \<mapsto> OFile p 0), w_nextfd := w_nextfd w + 1\<rparr>)"
  by (simp add: sys_open_def io_simps new_fd_def)

lemma run_open_rw: "quiet w \<Longrightarrow> w_files w p = Some (Reg c) \<Longrightarrow>
   run_state (sys_open p [O_WRITE]) w = (w_nextfd w, w\<lparr>w_fds := (w_fds w)(w_nextfd w \<mapsto> OFile p 0), w_nextfd := w_nextfd w + 1\<rparr>)"
  by (simp add: sys_open_def io_simps new_fd_def)

lemma run_open_missing: "quiet w \<Longrightarrow> w_files w p = None \<Longrightarrow>
   run_state (sys_open p [O_WRITE]) w = (-1, w\<lparr>w_errno := ENOENT\<rparr>)"
  by (simp add: sys_open_def io_simps)

lemma run_open_excl: "quiet w \<Longrightarrow> w_files w p = None \<Longrightarrow>
   run_state (sys_open p [O_WRITE, O_CREAT, O_EXCL]) w = (w_nextfd w,
     w\<lparr>w_files := (w_files w)(p \<mapsto> Reg []), w_fds := (w_fds w)(w_nextfd w \<mapsto> OFile p 0), w_nextfd := w_nextfd w + 1\<rparr>)"
  by (simp add: sys_open_def io_simps new_fd_def)

lemma run_fread_full: "quiet w \<Longrightarrow> w_files w p = Some (Reg c) \<Longrightarrow> n \<le> length c \<Longrightarrow>
   run_state (c_fread p n) w = ((take n c, At_data), w)"
  by (simp add: c_fread_def next_io_def file_content_def)

lemma run_request_verify:
  assumes "quiet w" "key_pair c pub priv" "LLONG_MIN \<le> t" "t \<le> LLONG_MAX - 60" "w_now w \<le> t + 60"
  shows "run_state (request_id_verify c user rid (print_lld t) (ed_signature c priv (request_text user rid (print_lld t)))
    (hex_of (\<lambda>n. hex_lower ! n) pub)) w = (0, w)"
proof -
  let ?d = "request_text user rid (print_lld t)"
  have k: "length pub = 32" "length (cr_sign c priv d) = 64" "cr_verify c pub d (cr_sign c priv d) = 1" for d
    using assms(2) by (simp_all add: key_pair_def ed_sizes)
  have "hex_to_bytes (ed_signature c priv ?d) 64 = Inr (cr_sign c priv ?d)" by (simp add: ed_signature_def k(2))
  moreover have "parse_long_long (print_lld t) = Inr t"
    using parse_print_lld[of t "[]"] assms(3,4) by simp
  ultimately have "wp (request_id_verify c user rid (print_lld t) (ed_signature c priv ?d) (hex_of (\<lambda>n. hex_lower ! n) pub))
      (\<lambda>r w'. r = 0 \<and> w' = w) w"
    using assms(1,3,4,5) k by (simp add: request_id_verify_def wp_fallible_quiet
        wp_verify_quiet[where k = pub and g = "cr_sign c priv ?d"] ed_sizes wp_c_time_quiet DEFAULT_EXPIRE_TIME_def)
  then show ?thesis by (simp add: wp_run prod_eq_iff)
qed


section \<open>The steps\<close>

lemma run_claim:
  assumes "quiet w" "key_pair (sv_crypto sv) upub upriv" "LLONG_MIN \<le> t" "t \<le> LLONG_MAX - 60" "w_now w \<le> t + 60"
    and "w_files w (pubkey_path user) = Some (Reg (hex_of (\<lambda>n. hex_lower ! n) upub))"
    and "w_files w (request_path user rid) = None" "0 \<le> w_nextfd w"
  shows "run_state (claim_request sv user rid (ed_signature (sv_crypto sv) upriv (request_text user rid (print_lld t))) (print_lld t)) w =
    (Some (w_nextfd w + 1), w\<lparr>w_errno := 0, w_files := (w_files w)(request_path user rid \<mapsto> Reg []),
       w_fds := (w_fds w)(w_nextfd w := None, w_nextfd w + 1 \<mapsto> OFile (request_path user rid) 0), w_nextfd := w_nextfd w + 2\<rparr>)"
proof -
  let ?h = "hex_of (\<lambda>n. hex_lower ! n) upub"
  have l: "length ?h = 64" using assms(2) by (simp add: key_pair_def ed_sizes)
  have p: "w_files w (USERDATA_PREFIX @ user @ ''/'' @ SERVER_USER_PUBKEY_FILE) = Some (Reg ?h)"
    "w_files w (USERDATA_PREFIX @ user @ ''/'' @ ''/request-'' @ rid) = None"
    using assms(6,7) by (simp_all add: pubkey_path_def request_path_def)
  show ?thesis
    using assms(1,8) l p
    by (simp add: claim_request_def Let_def append_assoc run_open_rdonly run_fread_full ed_sizes
        run_request_verify[OF _ assms(2-4)] assms(5) run_open_excl io_simps request_path_def fun_upd_twist)
qed

text \<open>The expiry test depends on the clock only.\<close>

lemma run_expired_now:
  assumes "quiet x" "quiet y" "w_now x = w_now y" "run_state (dp_is_expired q) x = (r, x')"
  shows "run_state (dp_is_expired q) y = (r, y)"
  using assms by (auto simp: dp_is_expired_def dp_get_expire_or_set_def Let_def io_simps split: if_splits)

lemma expired_same_size:
  assumes "run_state (dp_is_expired q) w = ((b, p), w')" "dp_wf q"
  shows "dp_wf p \<and> length (dp_bytes p) = length (dp_bytes q)"
proof -
  have "wp (dp_is_expired q) (\<lambda>(b, p) w'. dp_wf p \<and> dp_payload p = dp_payload q) w"
    unfolding dp_is_expired_def wp_bind[of "dp_get_expire_or_set _"]
    by (rule wp_mono[OF wp_expire_or_set[OF assms(2)]]) (auto intro!: wp_c_time_up)
  from wpD[OF this assms(1)] show ?thesis using length_dp_bytes[of p] length_dp_bytes[OF assms(2)] by auto
qed

definition sealed :: "crypto \<Rightarrow> bytes \<Rightarrow> dumb_payload \<Rightarrow> dumb_payload" where
  "sealed c key p = p\<lparr>dp_signature := ed_signature c key (dp_bytes (clear_signature p)) @ [NUL]\<rparr>"

lemma length_sealed: "key_pair c pub priv \<Longrightarrow> dp_wf p \<Longrightarrow> length (dp_bytes (sealed c priv p)) = length (dp_bytes p)"
  by (simp add: sealed_def dp_bytes_def dp_wf_def ed_signature_def key_pair_def ed_sizes)

lemma run_check_load_fd:
  assumes "quiet w" "key_pair c pub priv" "w_fds w fd = Some (OFile path 0)" "w_files w path = Some (Reg bs)"
    and "168 \<le> length bs" "length bs < 2 ^ 31" "run_state (dp_is_expired (dp_of_bytes bs)) w = ((False, p), w'')"
  shows "run_state (check_load_fd c fd (hex_of (\<lambda>n. hex_lower ! n) priv)) w =
    (Some (sealed c priv p, length bs), w\<lparr>w_files := (w_files w)(path \<mapsto> Reg (dp_bytes p)), w_fds := (w_fds w)(fd := None)\<rparr>)"
proof -
  have wf: "dp_wf (dp_of_bytes bs)" "dp_bytes (dp_of_bytes bs) = bs" using dp_bytes_of_bytes[OF assms(5)] by simp_all
  from expired_same_size[OF assms(7) wf(1)] wf(2) have p: "dp_wf p" "length (dp_bytes p) = length bs" by simp_all
  have ne: "bs \<noteq> []" "dp_bytes p \<noteq> []" using assms(5) p(2) by auto
  have full: "take (length bs) (dp_bytes (clear_signature p)) = dp_bytes (clear_signature p)"
    using p length_dp_bytes[OF p(1)] length_dp_bytes[OF dp_wf_clear[OF p(1)]] by simp
  have exp: "run_state (dp_is_expired (dp_of_bytes bs)) v = ((False, p), v)" if "quiet v" "w_now v = w_now w" for v
    by (rule run_expired_now[OF assms(1) that(1) _ assms(7)]) (simp add: that(2))
  have "c_int (int (length bs)) = int (length bs)" by (rule c_int_id) (use assms(6) in simp_all)
  then show ?thesis
    using assms(1,3,4,5) ne p
    by (simp add: check_load_fd_def sys_fstat_def io_simps dp_sizes run_read_file exp sys_lseek0_def
        run_write_file[where c = bs] dp_sign_quiet[OF assms(2)] full sealed_def)
qed

lemma run_check_load:
  assumes "quiet w" "key_pair c pub priv" "check_allowed_chars s SECRET_CODE_ALLOWED_CHARS" "length s + length user < 4000"
    and "w_files w (USERDATA_PREFIX @ user @ ''/'' @ CODE_FILE_PREFIX @ s) = None"
    and "w_files w (CODE_FILE_PATH @ CODE_FILE_PREFIX @ s) = Some (Reg bs)" "0 \<le> w_nextfd w"
    and "168 \<le> length bs" "length bs < 2 ^ 31" "run_state (dp_is_expired (dp_of_bytes bs)) w = ((False, p), w'')"
  shows "run_state (dp_malloc_check_load c s user (hex_of (\<lambda>n. hex_lower ! n) priv)) w =
    (Some (sealed c priv p, length bs), w\<lparr>w_errno := ENOENT,
       w_files := (w_files w)(CODE_FILE_PATH @ CODE_FILE_PREFIX @ s \<mapsto> Reg (dp_bytes p)),
       w_fds := (w_fds w)(w_nextfd w := None), w_nextfd := w_nextfd w + 1\<rparr>)"
proof -
  let ?path = "CODE_FILE_PATH @ CODE_FILE_PREFIX @ s"
  define v where "v = w\<lparr>w_errno := ENOENT, w_fds := (w_fds w)(w_nextfd w \<mapsto> OFile ?path 0), w_nextfd := w_nextfd w + 1\<rparr>"
  have v: "quiet v" "w_fds v (w_nextfd w) = Some (OFile ?path 0)" "w_files v ?path = Some (Reg bs)" "w_now v = w_now w"
    using assms(1,6) by (simp_all add: v_def)
  note load = run_check_load_fd[OF v(1) assms(2) v(2,3) assms(8,9) run_expired_now[OF assms(1) v(1) v(4)[symmetric] assms(10)]]
  have len: "length ?path < 4096" "length (USERDATA_PREFIX @ user @ ''/'' @ CODE_FILE_PREFIX @ s) < 4096"
    using assms(4) by (simp_all add: CODE_FILE_PATH_def CODE_FILE_PREFIX_def USERDATA_PREFIX_def)
  have o: "run_state (sys_open ?path [O_WRITE]) (w\<lparr>w_errno := ENOENT\<rparr>) = (w_nextfd w, v)"
    using run_open_rw[of "w\<lparr>w_errno := ENOENT\<rparr>" ?path bs] assms(1,6) by (simp add: v_def)
  have a: "(\<not> length ?path < 4096) = False" "(\<not> length (USERDATA_PREFIX @ user @ ''/'' @ CODE_FILE_PREFIX @ s) < 4096) = False"
    using len by blast+
  show ?thesis
    unfolding dp_malloc_check_load_def Let_def not_less[symmetric] a
    using assms(1,3,5,7) load
    by (simp add: io_simps run_open_missing o) (simp add: v_def)
qed

section \<open>A served request\<close>

definition code_path :: "string \<Rightarrow> string" where
  "code_path scode = CODE_FILE_PATH @ CODE_FILE_PREFIX @ scode"

definition user_code_path :: "string \<Rightarrow> string \<Rightarrow> string" where
  "user_code_path user scode = USERDATA_PREFIX @ user @ ''/'' @ CODE_FILE_PREFIX @ scode"

lemma paths_differ [simp]: "request_path user rid \<noteq> code_path scode" "code_path scode \<noteq> request_path user rid"
  "user_code_path user scode \<noteq> request_path user rid"
  by (simp_all add: request_path_def code_path_def user_code_path_def USERDATA_PREFIX_def CODE_FILE_PATH_def CODE_FILE_PREFIX_def)

text \<open>A request for the code that the user with the private key \<open>upriv\<close> signed at time \<open>t\<close>.\<close>

definition code_query :: "crypto \<Rightarrow> string \<Rightarrow> string \<Rightarrow> string \<Rightarrow> bytes \<Rightarrow> int \<Rightarrow> query" where
  "code_query c scode user rid upriv t =
     [''code'' \<mapsto> scode, ''user'' \<mapsto> user, ''requestid'' \<mapsto> rid, ''time'' \<mapsto> print_lld t,
      ''requestsig'' \<mapsto> ed_signature c upriv (request_text user rid (print_lld t))]"

lemma run_dumb_handler:
  assumes "quiet w" "0 \<le> w_nextfd w" "key_pair (sv_crypto sv) upub upriv" "key_pair (sv_crypto sv) pub priv"
    and "sv_privkey sv = hex_of (\<lambda>n. hex_lower ! n) priv"
    and "nul_free scode" "nul_free user" "nul_free rid" "length scode + length user < 4000"
    and "check_allowed_chars scode SECRET_CODE_ALLOWED_CHARS" "check_allowed_chars user DUMBOS_USER_ALLOWED_CHARS"
    and "check_allowed_chars rid REQUESTID_ALLOWED_CHARS"
    and "LLONG_MIN \<le> t" "t \<le> LLONG_MAX - 60" "w_now w \<le> t + 60"
    and "w_files w (pubkey_path user) = Some (Reg (hex_of (\<lambda>n. hex_lower ! n) upub))"
    and "w_files w (request_path user rid) = None" "w_files w (user_code_path user scode) = None"
    and "w_files w (code_path scode) = Some (Reg bs)" "168 \<le> length bs" "length bs < 2 ^ 31"
    and "run_state (dp_is_expired (dp_of_bytes bs)) w = ((False, p), w'')"
  shows "\<exists>w'. run_state (dumb_handler sv (code_query (sv_crypto sv) scode user rid upriv t)) w =
      (Queued \<lparr>hr_status = 200, hr_headers = server_headers ''text/plain; charset=utf-8'', hr_body = dp_bytes (sealed (sv_crypto sv) priv p)\<rparr>, w') \<and>
    w_files w' = (w_files w)(code_path scode \<mapsto> Reg (dp_bytes p),
      request_path user rid \<mapsto> Reg (cstr (sv_timestamp sv (w_now w)) @ CHR 0x0A # dp_command p @ [CHR 0x0A]))"
proof -
  let ?c = "sv_crypto sv" and ?q = "code_query (sv_crypto sv) scode user rid upriv t"
  let ?fd = "w_nextfd w + 1" and ?n = "request_path user rid"
  let ?sig = "ed_signature ?c upriv (request_text user rid (print_lld t))"
  have sig: "nul_free ?sig" by (simp add: ed_signature_def)
  have q: "query_value ?q ''code'' = Some scode" "query_value ?q ''user'' = Some user" "query_value ?q ''requestid'' = Some rid"
    "query_value ?q ''requestsig'' = Some ?sig" "query_value ?q ''time'' = Some (print_lld t)"
    using assms(6-8) sig by (simp_all add: query_value_def code_query_def)
  define v where "v = w\<lparr>w_errno := 0, w_files := (w_files w)(?n \<mapsto> Reg []),
       w_fds := (w_fds w)(w_nextfd w := None, ?fd \<mapsto> OFile ?n 0), w_nextfd := w_nextfd w + 2\<rparr>"
  have claim: "run_state (claim_request sv user rid ?sig (print_lld t)) w = (Some ?fd, v)"
    unfolding v_def by (rule run_claim) (use assms in simp_all)
  have vq: "quiet v" "w_now v = w_now w" "w_nextfd v = w_nextfd w + 2" using assms(1) by (simp_all add: v_def)
  have exp: "run_state (dp_is_expired (dp_of_bytes bs)) v = ((False, p), v)"
    by (rule run_expired_now[OF assms(1) vq(1) _ assms(22)]) (simp add: vq(2))
  have files: "w_files v (user_code_path user scode) = None" "w_files v (code_path scode) = Some (Reg bs)"
    using assms(18,19) by (simp_all add: v_def)
  define u where "u = v\<lparr>w_errno := ENOENT, w_files := (w_files v)(code_path scode \<mapsto> Reg (dp_bytes p)),
       w_fds := (w_fds v)(w_nextfd v := None), w_nextfd := w_nextfd v + 1\<rparr>"
  have load: "run_state (dp_malloc_check_load ?c scode user (sv_privkey sv)) v = (Some (sealed ?c priv p, length bs), u)"
    unfolding u_def code_path_def assms(5)
    by (rule run_check_load[OF vq(1) assms(4,10,9) files[unfolded user_code_path_def code_path_def] _ assms(20,21) exp])
       (use assms(2) vq(3) in simp)
  have wf: "dp_wf (dp_of_bytes bs)" "dp_bytes (dp_of_bytes bs) = bs" using dp_bytes_of_bytes[OF assms(20)] by simp_all
  have len: "length (dp_bytes (sealed ?c priv p)) = length bs"
    using length_sealed[OF assms(4)] expired_same_size[OF assms(22) wf(1)] wf(2) by simp
  let ?d = "cstr (sv_timestamp sv (w_now w)) @ CHR 0x0A # dp_command (sealed ?c priv p) @ [CHR 0x0A]"
  have u: "quiet u" "w_fds u ?fd = Some (OFile ?n 0)" "w_files u ?n = Some (Reg [])" "w_now u = w_now w"
    using vq by (simp_all add: u_def v_def)
  have cmd: "dp_command (sealed ?c priv p) = dp_command p" by (simp add: sealed_def)
  note stamp = run_write_file[OF u(1-3), of ?d, simplified]
  have "\<exists>w'. run_state (serve_code sv scode user ?fd) v = (Queued \<lparr>hr_status = 200,
      hr_headers = server_headers ''text/plain; charset=utf-8'', hr_body = dp_bytes (sealed ?c priv p)\<rparr>, w') \<and>
      w_files w' = (w_files u)(?n \<mapsto> Reg ?d)"
    using u(1,4) stamp len
    by (simp add: serve_code_def load io_simps queue_bytes_response_def queue_response_def)
  with claim show ?thesis
    using assms(11,12) by (auto simp: dumb_handler_def q u_def v_def cmd)
qed

text \<open>A server, a user and a code.\<close>

definition toy_server :: server where
  "toy_server = \<lparr>sv_crypto = toy_crypto, sv_privkey = zero_key, sv_timestamp = (\<lambda>_. ''now'')\<rparr>"

definition server_world :: world where
  "server_world = idle_world\<lparr>w_files := [pubkey_path ''joe'' \<mapsto> Reg zero_key, code_path ''x1'' \<mapsto> Reg (dp_bytes blank_payload)]\<rparr>"

definition toy_query :: query where
  "toy_query = code_query toy_crypto ''x1'' ''joe'' ''r1'' (zeros 32) 990"

definition toy_served :: bytes where
  "toy_served = dp_bytes (sealed toy_crypto (zeros 32) (dp_set_expire blank_payload 1060))"

lemma server_world_fields [simp]: "quiet server_world" "w_now server_world = 1000" "w_nextfd server_world = 3"
  "w_plan server_world = []"
  by (simp_all add: server_world_def quiet_def del: quietD)

lemma run_blank_expired: "run_state (dp_is_expired blank_payload) server_world = ((False, dp_set_expire blank_payload 1060), server_world)"
proof -
  have "dp_get_expire blank_payload = -1"
    by (simp add: dp_get_expire_def blank_payload_def Let_def parse_long_long_def strtoll_def scan_dec_def numeral_eq_Suc cstr_Cons)
  moreover have "hd (dp_expire blank_payload) \<noteq> CHR '':''" by (simp add: blank_payload_def numeral_eq_Suc)
  ultimately show ?thesis
    by (simp add: dp_is_expired_def dp_get_expire_or_set_def io_simps DEFAULT_EXPIRE_TIME_def)
qed

lemma toy_paths: "pubkey_path ''joe'' \<noteq> code_path ''x1''" "request_path ''joe'' ''r1'' \<noteq> pubkey_path ''joe''"
  "user_code_path ''joe'' ''x1'' \<noteq> code_path ''x1''" "user_code_path ''joe'' ''x1'' \<noteq> pubkey_path ''joe''"
  by (simp_all add: pubkey_path_def code_path_def request_path_def user_code_path_def USERDATA_PREFIX_def CODE_FILE_PATH_def
      CODE_FILE_PREFIX_def SERVER_USER_PUBKEY_FILE_def)

lemma toy_request_facts:
  "key_pair (sv_crypto toy_server) (zeros 32) (zeros 32)" "sv_privkey toy_server = hex_of (\<lambda>n. hex_lower ! n) (zeros 32)"
  "check_allowed_chars ''x1'' SECRET_CODE_ALLOWED_CHARS" "check_allowed_chars ''joe'' DUMBOS_USER_ALLOWED_CHARS"
  "check_allowed_chars ''r1'' REQUESTID_ALLOWED_CHARS"
  "w_files server_world (pubkey_path ''joe'') = Some (Reg (hex_of (\<lambda>n. hex_lower ! n) (zeros 32)))"
  "w_files server_world (request_path ''joe'' ''r1'') = None" "w_files server_world (user_code_path ''joe'' ''x1'') = None"
  "w_files server_world (code_path ''x1'') = Some (Reg (dp_bytes blank_payload))"
  "length (dp_bytes blank_payload) = 168"
  "run_state (dp_is_expired (dp_of_bytes (dp_bytes blank_payload))) server_world
     = ((False, dp_set_expire blank_payload 1060), server_world)"
proof -
  show "key_pair (sv_crypto toy_server) (zeros 32) (zeros 32)"
    using toy_key_pair[of "zeros 32"] by (simp add: toy_server_def)
  show "w_files server_world (pubkey_path ''joe'') = Some (Reg (hex_of (\<lambda>n. hex_lower ! n) (zeros 32)))"
    "w_files server_world (request_path ''joe'' ''r1'') = None" "w_files server_world (user_code_path ''joe'' ''x1'') = None"
    "w_files server_world (code_path ''x1'') = Some (Reg (dp_bytes blank_payload))"
    using toy_paths by (simp_all add: server_world_def zero_key_def)
  show "length (dp_bytes blank_payload) = 168" by (simp add: length_dp_bytes dp_sizes) (simp add: blank_payload_def)
  show "check_allowed_chars ''x1'' SECRET_CODE_ALLOWED_CHARS" "check_allowed_chars ''joe'' DUMBOS_USER_ALLOWED_CHARS"
    "check_allowed_chars ''r1'' REQUESTID_ALLOWED_CHARS"
    by (simp_all add: check_allowed_chars_def SECRET_CODE_ALLOWED_CHARS_def DUMBOS_USER_ALLOWED_CHARS_def REQUESTID_ALLOWED_CHARS_def cstr_Cons)
qed (simp_all add: dp_of_bytes_bytes run_blank_expired toy_server_def zero_key_def)

lemma run_toy_request:
  "\<exists>w'. run_state (dumb_handler toy_server toy_query) server_world =
      (Queued \<lparr>hr_status = 200, hr_headers = server_headers ''text/plain; charset=utf-8'', hr_body = toy_served\<rparr>, w')"
  using run_dumb_handler[where w = server_world and t = 990, OF _ _ toy_request_facts(1,1,2) _ _ _ _
      toy_request_facts(3-5) _ _ _ toy_request_facts(6-9) _ _ toy_request_facts(11)] toy_request_facts(10)
  by (simp add: toy_query_def toy_served_def toy_server_def[of] del: toy_server_def) (auto simp: toy_server_def)

end
