(* ===== verification/Served.thy ===== *)
theory Served
  imports ServerRun
begin

text \<open>
  The properties of the server's code endpoint: who is served, how often, what, and that the phone
  accepts it.
\<close>



text \<open>
  A request id is served once per user: once a payload has been handed out, every later request
  with the same user and id, whatever else it says, gets a 404 or nothing and changes no file, as
  long as the request file is not deleted.
\<close>

theorem request_id_once:
  assumes "run_state (dumb_handler sv q) w = (Queued h, w')" "hr_status h \<noteq> 404" "files_stay w' v"
    and "query_value q2 ''user'' = query_value q ''user''" "query_value q2 ''requestid'' = query_value q ''requestid''"
    and "run_state (dumb_handler sv2 q2) v = (r, v')"
  shows "(\<forall>h2. r = Queued h2 \<longrightarrow> hr_status h2 = 404) \<and> w_files v' = w_files v"
proof (rule dumb_handler_served[OF assms(1,2)])
  fix scode user rid sig ts fd w1
  assume a: "query_value q ''user'' = Some user" "query_value q ''requestid'' = Some rid"
    and r: "run_state (claim_request sv user rid sig ts) w = (Some fd, w1)"
      "run_state (serve_code sv scode user fd) w1 = (Queued h, w')"
  have "w_files v (request_path user rid) \<noteq> None"
    using wpD[OF wp_claim_auth r(1)] keepsD[OF keeps_stay_serve r(2)] assms(3) by (auto simp: files_stay_def)
  note used = wpD[OF wp_claim_used[OF this]]
  have nf: "(\<forall>h2. r = Queued h2 \<longrightarrow> hr_status h2 = 404) \<and> w_files v' = w_files v"
    if "run_state not_found u = (r, v')" "w_files u = w_files v" for u
    using run_not_found[OF that(1)] that(2) by (auto simp: plan_step_same)
  show ?thesis
    using assms(4-6) a nf
    by (auto simp: dumb_handler_def split: option.splits if_splits prod.splits dest!: used)
qed

lemma request_id_once_witness:
  "\<exists>v v' r. run_state (dumb_handler toy_server toy_query) v = (r, v') \<and> w_files v' = w_files v \<and>
     (\<forall>h. r = Queued h \<longrightarrow> hr_status h = 404)"
proof -
  obtain h w' where r: "run_state (dumb_handler toy_server toy_query) server_world = (Queued h, w')" "hr_status h \<noteq> 404"
    using run_toy_request by fastforce
  obtain r2 v' where r2: "run_state (dumb_handler toy_server toy_query) w' = (r2, v')" by (metis prod.exhaust)
  from request_id_once[OF r fr_stay.frame_refl refl refl r2] r2 show ?thesis by blast
qed

text \<open>
  C9: When nothing fails, a request that a known user signed at most a minute ago, with a fresh id,
  for a code that exists and has not expired, gets the code's payload, signed with the server's
  key.  The code's file then holds the payload with its expiry time fixed, the request file
  the time and the command; no other file changes.
\<close>

theorem server_replies:
  assumes "quiet w" "0 \<le> w_nextfd w" "key_pair (sv_crypto sv) upub upriv" "key_pair (sv_crypto sv) pub priv"
    and "sv_privkey sv = hex_of (\<lambda>n. hex_lower ! n) priv"
    and "nul_free scode" "nul_free user" "nul_free rid" "length scode + length user < 4000"
    and "check_allowed_chars scode SECRET_CODE_ALLOWED_CHARS" "check_allowed_chars user DUMBOS_USER_ALLOWED_CHARS"
    and "check_allowed_chars rid REQUESTID_ALLOWED_CHARS"
    and "LLONG_MIN \<le> t" "t \<le> LLONG_MAX - 60" "w_now w \<le> t + 60"
    and "w_files w (pubkey_path user) = Some (Reg (hex_of (\<lambda>n. hex_lower ! n) upub))"
    and "w_files w (request_path user rid) = None" "w_files w (user_code_path user scode) = None"
    and "w_files w (code_path scode) = Some (Reg bs)" "168 \<le> length bs" "length bs < 2 ^ 31"
    and "run_state (dp_is_expired (dp_of_bytes bs)) w = ((False, p), w'')"
  shows "\<exists>w'. run_state (dumb_handler sv (code_query (sv_crypto sv) scode user rid upriv t)) w =
      (Queued \<lparr>hr_status = 200, hr_headers = server_headers ''text/plain; charset=utf-8'', hr_body = dp_bytes (sealed (sv_crypto sv) priv p)\<rparr>, w') \<and>
    w_files w' = (w_files w)(code_path scode \<mapsto> Reg (dp_bytes p),
      request_path user rid \<mapsto> Reg (cstr (sv_timestamp sv (w_now w)) @ CHR 0x0A # dp_command p @ [CHR 0x0A]))"
  using assms by (rule run_dumb_handler)

lemma server_replies_witness:
  "fst (run_state (dumb_handler toy_server toy_query) server_world) =
      Queued \<lparr>hr_status = 200, hr_headers = server_headers ''text/plain; charset=utf-8'', hr_body = toy_served\<rparr>"
  using server_replies[where w = server_world and t = 990, OF _ _ toy_request_facts(1,1,2) _ _ _ _
      toy_request_facts(3-5) _ _ _ toy_request_facts(6-9) _ _ toy_request_facts(11)] toy_request_facts(10)
  by (auto simp: toy_query_def toy_served_def toy_server_def)

text \<open>
  C7: What the server hands out, the phone runs: with the matching public key in the phone, and when
  the data size stored in the code's file is right, every payload the server replied with passes
  the phone's expiry test, at any network time up to the server's time of the request, and its
  signature check; the phone goes on to run exactly its command on exactly its data.
\<close>

theorem device_runs_served:
  assumes "key_pair (sv_crypto sv) pub priv" "sv_privkey sv = hex_of (\<lambda>n. hex_lower ! n) priv"
    and "dv_crypto dev = sv_crypto sv" "dv_pubkey dev = hex_of (\<lambda>n. hex_lower ! n) pub"
    and "run_state (dumb_handler sv q) w = (Queued h, w')" "hr_status h \<noteq> 404" "0 \<le> w_now w" "w_now w < 10 ^ 14"
    and "p = dp_of_bytes (hr_body h)" "dp_validate_size p (length (hr_body h))" "length (hr_body h) = n + sizeof_payload"
    and "T \<le> w_now w" "w_plan v = []"
  shows "run_state (handle_one_payload dev fd p T n) v = run_state (do {
      tell fd ''loading...'';
      tell fd ''command is'';
      tell fd (payload_command p);
      payload_dispatch dev fd (payload_command p) (dp_payload p) n (\<lambda>q m. handle_one_payload dev fd q T m) }) v"
proof (rule served_body[OF assms(5-8)])
  assume "signed_payload (sv_crypto sv) (sv_privkey sv) (w_now w) (dp_of_bytes (hr_body h)) (length (hr_body h))"
  with assms show ?thesis by (intro run_served_payload) simp_all
qed

lemma device_runs_served_witness:
  "\<exists>p. dp_wf p \<and> run_state (handle_one_payload toy_device 5 p 990 0) idle_world = run_state (do {
      tell 5 ''loading...'';
      tell 5 ''command is'';
      tell 5 (payload_command p);
      payload_dispatch toy_device 5 (payload_command p) (dp_payload p) 0 (\<lambda>q m. handle_one_payload toy_device 5 q 990 m) }) idle_world"
proof -
  obtain w' where r: "run_state (dumb_handler toy_server toy_query) server_world = (Queued \<lparr>hr_status = 200,
      hr_headers = server_headers ''text/plain; charset=utf-8'', hr_body = toy_served\<rparr>, w')"
    using run_toy_request by blast
  let ?s = "sealed toy_crypto (zeros 32) (dp_set_expire blank_payload 1060)"
  have kp: "key_pair toy_crypto (zeros 32) (zeros 32)" by (rule toy_key_pair) simp
  have wf: "dp_wf (dp_set_expire blank_payload 1060)" by (simp add: dp_wf_set_expire)
  then have wfs: "dp_wf ?s" by (simp add: sealed_def dp_wf_def ed_signature_def toy_crypto_def)
  have p: "dp_of_bytes toy_served = ?s" using wfs by (simp add: toy_served_def dp_of_bytes_bytes)
  have l: "length toy_served = 168"
    using length_sealed[OF kp wf] length_dp_bytes[OF wf] by (simp add: toy_served_def dp_sizes blank_payload_def)
  have d: "dp_data_size ?s = zeros 4" by (simp add: sealed_def dp_set_expire_def blank_payload_def)
  have z: "of_be (zeros 4) = 0" by (simp add: of_be_def numeral_eq_Suc)
  have v: "dp_validate_size ?s 168" by (simp add: dp_validate_size_iff d z dp_sizes)
  have h: "dv_crypto toy_device = sv_crypto toy_server" "dv_pubkey toy_device = hex_of (\<lambda>n. hex_lower ! n) (zeros 32)"
    by (simp_all add: toy_server_def toy_device_def zero_key_def)
  have "run_state (handle_one_payload toy_device 5 ?s 990 0) idle_world = run_state (do {
      tell 5 ''loading...'';
      tell 5 ''command is'';
      tell 5 (payload_command ?s);
      payload_dispatch toy_device 5 (payload_command ?s) (dp_payload ?s) 0 (\<lambda>q m. handle_one_payload toy_device 5 q 990 m) }) idle_world"
    by (rule device_runs_served[OF toy_request_facts(1,2) h r]) (use p v l in \<open>simp_all add: dp_sizes\<close>)
  with wfs show ?thesis by blast
qed

end
