(* ===== verification/EndToEnd.thy ===== *)
theory EndToEnd
  imports Served
begin

text \<open>
  A phone and the server together: from the code the user enters, over the request the phone signs,
  to the command the phone runs.
\<close>


section \<open>The request in the URL\<close>

text \<open>
  The server's HTTP library splits the part after the question mark into named arguments, decoding
  percent escapes.  What the server relies on is its behaviour on arguments that need no
  escapes: each is found under its name.
\<close>

definition unreserved :: "string \<Rightarrow> bool" where
  "unreserved s \<longleftrightarrow> s \<noteq> [] \<and> list_all (\<lambda>c. c \<in> set (REQUESTID_ALLOWED_CHARS @ ''-_'')) s"

fun query_string :: "(string \<times> string) list \<Rightarrow> string" where
  "query_string [] = []"
| "query_string [(k, v)] = k @ ''='' @ v"
| "query_string ((k, v) # a # as) = k @ ''='' @ v @ ''&'' @ query_string (a # as)"

definition splits_arguments :: "(string \<Rightarrow> query) \<Rightarrow> bool" where
  "splits_arguments parse \<longleftrightarrow> (\<forall>base args. CHR ''?'' \<notin> set base \<and> args \<noteq> [] \<and> distinct (map fst args) \<and>
     (\<forall>(k, v) \<in> set args. unreserved k \<and> unreserved v) \<longrightarrow>
     parse (base @ ''?'' @ query_string args) = map_of args)"

lemma splits_argumentsD:
  "splits_arguments parse \<Longrightarrow> CHR ''?'' \<notin> set base \<Longrightarrow> args \<noteq> [] \<Longrightarrow> distinct (map fst args) \<Longrightarrow>
   \<forall>(k, v) \<in> set args. unreserved k \<and> unreserved v \<Longrightarrow> parse (base @ ''?'' @ query_string args) = map_of args"
  unfolding splits_arguments_def by blast

definition code_args :: "crypto \<Rightarrow> string \<Rightarrow> string \<Rightarrow> string \<Rightarrow> bytes \<Rightarrow> int \<Rightarrow> (string \<times> string) list" where
  "code_args c scode user rid upriv t =
     [(''code'', scode), (''user'', user), (''requestid'', rid),
      (''requestsig'', ed_signature c upriv (request_text user rid (print_lld t))), (''time'', print_lld t)]"

lemma map_of_code_args: "map_of (code_args c scode user rid upriv t) = code_query c scode user rid upriv t"
  by (auto simp: code_args_def code_query_def fun_eq_iff)

lemma allowed_unreserved:
  assumes "check_allowed_chars s wl" "nul_free s" "nul_free wl" "s \<noteq> []" "set wl \<subseteq> set (REQUESTID_ALLOWED_CHARS @ ''-_'')"
  shows "unreserved s"
  using assms by (auto simp: unreserved_def check_allowed_chars_def list_all_iff)

lemma unreserved_digits: "unreserved (dec n)"
proof (induction n rule: dec.induct)
  case (1 n)
  have d: "digit_char m \<in> set REQUESTID_ALLOWED_CHARS" if "m < 10" for m
  proof -
    from that have "m \<in> {0, 1, 2, 3, 4, 5, 6, 7, 8, 9}" by auto
    then show ?thesis by (elim insertE emptyE; simp add: REQUESTID_ALLOWED_CHARS_def)
  qed
  show ?case
    using 1 d by (simp add: dec.simps[of n] unreserved_def)
qed

lemma unreserved_hex: "bs \<noteq> [] \<Longrightarrow> unreserved (hex_of (\<lambda>n. hex_lower ! n) bs)"
proof (induction bs)
  case (Cons b bs)
  have "\<forall>n<16. hex_lower ! n \<in> set REQUESTID_ALLOWED_CHARS"
    unfolding all_lt_16 by (simp add: hex_lower_def REQUESTID_ALLOWED_CHARS_def)
  moreover have "code b div 16 < 16" "code b mod 16 < 16" using code_lt[of b] by (simp_all add: less_mult_imp_div_less)
  ultimately show ?case using Cons by (cases bs) (simp_all add: unreserved_def)
qed simp

lemma code_args_unreserved:
  assumes "key_pair c upub upriv" "check_allowed_chars scode SECRET_CODE_ALLOWED_CHARS" "nul_free scode" "scode \<noteq> []"
    and "check_allowed_chars user DUMBOS_USER_ALLOWED_CHARS" "nul_free user" "user \<noteq> []"
    and "request_id_generate signed random = Some rid" "0 \<le> t"
  shows "\<forall>(k, v) \<in> set (code_args c scode user rid upriv t). unreserved k \<and> unreserved v"
proof -
  have "unreserved scode" by (rule allowed_unreserved[OF assms(2,3) _ assms(4)])
     (simp_all add: SECRET_CODE_ALLOWED_CHARS_def REQUESTID_ALLOWED_CHARS_def)
  moreover have "unreserved user" by (rule allowed_unreserved[OF assms(5,6) _ assms(7)])
     (simp_all add: DUMBOS_USER_ALLOWED_CHARS_def REQUESTID_ALLOWED_CHARS_def)
  moreover have "unreserved rid"
    using request_id_generate_chars[OF assms(8)]
    by (intro allowed_unreserved[of rid REQUESTID_ALLOWED_CHARS]) (auto simp: request_id_verify_chars_def REQUESTID_ALLOWED_CHARS_def)
  moreover have "unreserved (ed_signature c upriv m)" for m
    using assms(1) by (auto simp: ed_signature_def key_pair_def ed_sizes intro!: unreserved_hex simp flip: length_0_conv)
  moreover have "unreserved (print_lld t)" using assms(9) by (simp add: print_lld_def unreserved_digits)
  moreover have "unreserved ''code'' \<and> unreserved ''user'' \<and> unreserved ''requestid'' \<and> unreserved ''requestsig'' \<and> unreserved ''time''"
    by (simp add: unreserved_def REQUESTID_ALLOWED_CHARS_def)
  ultimately show ?thesis by (simp add: code_args_def)
qed

text \<open>A splitter that does so.\<close>

fun split_at :: "char \<Rightarrow> string \<Rightarrow> string list" where
  "split_at c [] = [[]]"
| "split_at c (x # xs) = (if x = c then [] # split_at c xs else (x # hd (split_at c xs)) # tl (split_at c xs))"

definition url_arguments :: "string \<Rightarrow> query" where
  "url_arguments url = map_of (map (\<lambda>a. (takeWhile (\<lambda>c. c \<noteq> CHR ''='') a, tl (dropWhile (\<lambda>c. c \<noteq> CHR ''='') a)))
     (split_at (CHR ''&'') (tl (dropWhile (\<lambda>c. c \<noteq> CHR ''?'') url))))"

lemma split_at_none: "c \<notin> set s \<Longrightarrow> split_at c s = [s]"
  by (induction s) auto

lemma split_at_app: "c \<notin> set s \<Longrightarrow> split_at c (s @ c # t) = s # split_at c t"
  by (induction s) auto

lemma unreserved_plain:
  assumes "unreserved s"
  shows "CHR ''&'' \<notin> set s \<and> CHR ''='' \<notin> set s"
proof -
  have "CHR ''&'' \<notin> set (REQUESTID_ALLOWED_CHARS @ ''-_'')" "CHR ''='' \<notin> set (REQUESTID_ALLOWED_CHARS @ ''-_'')"
    by (simp_all add: REQUESTID_ALLOWED_CHARS_def)
  with assms show ?thesis unfolding unreserved_def list_all_iff by blast
qed

lemma split_query:
  assumes "\<forall>(k, v) \<in> set args. unreserved k \<and> unreserved v" "args \<noteq> []"
  shows "split_at (CHR ''&'') (query_string args) = map (\<lambda>(k, v). k @ ''='' @ v) args"
  using assms
proof (induction args rule: query_string.induct)
  case (2 k v)
  then show ?case using unreserved_plain by (auto intro!: split_at_none)
next
  case (3 k v a as)
  have ih: "split_at (CHR ''&'') (query_string (a # as)) = map (\<lambda>(k, v). k @ ''='' @ v) (a # as)"
    using 3 by simp
  have "split_at (CHR ''&'') ((k @ ''='' @ v) @ CHR ''&'' # query_string (a # as)) = (k @ ''='' @ v) # split_at (CHR ''&'') (query_string (a # as))"
    by (rule split_at_app) (use 3(2) unreserved_plain in auto)
  then show ?case by (simp add: ih)
qed simp

lemma splits_url_arguments: "splits_arguments url_arguments"
  unfolding splits_arguments_def
proof (intro allI impI, elim conjE)
  fix base and args :: "(string \<times> string) list"
  assume b: "CHR ''?'' \<notin> set base" and a: "args \<noteq> []" "\<forall>(k, v) \<in> set args. unreserved k \<and> unreserved v"
  have "tl (dropWhile (\<lambda>c. c \<noteq> CHR ''?'') (base @ ''?'' @ query_string args)) = query_string args"
    using b by (subst dropWhile_append2) auto
  moreover have "(\<lambda>a. (takeWhile (\<lambda>c. c \<noteq> CHR ''='') a, tl (dropWhile (\<lambda>c. c \<noteq> CHR ''='') a))) (k @ ''='' @ v) = (k, v)"
    if "unreserved k" for k v
  proof -
    have "\<forall>c \<in> set k. c \<noteq> CHR ''=''" using unreserved_plain[OF that] by auto
    then show ?thesis by (simp add: takeWhile_append2 dropWhile_append2)
  qed
  ultimately show "url_arguments (base @ ''?'' @ query_string args) = map_of args"
    using a(2) by (auto simp: url_arguments_def split_query[OF a(2,1)] intro!: arg_cong[of _ _ map_of] map_idI)
qed


section \<open>The transfer\<close>

text \<open>
  A working connection to the server: libcurl's calls succeed; a GET of a URL under \<open>base\<close>, with
  \<open>CURLOPT_FAILONERROR\<close>, delivers the body of the server's reply, in whatever pieces, or nothing
  and \<open>CURLE_HTTP_RETURNED_ERROR\<close> when the status is an error.
\<close>

definition online :: "curl_lib \<Rightarrow> server \<Rightarrow> world \<Rightarrow> string \<Rightarrow> (string \<Rightarrow> query) \<Rightarrow> bool" where
  "online lib sv sw base parse \<longleftrightarrow> cl_global_ok lib \<and> cl_init_ok lib \<and> (\<forall>n. cl_setopt lib n = CURLE_OK) \<and>
     (\<forall>opts u h. map_of opts ''URL'' = Some (VStr (base @ ''?'' @ u)) \<and> map_of opts ''FAILONERROR'' = Some (VLong 1) \<and>
        map_of opts ''NOBODY'' = None \<and> map_of opts ''POST'' = None \<and>
        fst (run_state (handle_get sv (parse (base @ ''?'' @ u)) ''/dumb'') sw) = Queued h \<longrightarrow>
        (if hr_status h < 400 then cl_perform lib opts = CURLE_OK \<and> concat (cl_body lib opts) = hr_body h
         else cl_perform lib opts = CURLE_HTTP_RETURNED_ERROR \<and> cl_body lib opts = []))"

lemma run_perform_body:
  assumes "w_plan w = []" "db_size b + length (concat cs) \<le> 18446744073709551615"
  shows "\<exists>d. run_state (perform_body cs rc b) w = ((rc, b\<lparr>db_data := d\<rparr>), w) \<and>
    (case d of None \<Rightarrow> [] | Some d \<Rightarrow> d) = (case db_data b of None \<Rightarrow> [] | Some d \<Rightarrow> d) @ concat cs"
  using assms(2)
proof (induction cs arbitrary: b)
  case Nil
  then show ?case by (intro exI[of _ "db_data b"]) simp
next
  case (Cons c cs)
  show ?case
  proof (cases "c = []")
    case True
    with Cons show ?thesis by (simp add: write_callback_def)
  next
    case False
    let ?b = "b\<lparr>db_data := Some ((case db_data b of None \<Rightarrow> [] | Some d \<Rightarrow> d) @ c)\<rparr>"
    have "run_state (write_callback c b) w = ((length c, ?b), w)"
      using False Cons.prems assms(1) by (simp add: write_callback_def Let_def io_simps)
    moreover have "db_size ?b + length (concat cs) \<le> 18446744073709551615"
      using Cons.prems by (simp add: db_size_def split: option.splits)
    ultimately show ?thesis using Cons.IH[of ?b] by (auto split: option.splits)
  qed
qed

lemma set_curl_opts_ok: "(\<And>n. cl_setopt lib n = CURLE_OK) \<Longrightarrow> set_curl_opts lib os = Inr os"
  by (induction os) auto

text \<open>A download of a URL with a scheme, over a working connection.\<close>

lemma run_download_online:
  assumes "online lib sv sw base parse" "starts_with_http_scheme base" "w_plan w = []"
    and "fst (run_state (handle_get sv (parse (base @ ''?'' @ u)) ''/dumb'') sw) = Queued h"
    and "length (hr_body h) < 2 ^ 31"
  shows "run_state (download_url lib (base @ ''?'' @ u) None) w =
    (if hr_status h < 400 then (Some (hr_body h), w) else (None, w\<lparr>w_errno := EPROTO\<rparr>))"
proof -
  define url where "url = base @ ''?'' @ u"
  define opts where "opts = download_opts url @ [(''ERRORBUFFER'', VPtr)]"
  have net: "cl_global_ok lib" "cl_init_ok lib" "\<And>n. cl_setopt lib n = CURLE_OK"
    "if hr_status h < 400 then cl_perform lib opts = CURLE_OK \<and> concat (cl_body lib opts) = hr_body h
     else cl_perform lib opts = CURLE_HTTP_RETURNED_ERROR \<and> cl_body lib opts = []"
    using assms(1,4) unfolding online_def by (auto simp: download_opts_def opts_def url_def)
  have scheme: "starts_with_http_scheme url" "url \<noteq> []"
    using assms(2) by (auto simp: starts_with_http_scheme_def has_prefix_append url_def)
  let ?b = "\<lparr>db_data = None, db_err = 0\<rparr>"
  obtain d where d: "run_state (perform_body (cl_body lib opts) (cl_perform lib opts) ?b) w
      = ((cl_perform lib opts, ?b\<lparr>db_data := d\<rparr>), w)" "(case d of None \<Rightarrow> [] | Some d \<Rightarrow> d) = concat (cl_body lib opts)"
    using run_perform_body[OF assms(3), of ?b "cl_body lib opts" "cl_perform lib opts"] net(4) assms(5)
    by (auto simp: db_size_def split: if_splits)
  have "run_state (download_perform lib opts) w =
      (if hr_status h < 400 then (Some (hr_body h), w) else (None, w\<lparr>w_errno := EPROTO\<rparr>))"
    using d net(4) assms(3)
    by (cases d) (auto simp: download_perform_def download_fail_def curlcode_to_errno_def io_simps split: if_splits
        simp del: concat_eq_Nil_conv Nil_eq_concat_conv)
  then show ?thesis
    using net(1-3) scheme assms(3)
    unfolding download_url_def make_effective_url_def url_def[symmetric]
    by (simp add: io_simps set_curl_opts_ok cert_opts_def opts_def)
qed


section \<open>The phone's request\<close>

lemma run_get_user_quiet:
  assumes "dumbos_alloc_new_user u k = Inr d" "w_plan w = []" "w_io w = []"
    and "w_files w DUMBOS_USER_DATA_PATH = Some (Reg (ud_bytes d))" "0 \<le> w_nextfd w"
  shows "run_state dumbos_alloc_get_user w = (Some d,
    w\<lparr>w_nextfd := w_nextfd w + 1, w_errno := 0, w_fds := (w_fds w)(w_nextfd w := None)\<rparr>)"
proof -
  have wf: "ud_wf d" using assms(1) by (rule dumbos_alloc_new_user_wf)
  have "wp dumbos_alloc_get_user (\<lambda>r w'. r = Some d \<and>
      w' = w\<lparr>w_nextfd := w_nextfd w + 1, w_errno := 0, w_fds := (w_fds w)(w_nextfd w := None)\<rparr>) w"
    using wf assms length_ud_bytes[OF wf] ud_of_bytes_bytes[OF wf] ud_wf_terminated[OF wf]
    by (simp add: dumbos_alloc_get_user_def wp_malloc_quiet wp_open_rdonly_quiet sizeof_user_data
        wp_fread_done[where bs = "ud_bytes d"] ed_sizes ud_wf_def)
  then show ?thesis by (simp add: wp_run prod_eq_iff)
qed

lemma run_code_request_url:
  assumes "dumbos_alloc_new_user user (hex_of (\<lambda>n. hex_lower ! n) upriv) = Inr d" "nul_free user"
    and "key_pair (dv_crypto dev) upub upriv"
    and "request_id_generate (dv_signed_char dev) (dv_random dev) = Some rid" "w_plan w = []" "w_io w = []"
    and "w_files w DUMBOS_USER_DATA_PATH = Some (Reg (ud_bytes d))" "0 \<le> w_nextfd w"
  shows "run_state (code_request_url dev t scode) w =
    (Inr (dv_server_code dev @ ''?'' @ query_string (code_args (dv_crypto dev) scode user rid upriv t)),
     w\<lparr>w_nextfd := w_nextfd w + 1, w_errno := 0, w_fds := (w_fds w)(w_nextfd w := None)\<rparr>)"
proof -
  have k: "length upriv = 32" "length (cr_sign (dv_crypto dev) upriv m) = 64" for m
    using assms(3) by (simp_all add: key_pair_def ed_sizes)
  have name: "cstr (ud_username d @ [ud_null_byte d]) = user"
    using assms(1,2) by (auto simp: dumbos_alloc_new_user_def snprintf_field_def Let_def strlen_def DUMBOS_USERNAME_MAXLEN_def
        ed_sizes split: if_splits)
  have key: "cstr (ud_priv_key_hex d) = hex_of (\<lambda>n. hex_lower ! n) upriv"
    using new_user_fields(2)[OF assms(1)] by simp
  have chars: "check_allowed_chars rid REQUESTID_ALLOWED_CHARS"
    using request_id_generate_chars[OF assms(4)] by (simp add: request_id_verify_chars_def)
  let ?sig = "ed_signature (dv_crypto dev) upriv (request_text user rid (print_lld t))"
  have sign: "run_state (request_id_sign (dv_crypto dev) user rid t (hex_of (\<lambda>n. hex_lower ! n) upriv)) v = ((0, ?sig), v)"
    if "w_plan v = []" for v
  proof -
    have "wp (request_id_sign (dv_crypto dev) user rid t (hex_of (\<lambda>n. hex_lower ! n) upriv)) (\<lambda>r w'. r = (0, ?sig) \<and> w' = v) v"
      using chars k that by (simp add: request_id_sign_def quiet_calls wp_fallible_quiet wp_sign_quiet[where k = upriv] ed_sizes)
    then show ?thesis by (simp add: wp_run prod_eq_iff)
  qed
  show ?thesis
    unfolding code_request_url_def
    by (simp add: run_get_user_quiet[OF assms(1,5-8)] name key Let_def assms(4,5) io_simps sign
        alloc_construct_request_URL_def code_args_def)
qed

text \<open>A phone on which nothing fails, with the user's name and key stored, talking to a client on \<open>fd\<close>.\<close>

definition phone_ready :: "device \<Rightarrow> world \<Rightarrow> int \<Rightarrow> string \<Rightarrow> bytes \<Rightarrow> bool" where
  "phone_ready dev w fd user upriv \<longleftrightarrow> smooth fd w \<and> 0 \<le> w_nextfd w \<and> fd \<noteq> w_nextfd w \<and> nul_free user \<and>
     length (dv_random dev) = 64 \<and>
     (\<exists>d. dumbos_alloc_new_user user (hex_of (\<lambda>n. hex_lower ! n) upriv) = Inr d \<and>
        w_files w DUMBOS_USER_DATA_PATH = Some (Reg (ud_bytes d)))"

text \<open>The world in which the download starts.\<close>

definition requested :: "world \<Rightarrow> world" where
  "requested w = w\<lparr>w_nextfd := w_nextfd w + 1, w_errno := 0, w_fds := (w_fds w)(w_nextfd w := None),
     w_sout := w_sout w @ string_enc ''downloading...''\<rparr>"

lemma smooth_requested: "phone_ready dev w fd user upriv \<Longrightarrow> smooth fd (requested w)"
  by (simp add: phone_ready_def smooth_def requested_def)

text \<open>Up to the reply of the server.\<close>

lemma run_secret_code_online:
  assumes "phone_ready dev w fd user upriv" "key_pair (dv_crypto dev) upub upriv"
    and "request_id_generate (dv_signed_char dev) (dv_random dev) = Some rid"
    and "online (dv_curl dev) sv sw (dv_server_code dev) parse" "splits_arguments parse"
    and "starts_with_http_scheme (dv_server_code dev)" "CHR ''?'' \<notin> set (dv_server_code dev)"
    and "run_state (get_network_time (dv_curl dev)) w = (t, w)" "0 \<le> t"
    and "nul_free scode" "scode \<noteq> []" "user \<noteq> []" "length (dv_tmpdir dev) + 1 + length scode \<le> PATH_MAX"
    and "check_allowed_chars scode SECRET_CODE_ALLOWED_CHARS" "check_allowed_chars user DUMBOS_USER_ALLOWED_CHARS"
    and "fst (run_state (dumb_handler sv (code_query (dv_crypto dev) scode user rid upriv t)) sw) = Queued h"
    and "length (hr_body h) < 2 ^ 31"
  shows "run_state (secret_code dev [scode] fd) w =
    (if 400 \<le> hr_status h then
       (EPROTO, (requested w)\<lparr>w_errno := EPROTO, w_sout := w_sout (requested w) @ string_enc ''invalid code''\<rparr>)
     else if length (hr_body h) < sizeof_payload then
       (EINVAL, (requested w)\<lparr>w_sout := w_sout (requested w) @ string_enc ''invalid''\<rparr>)
     else run_state (handle_one_payload dev fd (dp_of_bytes (hr_body h)) t (length (hr_body h) - sizeof_payload)) (requested w))"
proof -
  obtain d where d: "dumbos_alloc_new_user user (hex_of (\<lambda>n. hex_lower ! n) upriv) = Inr d" "nul_free user"
    "w_files w DUMBOS_USER_DATA_PATH = Some (Reg (ud_bytes d))" "smooth fd w" "0 \<le> w_nextfd w" "fd \<noteq> w_nextfd w"
    using assms(1) by (auto simp: phone_ready_def)
  have quiet: "w_plan w = []" "w_io w = []" using d(4) by (simp_all add: smooth_def)
  let ?args = "code_args (dv_crypto dev) scode user rid upriv t"
  have parse: "parse (dv_server_code dev @ ''?'' @ query_string ?args) = code_query (dv_crypto dev) scode user rid upriv t"
    unfolding map_of_code_args[symmetric]
    by (rule splits_argumentsD[OF assms(5,7) _ _ code_args_unreserved[OF assms(2,14,10,11,15) d(2) assms(12,3,9)]])
       (simp_all add: code_args_def)
  have reply: "fst (run_state (handle_get sv (parse (dv_server_code dev @ ''?'' @ query_string ?args)) ''/dumb'') sw) = Queued h"
    using assms(16) by (simp only: parse handle_get_def simp_thms if_True)
  have "(int PATH_MAX - (int (length (dv_tmpdir dev)) + 1)) mod (ULONG_MAX + 1)
      = int PATH_MAX - (int (length (dv_tmpdir dev)) + 1)"
    using assms(13) by (intro mod_pos_pos_trivial) simp_all
  then have len: "\<not> (int PATH_MAX - (int (length (dv_tmpdir dev)) + 1)) mod (ULONG_MAX + 1) < int (strlen scode)"
    using assms(10,13) by (simp add: strlen_def)
  let ?w = "w\<lparr>w_nextfd := w_nextfd w + 1, w_errno := 0, w_fds := (w_fds w)(w_nextfd w := None)\<rparr>"
  have sm: "smooth fd ?w" "smooth fd (requested w)" using d(4,6) by (simp_all add: smooth_def requested_def)
  have told: "run_state (tell fd ''downloading...'') ?w = ((), requested w)"
    using run_tell_smooth[OF sm(1), of "''downloading...''"] by (simp add: string_ok_def MAX_STRING_def requested_def)
  have plan: "w_plan (requested w) = []" using sm(2) by (simp add: smooth_def)
  note download = run_download_online[OF assms(4,6) plan reply assms(17)]
  have "run_state (secret_code dev [scode] fd) w =
      run_state (code_run dev fd (dv_server_code dev @ ''?'' @ query_string ?args) t) ?w"
    using len assms(8,9) run_code_request_url[OF d(1,2) assms(2,3) quiet d(3,5)]
    by (simp add: secret_code_def Let_def)
  also have "\<dots> = (if 400 \<le> hr_status h then
       (EPROTO, (requested w)\<lparr>w_errno := EPROTO, w_sout := w_sout (requested w) @ string_enc ''invalid code''\<rparr>)
     else if length (hr_body h) < sizeof_payload then
       (EINVAL, (requested w)\<lparr>w_sout := w_sout (requested w) @ string_enc ''invalid''\<rparr>)
     else run_state (handle_one_payload dev fd (dp_of_bytes (hr_body h)) t (length (hr_body h) - sizeof_payload)) (requested w))"
    using told download sm(2)
    by (simp add: code_run_def run_tell_smooth string_ok_def MAX_STRING_def)
  finally show ?thesis .
qed


section \<open>The server's side\<close>

lemma expired_fields:
  "run_state (dp_is_expired q) w = ((b, p), w') \<Longrightarrow>
   dp_command p = dp_command q \<and> dp_data_size p = dp_data_size q \<and> dp_payload p = dp_payload q"
  by (auto simp: dp_is_expired_def dp_get_expire_or_set_def Let_def dp_set_expire_def
      shift_expire_def c_time_def split: prod.splits if_splits list.splits)

lemma payload_command_short: "dp_wf p \<Longrightarrow> nul_free (payload_command p) \<and> length (payload_command p) < 16"
proof -
  assume "dp_wf p"
  then have "(dp_command p)[15 := NUL] = take 15 (dp_command p) @ [NUL]"
    by (simp add: dp_wf_def upd_conv_take_nth_drop)
  then have "payload_command p = cstr (take 15 (dp_command p))"
    by (simp add: payload_command_def COMMAND_SIZE_def cstr_snoc_NUL)
  then show ?thesis using length_cstr[of "take 15 (dp_command p)"] by simp
qed

lemma run_unknown_code:
  assumes "quiet w" "0 \<le> w_nextfd w" "key_pair (sv_crypto sv) upub upriv"
    and "nul_free scode" "nul_free user" "nul_free rid"
    and "check_allowed_chars user DUMBOS_USER_ALLOWED_CHARS" "check_allowed_chars rid REQUESTID_ALLOWED_CHARS"
    and "LLONG_MIN \<le> t" "t \<le> LLONG_MAX - 60" "w_now w \<le> t + 60"
    and "w_files w (pubkey_path user) = Some (Reg (hex_of (\<lambda>n. hex_lower ! n) upub))"
    and "w_files w (request_path user rid) = None" "w_files w (user_code_path user scode) = None"
    and "w_files w (code_path scode) = None"
  shows "\<exists>h. fst (run_state (dumb_handler sv (code_query (sv_crypto sv) scode user rid upriv t)) w) = Queued h \<and>
    hr_status h = 404 \<and> length (hr_body h) < 100"
proof -
  let ?c = "sv_crypto sv" and ?q = "code_query (sv_crypto sv) scode user rid upriv t"
  let ?fd = "w_nextfd w + 1" and ?n = "request_path user rid"
  let ?sig = "ed_signature ?c upriv (request_text user rid (print_lld t))"
  have sig: "nul_free ?sig" by (simp add: ed_signature_def)
  have q: "query_value ?q ''code'' = Some scode" "query_value ?q ''user'' = Some user" "query_value ?q ''requestid'' = Some rid"
    "query_value ?q ''requestsig'' = Some ?sig" "query_value ?q ''time'' = Some (print_lld t)"
    using assms(4-6) sig by (simp_all add: query_value_def code_query_def)
  define v where "v = w\<lparr>w_errno := 0, w_files := (w_files w)(?n \<mapsto> Reg []),
       w_fds := (w_fds w)(w_nextfd w := None, ?fd \<mapsto> OFile ?n 0), w_nextfd := w_nextfd w + 2\<rparr>"
  have claim: "run_state (claim_request sv user rid ?sig (print_lld t)) w = (Some ?fd, v)"
    unfolding v_def by (rule run_claim) (use assms in simp_all)
  have v: "quiet v" "w_files v (user_code_path user scode) = None" "w_files v (code_path scode) = None"
    using assms(1,14,15) by (simp_all add: v_def)
  have load: "\<exists>v'. run_state (dp_malloc_check_load ?c scode user (sv_privkey sv)) v = (None, v') \<and> quiet v'"
    using v unfolding dp_malloc_check_load_def Let_def user_code_path_def code_path_def
    by (auto simp: io_simps run_open_missing)
  then show ?thesis
    using claim v(1) assms(7,8)
    by (auto simp: dumb_handler_def q serve_code_def not_found_def queue_text_response_def queue_response_def io_simps cstr_Cons)
qed


section \<open>From the code to the command\<close>

lemma run_code_online:
  assumes "phone_ready dev w fd user upriv" "key_pair (dv_crypto dev) upub upriv" "dv_crypto dev = sv_crypto sv"
    and "key_pair (sv_crypto sv) pub priv" "sv_privkey sv = hex_of (\<lambda>n. hex_lower ! n) priv"
    and "dv_pubkey dev = hex_of (\<lambda>n. hex_lower ! n) pub"
    and "online (dv_curl dev) sv sw (dv_server_code dev) parse" "splits_arguments parse"
    and "starts_with_http_scheme (dv_server_code dev)" "CHR ''?'' \<notin> set (dv_server_code dev)"
    and "run_state (get_network_time (dv_curl dev)) w = (t, w)"
    and "0 \<le> t" "t \<le> w_now sw" "w_now sw \<le> t + 60" "w_now sw < 10 ^ 14"
    and "nul_free scode" "scode \<noteq> []" "user \<noteq> []" "length (dv_tmpdir dev) + 1 + length scode \<le> PATH_MAX"
    and "check_allowed_chars scode SECRET_CODE_ALLOWED_CHARS" "check_allowed_chars user DUMBOS_USER_ALLOWED_CHARS"
    and "quiet sw" "0 \<le> w_nextfd sw" "length scode + length user < 4000"
    and "w_files sw (pubkey_path user) = Some (Reg (hex_of (\<lambda>n. hex_lower ! n) upub))"
    and "w_files sw (request_path user rid) = None" "w_files sw (user_code_path user scode) = None"
    and "w_files sw (code_path scode) = Some (Reg bs)" "length bs = n + sizeof_payload" "length bs < 2 ^ 31"
    and "dp_validate_size (dp_of_bytes bs) (length bs)"
    and "run_state (dp_is_expired (dp_of_bytes bs)) sw = ((False, p), sw')"
    and "cmd = payload_command (dp_of_bytes bs)"
    and rid: "request_id_generate (dv_signed_char dev) (dv_random dev) = Some rid"
  shows "run_state (secret_code dev [scode] fd) w =
    run_state (payload_dispatch dev fd cmd (dp_payload (dp_of_bytes bs)) n (\<lambda>q m. handle_one_payload dev fd q t m))
      (w\<lparr>w_nextfd := w_nextfd w + 1, w_errno := 0, w_fds := (w_fds w)(w_nextfd w := None),
         w_sout := w_sout w @ string_enc ''downloading...'' @ string_enc ''loading...'' @ string_enc ''command is'' @ string_enc cmd\<rparr>)"
proof -
  have "nul_free user" using assms(1) by (simp add: phone_ready_def)
  note rid_ok = request_id_generate_chars[OF rid, unfolded request_id_verify_chars_def]
  have size: "168 \<le> length bs" "n + sizeof_payload - sizeof_payload = n" using assms(29) by (simp_all add: dp_sizes)
  let ?q = "code_query (sv_crypto sv) scode user rid upriv t" and ?s = "sealed (sv_crypto sv) priv p"
  let ?h = "\<lparr>hr_status = 200, hr_headers = server_headers ''text/plain; charset=utf-8'', hr_body = dp_bytes ?s\<rparr>"
  have "\<exists>sw'. run_state (dumb_handler sv ?q) sw = (Queued ?h, sw')"
    using run_dumb_handler[of sw sv upub upriv pub priv scode user rid t bs p sw'] assms \<open>nul_free user\<close> rid_ok size
    by auto
  then obtain sw2 where h: "run_state (dumb_handler sv ?q) sw = (Queued ?h, sw2)" by blast
  have wf: "dp_wf (dp_of_bytes bs)" "dp_bytes (dp_of_bytes bs) = bs" using dp_bytes_of_bytes[OF size(1)] by simp_all
  note same = expired_same_size[OF assms(32) wf(1)] expired_fields[OF assms(32)]
  have len: "length (dp_bytes ?s) = n + sizeof_payload"
    using length_sealed[OF assms(4)] same wf(2) assms(29) by simp
  have wfs: "dp_wf ?s"
    using same assms(4) by (simp add: dp_wf_def sealed_def ed_signature_def key_pair_def ed_sizes)
  have ps: "dp_of_bytes (hr_body ?h) = ?s" using wfs by (simp add: dp_of_bytes_bytes)
  have f: "payload_command ?s = cmd" "dp_payload ?s = dp_payload (dp_of_bytes bs)"
    "dp_validate_size ?s (n + sizeof_payload)"
    using same assms(29,31,33) by (simp_all add: sealed_def payload_command_def dp_validate_size_iff)
  have "nul_free cmd \<and> length cmd < 16" unfolding assms(33) by (rule payload_command_short[OF wf(1)])
  then have ok: "string_ok cmd" "string_ok ''loading...''" "string_ok ''command is''"
    by (simp_all add: string_ok_def MAX_STRING_def)
  have signed: "signed_payload (dv_crypto dev) (hex_of (\<lambda>n. hex_lower ! n) priv) (w_now sw) ?s (n + sizeof_payload)"
    by (rule served_body[OF h]) (use assms(3,5,12,13,15) ps len in simp_all)
  have "run_state (secret_code dev [scode] fd) w = run_state (handle_one_payload dev fd ?s t n) (requested w)"
    using run_secret_code_online[OF assms(1,2) rid assms(7-12,16-21), of ?h] h ps len assms(3,29,30)
    by (simp add: dp_sizes)
  also have "\<dots> = run_state (do {
      tell fd ''loading...'';
      tell fd ''command is'';
      tell fd cmd;
      payload_dispatch dev fd cmd (dp_payload (dp_of_bytes bs)) n (\<lambda>q m. handle_one_payload dev fd q t m) }) (requested w)"
    using run_served_payload[of dev pub priv _ ?s n t "requested w" fd] signed assms(3,4,6,13) f smooth_requested[OF assms(1)]
    by (simp add: smooth_def)
  finally show ?thesis
    using smooth_requested[OF assms(1)] ok by (simp add: run_tell_smooth) (simp add: requested_def)
qed

text \<open>
  A user enters a code that the server has, on a phone that holds the user's key and the server's
  public key, over a working connection and with nothing failing: the client is told that the code
  is downloaded and loaded and what its command is, and then exactly that command is run on exactly the data
  in the server's file of the code.
\<close>

theorem code_runs_end_to_end:
  assumes "phone_ready dev w fd user upriv" "key_pair (dv_crypto dev) upub upriv" "dv_crypto dev = sv_crypto sv"
    and "key_pair (sv_crypto sv) pub priv" "sv_privkey sv = hex_of (\<lambda>n. hex_lower ! n) priv"
    and "dv_pubkey dev = hex_of (\<lambda>n. hex_lower ! n) pub"
    and "online (dv_curl dev) sv sw (dv_server_code dev) parse" "splits_arguments parse"
    and "starts_with_http_scheme (dv_server_code dev)" "CHR ''?'' \<notin> set (dv_server_code dev)"
    and "run_state (get_network_time (dv_curl dev)) w = (t, w)"
    and "0 \<le> t" "t \<le> w_now sw" "w_now sw \<le> t + 60" "w_now sw < 10 ^ 14"
    and "nul_free scode" "scode \<noteq> []" "user \<noteq> []" "length (dv_tmpdir dev) + 1 + length scode \<le> PATH_MAX"
    and "check_allowed_chars scode SECRET_CODE_ALLOWED_CHARS" "check_allowed_chars user DUMBOS_USER_ALLOWED_CHARS"
    and "quiet sw" "0 \<le> w_nextfd sw" "length scode + length user < 4000"
    and "w_files sw (pubkey_path user) = Some (Reg (hex_of (\<lambda>n. hex_lower ! n) upub))"
    and "w_files sw (request_path user rid) = None" "w_files sw (user_code_path user scode) = None"
    and "w_files sw (code_path scode) = Some (Reg bs)" "length bs = n + sizeof_payload" "length bs < 2 ^ 31"
    and "dp_validate_size (dp_of_bytes bs) (length bs)"
    and "run_state (dp_is_expired (dp_of_bytes bs)) sw = ((False, p), sw')"
    and "cmd = payload_command (dp_of_bytes bs)"
    and rid: "request_id_generate (dv_signed_char dev) (dv_random dev) = Some rid"
  shows "run_state (secret_code dev [scode] fd) w =
    run_state (payload_dispatch dev fd cmd (dp_payload (dp_of_bytes bs)) n (\<lambda>q m. handle_one_payload dev fd q t m))
      (w\<lparr>w_nextfd := w_nextfd w + 1, w_errno := 0, w_fds := (w_fds w)(w_nextfd w := None),
         w_sout := w_sout w @ string_enc ''downloading...'' @ string_enc ''loading...'' @ string_enc ''command is'' @ string_enc cmd\<rparr>)"
  using assms by (rule run_code_online)

text \<open>A library connected to a server, and a server with a code that switches Wi-Fi on.\<close>

definition web_lib :: "server \<Rightarrow> world \<Rightarrow> (string \<Rightarrow> query) \<Rightarrow> int \<Rightarrow> curl_lib" where
  "web_lib sv sw parse t =
     (let reply = (\<lambda>opts. case map_of opts ''URL'' of
          Some (VStr u) \<Rightarrow> (case fst (run_state (handle_get sv (parse u) ''/dumb'') sw) of Queued h \<Rightarrow> Some h | _ \<Rightarrow> None)
        | _ \<Rightarrow> None)
      in \<lparr>cl_global_ok = True, cl_init_ok = True, cl_setopt = (\<lambda>_. CURLE_OK),
        cl_body = (\<lambda>opts. case reply opts of Some h \<Rightarrow> if hr_status h < 400 then [hr_body h] else [] | None \<Rightarrow> []),
        cl_headers = (\<lambda>_. [''date: now'']),
        cl_perform = (\<lambda>opts. if map_of opts ''NOBODY'' \<noteq> None then CURLE_OK else case reply opts of
            Some h \<Rightarrow> if hr_status h < 400 then CURLE_OK else CURLE_HTTP_RETURNED_ERROR | None \<Rightarrow> CURLE_RECV_ERROR),
        cl_response = (\<lambda>_. 200), cl_getdate = (\<lambda>_. t)\<rparr>)"

lemma online_web_lib: "online (web_lib sv sw parse t) sv sw base parse"
  by (auto simp: online_def web_lib_def Let_def)

lemma time_web_lib: "t \<noteq> -1 \<Longrightarrow> run_state (get_network_time (web_lib sv sw parse t)) w = (t, w)"
  by (simp add: get_network_time_def web_lib_def geturltime_header_callback_def Let_def strcaseeq_def c_tolower_def time_opts_def)

definition wifi_world :: world where
  "wifi_world = idle_world\<lparr>w_files := [pubkey_path ''joe'' \<mapsto> Reg zero_key,
     code_path ''x1'' \<mapsto> Reg (dp_bytes (toy_payload ''wifi-enable'' []))]\<rparr>"

definition phone :: device where
  "phone = toy_device\<lparr>dv_curl := web_lib toy_server wifi_world url_arguments 990\<rparr>"

definition phone_world :: "user_data \<Rightarrow> world" where
  "phone_world d = (sock_world [])\<lparr>w_files := [DUMBOS_USER_DATA_PATH \<mapsto> Reg (ud_bytes d)]\<rparr>"

lemma phone_fields: "dv_crypto phone = toy_crypto" "dv_pubkey phone = zero_key" "dv_random phone = zeros 64"
  "dv_server_code phone = ''http://h/code''" "dv_tmpdir phone = ''/t/''"
  "dv_curl phone = web_lib toy_server wifi_world url_arguments 990"
  by (simp_all add: phone_def toy_device_def)

lemma phone_is_ready:
  assumes "dumbos_alloc_new_user ''joe'' zero_key = Inr d"
  shows "phone_ready phone (phone_world d) 5 ''joe'' (zeros 32)"
  using assms by (simp add: phone_ready_def phone_fields phone_world_def smooth_def zero_key_def)

lemma wifi_files:
  "w_files wifi_world (pubkey_path ''joe'') = Some (Reg (hex_of (\<lambda>n. hex_lower ! n) (zeros 32)))"
  "w_files wifi_world (request_path ''joe'' rid) = None" "w_files wifi_world (user_code_path ''joe'' scode) = None"
  "w_files wifi_world (code_path scode) = (if scode = ''x1'' then Some (Reg (dp_bytes (toy_payload ''wifi-enable'' []))) else None)"
proof -
  have "pubkey_path ''joe'' \<noteq> code_path s" "code_path s \<noteq> pubkey_path ''joe''" "request_path ''joe'' rid \<noteq> pubkey_path ''joe''"
    "user_code_path ''joe'' s \<noteq> code_path s'" "user_code_path ''joe'' s \<noteq> pubkey_path ''joe''"
    "code_path s = code_path s' \<longleftrightarrow> s = s'" for s s'
    by (simp_all add: pubkey_path_def code_path_def request_path_def user_code_path_def USERDATA_PREFIX_def CODE_FILE_PATH_def
      CODE_FILE_PREFIX_def SERVER_USER_PUBKEY_FILE_def)
  then show "w_files wifi_world (pubkey_path ''joe'') = Some (Reg (hex_of (\<lambda>n. hex_lower ! n) (zeros 32)))"
    "w_files wifi_world (request_path ''joe'' rid) = None" "w_files wifi_world (user_code_path ''joe'' scode) = None"
    "w_files wifi_world (code_path scode) = (if scode = ''x1'' then Some (Reg (dp_bytes (toy_payload ''wifi-enable'' []))) else None)"
    by (simp_all add: wifi_world_def zero_key_def)
qed

lemma code_runs_end_to_end_witness:
  "\<exists>d w'. dumbos_alloc_new_user ''joe'' zero_key = Inr d \<and>
     run_state (secret_code phone [''x1''] 5) (phone_world d) = (0, w') \<and>
     w_execs w' = [(''/system/bin/start'', [''/system/bin/start'', ''wificond''])]"
proof -
  let ?p = "toy_payload ''wifi-enable'' []"
  obtain d where d: "dumbos_alloc_new_user ''joe'' zero_key = Inr d" using blank_user by blast
  obtain rid where rid: "request_id_generate (dv_signed_char phone) (dv_random phone) = Some rid"
    by (auto simp: request_id_generate_def REQUEST_ID_LEN_def phone_fields)
  note f = toy_payload_fields[of "''wifi-enable''" "[]", simplified]
  have b: "dp_of_bytes (dp_bytes ?p) = ?p" "length (dp_bytes ?p) = 168"
    using f(1,5) length_dp_bytes[OF f(1)] by (simp_all add: dp_of_bytes_bytes dp_sizes)
  have e: "run_state (dp_is_expired ?p) wifi_world = ((False, ?p), wifi_world)"
    by (simp add: dp_is_expired_def dp_get_expire_or_set_def f(2) Let_def)
  have z: "of_be (dp_data_size ?p) = 0" using f(4) by (simp add: of_be_be32)
  have kp: "key_pair toy_crypto (zeros 32) (zeros 32)" by (rule toy_key_pair) simp
  define v where "v = (phone_world d)\<lparr>w_nextfd := w_nextfd (phone_world d) + 1, w_errno := 0,
       w_fds := (w_fds (phone_world d))(w_nextfd (phone_world d) := None), w_sout := w_sout (phone_world d) @
         string_enc ''downloading...'' @ string_enc ''loading...'' @ string_enc ''command is'' @ string_enc ''wifi-enable''\<rparr>"
  have "run_state (secret_code phone [''x1''] 5) (phone_world d) = run_state (payload_dispatch phone 5 ''wifi-enable''
      (dp_payload (dp_of_bytes (dp_bytes ?p))) 0 (\<lambda>q m. handle_one_payload phone 5 q 990 m)) v"
    unfolding v_def
    by (rule code_runs_end_to_end[where sv = toy_server and sw = wifi_world and parse = url_arguments
          and bs = "dp_bytes ?p" and p = ?p and sw' = wifi_world and rid = rid and pub = "zeros 32" and priv = "zeros 32"
          and upub = "zeros 32", OF phone_is_ready[OF d] _ _ _ _ _ _ splits_url_arguments _ _ _ _ _ _ _ _ _ _ _ _ _ _ _ _ wifi_files(1-3)])
       (use rid kp b e z wifi_files(4)[of "''x1''"] f(3) toy_request_facts(3,4) in
         \<open>simp_all add: phone_fields online_web_lib time_web_lib toy_server_def zero_key_def starts_with_http_scheme_def has_prefix_def
            wifi_world_def quiet_def dp_sizes dp_validate_size_iff del: quietD\<close>)
  moreover have "smooth 5 v" "w_execs v = []" "w_exits v = []" by (simp_all add: smooth_def v_def phone_world_def sock_world_def idle_world_def)
  ultimately show ?thesis
    using d
    by (auto simp: payload_dispatch_def payload_cmd_set_wifi_enabled_def set_wifi_enabled_def smooth_def
        run_execv_quiet status_or_errno_def)
qed

text \<open>
  C10: A code that the server does not have, nor the user: over a working connection and with nothing
  failing the client is told that the code is invalid and gets EPROTO, and nothing but the
  connection, the error number and the count of descriptors changes on the phone.
\<close>

theorem unknown_code_reported:
  assumes "phone_ready dev w fd user upriv" "key_pair (dv_crypto dev) upub upriv" "dv_crypto dev = sv_crypto sv"
    and "online (dv_curl dev) sv sw (dv_server_code dev) parse" "splits_arguments parse"
    and "starts_with_http_scheme (dv_server_code dev)" "CHR ''?'' \<notin> set (dv_server_code dev)"
    and "run_state (get_network_time (dv_curl dev)) w = (t, w)"
    and "0 \<le> t" "t \<le> LLONG_MAX - 60" "w_now sw \<le> t + 60"
    and "nul_free scode" "scode \<noteq> []" "user \<noteq> []" "length (dv_tmpdir dev) + 1 + length scode \<le> PATH_MAX"
    and "check_allowed_chars scode SECRET_CODE_ALLOWED_CHARS" "check_allowed_chars user DUMBOS_USER_ALLOWED_CHARS"
    and "quiet sw" "0 \<le> w_nextfd sw"
    and "w_files sw (pubkey_path user) = Some (Reg (hex_of (\<lambda>n. hex_lower ! n) upub))"
    and "w_files sw (request_path user rid) = None" "w_files sw (user_code_path user scode) = None"
    and "w_files sw (code_path scode) = None"
    and rid: "request_id_generate (dv_signed_char dev) (dv_random dev) = Some rid"
  shows "run_state (secret_code dev [scode] fd) w =
    (EPROTO, w\<lparr>w_nextfd := w_nextfd w + 1, w_errno := EPROTO, w_fds := (w_fds w)(w_nextfd w := None),
       w_sout := w_sout w @ string_enc ''downloading...'' @ string_enc ''invalid code''\<rparr>)"
proof -
  have "nul_free user" using assms(1) by (simp add: phone_ready_def)
  then obtain h where h: "fst (run_state (dumb_handler sv (code_query (sv_crypto sv) scode user rid upriv t)) sw) = Queued h"
    "hr_status h = 404" "length (hr_body h) < 100"
    using run_unknown_code[of sw sv upub upriv scode user rid t] assms(2,3,9-12,17-23)
      request_id_generate_chars[OF rid, unfolded request_id_verify_chars_def] by auto
  show ?thesis
    using run_secret_code_online[OF assms(1,2) rid assms(4-9,12-17), of h] h assms(3)
    by (simp add: requested_def)
qed

lemma unknown_code_reported_witness:
  "\<exists>d w'. dumbos_alloc_new_user ''joe'' zero_key = Inr d \<and>
     run_state (secret_code phone [''x2''] 5) (phone_world d) = (EPROTO, w') \<and>
     w_sout w' = string_enc ''downloading...'' @ string_enc ''invalid code'' \<and> w_execs w' = []"
proof -
  obtain d where d: "dumbos_alloc_new_user ''joe'' zero_key = Inr d" using blank_user by blast
  obtain rid where rid: "request_id_generate (dv_signed_char phone) (dv_random phone) = Some rid"
    by (auto simp: request_id_generate_def REQUEST_ID_LEN_def phone_fields)
  have kp: "key_pair toy_crypto (zeros 32) (zeros 32)" by (rule toy_key_pair) simp
  have chars: "check_allowed_chars ''x2'' SECRET_CODE_ALLOWED_CHARS"
    by (simp add: check_allowed_chars_def SECRET_CODE_ALLOWED_CHARS_def cstr_Cons)
  show ?thesis
    using unknown_code_reported[where sv = toy_server and sw = wifi_world and parse = url_arguments and t = 990 and scode = "''x2''"
        and upub = "zeros 32", OF phone_is_ready[OF d] _ _ _ splits_url_arguments _ _ _ _ _ _ _ _ _ _ _ _ _ _ wifi_files(1-3) _ rid]
      kp d chars wifi_files(4)[of "''x2''"] toy_request_facts(4)
    by (simp add: phone_fields online_web_lib time_web_lib toy_server_def zero_key_def starts_with_http_scheme_def has_prefix_def
        wifi_world_def quiet_def phone_world_def sock_world_def idle_world_def del: quietD)
qed

end
