(* ===== verification/Command.thy ===== *)
theory Command
  imports SecretCode Lockscreen
begin

text \<open>
  \<open>daemon/command.c\<close>: the commands a client can give the daemon (release build): trivial ones, a
  secret code, the user's name, locking OEM unlock, the version, setting the user once and
  uploading files.
\<close>

definition VERSION_STRING :: string where "VERSION_STRING = ''v4.2.0''"
definition VERSION_MAJOR :: int where "VERSION_MAJOR = 4"
definition VERSION_MINOR :: int where "VERSION_MINOR = 2"
definition VERSION_PATCH :: int where "VERSION_PATCH = 0"

definition DUMBOS_USER_DATA_NEW :: string where "DUMBOS_USER_DATA_NEW = ''/dev/dumbos-userdata-new''"

definition oem_locking :: "int \<Rightarrow> bool \<Rightarrow> int io" where
  "oem_locking client_sockfd lock =
     (if \<not> lock then do { tell client_sockfd ''enabling OEM unlock''; set_oem_lock False }
      else do { tell client_sockfd ''disabling OEM unlock''; set_oem_lock True })"

definition cmd_version :: "int \<Rightarrow> int io" where
  "cmd_version sockfd = do { tell sockfd VERSION_STRING; ret 0 }"

definition cmd_get_username :: "int \<Rightarrow> int io" where
  "cmd_get_username sockfd = do {
     u \<leftarrow> dumbos_alloc_get_user;
     case u of
       None \<Rightarrow> do { err \<leftarrow> get_errno; tell sockfd ''internal error''; ret err }
     | Some userdata \<Rightarrow> do {
         tell sockfd (cstr (ud_username userdata @ [ud_null_byte userdata]));
         tell sockfd (dumbos_get_fancy_name userdata);
         maybe_set_lockscreen_text;
         ret 0 } }"


section \<open>Setting the user\<close>

text \<open>
  \<open>fwrite\<close> delivers what one write call takes, errors of the later \<open>fclose\<close> are not looked at.
\<close>

definition set_user_prop :: "int \<Rightarrow> int io" where
  "set_user_prop sockfd = do {
     err \<leftarrow> execv_wrapper ''/system/bin/setprop'' [''/system/bin/setprop'', ''dumbos.newuser'', ''1''];
     if err < 0 then do { tell sockfd ''internal error''; get_errno }
     else if err \<noteq> 0 then do { tell sockfd ''internal error''; ret err }
     else do { tell sockfd ''done.''; ret 0 } }"

definition cmd_setname :: "device \<Rightarrow> int \<Rightarrow> string list \<Rightarrow> int io" where
  "cmd_setname dev sockfd argv =
     (if argv = [] then do { tell sockfd ''not enough data provided''; ret EINVAL }
      else do {
        d \<leftarrow> malloc_hex_to_buf (dv_signed_char dev) (hd argv);
        case d of
          None \<Rightarrow> do {
            e \<leftarrow> get_errno;
            if e = EINVAL then do { tell sockfd ''bad data''; get_errno }
            else do { tell sockfd ''internal error''; get_errno } }
        | Some data \<Rightarrow> do {
            set_errno 0;
            olduserdata \<leftarrow> dumbos_alloc_get_user;
            e \<leftarrow> get_errno;
            if olduserdata \<noteq> None \<or> e \<noteq> ENOENT then do {
              tell sockfd ''a user has already been set''; ret EUSERS }
            else do {
              destfile \<leftarrow> sys_open DUMBOS_USER_DATA_NEW [O_WRITE, O_CREAT, O_TRUNC];
              if destfile < 0 then get_errno
              else do {
                let datasize = strlen (hd argv) div 2;
                n \<leftarrow> sys_write destfile (take datasize data);
                if int datasize \<noteq> n then do {
                  err \<leftarrow> get_errno;
                  sys_close destfile;
                  tell sockfd ''internal error'';
                  ret err }
                else do {
                  sys_close destfile;
                  set_user_prop sockfd } } } } })"


section \<open>Uploading files\<close>

text \<open>\<open>stat\<close>'s size; a directory's is taken as one block.\<close>

definition sys_stat :: "string \<Rightarrow> nat option io" where
  "sys_stat path = do {
     ok \<leftarrow> fallible;
     if \<not> ok then ret None
     else do {
       n \<leftarrow> gets (\<lambda>w. w_files w path);
       case n of
         None \<Rightarrow> fail_with ENOENT None
       | Some nd \<Rightarrow> (case nd of Reg c \<Rightarrow> ret (Some (length c)) | Dir \<Rightarrow> ret (Some 4096)) } }"

text \<open>The URL all files go to; \<open>None\<close> is a jump to the label \<open>fail\<close>.\<close>

definition upload_request_url :: "device \<Rightarrow> int \<Rightarrow> string option io" where
  "upload_request_url dev net_time = do {
     u \<leftarrow> dumbos_alloc_get_user;
     case u of
       None \<Rightarrow> ret None
     | Some userdata \<Rightarrow>
         (let username = cstr (ud_username userdata @ [ud_null_byte userdata]);
              key = cstr (ud_priv_key_hex userdata)
          in case request_id_generate (dv_signed_char dev) (dv_random dev) of
               None \<Rightarrow> ret None
             | Some requestid \<Rightarrow> do {
                 ok \<leftarrow> c_malloc;
                 if \<not> ok then ret None
                 else do {
                   (err, request_signature) \<leftarrow> request_id_sign (dv_crypto dev) username requestid net_time key;
                   if err \<noteq> 0 then ret None
                   else alloc_construct_request_URL (dv_server_upload dev) username requestid
                          request_signature net_time None } }) }"

text \<open>One round of the loop: \<open>False\<close> is a jump to \<open>fail\<close>, which closes the descriptor.\<close>

definition upload_one :: "device \<Rightarrow> string \<Rightarrow> string \<Rightarrow> bool io" where
  "upload_one dev url file = do {
     st \<leftarrow> sys_stat file;
     case st of
       None \<Rightarrow> ret False
     | Some sz \<Rightarrow> do {
         fd \<leftarrow> sys_open file [];
         if fd = 0 then do { sys_close fd; ret False }
         else do {
           ok \<leftarrow> c_malloc;
           if \<not> ok then do { sys_close fd; ret False }
           else do {
             r \<leftarrow> read_all fd sz;
             case r of
               None \<Rightarrow> do { sys_close fd; ret False }
             | Some buffer \<Rightarrow> do {
                 (e, code) \<leftarrow> post_buffer (dv_curl dev) url buffer;
                 sys_close fd;
                 ret (e = 0) } } } } }"

fun upload_all :: "device \<Rightarrow> string \<Rightarrow> string list \<Rightarrow> bool io" where
  "upload_all dev url [] = ret True"
| "upload_all dev url (f # fs) = do {
     ok \<leftarrow> upload_one dev url f;
     if ok then upload_all dev url fs else ret False }"

definition cmd_upload_data :: "device \<Rightarrow> string list \<Rightarrow> int \<Rightarrow> int io" where
  "cmd_upload_data dev argv sockfd =
     (if argv = [] then do { tell sockfd ''not enough arguments''; ret EINVAL }
      else do {
        net_time \<leftarrow> get_network_time (dv_curl dev);
        if net_time < 0 then do {
          tell sockfd ''failed to get time from network (check your connection?)''; get_errno }
        else do {
          u \<leftarrow> upload_request_url dev net_time;
          case u of
            None \<Rightarrow> get_errno
          | Some url \<Rightarrow> do {
              ok \<leftarrow> upload_all dev url (rev argv);
              if ok then ret 0 else get_errno } } })"


section \<open>Dispatch\<close>

definition do_command :: "device \<Rightarrow> string list \<Rightarrow> int \<Rightarrow> int io" where
  "do_command dev argv sockfd =
     (let cmd = hd argv; args = tl argv in
      if cmd = ''ok'' then ret 0
      else if cmd = ''notok'' then ret 1
      else if cmd = ''code'' then secret_code dev args sockfd
      else if cmd = ''get_name'' then cmd_get_username sockfd
      else if cmd = ''oem_lock'' then oem_locking sockfd True
      else if cmd = ''version'' then cmd_version sockfd
      else if cmd = ''set_name'' then cmd_setname dev sockfd args
      else if cmd = ''upload_data'' then cmd_upload_data dev args sockfd
      else do { tell sockfd ''Bad command''; ret EINVAL })"

end
