(* ===== verification/Handler.thy ===== *)
theory Handler
  imports Command
begin

text \<open>
  \<open>daemon/handler.c\<close>: one client of the daemon: version handshake, reading the argument list,
  running the command, the end marker (an empty string) and the status; and
  \<open>caller/client.c\<close>, the other end.
\<close>

definition MAX_ARGS :: nat where "MAX_ARGS = 256"


section \<open>The daemon's end\<close>

text \<open>The loop that reads the arguments; \<open>None\<close> when a string could not be read.\<close>

fun read_args :: "int \<Rightarrow> nat \<Rightarrow> string list option io" where
  "read_args fd 0 = ret (Some [])"
| "read_args fd (Suc n) = do {
     arg \<leftarrow> malloc_read_string fd;
     case arg of
       None \<Rightarrow> ret None
     | Some a \<Rightarrow> do {
         r \<leftarrow> read_args fd n;
         case r of None \<Rightarrow> ret None | Some rest \<Rightarrow> ret (Some (a # rest)) } }"

text \<open>The three numbers of the client's version, or a negative result.\<close>

definition read_version :: "int \<Rightarrow> (int \<times> int \<times> int) option io" where
  "read_version fd = do {
     major \<leftarrow> read_ushort fd;
     if major < 0 then ret None
     else do {
       minor \<leftarrow> read_ushort fd;
       if minor < 0 then ret None
       else do {
         patch \<leftarrow> read_ushort fd;
         if patch < 0 then ret None else ret (Some (major, minor, patch)) } } }"

definition serve_args :: "device \<Rightarrow> int \<Rightarrow> nat \<Rightarrow> int io" where
  "serve_args dev client_fd argc = do {
     argv \<leftarrow> read_args client_fd argc;
     r \<leftarrow> (case argv of
         None \<Rightarrow> do {
           r \<leftarrow> get_errno;
           tell client_fd ''internal error'';
           tell client_fd [];
           write_ushort client_fd r;
           ret r }
       | Some argv \<Rightarrow> do_command dev argv client_fd);
     tell client_fd [];
     write_ushort client_fd (r mod 65536);
     ret r }"

text \<open>After the handshake.\<close>

definition serve_request :: "device \<Rightarrow> int \<Rightarrow> int io" where
  "serve_request dev client_fd = do {
     argc \<leftarrow> read_ushort client_fd;
     if argc < 0 then ret EPROTO
     else if argc = 0 then do {
       tell client_fd ''No command'';
       tell client_fd [];
       write_ushort client_fd 0;
       ret 0 }
     else if int MAX_ARGS < argc \<or> argc < 0 then do {
       tell client_fd ''too many arguments'';
       write_ushort client_fd E2BIG;
       ret E2BIG }
     else do {
       ok \<leftarrow> c_malloc;
       if \<not> ok then do {
         err \<leftarrow> get_errno;
         tell client_fd ''internal error'';
         tell client_fd [];
         write_ushort client_fd err;
         ret err }
       else serve_args dev client_fd (nat argc) } }"

definition handler :: "device \<Rightarrow> int \<Rightarrow> int io" where
  "handler dev client_fd = do {
     client_v_str \<leftarrow> malloc_read_string client_fd;
     case client_v_str of
       None \<Rightarrow> get_errno
     | Some _ \<Rightarrow> do {
         v \<leftarrow> read_version client_fd;
         case v of
           None \<Rightarrow> get_errno
         | Some v \<Rightarrow>
             if v \<noteq> (VERSION_MAJOR mod 65536, VERSION_MINOR mod 65536, VERSION_PATCH mod 65536)
             then do { write_ushort client_fd EPROTO; ret EPROTO }
             else do {
               write_ushort client_fd 0;
               serve_request dev client_fd } } }"


section \<open>The client's end\<close>

definition SOCKET_PATH_MAX :: nat where "SOCKET_PATH_MAX = 108"

text \<open>
  The loop over the daemon's messages: the lines printed, and the error number when reading
  failed.  Every round but the last consumes input, so its length bounds the rounds.
\<close>

fun read_messages :: "nat \<Rightarrow> int \<Rightarrow> string list \<Rightarrow> (string list \<times> int option) io" where
  "read_messages 0 fd printed = ret (printed, Some 0)"
| "read_messages (Suc fuel) fd printed = do {
     d_msg \<leftarrow> malloc_read_string fd;
     case d_msg of
       None \<Rightarrow> do { e \<leftarrow> get_errno; ret (printed, Some e) }
     | Some m \<Rightarrow> if m = [] then ret (printed, None) else read_messages fuel fd (printed @ [m]) }"

definition write_version :: "int \<Rightarrow> int io" where
  "write_version fd = do {
     r \<leftarrow> write_string fd VERSION_STRING;
     if r \<noteq> 0 then ret r
     else do {
       r \<leftarrow> write_ushort fd VERSION_MAJOR;
       if r \<noteq> 0 then ret r
       else do {
         r \<leftarrow> write_ushort fd VERSION_MINOR;
         if r \<noteq> 0 then ret r else write_ushort fd VERSION_PATCH } } }"

text \<open>What is left to do once the arguments are sent.\<close>

definition client_result :: "int \<Rightarrow> (int \<times> string list) io" where
  "client_result fd = do {
     fuel \<leftarrow> gets (\<lambda>w. Suc (length (w_sin w)));
     (printed, err) \<leftarrow> read_messages fuel fd [];
     case err of
       Some e \<Rightarrow> ret (e, printed)
     | None \<Rightarrow> do {
         r \<leftarrow> read_ushort fd;
         if r < 0 then do { e \<leftarrow> get_errno; sys_close fd; ret (e, printed) }
         else ret (r, printed) } }"

definition client_session :: "string list \<Rightarrow> int \<Rightarrow> (int \<times> string list) io" where
  "client_session argv fd = do {
     r \<leftarrow> write_version fd;
     if r < 0 then do { sys_close fd; e \<leftarrow> get_errno; ret (e, []) }
     else do {
       r \<leftarrow> read_ushort fd;
       if r < 0 then do { e \<leftarrow> get_errno; sys_close fd; ret (e, []) }
       else if r \<noteq> 0 then do { sys_close fd; ret (r, []) }
       else do {
         r \<leftarrow> write_ushort fd (int (length argv));
         if r < 0 then do { e \<leftarrow> get_errno; sys_close fd; ret (e, []) }
         else do {
           r \<leftarrow> send_each (write_string fd) argv;
           if r < 0 then do { e \<leftarrow> get_errno; sys_close fd; ret (e, []) }
           else client_result fd } } } }"

text \<open>The status and the lines printed.\<close>

definition client :: "string list \<Rightarrow> string \<Rightarrow> (int \<times> string list) io" where
  "client argv socket_path = do {
     ok \<leftarrow> c_malloc;
     if \<not> ok then do { e \<leftarrow> get_errno; ret (e, []) }
     else do {
       ok \<leftarrow> fallible;
       if \<not> ok then do { e \<leftarrow> get_errno; ret (e, []) }
       else do {
         fd \<leftarrow> new_fd OSock;
         if SOCKET_PATH_MAX \<le> length socket_path then do { set_errno ENAMETOOLONG; ret (ENAMETOOLONG, []) }
         else do {
           ok \<leftarrow> fallible;
           if \<not> ok then do { sys_close fd; e \<leftarrow> get_errno; ret (e, []) }
           else client_session argv fd } } } }"

end
