(* ===== verification/Talk.thy ===== *)
theory Talk
  imports Handler SecretProps
begin

text \<open>
  What the daemon's commands write to the client: whole messages only.  The frame \<open>talk fd\<close> says
  that a computation leaves the connection open, reads nothing from it and appends well-formed
  messages; every command of the daemon stays inside it, whatever fails, as long as the
  connection itself is not broken.
\<close>

definition sock_up :: "int \<Rightarrow> world \<Rightarrow> bool" where
  "sock_up fd w \<longleftrightarrow> (\<forall>a. w_fds w a = Some OSock \<longleftrightarrow> a = fd) \<and> 0 \<le> fd \<and> fd < w_nextfd w \<and> calm (w_io w)"

definition talk :: "int \<Rightarrow> world \<Rightarrow> world \<Rightarrow> bool" where
  "talk fd w w' \<longleftrightarrow> (sock_up fd w \<longrightarrow> sock_up fd w' \<and> w_sin w' = w_sin w \<and>
     (\<exists>ms. list_all string_ok ms \<and> w_sout w' = w_sout w @ concat (map string_enc ms)))"

lemma talkI: "(sock_up fd w \<Longrightarrow> sock_up fd w' \<and> w_sin w' = w_sin w \<and> w_sout w' = w_sout w) \<Longrightarrow> talk fd w w'"
  unfolding talk_def by (auto intro: exI[of _ "[]"])

lemma talk_trans: "talk fd w w' \<Longrightarrow> talk fd w' w'' \<Longrightarrow> talk fd w w''"
proof -
  assume a: "talk fd w w'" "talk fd w' w''"
  show ?thesis unfolding talk_def
  proof
    assume up: "sock_up fd w"
    with a(1) obtain ms where ms: "sock_up fd w'" "w_sin w' = w_sin w" "list_all string_ok ms"
      "w_sout w' = w_sout w @ concat (map string_enc ms)" by (auto simp: talk_def)
    with a(2) obtain ns where "sock_up fd w''" "w_sin w'' = w_sin w'" "list_all string_ok ns"
      "w_sout w'' = w_sout w' @ concat (map string_enc ns)" by (auto simp: talk_def)
    with ms show "sock_up fd w'' \<and> w_sin w'' = w_sin w \<and>
        (\<exists>ms. list_all string_ok ms \<and> w_sout w'' = w_sout w @ concat (map string_enc ms))"
      by (auto intro!: exI[of _ "ms @ ns"])
  qed
qed

interpretation fr_talk: exit_frame "talk fd" for fd
proof (unfold_locales, goal_cases)
  case (5 p w)
  then show ?case by (intro talkI) (auto simp: sock_up_def intro: calm_suffix)
qed (auto intro: talkI talk_trans simp: sock_up_def)

lemma keeps_talk_execs [keeps_intros]: "keeps (talk fd) (execv_wrapper path argv)"
  by (rule fr_talk.keeps_execv_wrapper) (rule talkI, simp add: sock_up_def)


section \<open>Other descriptors\<close>

lemma calm_tl: "calm io \<Longrightarrow> calm (tl io)"
  by (cases io) auto

lemma keeps_talk_sys_read: "a \<noteq> fd \<Longrightarrow> keeps (talk fd) (sys_read a n)"
  by (intro keepsI talkI)
     (auto simp: run_sys_read rest_io Let_def sock_up_def calm_tl split: outcome.split option.split ofile.split)

lemma keeps_talk_sys_write: "a \<noteq> fd \<Longrightarrow> keeps (talk fd) (sys_write a p)"
  by (intro keepsI talkI)
     (auto simp: run_sys_write rest_io Let_def sock_up_def calm_tl split: outcome.split option.split ofile.split)

lemma keeps_talk_read_all: "a \<noteq> fd \<Longrightarrow> keeps (talk fd) (read_all a n)"
  by (rule fr_talk.keeps_read_all_of) (rule keeps_talk_sys_read)

lemma keeps_talk_write_all: "a \<noteq> fd \<Longrightarrow> keeps (talk fd) (write_all a p)"
  by (rule fr_talk.keeps_write_all_of) (rule keeps_talk_sys_write)

lemma keeps_talk_close: "a \<noteq> fd \<Longrightarrow> keeps (talk fd) (sys_close a)"
  by (intro keepsI talkI) (auto simp: sock_up_def)

lemma keeps_talk_modify_files [keeps_intros]: "keeps (talk fd) (modify (\<lambda>w. w\<lparr>w_files := f w\<rparr>))"
  by (intro keepsI talkI) (simp add: sock_up_def)

lemma keeps_talk_unlink [keeps_intros]: "keeps (talk fd) (sys_unlink path)"
  unfolding sys_unlink_def by (intro keeps_intros)

text \<open>A newly opened descriptor is not the socket.\<close>

lemma keeps_talk_new_file: "keeps (talk fd) (new_fd (OFile p k))"
  by (intro keepsI talkI) (auto simp: new_fd_def sock_up_def)

lemma keeps_talk_open: "keeps (talk fd) (sys_open path fl)"
proof -
  have "keeps (talk fd) (modify (\<lambda>w. if b then w\<lparr>w_files := f w\<rparr> else w))" for b f
    by (intro keepsI talkI) (simp add: sock_up_def)
  then show ?thesis unfolding sys_open_def by (intro keeps_intros keeps_talk_new_file)
qed

lemma open_not_sock: "run_state (sys_open path fl) w = (a, w') \<Longrightarrow> sock_up fd w \<Longrightarrow> a \<noteq> fd"
proof -
  assume r: "run_state (sys_open path fl) w = (a, w')" and up: "sock_up fd w"
  have "wp (sys_open path fl) (\<lambda>a _. a \<noteq> fd) w"
    using up unfolding sys_open_def wp_bind
    by (intro wp_fallible_any) (auto simp: sock_up_def plan_step_same split: option.split node.split)
  from wpD[OF this r] show ?thesis .
qed

lemma keeps_talk_bind_open:
  assumes "\<And>a. a \<noteq> fd \<Longrightarrow> keeps (talk fd) (f a)"
  shows "keeps (talk fd) (State_Monad.bind (sys_open path fl) f)"
proof (rule keepsI)
  fix w
  obtain a w' where r: "run_state (sys_open path fl) w = (a, w')" by (metis prod.exhaust)
  show "talk fd w (snd (run_state (State_Monad.bind (sys_open path fl) f) w))"
  proof (cases "sock_up fd w")
    case True
    then show ?thesis
      using talk_trans[OF keepsD[OF keeps_talk_open r] keeps_snd[OF assms[OF open_not_sock[OF r True]]]] r by simp
  qed (simp add: talk_def)
qed

lemmas talk_fds = keeps_talk_bind_open keeps_talk_close keeps_talk_read_all keeps_talk_write_all
  keeps_talk_sys_read keeps_talk_sys_write


section \<open>Messages\<close>

lemma wp_write_all_up:
  assumes "sock_up fd w"
    and "\<And>w'. sock_up fd w' \<Longrightarrow> w_sin w' = w_sin w \<Longrightarrow> w_sout w' = w_sout w @ p \<Longrightarrow> Q (int (length p)) w'"
  shows "wp (write_all fd p) Q w"
proof (rule sock_snk.wp_write_all)
  fix io e k r
  assume io: "suffix io (w_io w)" "0 \<le> r \<Longrightarrow> k = length p \<and> r = int (length p)" "calm (w_io w) \<Longrightarrow> 0 \<le> r"
  have "calm (w_io w)" using assms(1) by (simp add: sock_up_def)
  with io assms(1) have "r = int (length p)" "k = length p" "calm io" by (auto dest: calm_suffix)
  with assms show "Q r (w\<lparr>w_sout := w_sout w @ take k p, w_io := io, w_errno := e\<rparr>)"
    by (simp add: sock_up_def)
qed (use assms(1) in \<open>simp add: sock_live_def sock_up_def\<close>)

lemma wp_write_ushort_up:
  assumes "sock_up fd w"
    and "\<And>w'. sock_up fd w' \<Longrightarrow> w_sin w' = w_sin w \<Longrightarrow> w_sout w' = w_sout w @ be16 (nat (v mod 65536)) \<Longrightarrow> Q 0 w'"
  shows "wp (write_ushort fd v) Q w"
  unfolding write_ushort_def Let_def wp_bind
  by (rule wp_write_all_up[OF assms(1)]) (simp add: assms(2))

lemma wp_write_string_up:
  assumes "sock_up fd w" "strlen s < MAX_STRING"
    and "\<And>w'. sock_up fd w' \<Longrightarrow> w_sin w' = w_sin w \<Longrightarrow> w_sout w' = w_sout w @ string_enc (cstr s) \<Longrightarrow> Q 0 w'"
  shows "wp (write_string fd s) Q w"
proof -
  have len: "\<not> (USHRT_MAX < strlen s + 1 \<or> MAX_STRING \<le> strlen s)" using assms(2) by (simp add: MAX_STRING_def)
  have m: "nat (int (strlen s) mod 65536) = strlen s" using assms(2) by (simp add: MAX_STRING_def nat_mod_distrib)
  show ?thesis
    unfolding write_string_def Let_def if_not_P[OF len] wp_bind
    by (rule wp_write_ushort_up[OF assms(1)], simp, rule wp_write_all_up)
       (simp_all add: m[unfolded strlen_def] assms(3) string_enc_def strlen_def)
qed

lemma wp_tell_up:
  assumes "sock_up fd w" "string_ok s"
    and "\<And>w'. sock_up fd w' \<Longrightarrow> w_sin w' = w_sin w \<Longrightarrow> w_sout w' = w_sout w @ string_enc s \<Longrightarrow> Q () w'"
  shows "wp (tell fd s) Q w"
  unfolding tell_def wp_bind
  by (rule wp_write_string_up[OF assms(1)]) (use assms(2,3) in \<open>simp_all add: string_ok_def\<close>)

text \<open>A message that is too long is not sent at all.\<close>

lemma keeps_talk_tell [keeps_intros]: "keeps (talk fd) (tell fd s)"
proof (rule keepsI)
  fix w
  show "talk fd w (snd (run_state (tell fd s) w))"
  proof (cases "strlen s < MAX_STRING")
    case True
    have "wp (write_string fd s) (\<lambda>_. talk fd w) w" if "sock_up fd w"
      using that True by (rule wp_write_string_up)
        (auto simp: talk_def string_ok_def strlen_def intro!: exI[of _ "[cstr s]"] True[unfolded strlen_def])
    then show ?thesis by (cases "sock_up fd w") (auto simp: wp_run tell_def talk_def case_prod_beta)
  next
    case False
    then show ?thesis by (simp add: tell_def write_string_def Let_def fr_talk.frame_errno)
  qed
qed


section \<open>The commands\<close>

lemma open_fd_frames: "keeps (talk fd) dumbos_alloc_get_user"
  unfolding dumbos_alloc_get_user_def c_fread_def Let_def by (intro talk_fds keeps_intros)

declare open_fd_frames [keeps_intros]

lemma keeps_talk_sqlite [keeps_intros]: "keeps (talk fd) (sqlite_call good)"
  unfolding sqlite_call_def by (intro keeps_intros)

lemma keeps_talk_lockscreen [keeps_intros]: "keeps (talk fd) maybe_set_lockscreen_text"
proof -
  have db: "keeps (talk fd) (modify (\<lambda>w. w\<lparr>w_db := rows\<rparr>))" for rows
    by (intro keepsI talkI) (simp add: sock_up_def)
  have "keeps (talk fd) (replace_locksetting rows n u v)" for rows n u v
    unfolding replace_locksetting_def Let_def by (intro keeps_intros)
  then have "keeps (talk fd) (set_lock_screen_owner_info i)" for i
    unfolding set_lock_screen_owner_info_def by (intro keeps_intros db)
  then show ?thesis unfolding maybe_set_lockscreen_text_def by (intro keeps_intros)
qed

lemma keeps_talk_url [keeps_intros]: "keeps (talk fd) (code_request_url dev t s)"
  "keeps (talk fd) (upload_request_url dev t)"
  unfolding code_request_url_def upload_request_url_def Let_def by (intro keeps_intros)+

lemma keeps_talk_set [keeps_intros]: "keeps (talk fd) (set_oem_lock b)" "keeps (talk fd) (set_wifi_enabled b)"
  "keeps (talk fd) (set_adb_enabled b)"
  unfolding set_oem_lock_def set_wifi_enabled_def set_adb_enabled_def settings_put_def status_or_errno_def
  by (intro keeps_intros)+

lemma keeps_talk_find [keeps_intros]: "keeps (talk fd) (find_removable_blockdev es)"
proof -
  have "keeps (talk fd) (find_removable es)"
    by (induction es) (auto intro!: talk_fds keeps_intros)
  then show ?thesis unfolding find_removable_blockdev_def by (intro keeps_intros)
qed

lemma keeps_talk_script [keeps_intros]: "keeps (talk fd) (script_helper fd a b d n)"
proof -
  have "keeps (talk fd) (script_args d acc)" for d acc
    by (induction d acc rule: script_args.induct) (subst script_args.simps, intro keeps_intros)
  then show ?thesis unfolding script_helper_def script_run_def by (intro keeps_intros)
qed

lemma keeps_talk_install [keeps_intros]: "keeps (talk fd) (payload_cmd_install_this dev d n fd)"
  unfolding payload_cmd_install_this_def install_run_def Let_def by (intro talk_fds keeps_intros)

lemma keeps_talk_flush [keeps_intros]: "keeps (talk fd) payload_cmd_firewall_flush"
  unfolding payload_cmd_firewall_flush_def by (intro keeps_intros)

text \<open>The copy service is a parameter: it may use descriptors of its own, not the connection.\<close>

definition copy_talks :: "device \<Rightarrow> int \<Rightarrow> bool" where
  "copy_talks dev fd \<longleftrightarrow> (\<forall>a b c d e f. keeps (talk fd) (dv_mount_copy dev a b c d e f))"

lemma keeps_talk_dispatch:
  assumes "copy_talks dev fd" "\<And>p m. m < n \<Longrightarrow> keeps (talk fd) (h p m)"
  shows "keeps (talk fd) (payload_dispatch dev fd cmd data n h)"
proof -
  let ?h = "\<lambda>p m. if m < n then h p m else ret 0"
  have h: "keeps (talk fd) (?h p m)" for p m by (intro keeps_intros assms(2))
  have loop: "keeps (talk fd) (composite_loop ?h data n fd off k)" for off k
  proof (induction k arbitrary: off)
    case (Suc k)
    show ?case unfolding composite_loop.simps by (intro keeps_intros h Suc)
  qed (simp add: fr_talk.keeps_return)
  have imp: "keeps (talk fd) (payload_cmd_files_import dev fd)" "keeps (talk fd) (payload_cmd_files_export dev fd)"
    using assms(1) unfolding payload_cmd_files_import_def payload_cmd_files_export_def try_mount_copy_def Let_def copy_talks_def
    by (intro keeps_intros; blast)+
  have "payload_dispatch dev fd cmd data n h = payload_dispatch dev fd cmd data n ?h"
    by (rule payload_dispatch_cong) simp_all
  moreover have "keeps (talk fd) (payload_dispatch dev fd cmd data n ?h)"
    unfolding payload_dispatch_def payload_cmd_install_path_def payload_cmd_set_adb_enabled_def
      payload_cmd_set_wifi_enabled_def payload_cmd_set_oem_unlock_enabled_def payload_cmd_composite_def
      payload_cmd_firewall_add_def payload_cmd_firewall_remove_def payload_cmd_firewall_add_temp_def
      payload_cmd_singbox_add_def payload_cmd_singbox_del_def firewall_helper_def Let_def
    by (intro keeps_intros imp loop)
  ultimately show ?thesis by simp
qed


lemma keeps_talk_handle:
  assumes "copy_talks dev fd"
  shows "keeps (talk fd) (handle_one_payload dev fd p t n)"
proof (induction n arbitrary: p rule: less_induct)
  case (less n)
  show ?case
    by (subst handle_one_payload.simps)
       (intro keeps_intros keeps_talk_dispatch assms less)
qed

lemma keeps_talk_secret_code: "copy_talks dev fd \<Longrightarrow> keeps (talk fd) (secret_code dev argv fd)"
  unfolding secret_code_def code_run_def Let_def by (intro keeps_intros keeps_talk_handle)

lemma keeps_talk_setname: "keeps (talk fd) (cmd_setname dev fd argv)"
proof -
  have "keeps (talk fd) (malloc_hex_to_buf sg h)" for sg h
    unfolding malloc_hex_to_buf_def Let_def by (intro keeps_intros)
  then show ?thesis
    unfolding cmd_setname_def set_user_prop_def Let_def by (intro talk_fds keeps_intros)
qed

lemma keeps_talk_upload: "keeps (talk fd) (cmd_upload_data dev argv fd)"
proof -
  have one: "keeps (talk fd) (upload_one dev url f)" for url f
    unfolding upload_one_def sys_stat_def by (intro talk_fds keeps_intros)
  have "keeps (talk fd) (upload_all dev url fs)" for url fs
    by (induction fs) (simp_all only: upload_all.simps, (intro keeps_intros one, assumption?)+)
  then show ?thesis unfolding cmd_upload_data_def by (intro keeps_intros)
qed

lemma keeps_talk_do_command: "copy_talks dev fd \<Longrightarrow> keeps (talk fd) (do_command dev argv fd)"
  unfolding do_command_def cmd_version_def cmd_get_username_def oem_locking_def Let_def
  by (intro keeps_intros keeps_talk_secret_code keeps_talk_setname keeps_talk_upload)

end
