(* ===== verification/Protocol.thy ===== *)
theory Protocol
  imports Talk
begin

text \<open>
  The client and the daemon together: the daemon's handler decodes exactly the arguments the
  client sent, replies with whole messages, the end marker and the status, and the client reports
  that status and prints those messages; with the cases in which the two disagree.
\<close>

definition client_hello :: bytes where
  "client_hello = string_enc VERSION_STRING @ be16 4 @ be16 2 @ be16 0"

definition client_request :: "string list \<Rightarrow> bytes" where
  "client_request argv = client_hello @ be16 (length argv) @ concat (map string_enc argv)"

definition daemon_reply :: "string list \<Rightarrow> int \<Rightarrow> bytes" where
  "daemon_reply ms r = be16 0 @ concat (map string_enc ms) @ string_enc [] @ be16 (nat (r mod 65536))"

lemma conn_fields [simp]:
  "conn fd (w\<lparr>w_sin := i, w_io := io, w_errno := e\<rparr>) \<longleftrightarrow> w_plan w = [] \<and> calm io \<and> w_fds w fd = Some OSock"
  by (rule conn_upd)

lemma string_ok_Nil [simp]: "string_ok []"
  by (simp add: string_ok_def MAX_STRING_def)

lemma string_ok_version: "string_ok VERSION_STRING"
  by (simp add: string_ok_def VERSION_STRING_def MAX_STRING_def)


section \<open>What the daemon reads\<close>

text \<open>States reached while only reading from the connection.\<close>

definition reading :: "world \<Rightarrow> bytes \<Rightarrow> world \<Rightarrow> bool" where
  "reading w i w' \<longleftrightarrow> (\<exists>io e. calm io \<and> w' = w\<lparr>w_sin := i, w_io := io, w_errno := e\<rparr>)"

lemma readingI [intro]: "calm io \<Longrightarrow> reading w i (w\<lparr>w_sin := i, w_io := io, w_errno := e\<rparr>)"
  unfolding reading_def by (intro exI conjI, assumption, rule refl)

lemma readingE:
  assumes "reading w i w'"
  obtains io e where "calm io" "w' = w\<lparr>w_sin := i, w_io := io, w_errno := e\<rparr>"
  using assms by (auto simp: reading_def)

lemma reading_refl: "calm (w_io w) \<Longrightarrow> reading w (w_sin w) w"
  using readingI[of "w_io w" w "w_sin w" "w_errno w"] by simp

lemma reading_trans: "reading w i w' \<Longrightarrow> reading w' j w'' \<Longrightarrow> reading w j w''"
  by (elim readingE) (simp, rule readingI)

lemma reading_conn: "conn fd w \<Longrightarrow> reading w i w' \<Longrightarrow> conn fd w' \<and> w_sin w' = i"
  by (auto simp: reading_def conn_def)

lemma wp_read_str:
  assumes "conn fd w" "string_ok s" "w_sin w = string_enc s @ rest"
    and "\<And>w'. reading w rest w' \<Longrightarrow> Q (Some s) w'"
  shows "wp (malloc_read_string fd) Q w"
  by (rule str.get_conn[OF assms(2,1,3)]) (rule assms(4), rule readingI)

lemma wp_read_num:
  assumes "conn fd w" "n < 65536" "w_sin w = be16 n @ rest"
    and "\<And>w'. reading w rest w' \<Longrightarrow> Q (int n) w'"
  shows "wp (read_ushort fd) Q w"
proof (rule ushort.get_conn[where x = "int n", OF _ assms(1)])
  show "w_sin w = be16 (nat (int n mod 65536)) @ rest"
    using assms(2,3) by (simp add: mod_pos_pos_trivial)
qed (use assms(2) in \<open>auto intro!: assms(4)\<close>)

lemma wp_read_args:
  assumes "conn fd w" "list_all string_ok argv" "w_sin w = concat (map string_enc argv) @ rest"
    and "\<And>w'. reading w rest w' \<Longrightarrow> Q (Some argv) w'"
  shows "wp (read_args fd (length argv)) Q w"
  using assms
proof (induction argv arbitrary: w Q)
  case Nil
  then show ?case using reading_refl[of w] by (simp add: conn_def)
next
  case (Cons a argv)
  have step: "wp (read_args fd (length argv)) (\<lambda>r. wp (case r of None \<Rightarrow> ret None | Some rest \<Rightarrow> ret (Some (a # rest))) Q) w1"
    if "reading w (concat (map string_enc argv) @ rest) w1" for w1
    by (rule Cons.IH) (use reading_conn[OF Cons.prems(1) that] Cons.prems reading_trans[OF that] in auto)
  show ?case
    unfolding list.size read_args.simps add_Suc_right add_0_right wp_bind
    by (rule wp_read_str[OF Cons.prems(1), where rest = "concat (map string_enc argv) @ rest"])
       (use Cons.prems step in auto)
qed

lemma wp_read_version:
  assumes "conn fd w" "a < 65536" "b < 65536" "c < 65536" "w_sin w = be16 a @ be16 b @ be16 c @ rest"
    and "\<And>w'. reading w rest w' \<Longrightarrow> Q (Some (int a, int b, int c)) w'"
  shows "wp (read_version fd) Q w"
proof -
  have third: "wp (read_ushort fd) (\<lambda>p. wp (if p < 0 then ret None else ret (Some (int a, int b, p))) Q) w2"
    if "reading w (be16 c @ rest) w2" for w2
    by (rule wp_read_num[where n = c])
       (use reading_conn[OF assms(1) that] assms(4) reading_trans[OF that] in \<open>auto intro!: assms(6)\<close>)
  have second: "wp (read_ushort fd) (\<lambda>m. wp (if m < 0 then ret None else do {
         patch \<leftarrow> read_ushort fd;
         if patch < 0 then ret None else ret (Some (int a, m, patch)) }) Q) w1"
    if "reading w (be16 b @ be16 c @ rest) w1" for w1
    by (rule wp_read_num[where n = b])
       (use reading_conn[OF assms(1) that] assms(3) third reading_trans[OF that] in \<open>auto split del: if_split cong: if_cong\<close>)
  show ?thesis
    unfolding read_version_def wp_bind
    by (rule wp_read_num[where n = a]) (use assms(1,2,5) second in \<open>auto split del: if_split cong: if_cong\<close>)
qed


section \<open>What the daemon answers\<close>

text \<open>States reached by reading and writing on the connection alone.\<close>

definition exch :: "world \<Rightarrow> bytes \<Rightarrow> bytes \<Rightarrow> world \<Rightarrow> bool" where
  "exch w i out w' \<longleftrightarrow> (\<exists>io e. calm io \<and> w' = w\<lparr>w_sin := i, w_sout := w_sout w @ out, w_io := io, w_errno := e\<rparr>)"

lemma exchI: "calm io \<Longrightarrow> exch w i out (w\<lparr>w_sin := i, w_sout := w_sout w @ out, w_io := io, w_errno := e\<rparr>)"
  unfolding exch_def by (intro exI conjI, assumption, rule refl)

lemma exchE:
  assumes "exch w i out w'"
  obtains io e where "calm io" "w' = w\<lparr>w_sin := i, w_sout := w_sout w @ out, w_io := io, w_errno := e\<rparr>"
  using assms by (auto simp: exch_def)

lemma reading_exch: "reading w i w' \<Longrightarrow> exch w i [] w'"
proof -
  assume "reading w i w'"
  then obtain io e where "calm io" "w' = w\<lparr>w_sin := i, w_io := io, w_errno := e\<rparr>" by (rule readingE)
  with exchI[of io w i "[]" e] show ?thesis by simp
qed

lemma exch_trans: "exch w i a w' \<Longrightarrow> exch w' j b w'' \<Longrightarrow> exch w j (a @ b) w''"
proof (elim exchE)
  fix io e io' e'
  assume "calm io" "calm io'" and w': "w' = w\<lparr>w_sin := i, w_sout := w_sout w @ a, w_io := io, w_errno := e\<rparr>"
    and w'': "w'' = w'\<lparr>w_sin := j, w_sout := w_sout w' @ b, w_io := io', w_errno := e'\<rparr>"
  then show ?thesis using exchI[of io' w j "a @ b" e'] by simp
qed

lemma exch_fields:
  assumes "exch w i out w'"
  shows "w_sin w' = i" "w_sout w' = w_sout w @ out" "w_files w' = w_files w" "w_execs w' = w_execs w"
    "w_db w' = w_db w" "w_plan w' = w_plan w" "w_fds w' = w_fds w" "w_nextfd w' = w_nextfd w" "calm (w_io w')"
  using assms by (auto simp: exch_def)

lemma exch_conn: "conn fd w \<Longrightarrow> exch w i out w' \<Longrightarrow> conn fd w'"
  using exch_fields[of w i out w'] by (simp add: conn_def)

lemma exch_up: "sock_up fd w \<Longrightarrow> exch w i out w' \<Longrightarrow> sock_up fd w'"
  using exch_fields[of w i out w'] by (simp add: sock_up_def)

lemma wp_put_num:
  assumes "conn fd w" "\<And>w'. exch w (w_sin w) (be16 (nat (v mod 65536))) w' \<Longrightarrow> Q 0 w'"
  shows "wp (write_ushort fd v) Q w"
proof (rule wp_write_ushort_conn[OF assms(1)])
  fix io e assume "calm io"
  from exchI[OF this, of w "w_sin w" "be16 (nat (v mod 65536))" e]
  show "Q 0 (w\<lparr>w_sout := w_sout w @ be16 (nat (v mod 65536)), w_io := io, w_errno := e\<rparr>)"
    by (intro assms(2)) simp
qed

lemma wp_put_str:
  assumes "conn fd w" "string_ok s" "\<And>w'. exch w (w_sin w) (string_enc s) w' \<Longrightarrow> Q 0 w'"
  shows "wp (write_string fd s) Q w"
proof (rule str.put_conn[OF assms(2,1)])
  fix io e assume "calm io"
  from exchI[OF this, of w "w_sin w" "string_enc s" e]
  show "Q 0 (w\<lparr>w_sout := w_sout w @ string_enc s, w_io := io, w_errno := e\<rparr>)"
    by (intro assms(3)) simp
qed

lemma wp_put_strs:
  assumes "conn fd w" "list_all string_ok ss" "\<And>w'. exch w (w_sin w) (concat (map string_enc ss)) w' \<Longrightarrow> Q 0 w'"
  shows "wp (send_each (write_string fd) ss) Q w"
proof (rule str.put_each_conn[OF _ assms(1)])
  fix io e assume "calm io"
  from exchI[OF this, of w "w_sin w" "concat (map string_enc ss)" e]
  show "Q 0 (w\<lparr>w_sout := w_sout w @ concat (map string_enc ss), w_io := io, w_errno := e\<rparr>)"
    by (intro assms(3)) simp
qed (use assms(2) in \<open>simp add: list_all_iff\<close>)

text \<open>The handshake: a version is accepted exactly when it is the daemon's.\<close>

definition hello :: "string \<Rightarrow> nat \<Rightarrow> nat \<Rightarrow> nat \<Rightarrow> bytes" where
  "hello s a b c = string_enc s @ be16 a @ be16 b @ be16 c"

lemma wp_handler_hello:
  assumes "conn fd w" "string_ok s" "a < 65536" "b < 65536" "c < 65536" "w_sin w = hello s a b c @ rest"
    and good: "\<And>w'. (a, b, c) = (4, 2, 0) \<Longrightarrow> exch w rest (be16 0) w' \<Longrightarrow> wp (serve_request dev fd) Q w'"
    and bad: "\<And>w'. (a, b, c) \<noteq> (4, 2, 0) \<Longrightarrow> exch w rest (be16 71) w' \<Longrightarrow> Q EPROTO w'"
  shows "wp (handler dev fd) Q w"
proof -
  have answer: "wp (if (int a, int b, int c) \<noteq> (VERSION_MAJOR mod 65536, VERSION_MINOR mod 65536, VERSION_PATCH mod 65536)
      then do { write_ushort fd EPROTO; ret EPROTO } else do { write_ushort fd 0; serve_request dev fd }) Q w2"
    if r: "reading w rest w2" for w2
  proof -
    note c = reading_conn[OF assms(1) r] and e = exch_trans[OF reading_exch[OF r]]
    show ?thesis
    proof (cases "(a, b, c) = (4, 2, 0)")
      case True
      show ?thesis
        using c True by (auto simp: VERSION_MAJOR_def VERSION_MINOR_def VERSION_PATCH_def
            intro!: wp_put_num good dest: e)
    next
      case False
      then show ?thesis
        using c by (auto simp: VERSION_MAJOR_def VERSION_MINOR_def VERSION_PATCH_def
            intro!: wp_put_num bad dest: e)
    qed
  qed
  have version: "wp (read_version fd) (\<lambda>v. wp (case v of None \<Rightarrow> get_errno
         | Some v \<Rightarrow> if v \<noteq> (VERSION_MAJOR mod 65536, VERSION_MINOR mod 65536, VERSION_PATCH mod 65536)
             then do { write_ushort fd EPROTO; ret EPROTO }
             else do { write_ushort fd 0; serve_request dev fd }) Q) w1"
    if r: "reading w (be16 a @ be16 b @ be16 c @ rest) w1" for w1
    by (rule wp_read_version[where a = a and b = b and c = c and rest = rest])
       (use assms(3-5) reading_conn[OF assms(1) r] in \<open>auto simp only: option.case intro!: answer reading_trans[OF r]\<close>)
  show ?thesis
    unfolding handler_def wp_bind
    by (rule wp_read_str[OF assms(1,2), where rest = "be16 a @ be16 b @ be16 c @ rest"])
       (use assms(6) version in \<open>auto simp: hello_def split del: if_split cong: if_cong option.case_cong\<close>)
qed


section \<open>A whole request\<close>

text \<open>The command ran with the arguments sent, and its messages and status follow.\<close>

definition answered :: "device \<Rightarrow> string list \<Rightarrow> int \<Rightarrow> world \<Rightarrow> bytes \<Rightarrow> int \<Rightarrow> string list \<Rightarrow> bool" where
  "answered dev argv fd w rest r ms \<longleftrightarrow> list_all string_ok ms \<and>
     (\<exists>v v'. run_state (do_command dev argv fd) v = (r, v') \<and> w_sin v = rest \<and>
        w_files v = w_files w \<and> w_execs v = w_execs w \<and> w_db v = w_db w \<and>
        w_sout v' = w_sout v @ concat (map string_enc ms))"

lemma wp_serve_args:
  assumes "conn fd w" "sock_up fd w" "list_all string_ok argv" "w_sin w = concat (map string_enc argv) @ rest"
    and "copy_talks dev fd"
  shows "wp (serve_args dev fd (length argv)) (\<lambda>r w'. w_sin w' = rest \<and> (\<exists>ms. answered dev argv fd w rest r ms \<and>
    w_sout w' = w_sout w @ concat (map string_enc ms) @ string_enc [] @ be16 (nat (r mod 65536)))) w"
    (is "wp _ ?Q _")
proof -
  have run: "wp (do_command dev argv fd) (\<lambda>r. wp (tell fd []) (\<lambda>_. wp (write_ushort fd (r mod 65536)) (\<lambda>_. ?Q r))) v"
    if rd: "reading w rest v" for v
  proof (rule wpI)
    fix r v' assume r: "run_state (do_command dev argv fd) v = (r, v')"
    note e = exch_fields[OF reading_exch[OF rd]]
    have up: "sock_up fd v" using exch_up[OF assms(2) reading_exch[OF rd]] .
    with keepsD[OF keeps_talk_do_command[OF assms(5)] r] obtain ms where
      ms: "sock_up fd v'" "w_sin v' = rest" "list_all string_ok ms" "w_sout v' = w_sout w @ concat (map string_enc ms)"
      using e by (auto simp: talk_def)
    then have a: "answered dev argv fd w rest r ms"
      unfolding answered_def using r e by (intro conjI exI[of _ v] exI[of _ v']) auto
    show "wp (tell fd []) (\<lambda>_. wp (write_ushort fd (r mod 65536)) (\<lambda>_. ?Q r)) v'"
    proof (rule wp_tell_up[OF ms(1) string_ok_Nil], rule wp_write_ushort_up)
      fix v1 v2 :: world assume "w_sin v1 = w_sin v'" "w_sout v1 = w_sout v' @ string_enc []" "w_sin v2 = w_sin v1"
        "w_sout v2 = w_sout v1 @ be16 (nat (r mod 65536 mod 65536))"
      with ms a show "?Q r v2" by (intro conjI exI[of _ ms]) simp_all
    qed
  qed
  show ?thesis
    unfolding serve_args_def wp_bind
    by (rule wp_read_args[OF assms(1,3,4)]) (simp add: run)
qed

lemma wp_serve_request:
  assumes "conn fd w" "sock_up fd w" "list_all string_ok argv" "argv \<noteq> []" "length argv \<le> MAX_ARGS"
    and "w_sin w = be16 (length argv) @ concat (map string_enc argv) @ rest" "copy_talks dev fd"
  shows "wp (serve_request dev fd) (\<lambda>r w'. w_sin w' = rest \<and> (\<exists>ms. answered dev argv fd w rest r ms \<and>
    w_sout w' = w_sout w @ concat (map string_enc ms) @ string_enc [] @ be16 (nat (r mod 65536)))) w"
    (is "wp _ ?Q _")
proof -
  have args: "wp (serve_args dev fd (length argv)) ?Q v" if rd: "reading w (concat (map string_enc argv) @ rest) v" for v
  proof -
    note e = exch_fields[OF reading_exch[OF rd]] and c = reading_conn[OF assms(1) rd]
    have "answered dev argv fd v rest r ms \<longleftrightarrow> answered dev argv fd w rest r ms" for r ms
      using e by (simp add: answered_def)
    moreover have "wp (serve_args dev fd (length argv)) (\<lambda>r w'. w_sin w' = rest \<and> (\<exists>ms. answered dev argv fd v rest r ms \<and>
      w_sout w' = w_sout v @ concat (map string_enc ms) @ string_enc [] @ be16 (nat (r mod 65536)))) v"
      by (rule wp_serve_args) (use c exch_up[OF assms(2) reading_exch[OF rd]] assms(3,7) in auto)
    ultimately show ?thesis using e by simp
  qed
  show ?thesis
    unfolding serve_request_def wp_bind
  proof (rule wp_read_num[OF assms(1), where n = "length argv"])
    fix v assume rd: "reading w (concat (map string_enc argv) @ rest) v"
    have "w_plan v = []" using reading_conn[OF assms(1) rd] by (simp add: conn_def)
    then show "wp (if int (length argv) < 0 then ret EPROTO
     else if int (length argv) = 0 then do {
       tell fd ''No command'';
       tell fd [];
       write_ushort fd 0;
       ret 0 }
     else if int MAX_ARGS < int (length argv) \<or> int (length argv) < 0 then do {
       tell fd ''too many arguments'';
       write_ushort fd E2BIG;
       ret E2BIG }
     else do {
       ok \<leftarrow> c_malloc;
       if \<not> ok then do {
         err \<leftarrow> get_errno;
         tell fd ''internal error'';
         tell fd [];
         write_ushort fd err;
         ret err }
       else serve_args dev fd (nat (int (length argv))) }) ?Q v"
      using args[OF rd] assms(4,5) by (simp add: wp_malloc_quiet split del: if_split)
  qed (use assms(5,6) in \<open>simp_all add: MAX_ARGS_def\<close>)
qed

end
