(* ===== verification/ProtocolProps.thy ===== *)
theory ProtocolProps
  imports Protocol
begin

text \<open>
  The properties of a session between \<open>caller/client.c\<close> and \<open>daemon/handler.c\<close>.
\<close>


section \<open>The client's side\<close>

text \<open>Messages are read up to the first empty one.\<close>

lemma wp_read_messages:
  assumes "conn fd w" "list_all string_ok ms" "[] \<notin> set ms" "length ms < fuel"
    and "w_sin w = concat (map string_enc ms) @ string_enc [] @ rest"
    and "\<And>w'. reading w rest w' \<Longrightarrow> Q (printed @ ms, None) w'"
  shows "wp (read_messages fuel fd printed) Q w"
  using assms
proof (induction ms arbitrary: fuel printed w)
  case Nil
  then obtain f where f: "fuel = Suc f" by (cases fuel) auto
  show ?case
    unfolding f read_messages.simps wp_bind
    by (rule wp_read_str[OF Nil.prems(1) string_ok_Nil]) (use Nil.prems in auto)
next
  case (Cons m ms)
  then obtain f where f: "fuel = Suc f" "length ms < f" by (cases fuel) auto
  have step: "wp (read_messages f fd (printed @ [m])) Q w1"
    if r: "reading w (concat (map string_enc ms) @ string_enc [] @ rest) w1" for w1
    by (rule Cons.IH) (use reading_conn[OF Cons.prems(1) r] Cons.prems f(2) reading_trans[OF r] in auto)
  show ?case
    unfolding f read_messages.simps wp_bind
    by (rule wp_read_str[OF Cons.prems(1)]) (use Cons.prems step in auto)
qed

text \<open>Up to the answer to the handshake, and with the request sent after it.\<close>

lemma wp_write_version:
  assumes "conn fd w" "\<And>w'. exch w (w_sin w) client_hello w' \<Longrightarrow> Q 0 w'"
  shows "wp (write_version fd) Q w"
proof -
  note v = VERSION_MAJOR_def VERSION_MINOR_def VERSION_PATCH_def
  have s3: "wp (write_ushort fd VERSION_PATCH) Q w3" if "exch w (w_sin w) (string_enc VERSION_STRING @ be16 4 @ be16 2) w3" for w3
    by (rule wp_put_num[OF exch_conn[OF assms(1) that]])
       (use exch_trans[OF that] exch_fields(1)[OF that] in \<open>auto simp: v client_hello_def intro!: assms(2)\<close>)
  have s2: "wp (write_ushort fd VERSION_MINOR) (\<lambda>r. wp (if r \<noteq> 0 then ret r else write_ushort fd VERSION_PATCH) Q) w2"
    if "exch w (w_sin w) (string_enc VERSION_STRING @ be16 4) w2" for w2
    by (rule wp_put_num[OF exch_conn[OF assms(1) that]])
       (use exch_trans[OF that] exch_fields(1)[OF that] in \<open>auto simp: v intro!: s3[unfolded v]\<close>)
  have s1: "wp (write_ushort fd VERSION_MAJOR) (\<lambda>r. wp (if r \<noteq> 0 then ret r else do {
         r \<leftarrow> write_ushort fd VERSION_MINOR;
         if r \<noteq> 0 then ret r else write_ushort fd VERSION_PATCH }) Q) w1"
    if "exch w (w_sin w) (string_enc VERSION_STRING) w1" for w1
    by (rule wp_put_num[OF exch_conn[OF assms(1) that]])
       (use exch_trans[OF that] exch_fields(1)[OF that] s2[unfolded v] in \<open>auto simp: v split del: if_split cong: if_cong\<close>)
  show ?thesis
    unfolding write_version_def wp_bind
    by (rule wp_put_str[OF assms(1) string_ok_version]) (use s1 in \<open>auto split del: if_split cong: if_cong\<close>)
qed

lemma wp_client_session:
  assumes "conn fd w" "list_all string_ok argv" "length argv < 65536" "w_sin w = be16 0 @ i"
    and "\<And>w'. exch w i (client_request argv) w' \<Longrightarrow> wp (client_result fd) Q w'"
  shows "wp (client_session argv fd) Q w"
proof -
  have send: "wp (send_each (write_string fd) argv) (\<lambda>r. wp (if r < 0 then do { e \<leftarrow> get_errno; sys_close fd; ret (e, []) }
      else client_result fd) Q) w3"
    if e: "exch w i (client_hello @ be16 (length argv)) w3" for w3
    by (rule wp_put_strs[OF exch_conn[OF assms(1) e] assms(2)])
       (use exch_trans[OF e] exch_fields(1)[OF e] assms(5) in \<open>auto simp: client_request_def\<close>)
  have argc: "wp (write_ushort fd (int (length argv))) (\<lambda>r. wp (if r < 0 then do { e \<leftarrow> get_errno; sys_close fd; ret (e, []) }
      else do { r \<leftarrow> send_each (write_string fd) argv;
           if r < 0 then do { e \<leftarrow> get_errno; sys_close fd; ret (e, []) } else client_result fd }) Q) w2"
    if e: "exch w i client_hello w2" for w2
  proof (rule wp_put_num[OF exch_conn[OF assms(1) e]])
    fix w3 assume "exch w2 (w_sin w2) (be16 (nat (int (length argv) mod 65536))) w3"
    then have "exch w i (client_hello @ be16 (length argv)) w3"
      using exch_trans[OF e, of _ "be16 (length argv)"] exch_fields(1)[OF e] assms(3) by (simp add: mod_pos_pos_trivial)
    from send[OF this] show "wp (if (0::int) < 0 then do { e \<leftarrow> get_errno; sys_close fd; ret (e, []) }
      else do { r \<leftarrow> send_each (write_string fd) argv;
           if r < 0 then do { e \<leftarrow> get_errno; sys_close fd; ret (e, []) } else client_result fd }) Q w3" by simp
  qed
  have answer: "wp (read_ushort fd) (\<lambda>r. wp (if r < 0 then do { e \<leftarrow> get_errno; sys_close fd; ret (e, []) }
       else if r \<noteq> 0 then do { sys_close fd; ret (r, []) }
       else do {
         r \<leftarrow> write_ushort fd (int (length argv));
         if r < 0 then do { e \<leftarrow> get_errno; sys_close fd; ret (e, []) }
         else do {
           r \<leftarrow> send_each (write_string fd) argv;
           if r < 0 then do { e \<leftarrow> get_errno; sys_close fd; ret (e, []) } else client_result fd } }) Q) w1"
    if e: "exch w (w_sin w) client_hello w1" for w1
  proof (rule wp_read_num[OF exch_conn[OF assms(1) e], where n = 0 and rest = i])
    fix w2 assume "reading w1 i w2"
    from argc[OF exch_trans[OF e reading_exch[OF this], simplified]]
    show "wp (if int 0 < 0 then do { e \<leftarrow> get_errno; sys_close fd; ret (e, []) }
       else if int 0 \<noteq> 0 then do { sys_close fd; ret (int 0, []) }
       else do {
         r \<leftarrow> write_ushort fd (int (length argv));
         if r < 0 then do { e \<leftarrow> get_errno; sys_close fd; ret (e, []) }
         else do {
           r \<leftarrow> send_each (write_string fd) argv;
           if r < 0 then do { e \<leftarrow> get_errno; sys_close fd; ret (e, []) } else client_result fd } }) Q w2" by simp
  qed (use assms(4) exch_fields(1)[OF e] in simp_all)
  show ?thesis
    unfolding client_session_def wp_bind
    by (rule wp_write_version[OF assms(1)]) (use answer in \<open>auto split del: if_split cong: if_cong\<close>)
qed


lemma wp_client_result:
  assumes "conn fd w" "list_all string_ok ms" "[] \<notin> set ms" "k < 65536"
    and "w_sin w = concat (map string_enc ms) @ string_enc [] @ be16 k @ rest"
    and "\<And>w'. reading w rest w' \<Longrightarrow> Q (int k, ms) w'"
  shows "wp (client_result fd) Q w"
proof -
  have len: "length ms \<le> length (concat (map string_enc ms))"
    by (induction ms) (simp_all add: string_enc_def be16_def)
  have status: "wp (read_ushort fd) (\<lambda>r. wp (if r < 0 then do { e \<leftarrow> get_errno; sys_close fd; ret (e, ms) }
         else ret (r, ms)) Q) w1" if r: "reading w (be16 k @ rest) w1" for w1
    by (rule wp_read_num[where n = k and rest = rest])
       (use reading_conn[OF assms(1) r] assms(4,6) reading_trans[OF r] in auto)
  show ?thesis
    unfolding client_result_def wp_bind wp_gets
    by (rule wp_read_messages[OF assms(1-3), where rest = "be16 k @ rest"])
       (use assms(5) len status in \<open>auto split del: if_split cong: if_cong\<close>)
qed

text \<open>Waiting for the answer sends nothing more.\<close>

definition same_out :: "world \<Rightarrow> world \<Rightarrow> bool" where
  "same_out w w' \<longleftrightarrow> w_sout w' = w_sout w"

interpretation fr_out: fd_frame same_out
  by unfold_locales (simp_all add: same_out_def)

lemma keeps_out_result: "keeps same_out (client_result fd)"
proof -
  have "keeps same_out (read_messages fuel fd printed)" for fuel printed
    by (induction fuel arbitrary: printed) (auto intro!: keeps_intros)
  then show ?thesis unfolding client_result_def by (intro keeps_intros)
qed


section \<open>Sessions\<close>

text \<open>A client that finds a daemon's whole reply sends its request, prints the messages, returns the status.\<close>

lemma wp_client_reply:
  assumes "conn fd w" "list_all string_ok argv" "length argv < 65536" "w_sin w = daemon_reply ms r" "list_all string_ok ms"
  shows "wp (client_session argv fd) (\<lambda>x w'. w_sout w' = w_sout w @ client_request argv \<and>
    ([] \<notin> set ms \<longrightarrow> x = (r mod 65536, ms))) w"
proof -
  define i where "i = concat (map string_enc ms) @ string_enc [] @ be16 (nat (r mod 65536))"
  have sin: "w_sin w = be16 0 @ i" using assms(4) by (simp add: daemon_reply_def i_def)
  show ?thesis
  proof (rule wp_client_session[OF assms(1-3) sin])
    fix w1 assume e: "exch w i (client_request argv) w1"
    have out: "wp (client_result fd) (\<lambda>_ w'. w_sout w' = w_sout w @ client_request argv) w1"
      using keeps_snd[OF keeps_out_result, of w1 fd] exch_fields(2)[OF e] by (simp add: wp_run same_out_def)
    have "wp (client_result fd) (\<lambda>x _. x = (r mod 65536, ms)) w1" if "[] \<notin> set ms"
    proof (rule wp_client_result[OF exch_conn[OF assms(1) e] assms(5) that, where k = "nat (r mod 65536)" and rest = "[]"])
      show "w_sin w1 = concat (map string_enc ms) @ string_enc [] @ be16 (nat (r mod 65536)) @ []"
        using exch_fields(1)[OF e] by (simp add: i_def)
    qed (simp_all add: nat_less_iff)
    with out show "wp (client_result fd) (\<lambda>x w'. w_sout w' = w_sout w @ client_request argv \<and>
      ([] \<notin> set ms \<longrightarrow> x = (r mod 65536, ms))) w1" by (auto simp: wp_run)
  qed
qed

lemma daemon_reply_sin: "daemon_reply ms r = be16 0 @ concat (map string_enc ms) @ string_enc [] @ be16 (nat (r mod 65536))"
  by (simp add: daemon_reply_def)

lemma wp_handler_request:
  assumes "conn fd w" "sock_up fd w" "list_all string_ok argv" "argv \<noteq> []" "length argv \<le> MAX_ARGS"
    and "w_sin w = client_request argv @ rest" "copy_talks dev fd"
  shows "wp (handler dev fd) (\<lambda>r w'. w_sin w' = rest \<and> (\<exists>ms. answered dev argv fd w rest r ms \<and>
    w_sout w' = w_sout w @ daemon_reply ms r)) w"
proof (rule wp_handler_hello[OF assms(1) string_ok_version, where a = 4 and b = 2 and c = 0])
  show "w_sin w = hello VERSION_STRING 4 2 0 @ be16 (length argv) @ concat (map string_enc argv) @ rest"
    using assms(6) by (simp add: client_request_def client_hello_def hello_def)
next
  fix w1 assume e: "exch w (be16 (length argv) @ concat (map string_enc argv) @ rest) (be16 0) w1"
  have a: "answered dev argv fd w1 rest r ms \<longleftrightarrow> answered dev argv fd w rest r ms" for r ms
    using exch_fields[OF e] by (simp add: answered_def)
  have "wp (serve_request dev fd) (\<lambda>r w'. w_sin w' = rest \<and> (\<exists>ms. answered dev argv fd w1 rest r ms \<and>
    w_sout w' = w_sout w1 @ concat (map string_enc ms) @ string_enc [] @ be16 (nat (r mod 65536)))) w1"
    by (rule wp_serve_request[OF exch_conn[OF assms(1) e] exch_up[OF assms(2) e] assms(3-5) _ assms(7)])
       (use exch_fields(1)[OF e] in simp)
  then show "wp (serve_request dev fd) (\<lambda>r w'. w_sin w' = rest \<and> (\<exists>ms. answered dev argv fd w rest r ms \<and>
    w_sout w' = w_sout w @ daemon_reply ms r)) w1"
    using exch_fields(2)[OF e] by (simp add: a daemon_reply_def)
qed simp_all




lemma sock_world_up: "sock_up 5 (sock_world i)"
  by (auto simp: sock_up_def)

lemma toy_copy_talks: "copy_talks toy_device fd"
  by (simp add: copy_talks_def toy_mount_copy fr_talk.keeps_return)

lemma version_args: "list_all string_ok [''version'']"
  by (simp add: string_ok_def MAX_STRING_def)



text \<open>
  A client with any other version gets EPROTO and nothing else: no argument is read, no
  program started, no file or database row changed.
\<close>

theorem version_mismatch_refused:
  assumes "conn fd w" "string_ok s" "a < 65536" "b < 65536" "c < 65536" "(a, b, c) \<noteq> (4, 2, 0)"
    and "w_sin w = hello s a b c @ rest" "run_state (handler dev fd) w = (r, w')"
  shows "r = EPROTO \<and> w_sout w' = w_sout w @ be16 71 \<and> w_sin w' = rest \<and>
    w_files w' = w_files w \<and> w_execs w' = w_execs w \<and> w_db w' = w_db w"
proof -
  have "wp (handler dev fd) (\<lambda>r w'. r = EPROTO \<and> w_sout w' = w_sout w @ be16 71 \<and> w_sin w' = rest \<and>
    w_files w' = w_files w \<and> w_execs w' = w_execs w \<and> w_db w' = w_db w) w"
    by (rule wp_handler_hello[OF assms(1-5,7)]) (use assms(6) exch_fields in auto)
  from wpD[OF this assms(8)] show ?thesis .
qed

lemma version_mismatch_refused_witness:
  "\<exists>w'. run_state (handler toy_device 5) (sock_world (hello ''v4.1.9'' 4 1 9 @ be16 1)) = (EPROTO, w') \<and>
     w_sout w' = be16 71 \<and> w_sin w' = be16 1"
proof -
  obtain r w' where r: "run_state (handler toy_device 5) (sock_world (hello ''v4.1.9'' 4 1 9 @ be16 1)) = (r, w')"
    by (metis prod.exhaust)
  from version_mismatch_refused[OF conn_sock_world _ _ _ _ _ _ r, of "''v4.1.9''" 4 1 9 "be16 1"] r
  show ?thesis by (auto simp: string_ok_def MAX_STRING_def)
qed

text \<open>
  An empty message ends the conversation for the client: it prints only the messages before
  it and returns the length of the next message instead of the command's status.
\<close>

theorem empty_message_cuts_session:
  assumes "conn fc wc" "list_all string_ok argv" "length argv < 65536"
    and "w_sin wc = daemon_reply (ms @ [] # m # ns) r" "list_all string_ok (ms @ [] # m # ns)" "[] \<notin> set ms"
    and "run_state (client_session argv fc) wc = ((s, lines), wc')"
  shows "s = int (length m) \<and> lines = ms"
proof -
  define i where "i = concat (map string_enc ms) @ string_enc [] @ be16 (length m) @
    m @ concat (map string_enc ns) @ string_enc [] @ be16 (nat (r mod 65536))"
  have sin: "w_sin wc = be16 0 @ i" using assms(4) by (simp add: daemon_reply_def i_def string_enc_def)
  have "wp (client_session argv fc) (\<lambda>x _. x = (int (length m), ms)) wc"
  proof (rule wp_client_session[OF assms(1-3) sin])
    fix w1 assume e: "exch wc i (client_request argv) w1"
    show "wp (client_result fc) (\<lambda>x _. x = (int (length m), ms)) w1"
      by (rule wp_client_result[OF exch_conn[OF assms(1) e] _ assms(6)])
         (use exch_fields(1)[OF e] assms(5) in \<open>auto simp: i_def string_ok_def MAX_STRING_def\<close>)
  qed
  from wpD[OF this assms(7)] show ?thesis by simp
qed

lemma empty_message_cuts_session_witness:
  "\<exists>wc'. run_state (client_session [''code'', ''x''] 5)
      (sock_world (daemon_reply ([''loading...''] @ [] # ''unknown command:'' # []) 38)) = ((16, [''loading...'']), wc')"
proof -
  let ?w = "sock_world (daemon_reply ([''loading...''] @ [] # ''unknown command:'' # []) 38)"
  obtain s l wc' where c: "run_state (client_session [''code'', ''x''] 5) ?w = ((s, l), wc')" by (metis prod.exhaust)
  from empty_message_cuts_session[OF conn_sock_world _ _ sock_world_fields(8) _ _ c] c
  show ?thesis by (auto simp: string_ok_def MAX_STRING_def)
qed


lemma be16_inject: "a < 65536 \<Longrightarrow> b < 65536 \<Longrightarrow> be16 a = be16 b \<Longrightarrow> a = b"
  using of_be_be16 by (metis mod_less)

lemma length_be16 [simp]: "length (be16 n) = 2"
  by (simp add: be16_def)

text \<open>No reply starts with a message and ends two bytes after it.\<close>

lemma cut_reply:
  assumes "string_ok m" "m \<noteq> []" "list_all string_ok ms"
  shows "be16 0 @ string_enc m @ be16 k \<noteq> daemon_reply ms r"
proof
  assume "be16 0 @ string_enc m @ be16 k = daemon_reply ms r"
  then have eq: "be16 (length m) @ m @ be16 k = concat (map string_enc ms) @ be16 0 @ be16 (nat (r mod 65536))"
    by (simp add: daemon_reply_def string_enc_def)
  have lt: "length m < 65536" using assms(1) by (simp add: string_ok_def MAX_STRING_def)
  show False
  proof (cases ms)
    case Nil
    with eq have "be16 (length m) = be16 0" by (simp add: append_eq_append_conv)
    with be16_inject[OF lt, of 0] assms(2) show False by simp
  next
    case (Cons n ns)
    with eq have "be16 (length m) = be16 (length n)" and
      rest: "m @ be16 k = n @ concat (map string_enc ns) @ be16 0 @ be16 (nat (r mod 65536))"
      by (simp_all add: string_enc_def append_eq_append_conv)
    with lt assms(3) Cons have "length m = length n"
      by (intro be16_inject) (simp_all add: string_ok_def MAX_STRING_def)
    with arg_cong[OF rest, of length] show False by simp
  qed
qed

text \<open>The refusal as the daemon writes it, \<open>too_many\<close> being the state it ends in.\<close>

definition too_many :: "world \<Rightarrow> bytes \<Rightarrow> int \<Rightarrow> world \<Rightarrow> bool" where
  "too_many w rest r w' \<longleftrightarrow> r = E2BIG \<and> w_sin w' = rest \<and> w_execs w' = w_execs w \<and> w_files w' = w_files w \<and>
     w_sout w' = w_sout w @ be16 0 @ string_enc ''too many arguments'' @ be16 7"

lemma string_ok_too_many: "string_ok ''too many arguments''"
  by (simp add: string_ok_def MAX_STRING_def)

lemma wp_too_many:
  assumes "conn fd w" "exch w rest (be16 0) v"
  shows "wp (tell fd ''too many arguments'') (\<lambda>_. wp (write_ushort fd E2BIG) (\<lambda>_. too_many w rest E2BIG)) v"
  unfolding tell_def wp_bind
proof (rule wp_put_str[OF exch_conn[OF assms] string_ok_too_many])
  fix u assume e: "exch v (w_sin v) (string_enc ''too many arguments'') u"
  show "wp (ret ()) (\<lambda>_. wp (write_ushort fd E2BIG) (\<lambda>_. too_many w rest E2BIG)) u"
    unfolding wp_return too_many_def
    by (rule wp_put_num[OF exch_conn[OF exch_conn[OF assms] e]])
       (use exch_fields[OF assms(2)] exch_fields[OF e] exch_fields in auto)
qed

lemma wp_serve_too_many:
  assumes "conn fd w" "MAX_ARGS < n" "n < 65536" "exch w (be16 n @ rest) (be16 0) v"
  shows "wp (serve_request dev fd) (too_many w rest) v"
  unfolding serve_request_def wp_bind
proof (rule wp_read_num[OF exch_conn[OF assms(1,4)] assms(3) exch_fields(1)[OF assms(4)]], goal_cases)
  case (1 u)
  with exch_trans[OF assms(4) reading_exch] have "exch w rest (be16 0) u" by fastforce
  from wp_too_many[OF assms(1) this] show ?case
    using assms(2) by (simp add: MAX_ARGS_def)
qed

text \<open>
  C39: A request with 257 to 65535 arguments is refused with E2BIG before any argument is read, but
  what the daemon writes is not a reply in the protocol: the end marker is missing, so the client
  takes the status for the length of another message.
\<close>

theorem too_many_arguments_reply:
  assumes "conn fd w" "MAX_ARGS < n" "n < 65536" "w_sin w = client_hello @ be16 n @ rest"
    and "run_state (handler dev fd) w = (r, w')"
  shows "r = E2BIG \<and> w_sin w' = rest \<and> w_execs w' = w_execs w \<and> w_files w' = w_files w \<and>
    w_sout w' = w_sout w @ be16 0 @ string_enc ''too many arguments'' @ be16 7 \<and>
    (\<nexists>ms s. list_all string_ok ms \<and> w_sout w' = w_sout w @ daemon_reply ms s)"
proof -
  have "wp (handler dev fd) (too_many w rest) w"
    by (rule wp_handler_hello[OF assms(1) string_ok_version, where a = 4 and b = 2 and c = 0 and rest = "be16 n @ rest"])
       (use assms(4) wp_serve_too_many[OF assms(1-3)] in \<open>simp_all add: hello_def client_hello_def\<close>)
  from wpD[OF this assms(5)] cut_reply[OF string_ok_too_many, where k = 7] show ?thesis by (auto simp: too_many_def)
qed

lemma too_many_arguments_reply_witness:
  "\<exists>w'. run_state (handler toy_device 5) (sock_world (client_hello @ be16 300 @ string_enc ''x'')) = (E2BIG, w') \<and>
     w_sin w' = string_enc ''x''"
proof -
  obtain r w' where r: "run_state (handler toy_device 5) (sock_world (client_hello @ be16 300 @ string_enc ''x'')) = (r, w')"
    by (metis prod.exhaust)
  from too_many_arguments_reply[OF conn_sock_world _ _ _ r, of 300 "string_enc ''x''"] r
  show ?thesis by (auto simp: MAX_ARGS_def)
qed

text \<open>The bound on the rounds of the client's loop is never reached: every message consumes input.\<close>

lemma wp_read_all_len:
  assumes "sock_live fd w"
    and "\<And>r w'. sock_live fd w' \<Longrightarrow> length (w_sin w') \<le> length (w_sin w) \<Longrightarrow>
      (r \<noteq> None \<Longrightarrow> length (w_sin w') + n = length (w_sin w)) \<Longrightarrow> Q r w'"
  shows "wp (read_all fd n) Q w"
proof (rule sock_src.wp_read_all[OF assms(1)])
  fix io e k r
  assume k: "k \<le> length (w_sin w)" "\<And>bs. r = Some bs \<Longrightarrow> k = n \<and> bs = take n (w_sin w)"
  show "Q r (w\<lparr>w_sin := drop k (w_sin w), w_io := io, w_errno := e\<rparr>)"
  proof (rule assms(2))
    assume "r \<noteq> None"
    then obtain bs where "r = Some bs" by blast
    from k(2)[OF this] k(1) show "length (w_sin (w\<lparr>w_sin := drop k (w_sin w), w_io := io, w_errno := e\<rparr>)) + n = length (w_sin w)"
      by simp
  qed (use assms(1) in \<open>simp_all add: sock_live_def\<close>)
qed

lemma wp_read_string_len:
  assumes "sock_live fd w"
  shows "wp (malloc_read_string fd) (\<lambda>r w'. sock_live fd w' \<and> (r \<noteq> None \<longrightarrow> length (w_sin w') < length (w_sin w))) w"
  unfolding malloc_read_string_def read_ushort_def wp_bind
proof (rule wp_read_all_len[OF assms], goal_cases)
  case (1 r w1)
  show ?case
  proof (cases r)
    case (Some bs)
    let ?P = "\<lambda>r w'. sock_live fd w' \<and> (r \<noteq> None \<longrightarrow> length (w_sin w') < length (w_sin w))"
    have len: "length (w_sin w1) < length (w_sin w)" using 1(3) Some by simp
    have body: "wp (read_all fd n) (\<lambda>r. wp (case r of None \<Rightarrow> ret None | Some dest \<Rightarrow> ret (Some (cstr dest))) ?P) v"
      if "plan_step w1 v" for n v
    proof (rule wp_read_all_len)
      show "sock_live fd v" using that 1(1) plan_step_same(5)[OF that] by (simp add: sock_live_def)
    next
      fix r v' assume "sock_live fd v'" "length (w_sin v') \<le> length (w_sin v)"
      with len plan_step_same(7)[OF that]
      show "wp (case r of None \<Rightarrow> ret None | Some dest \<Rightarrow> ret (Some (cstr dest))) ?P v'"
        by (cases r) simp_all
    qed
    have alloc: "wp c_malloc (\<lambda>ok. wp (if \<not> ok then fail_with ENOMEM None else do {
         r \<leftarrow> read_all fd n;
         case r of None \<Rightarrow> ret None | Some dest \<Rightarrow> ret (Some (cstr dest)) }) ?P) w1" for n
    proof (rule wp_malloc_any)
      fix ok v assume v: "plan_step w1 v"
      then have "sock_live fd v" using 1(1) plan_step_same(5)[OF v] by (simp add: sock_live_def)
      with body[OF v] show "wp (if \<not> ok then fail_with ENOMEM None else do {
         r \<leftarrow> read_all fd n;
         case r of None \<Rightarrow> ret None | Some dest \<Rightarrow> ret (Some (cstr dest)) }) ?P v"
        by (cases ok) (simp_all add: sock_live_def)
    qed
    show ?thesis
      using Some 1(1) alloc by (auto simp: sock_live_def)
  qed (use 1 in simp)
qed

lemma read_messages_fuel:
  "sock_live fd w \<Longrightarrow> length (w_sin w) < f \<Longrightarrow> length (w_sin w) < g \<Longrightarrow>
   run_state (read_messages f fd p) w = run_state (read_messages g fd p) w"
proof (induction f arbitrary: g p w)
  case (Suc f)
  then obtain h where g: "g = Suc h" by (cases g) auto
  obtain d w1 where r: "run_state (malloc_read_string fd) w = (d, w1)" by (metis prod.exhaust)
  from wpD[OF wp_read_string_len[OF Suc.prems(1)] r]
  have l: "sock_live fd w1" "d \<noteq> None \<Longrightarrow> length (w_sin w1) < length (w_sin w)" by simp_all
  show ?case
  proof (cases d)
    case (Some m)
    with l Suc.prems(2,3) g have "run_state (read_messages f fd q) w1 = run_state (read_messages h fd q) w1" for q
      by (intro Suc.IH) simp_all
    then show ?thesis using r Some g by simp
  qed (use r g in simp)
qed simp

text \<open>
  C34: Reading the daemon's messages ends: each round of the loop but the last consumes input, so
  any bound above the number of bytes the daemon sends gives the same result.
\<close>

theorem client_messages_end:
  assumes "w_fds w fd = Some OSock" "length (w_sin w) < f"
  shows "run_state (read_messages f fd printed) w = run_state (read_messages (Suc (length (w_sin w))) fd printed) w"
  using assms by (intro read_messages_fuel) (simp_all add: sock_live_def)

lemma client_messages_end_witness:
  "run_state (read_messages 50 5 []) (sock_world (string_enc ''hi'' @ string_enc []))
     = run_state (read_messages 7 5 []) (sock_world (string_enc ''hi'' @ string_enc []))"
proof -
  let ?w = "sock_world (string_enc ''hi'' @ string_enc [])"
  have l: "Suc (length (w_sin ?w)) = 7" by (simp add: string_enc_def be16_def)
  then have "length (w_sin ?w) < 50" by linarith
  from client_messages_end[OF _ this, of 5 "[]"] show ?thesis unfolding l by simp
qed

end
