(* ===== verification/CommandProps.thy ===== *)
theory CommandProps
  imports ProtocolProps
begin

text \<open>
  What a client of the daemon can and cannot do: the programs it can have started, and setting
  the user's record, once.
\<close>


section \<open>Programs\<close>

text \<open>What the daemon starts on its own account: locking OEM unlock, and announcing a new user.\<close>

definition client_execs :: "(string \<times> string list) set" where
  "client_execs = {(''/system/bin/service'', [''/system/bin/service'', ''call'', ''oem_lock'', ''4'', ''i32'', ''0'']),
     (''/system/bin/setprop'', [''/system/bin/setprop'', ''dumbos.newuser'', ''1''])}"

context file_frame
begin

lemma keeps_lockscreen [keeps_intros]: "keeps R maybe_set_lockscreen_text"
proof -
  have db: "keeps R (modify (\<lambda>w. w\<lparr>w_db := rows\<rparr>))" for rows by (simp add: keeps_def frame_db)
  have sq: "keeps R (sqlite_call good)" for good unfolding sqlite_call_def by (intro keeps_intros)
  have "keeps R (replace_locksetting rows n u v)" for rows n u v
    unfolding replace_locksetting_def Let_def by (intro keeps_intros sq)
  then have "keeps R (set_lock_screen_owner_info i)" for i
    unfolding set_lock_screen_owner_info_def by (intro keeps_intros db sq)
  then show ?thesis unfolding maybe_set_lockscreen_text_def by (intro keeps_intros)
qed

lemma keeps_get_username [keeps_intros]: "keeps R (cmd_get_username fd)"
  unfolding cmd_get_username_def by (intro keeps_intros)

lemma keeps_version [keeps_intros]: "keeps R (cmd_version fd)"
  unfolding cmd_version_def by (intro keeps_intros)

lemma keeps_stat [keeps_intros]: "keeps R (sys_stat path)"
  unfolding sys_stat_def by (intro keeps_intros)

lemma keeps_upload [keeps_intros]: "keeps R (cmd_upload_data dev argv fd)"
proof -
  have url: "keeps R (upload_request_url dev t)" for t
    unfolding upload_request_url_def Let_def by (intro keeps_intros)
  have one: "keeps R (upload_one dev url f)" for url f
    unfolding upload_one_def by (intro keeps_intros)
  have "keeps R (upload_all dev url fs)" for url fs
    by (induction fs) (simp_all only: upload_all.simps, (intro keeps_intros one, assumption?)+)
  then show ?thesis unfolding cmd_upload_data_def by (intro keeps_intros url)
qed

lemma keeps_hex_to_buf [keeps_intros]: "keeps R (malloc_hex_to_buf sg h)"
  unfolding malloc_hex_to_buf_def Let_def by (intro keeps_intros)

lemma keeps_read_args [keeps_intros]: "keeps R (read_args fd n)"
  by (induction n) (simp_all only: read_args.simps, (intro keeps_intros, assumption?)+)

lemma keeps_read_version [keeps_intros]: "keeps R (read_version fd)"
  unfolding read_version_def by (intro keeps_intros)

end

lemma keeps_in_do_command:
  assumes "\<And>a b c d e f. keeps same_execs (dv_mount_copy dev a b c d e f)"
  shows "keeps (execs_in (client_execs \<union> code_execs dev)) (do_command dev argv fd)"
proof -
  let ?A = "client_execs \<union> code_execs dev"
  have code: "keeps (execs_in ?A) (secret_code dev args fd)" for args
    by (rule execs_in_mono[OF _ keeps_in_secret_code[OF assms]]) simp
  have lock: "keeps (execs_in ?A) (oem_locking fd True)"
    unfolding oem_locking_def set_oem_lock_def status_or_errno_def
    by (simp, intro keeps_intros keeps_in_execv) (simp add: client_execs_def)
  have set: "keeps (execs_in ?A) (cmd_setname dev fd args)" for args
    unfolding cmd_setname_def set_user_prop_def Let_def
    by (intro keeps_intros keeps_in_execv) (simp add: client_execs_def)
  show ?thesis
    unfolding do_command_def Let_def by (intro keeps_intros code lock set)
qed

lemma keeps_in_handler:
  assumes "\<And>a b c d e f. keeps same_execs (dv_mount_copy dev a b c d e f)"
  shows "keeps (execs_in (client_execs \<union> code_execs dev)) (handler dev fd)"
proof -
  have "keeps (execs_in (client_execs \<union> code_execs dev)) (serve_args dev fd n)" for n
    unfolding serve_args_def by (intro keeps_intros keeps_in_do_command assms)
  then show ?thesis unfolding handler_def serve_request_def by (intro keeps_intros)
qed

text \<open>
  C1: Whatever bytes a client sends and whatever fails, serving it starts no programs but the one
  that locks OEM unlock, the one that announces a new user, and those of authentic payloads that
  had not expired at a time the network delivered.
\<close>

theorem client_cannot_start:
  assumes "\<And>a b c d e f. keeps same_execs (dv_mount_copy dev a b c d e f)"
    and "run_state (handler dev fd) w = (r, w')" "x \<in> set (drop (length (w_execs w)) (w_execs w'))"
  shows "x \<in> client_execs \<or> (\<exists>q m t. network_time dev t \<and> authentic dev q m \<and> unexpired q t \<and>
    x \<in> command_execs dev (payload_command q))"
proof -
  from keepsD[OF keeps_in_handler[OF assms(1)] assms(2)] assms(3)
  have "x \<in> client_execs \<union> code_execs dev" by (auto simp: execs_in_def)
  then show ?thesis by (fastforce simp: code_execs_def allowed_execs_def)
qed


section \<open>Running a request\<close>

text \<open>With empty plans a request can be evaluated step by step.\<close>

lemma smooth_sin [simp]: "smooth fd (w\<lparr>w_sin := i\<rparr>) = smooth fd w"
  by (simp add: smooth_def)

lemma run_read_all_smooth:
  "smooth fd w \<Longrightarrow> n \<le> length (w_sin w) \<Longrightarrow>
   run_state (read_all fd n) w = (Some (take n (w_sin w)), w\<lparr>w_sin := drop n (w_sin w)\<rparr>)"
  by (cases "n = 0")
     (simp_all add: smooth_def read_all_def read_loop.simps[of fd n] read_loop.simps[of fd 0] run_sys_read Let_def)

lemma run_read_ushort_smooth:
  "smooth fd w \<Longrightarrow> w_sin w = be16 n @ rest \<Longrightarrow> n < 65536 \<Longrightarrow>
   run_state (read_ushort fd) w = (int n, w\<lparr>w_sin := rest\<rparr>)"
  by (simp add: read_ushort_def run_read_all_smooth of_be_be16)

lemma run_read_string_smooth:
  "smooth fd w \<Longrightarrow> w_sin w = string_enc s @ rest \<Longrightarrow> string_ok s \<Longrightarrow>
   run_state (malloc_read_string fd) w = (Some s, w\<lparr>w_sin := rest\<rparr>)"
  by (simp add: malloc_read_string_def run_read_ushort_smooth[where n = "length s" and rest = "s @ rest"]
      string_enc_def string_ok_def MAX_STRING_def io_simps smooth_def run_read_all_smooth[unfolded smooth_def])

lemma run_write_ushort_smooth:
  "smooth fd w \<Longrightarrow> run_state (write_ushort fd v) w = (0, w\<lparr>w_sout := w_sout w @ be16 (nat (v mod 65536))\<rparr>)"
  by (simp add: write_ushort_def Let_def run_write_all_smooth)

lemma run_read_args_smooth:
  "smooth fd w \<Longrightarrow> list_all string_ok argv \<Longrightarrow> w_sin w = concat (map string_enc argv) @ rest \<Longrightarrow>
   run_state (read_args fd (length argv)) w = (Some argv, w\<lparr>w_sin := rest\<rparr>)"
proof (induction argv arbitrary: w)
  case (Cons a argv)
  then have "run_state (malloc_read_string fd) w = (Some a, w\<lparr>w_sin := concat (map string_enc argv) @ rest\<rparr>)"
    by (intro run_read_string_smooth) simp_all
  then show ?case using Cons by simp
qed simp

lemma run_handler_prefix:
  assumes "smooth fd w" "list_all string_ok argv" "argv \<noteq> []" "length argv \<le> MAX_ARGS"
    and "w_sin w = client_request argv @ rest"
    and "run_state (do_command dev argv fd) (w\<lparr>w_sout := w_sout w @ be16 0, w_sin := rest\<rparr>) = (r, w')"
  shows "run_state (handler dev fd) w = run_state (do { tell fd []; write_ushort fd (r mod 65536); ret r }) w'"
proof -
  let ?r1 = "be16 4 @ be16 2 @ be16 0 @ be16 (length argv) @ concat (map string_enc argv) @ rest"
  have sin: "w_sin w = string_enc VERSION_STRING @ ?r1"
    using assms(5) by (simp add: client_request_def client_hello_def)
  have n: "length argv < 65536" "length argv \<noteq> 0" "\<not> MAX_ARGS < length argv"
    using assms(3,4) by (simp_all add: MAX_ARGS_def)
  have plan: "w_plan w = []" using assms(1) by (simp add: smooth_def)
  show ?thesis
    using assms(1,2,6) n plan
    by (simp add: handler_def read_version_def serve_request_def serve_args_def sin
        run_read_string_smooth[where s = VERSION_STRING] string_ok_version run_read_ushort_smooth run_write_ushort_smooth
        VERSION_MAJOR_def VERSION_MINOR_def VERSION_PATCH_def io_simps run_read_args_smooth[where rest = rest])
qed

lemma run_handler_smooth:
  assumes "smooth fd w" "list_all string_ok argv" "argv \<noteq> []" "length argv \<le> MAX_ARGS"
    and "w_sin w = client_request argv @ rest"
    and "run_state (do_command dev argv fd) (w\<lparr>w_sout := w_sout w @ be16 0, w_sin := rest\<rparr>) = (r, w')" "smooth fd w'"
  shows "run_state (handler dev fd) w = (r, w'\<lparr>w_sout := w_sout w' @ string_enc [] @ be16 (nat (r mod 65536))\<rparr>)"
  unfolding run_handler_prefix[OF assms(1-6)]
  using assms(7) by (simp add: run_tell_smooth run_write_ushort_smooth)


abbreviation (input) oem_lock_exec :: "string \<times> string list" where
  "oem_lock_exec \<equiv> (''/system/bin/service'', [''/system/bin/service'', ''call'', ''oem_lock'', ''4'', ''i32'', ''0''])"

lemma run_oem_lock_request:
  assumes "smooth fd w" "w_exits w = []" "w_sin w = client_request [''oem_lock'']"
  shows "\<exists>r w'. run_state (handler dev fd) w = (r, w') \<and> w_execs w' = w_execs w @ [oem_lock_exec]"
proof -
  let ?v = "w\<lparr>w_sout := w_sout w @ be16 0, w_sin := []\<rparr>"
  let ?v' = "?v\<lparr>w_sout := w_sout w @ be16 0 @ string_enc ''disabling OEM unlock'', w_execs := w_execs w @ [oem_lock_exec]\<rparr>"
  have "run_state (do_command dev [''oem_lock''] fd) ?v = (0, ?v')"
    using assms(1,2) by (simp add: do_command_def oem_locking_def run_tell_smooth string_ok_def MAX_STRING_def
        set_oem_lock_def status_or_errno_def run_execv_quiet smooth_def)
  from run_handler_smooth[OF assms(1) _ _ _ _ this] assms show ?thesis
    by (auto simp: smooth_def string_ok_def MAX_STRING_def MAX_ARGS_def)
qed

lemma client_cannot_start_witness:
  "\<exists>w r w'. run_state (handler toy_device 5) w = (r, w') \<and>
     set (drop (length (w_execs w)) (w_execs w')) \<noteq> {} \<and>
     set (drop (length (w_execs w)) (w_execs w')) \<subseteq> client_execs \<union>
       {x. \<exists>q m t. network_time toy_device t \<and> authentic toy_device q m \<and> unexpired q t \<and>
             x \<in> command_execs toy_device (payload_command q)}"
proof -
  let ?w = "sock_world (client_request [''oem_lock''])"
  have "smooth 5 ?w" "w_exits ?w = []" "w_sin ?w = client_request [''oem_lock'']"
    by (simp_all add: smooth_def sock_world_def idle_world_def)
  from run_oem_lock_request[OF this] obtain r w' where
    r: "run_state (handler toy_device 5) ?w = (r, w')" "w_execs w' = w_execs ?w @ [oem_lock_exec]" by blast
  have "keeps same_execs (dv_mount_copy toy_device a b c d e f)" for a b c d e f
    by (simp add: toy_mount_copy fr_execs.keeps_return)
  from client_cannot_start[OF this r(1)] r show ?thesis
    by (intro exI[of _ ?w] exI[of _ r] exI[of _ w']) auto
qed


section \<open>The user's record\<close>

lemma wp_malloc_plan:
  "wp c_malloc (\<lambda>b w'. plan_step w w' \<and> set (w_plan w') \<subseteq> set (w_plan w) \<and> (b \<or> w_errno w' = ENOMEM)) w"
  by (cases "w_plan w") (auto simp: wp_def c_malloc_def next_outcome_def split: outcome.split)

text \<open>
  Where a file exists, loading the user never reports that there is none, unless the plan makes
  \<open>open\<close> itself say so.
\<close>

lemma wp_get_user_exists:
  assumes "Fail ENOENT \<notin> set (w_plan w)" "w_files w DUMBOS_USER_DATA_PATH = Some nd" "0 \<le> w_nextfd w"
  shows "wp dumbos_alloc_get_user (\<lambda>u w'. u \<noteq> None \<or> w_errno w' \<noteq> ENOENT) w"
proof -
  define Q where "Q = (\<lambda>(u :: user_data option) (w' :: world). u \<noteq> None \<or> w_errno w' \<noteq> ENOENT)"
  let ?rest = "\<lambda>fd bs st.
       if length bs \<noteq> sizeof_user_data then do {
           err \<leftarrow> get_errno;
           let err = (if st \<noteq> At_data then EIO else err);
           sys_close fd;
           fail_with err None }
         else do {
           sys_close fd;
           let rt = ud_of_bytes bs;
           if ud_magic rt \<noteq> DUMBOS_USER_DATA_MAGIC then fail_with EINVAL None
           else ret (Some (rt\<lparr>ud_null_byte := NUL,
                  ud_priv_key_hex := (ud_priv_key_hex rt)[ED25519_PRIVATE_KEY_HEX_SIZE - 1 := NUL]\<rparr>)) }"
  have read: "wp (c_fread p n) (\<lambda>(bs, st) w'. length bs = n \<or> st \<noteq> At_data) v" for p n v
    by (auto simp: wp_def c_fread_def next_io_def split: list.split outcome.split)
  have body: "wp (c_fread DUMBOS_USER_DATA_PATH sizeof_user_data) (\<lambda>(bs, st). wp (?rest fd bs st) Q) v" for fd v
    by (rule wp_mono[OF read]) (auto simp: Let_def Q_def)
  have opened: "wp (do { fd \<leftarrow> sys_open DUMBOS_USER_DATA_PATH []; if fd < 0 then ret None
       else do { set_errno 0; (bs, st) \<leftarrow> c_fread DUMBOS_USER_DATA_PATH sizeof_user_data; ?rest fd bs st } }) Q v"
    if "plan_step w v" "set (w_plan v) \<subseteq> set (w_plan w)" for v
  proof -
    have f: "w_files v DUMBOS_USER_DATA_PATH = Some nd" using that(1) assms(2) by (simp add: plan_step_same)
    have b: "wp (c_fread DUMBOS_USER_DATA_PATH sizeof_user_data)
        (\<lambda>a. wp (case a of (bs, st) \<Rightarrow> ?rest fd bs st) Q) x" for fd x
      by (rule wp_mono[OF body]) (auto simp: Q_def)
    have "wp fallible (\<lambda>ok w'. w_files w' = w_files v \<and> w_nextfd w' = w_nextfd w \<and> (ok \<or> w_errno w' \<noteq> ENOENT)) v"
      by (rule wp_fallible_errno) (use assms(1) that in \<open>auto simp: plan_step_same\<close>)
    then show ?thesis
      unfolding sys_open_def wp_bind
      by (rule wp_mono) (use f b assms(3) in \<open>auto simp: Q_def split: option.split node.split\<close>)
  qed
  have mem: "w_errno v = ENOMEM \<Longrightarrow> Q None v" for v by (simp add: Q_def)
  show ?thesis
    unfolding dumbos_alloc_get_user_def Q_def[symmetric] wp_bind[of c_malloc]
    by (rule wp_mono[OF wp_malloc_plan]) (use assms(3) in \<open>auto simp: Q_def[symmetric] simp del: wp_bind intro: opened mem\<close>)
qed

text \<open>Telling the client something leaves the files alone and an error number in place.\<close>

lemma write_loop_errno:
  "sock_up fd w \<Longrightarrow> w_errno w \<noteq> 0 \<Longrightarrow> w_errno (snd (write_loop fd p w)) \<noteq> 0"
proof (induction fd p w rule: write_loop.induct)
  case (1 fd p w)
  show ?case
  proof (cases "p = []")
    case False
    obtain r w1 where s: "run_state (sys_write fd p) w = (r, w1)" by (metis prod.exhaust)
    have up: "sock_up fd w1" "w_errno w1 \<noteq> 0"
    proof -
      have sock: "w_fds w fd = Some OSock" "calm (w_io w)" using "1.prems"(1) by (simp_all add: sock_up_def)
      have "(w_errno w1 = w_errno w \<or> w_errno w1 = EINTR) \<and> w_fds w1 = w_fds w \<and> w_nextfd w1 = w_nextfd w \<and> calm (w_io w1)"
      proof (cases "w_io w")
        case (Cons x xs)
        then show ?thesis using s sock by (cases x) (auto simp: run_sys_write Let_def)
      qed (use s sock in \<open>auto simp: run_sys_write Let_def\<close>)
      then show "w_errno w1 \<noteq> 0" "sock_up fd w1" using "1.prems" by (auto simp: sock_up_def)
    qed
    then show ?thesis
      using False s 1(1)[OF False s[symmetric]] 1(2)[OF False s[symmetric]]
      by (auto simp: write_loop.simps[of fd p w])
  qed (use 1 in \<open>simp add: write_loop.simps[of fd "[]" w]\<close>)
qed

lemma tell_errno: "sock_up fd w \<Longrightarrow> w_errno w \<noteq> 0 \<Longrightarrow> w_errno (snd (run_state (tell fd s) w)) \<noteq> 0"
proof -
  assume up: "sock_up fd w" "w_errno w \<noteq> 0"
  have wa: "w_errno (snd (run_state (write_all fd p) v)) \<noteq> 0" if "sock_up fd v" "w_errno v \<noteq> 0" for v p
    using write_loop_errno[OF that, of p] by (simp add: write_all_def case_prod_beta)
  have wu: "sock_up fd (snd (run_state (write_ushort fd n) w))" for n
    using wp_write_ushort_up[OF up(1), of n "\<lambda>_. sock_up fd"] by (simp add: wp_run)
  have we: "w_errno (snd (run_state (write_ushort fd n) w)) \<noteq> 0" for n
    using wa[OF up] by (simp add: write_ushort_def Let_def case_prod_beta)
  show ?thesis
    using up(2) wa[OF wu we] we by (simp add: tell_def write_string_def Let_def case_prod_beta)
qed

lemma told_frame:
  "w_files (snd (run_state (tell fd s) w)) = w_files w" "w_execs (snd (run_state (tell fd s) w)) = w_execs w"
  if "sock_up fd w"
  using keeps_snd[OF keeps_only_tell, of fd w s] that by (simp_all add: only_sock_def sock_up_def)

text \<open>Decoding the client's bytes changes nothing that the connection or another program sees.\<close>

lemma wp_hex_to_buf_plan:
  assumes "sock_up fd w"
  shows "wp (malloc_hex_to_buf sg h) (\<lambda>d v. (sock_up fd v \<and> w_files v = w_files w \<and> w_execs v = w_execs w) \<and>
    set (w_plan v) \<subseteq> set (w_plan w) \<and> (d = None \<longrightarrow> w_errno v \<noteq> 0)) w" (is "wp _ ?Q w")
proof -
  have "wp c_malloc (\<lambda>b. wp (if \<not> b \<or> k < 0 then fail_with ENOMEM None
      else case z of None \<Rightarrow> fail_with EINVAL None | Some output \<Rightarrow> ret (Some output)) ?Q) w" for k :: int and z :: "bytes option"
    by (rule wp_mono[OF wp_malloc_plan]) (use assms in \<open>auto simp: sock_up_def plan_step_same split: option.split\<close>)
  then show ?thesis
    unfolding malloc_hex_to_buf_def Let_def wp_bind by (simp add: assms) (use assms in \<open>simp add: sock_up_def\<close>)
qed



text \<open>
  C32: On a device without a user, when no call fails, \<open>set_name\<close> with the hexadecimal form of some
  bytes stores just these bytes as the new user's data, announces the new user and says "done.".
\<close>

theorem setname_stores:
  assumes "smooth fd w" "w_files w DUMBOS_USER_DATA_PATH = None" "w_files w DUMBOS_USER_DATA_NEW \<noteq> Some Dir"
    and "w_exits w = []" "0 \<le> w_nextfd w" "w_fds w (w_nextfd w) = None" "4 * length bs < 2 ^ 31"
    and "run_state (cmd_setname dev fd [buf_to_hex bs]) w = (r, w')"
  shows "r = 0 \<and> w_files w' = (w_files w)(DUMBOS_USER_DATA_NEW \<mapsto> Reg bs) \<and>
    w_execs w' = w_execs w @ [(''/system/bin/setprop'', [''/system/bin/setprop'', ''dumbos.newuser'', ''1''])] \<and>
    w_sout w' = w_sout w @ string_enc ''done.''"
proof -
  let ?P = DUMBOS_USER_DATA_NEW
  have c: "c_int (2 * int (length bs)) = 2 * int (length bs)" using assms(7) by (intro c_int_id) simp_all
  then have len: "c_int (int (strlen (buf_to_hex bs))) = 2 * int (length bs)" "strlen (buf_to_hex bs) div 2 = length bs"
    by (simp_all add: buf_to_hex_eq)
  have data: "run_state (malloc_hex_to_buf sg (buf_to_hex bs)) w = (Some bs, w)" for sg
    using assms(1) by (simp add: malloc_hex_to_buf_def Let_def c io_simps smooth_def hex_to_buf_loop_hex buf_to_hex_eq)
  define w1 where "w1 = w\<lparr>w_errno := ENOENT\<rparr>"
  have user: "run_state dumbos_alloc_get_user (w\<lparr>w_errno := 0\<rparr>) = (None, w1)"
    using assms(1,2) by (simp add: dumbos_alloc_get_user_def sys_open_def io_simps smooth_def w1_def)
  define w2 where "w2 = w1\<lparr>w_files := (w_files w)(?P \<mapsto> Reg []),
    w_fds := (w_fds w)(w_nextfd w \<mapsto> OFile ?P 0), w_nextfd := w_nextfd w + 1\<rparr>"
  have opened: "run_state (sys_open ?P [O_WRITE, O_CREAT, O_TRUNC]) w1 = (w_nextfd w, w2)"
    using assms(1,3) by (auto simp: sys_open_def io_simps smooth_def w1_def w2_def new_fd_def split: option.split node.split)
  define w3 where "w3 = w2\<lparr>w_files := (w_files w)(?P \<mapsto> Reg bs), w_fds := (w_fds w)(w_nextfd w \<mapsto> OFile ?P (length bs))\<rparr>"
  have written: "run_state (sys_write (w_nextfd w) bs) w2 = (int (length bs), w3)"
    using assms(1) by (simp add: run_sys_write w2_def w1_def w3_def smooth_def Let_def file_content_def)
  define w4 where "w4 = w3\<lparr>w_fds := w_fds w\<rparr>"
  have closed: "run_state (sys_close (w_nextfd w)) w3 = ((), w4)"
    using assms(6) by (simp add: w4_def w3_def fun_upd_idem)
  let ?x = "(''/system/bin/setprop'', [''/system/bin/setprop'', ''dumbos.newuser'', ''1''])"
  have set: "run_state (set_user_prop fd) w4 = (0, w4\<lparr>w_execs := w_execs w @ [?x], w_sout := w_sout w @ string_enc ''done.''\<rparr>)"
    using assms(1,4)
    by (simp add: set_user_prop_def run_execv_quiet w4_def w3_def w2_def w1_def smooth_def
        run_tell_smooth string_ok_def MAX_STRING_def)
  have "run_state (cmd_setname dev fd [buf_to_hex bs]) w =
      (0, w4\<lparr>w_execs := w_execs w @ [?x], w_sout := w_sout w @ string_enc ''done.''\<rparr>)"
    using assms(5) by (simp add: cmd_setname_def data user opened written closed[simplified] set len Let_def)
       (simp add: w1_def)
  with assms(8) show ?thesis by (auto simp: w4_def w3_def w2_def w1_def)
qed

lemma setname_stores_witness:
  "\<exists>w'. run_state (cmd_setname toy_device 5 [buf_to_hex ''joe'']) (sock_world []) = (0, w') \<and>
     w_files w' DUMBOS_USER_DATA_NEW = Some (Reg ''joe'') \<and> length (w_execs w') = 1 \<and> w_sout w' = string_enc ''done.''"
proof -
  obtain r w' where r: "run_state (cmd_setname toy_device 5 [buf_to_hex ''joe'']) (sock_world []) = (r, w')"
    by (metis prod.exhaust)
  have "smooth 5 (sock_world [])" by (simp add: smooth_def sock_world_def idle_world_def)
  from setname_stores[OF this _ _ _ _ _ _ r] r show ?thesis by (auto simp: sock_world_def idle_world_def)
qed

end
