(* ===== verification/CodeSession.thy ===== *)
theory CodeSession
  imports EndToEnd CommandProps
begin

text \<open>
  The whole way of a code: the client sends it to the daemon, the daemon fetches the payload from
  the server and runs it, the client prints what the daemon says and returns its status.
\<close>

text \<open>The network time does not depend on the phone.\<close>

lemma network_time_anywhere:
  "run_state (get_network_time lib) w = (t, w) \<Longrightarrow> 0 \<le> t \<Longrightarrow> run_state (get_network_time lib) v = (t, v)"
  by (auto simp: get_network_time_def Let_def split: if_splits)

text \<open>A server that can serve the code to the user: its key, the user's public key, the code's file.\<close>

definition server_ready :: "server \<Rightarrow> world \<Rightarrow> string \<Rightarrow> bytes \<Rightarrow> bytes \<Rightarrow> string \<Rightarrow> bytes \<Rightarrow> bool" where
  "server_ready sv sw user upub priv scode bs \<longleftrightarrow> quiet sw \<and> 0 \<le> w_nextfd sw \<and>
     sv_privkey sv = hex_of (\<lambda>n. hex_lower ! n) priv \<and>
     w_files sw (pubkey_path user) = Some (Reg (hex_of (\<lambda>n. hex_lower ! n) upub)) \<and>
     w_files sw (user_code_path user scode) = None \<and> w_files sw (code_path scode) = Some (Reg bs) \<and>
     dp_validate_size (dp_of_bytes bs) (length bs) \<and> 168 \<le> length bs \<and> length bs < 2 ^ 31"

text \<open>A code and a user that the server accepts and the phone can handle.\<close>

definition code_fits :: "device \<Rightarrow> string \<Rightarrow> string \<Rightarrow> bool" where
  "code_fits dev user scode \<longleftrightarrow> nul_free scode \<and> scode \<noteq> [] \<and> user \<noteq> [] \<and> length scode + length user < 4000 \<and>
     length (dv_tmpdir dev) + 1 + length scode \<le> PATH_MAX \<and>
     check_allowed_chars scode SECRET_CODE_ALLOWED_CHARS \<and> check_allowed_chars user DUMBOS_USER_ALLOWED_CHARS"

text \<open>The daemon's end of the session, from the last call of the command on.\<close>

lemma handler_tail:
  assumes "sock_up fd v" "run_state (do { tell fd []; write_ushort fd (r mod 65536); ret r }) v = (r', w')"
  shows "r' = r \<and> w_sout w' = w_sout v @ string_enc [] @ be16 (nat (r mod 65536)) \<and>
    w_files w' = w_files v \<and> w_execs w' = w_execs v \<and> w_db w' = w_db v"
proof -
  have "wp (do { tell fd []; write_ushort fd (r mod 65536); ret r })
      (\<lambda>r' w'. r' = r \<and> w_sout w' = w_sout v @ string_enc [] @ be16 (nat (r mod 65536))) v"
    unfolding wp_bind
    by (rule wp_tell_up[OF assms(1) string_ok_Nil], rule wp_write_ushort_up) simp_all
  moreover have "keeps (only_sock fd) (do { tell fd []; write_ushort fd (r mod 65536); ret r })"
    unfolding write_ushort_def by (intro keeps_intros)
  ultimately show ?thesis
    using wpD[OF _ assms(2)] keepsD[OF _ assms(2)] assms(1) by (fastforce simp: only_sock_def sock_up_def)
qed

text \<open>
  C5: A user enters a code in the client.  The daemon on the phone holds the user's key and the
  server's public key, the server has the code, the connections work and nothing fails on the way to
  the command.  Then the daemon runs exactly the command in the server's file of the code, once and
  on its data, with the files, programs and settings it had; and the client, if no message is
  empty, prints that the code is downloaded and loaded, the name of the command and the command's own
  messages, and returns the command's status modulo 65536.
\<close>

theorem code_session_end_to_end:
  assumes "phone_ready dev w fd user upriv" "sock_up fd w" "copy_talks dev fd" "conn fc wc"
    and "key_pair (sv_crypto sv) upub upriv" "key_pair (sv_crypto sv) pub priv"
    and "dv_crypto dev = sv_crypto sv" "dv_pubkey dev = hex_of (\<lambda>n. hex_lower ! n) pub"
    and "online (dv_curl dev) sv sw (dv_server_code dev) parse" "splits_arguments parse"
    and "starts_with_http_scheme (dv_server_code dev)" "CHR ''?'' \<notin> set (dv_server_code dev)"
    and "run_state (get_network_time (dv_curl dev)) w = (t, w)" "0 \<le> t" "t \<le> w_now sw" "w_now sw \<le> t + 60" "w_now sw < 10 ^ 14"
    and "code_fits dev user scode" "server_ready sv sw user upub priv scode bs"
    and "request_id_generate (dv_signed_char dev) (dv_random dev) = Some rid" "w_files sw (request_path user rid) = None"
    and "run_state (dp_is_expired (dp_of_bytes bs)) sw = ((False, p), sw')"
    and "cmd = payload_command (dp_of_bytes bs)" "data = dp_payload (dp_of_bytes bs)"
    and "w_sin w = client_request [''code'', scode]" "run_state (handler dev fd) w = (r, w')"
    and "w_sin wc = drop (length (w_sout w)) (w_sout w')"
    and "run_state (client_session [''code'', scode] fc) wc = ((s, printed), wc')"
  shows "\<exists>v v' ms. run_state (payload_dispatch dev fd cmd data (length data) (\<lambda>q m. handle_one_payload dev fd q t m)) v = (r, v') \<and>
    w_files v = w_files w \<and> w_execs v = w_execs w \<and> w_exits v = w_exits w \<and> w_db v = w_db w \<and> smooth fd v \<and>
    w_files w' = w_files v' \<and> w_execs w' = w_execs v' \<and> w_db w' = w_db v' \<and>
    w_sout v' = w_sout v @ concat (map string_enc ms) \<and>
    (cmd \<noteq> [] \<and> [] \<notin> set ms \<longrightarrow>
      s = r mod 65536 \<and> printed = [''downloading...'', ''loading...'', ''command is'', cmd] @ ms)"
proof -
  have sm: "smooth fd w" using assms(1) by (simp add: phone_ready_def)
  have fits: "nul_free scode" "scode \<noteq> []" "length scode < MAX_STRING"
    using assms(18) by (simp_all add: code_fits_def MAX_STRING_def)
  have argv: "list_all string_ok [''code'', scode]" using fits by (simp add: string_ok_def MAX_STRING_def)
  let ?u = "w\<lparr>w_sout := w_sout w @ be16 0, w_sin := []\<rparr>"
  let ?h = "\<lambda>q m. handle_one_payload dev fd q t m"
  have n: "length bs = length data + sizeof_payload"
    using assms(19,24) dp_bytes_of_bytes[of bs] length_dp_bytes[of "dp_of_bytes bs"] by (auto simp: server_ready_def dp_sizes)
  define v where "v = ?u\<lparr>w_nextfd := w_nextfd ?u + 1, w_errno := 0, w_fds := (w_fds ?u)(w_nextfd ?u := None),
      w_sout := w_sout ?u @ string_enc ''downloading...'' @ string_enc ''loading...'' @ string_enc ''command is'' @ string_enc cmd\<rparr>"
  have "run_state (secret_code dev [scode] fd) ?u = run_state (payload_dispatch dev fd cmd data (length data) ?h) v"
    unfolding v_def assms(24)
    by (rule run_code_online[where sv = sv and sw = sw and user = user and upub = upub and upriv = upriv and pub = pub
          and priv = priv and parse = parse and rid = rid and bs = bs and p = p and sw' = sw'])
       (use assms n network_time_anywhere[OF assms(13,14)] in
         \<open>simp_all add: phone_ready_def code_fits_def server_ready_def\<close>)
  obtain q v' where d: "run_state (payload_dispatch dev fd cmd data (length data) ?h) v = (q, v')" by (metis prod.exhaust)
  have up: "sock_up fd v" and smv: "smooth fd v"
    using assms(2) sm by (auto simp: v_def sock_up_def smooth_def)
  have "keeps (talk fd) (payload_dispatch dev fd cmd data (length data) ?h)"
    by (intro keeps_talk_dispatch keeps_talk_handle assms(3))
  from keepsD[OF this d] up obtain ms where
    ms: "sock_up fd v'" "list_all string_ok ms" "w_sout v' = w_sout v @ concat (map string_enc ms)" by (auto simp: talk_def)
  have "run_state (handler dev fd) w = run_state (do { tell fd []; write_ushort fd (q mod 65536); ret q }) v'"
    by (rule run_handler_prefix[OF sm argv, where rest = "[]"])
       (use assms(25) \<open>run_state (secret_code _ _ _) _ = _\<close> d in \<open>simp_all add: do_command_def MAX_ARGS_def\<close>)
  with handler_tail[OF ms(1)] assms(26)
  have tail: "r = q" "w_sout w' = w_sout v' @ string_enc [] @ be16 (nat (q mod 65536))"
    "w_files w' = w_files v'" "w_execs w' = w_execs v'" "w_db w' = w_db v'" by auto
  let ?ms = "[''downloading...'', ''loading...'', ''command is'', cmd] @ ms"
  have "nul_free cmd \<and> length cmd < 16"
    unfolding assms(23) by (rule payload_command_short) (use assms(19) dp_bytes_of_bytes[of bs] in \<open>simp add: server_ready_def\<close>)
  then have ok: "list_all string_ok ?ms" using ms(2) by (simp add: string_ok_def MAX_STRING_def)
  have "w_sin wc = daemon_reply ?ms r" using assms(27) tail(1,2) ms(3) by (simp add: v_def daemon_reply_def)
  from wpD[OF wp_client_reply[OF assms(4) argv _ this ok] assms(28)]
  have "[] \<notin> set ?ms \<longrightarrow> s = r mod 65536 \<and> printed = ?ms" by simp
  then show ?thesis
    using d tail ms(3) smv by (intro exI[of _ v] exI[of _ v'] exI[of _ ms]) (auto simp: v_def)
qed

text \<open>The phone's daemon with the client's request on its connection.\<close>

definition asked :: "user_data \<Rightarrow> world" where
  "asked d = (phone_world d)\<lparr>w_sin := client_request [''code'', ''x1'']\<rparr>"

lemma asked_fields:
  "w_sin (asked d) = client_request [''code'', ''x1'']" "w_sout (asked d) = []" "w_execs (asked d) = []" "w_exits (asked d) = []" "sock_up 5 (asked d)"
  by (auto simp: asked_def phone_world_def sock_world_def sock_up_def idle_world_def)

lemma asked_is_ready:
  assumes "dumbos_alloc_new_user ''joe'' zero_key = Inr d"
  shows "phone_ready phone (asked d) 5 ''joe'' (zeros 32)"
  using phone_is_ready[OF assms] by (simp add: phone_ready_def asked_def smooth_def)

lemma phone_copy_talks: "copy_talks phone 5"
  using toy_copy_talks by (simp add: copy_talks_def phone_def)

lemma wifi_server_ready:
  "server_ready toy_server wifi_world ''joe'' (zeros 32) (zeros 32) ''x1'' (dp_bytes (toy_payload ''wifi-enable'' []))"
  using toy_payload_fields[of "''wifi-enable''" "[]"] wifi_files(1,3,4)
  by (simp add: server_ready_def dp_of_bytes_bytes length_dp_bytes dp_sizes dp_validate_size_iff of_be_be32 toy_server_def
      zero_key_def wifi_world_def quiet_def del: quietD)

lemma wifi_dispatch:
  assumes "smooth fd v" "w_exits v = []"
  shows "\<exists>v'. run_state (payload_dispatch dev fd ''wifi-enable'' [] 0 h) v = (0, v') \<and>
    w_execs v' = w_execs v @ [(''/system/bin/start'', [''/system/bin/start'', ''wificond''])] \<and> w_sout v' = w_sout v"
  using assms
  by (auto simp: payload_dispatch_def payload_cmd_set_wifi_enabled_def set_wifi_enabled_def smooth_def
      run_execv_quiet status_or_errno_def)

lemma code_session_end_to_end_witness:
  "\<exists>d w' wc'. dumbos_alloc_new_user ''joe'' zero_key = Inr d \<and>
     run_state (handler phone 5) (asked d) = (0, w') \<and>
     w_execs w' = [(''/system/bin/start'', [''/system/bin/start'', ''wificond''])] \<and>
     run_state (client_session [''code'', ''x1''] 5) (sock_world (w_sout w')) =
       ((0, [''downloading...'', ''loading...'', ''command is'', ''wifi-enable'']), wc')"
proof -
  let ?p = "toy_payload ''wifi-enable'' []"
  obtain d where d: "dumbos_alloc_new_user ''joe'' zero_key = Inr d" using blank_user by blast
  obtain rid where rid: "request_id_generate (dv_signed_char phone) (dv_random phone) = Some rid"
    by (auto simp: request_id_generate_def REQUEST_ID_LEN_def phone_fields)
  note f = toy_payload_fields[of "''wifi-enable''" "[]", simplified]
  have b: "dp_of_bytes (dp_bytes ?p) = ?p" using f(1,5) by (simp add: dp_of_bytes_bytes)
  have e: "run_state (dp_is_expired ?p) wifi_world = ((False, ?p), wifi_world)"
    by (simp add: dp_is_expired_def dp_get_expire_or_set_def f(2) Let_def)
  have kp: "key_pair toy_crypto (zeros 32) (zeros 32)" by (rule toy_key_pair) simp
  obtain r w' where r: "run_state (handler phone 5) (asked d) = (r, w')" by (metis prod.exhaust)
  obtain s printed wc' where c: "run_state (client_session [''code'', ''x1''] 5) (sock_world (w_sout w')) = ((s, printed), wc')"
    by (metis prod.exhaust)
  obtain v v' ms where v:
    "run_state (payload_dispatch phone 5 ''wifi-enable'' [] 0 (\<lambda>q m. handle_one_payload phone 5 q 990 m)) v = (r, v')"
    "w_execs v = []" "w_exits v = []" "smooth 5 v" "w_execs w' = w_execs v'" "w_sout v' = w_sout v @ concat (map string_enc ms)"
    "[] \<notin> set ms \<Longrightarrow> s = r mod 65536 \<and> printed = [''downloading...'', ''loading...'', ''command is'', ''wifi-enable''] @ ms"
    using code_session_end_to_end[where sv = toy_server and sw = wifi_world and parse = url_arguments and bs = "dp_bytes ?p" and p = ?p
        and sw' = wifi_world and pub = "zeros 32" and priv = "zeros 32" and upub = "zeros 32" and t = 990 and scode = "''x1''"
        and cmd = "''wifi-enable''" and data = "[]",
        OF asked_is_ready[OF d] asked_fields(5) phone_copy_talks conn_sock_world _ _ _ _ _ splits_url_arguments
          _ _ _ _ _ _ _ _ wifi_server_ready rid _ _ _ _ _ r _ c]
      kp b e f(3,5) toy_request_facts(3,4) wifi_files(2)
    by (auto simp: phone_fields online_web_lib time_web_lib toy_server_def zero_key_def starts_with_http_scheme_def has_prefix_def
        asked_fields code_fits_def wifi_world_def idle_world_def)
  from wifi_dispatch[OF v(4,3), of phone "\<lambda>q m. handle_one_payload phone 5 q 990 m"] v(1,2,6)
  have "r = 0" "w_execs v' = [(''/system/bin/start'', [''/system/bin/start'', ''wificond''])]" "concat (map string_enc ms) = []"
    by auto
  moreover then have "ms = []" by (cases ms) (auto simp: string_enc_def be16_def)
  ultimately show ?thesis using d r c v(5,7) by auto
qed

end
