(* ===== verification/ToolSet.thy ===== *)
theory ToolSet
  imports Payload RequestId
begin

text \<open>
  \<open>server/src/dumb-tool-cmd-set.c\<close>: the tool that writes a command and its data into a code's
  file.  The global \<open>path\<close> of that file is the first argument everywhere; the result is the
  exit status.  \<open>fwrite\<close> delivers what one write call takes, \<open>fread\<close> repeats reads until it has
  everything, an error or the end of the file.
\<close>

definition APK_PACKAGE_ID_ALLOWED_CHARS :: string where
  "APK_PACKAGE_ID_ALLOWED_CHARS = ''qwertyuiopasdfghjklzxcvbnmQWERTYUIOPASDFGHJKLZXCVBNM._''"


section \<open>Standard I/O\<close>

definition c_fwrite :: "int \<Rightarrow> bytes \<Rightarrow> nat io" where
  "c_fwrite fd bs = do { n \<leftarrow> sys_write fd bs; ret (nat n) }"

function fread_loop :: "int \<Rightarrow> nat \<Rightarrow> bytes \<Rightarrow> world \<Rightarrow> (bytes \<times> stream_end) \<times> world" where
  "fread_loop fd n acc w =
     (if n = 0 then ((acc, At_data), w)
      else case run_state (sys_read fd n) w of ((r, bs), w') \<Rightarrow>
        if r < 0 then ((acc, At_error (w_errno w')), w')
        else if r = 0 then ((acc, At_eof), w')
        else fread_loop fd (n - nat r) (acc @ bs) w')"
  by pat_completeness auto
termination by (relation "measure (\<lambda>(fd, n, acc, w). n)") auto

declare fread_loop.simps [simp del]

definition c_fread_fd :: "int \<Rightarrow> nat \<Rightarrow> (bytes \<times> stream_end) io" where
  "c_fread_fd fd n = State (fread_loop fd n [])"

definition read_entire_file :: "string \<Rightarrow> bytes option io" where
  "read_entire_file filename = do {
     fp \<leftarrow> sys_open filename [];
     if fp < 0 then ret None
     else do {
       st \<leftarrow> sys_fstat fp;
       case st of
         None \<Rightarrow> do { sys_close fp; ret None }
       | Some (_, sz) \<Rightarrow> do {
           ok \<leftarrow> c_malloc;
           if \<not> ok then do { sys_close fp; ret None }
           else do {
             (buffer, e) \<leftarrow> c_fread_fd fp sz;
             if length buffer < sz \<and> e \<noteq> At_eof then do {
               err \<leftarrow> get_errno;
               (if err = 0 then set_errno EIO else ret ());
               sys_close fp;
               ret None }
             else do { sys_close fp; ret (Some buffer) } } } } }"


section \<open>Commands without data\<close>

definition write_to_disk :: "string \<Rightarrow> dumb_payload \<Rightarrow> nat \<Rightarrow> int io" where
  "write_to_disk path payload sz = do {
     dest \<leftarrow> sys_open path [O_WRITE, O_CREAT, O_TRUNC];
     if dest < 0 then get_errno
     else do {
       set_errno 0;
       written \<leftarrow> c_fwrite dest (take sz (dp_bytes payload));
       if written \<noteq> sz then do { err \<leftarrow> get_errno; sys_close dest; set_errno err; ret err }
       else do { sys_close dest; set_errno 0; ret 0 } } }"

definition load_or_print_error :: "string \<Rightarrow> bytes option io" where
  "load_or_print_error path = dp_malloc_load path"

definition set_command :: "string \<Rightarrow> dumb_payload \<Rightarrow> dumb_payload" where
  "set_command cmd p = p\<lparr>dp_command := strncpy_field cmd COMMAND_SIZE\<rparr>"

definition print_command :: "string \<Rightarrow> dumb_payload \<Rightarrow> dumb_payload" where
  "print_command cmd p = p\<lparr>dp_command := snprintf_field (dp_command p) COMMAND_SIZE cmd\<rparr>"

definition write_cmd_wrapper :: "string \<Rightarrow> string list \<Rightarrow> int io" where
  "write_cmd_wrapper path argv =
     (if length argv \<noteq> 1 then ret EINVAL
      else do {
        r \<leftarrow> load_or_print_error path;
        case r of
          None \<Rightarrow> get_errno
        | Some bs \<Rightarrow> do {
            write_to_disk path (set_command (hd argv) (dp_of_bytes bs)) sizeof_payload;
            get_errno } })"


section \<open>Commands with data\<close>

text \<open>
  The copy loop, one round per chunk.  A round that is not the last reads \<open>write_size\<close> bytes, so
  the number of bytes of the file bounds the rounds.
\<close>

fun copy_data :: "nat \<Rightarrow> int \<Rightarrow> int \<Rightarrow> int io" where
  "copy_data 0 data_file dest = ret EIO"
| "copy_data (Suc fuel) data_file dest = do {
     (buf, e) \<leftarrow> c_fread_fd data_file 4096;
     if e \<noteq> At_data \<and> e \<noteq> At_eof then do { sys_close dest; sys_close data_file; ret EIO }
     else do {
       c_fwrite dest buf;
       if e = At_eof then do { sys_close dest; sys_close data_file; ret 0 }
       else copy_data fuel data_file dest } }"

definition cmd_installthis :: "string \<Rightarrow> string list \<Rightarrow> int io" where
  "cmd_installthis path argv =
     (if length argv \<noteq> 2 then ret EINVAL
      else do {
        r \<leftarrow> load_or_print_error path;
        case r of
          None \<Rightarrow> get_errno
        | Some bs \<Rightarrow> do {
            let payload = set_command ''install-this'' (dp_of_bytes bs);
            data_file \<leftarrow> sys_open (argv ! 1) [];
            if data_file < 0 then get_errno
            else do {
              fuel \<leftarrow> gets (\<lambda>w. Suc (length (file_content w (argv ! 1))));
              dest \<leftarrow> sys_open path [O_WRITE, O_CREAT, O_TRUNC];
              if dest < 0 then do { err \<leftarrow> get_errno; sys_close data_file; ret err }
              else do {
                set_errno 0;
                written \<leftarrow> c_fwrite dest (take sizeof_payload (dp_bytes payload));
                if written \<noteq> sizeof_payload then do {
                  err \<leftarrow> get_errno; sys_close dest; sys_close data_file; ret err }
                else do {
                  buf \<leftarrow> c_malloc;
                  if \<not> buf then do { err \<leftarrow> get_errno; sys_close dest; sys_close data_file; ret err }
                  else copy_data fuel data_file dest } } } } })"

definition cmd_installpath :: "string \<Rightarrow> string list \<Rightarrow> int io" where
  "cmd_installpath path argv =
     (if length argv \<noteq> 3 then ret EINVAL
      else if strlen (argv ! 2) \<noteq> 64 then ret EINVAL
      else do {
        r \<leftarrow> load_or_print_error path;
        case r of
          None \<Rightarrow> get_errno
        | Some bs \<Rightarrow> do {
            let payload = set_command ''install-path'' (dp_of_bytes bs);
            let d = cstr (argv ! 1) @ [NUL] @ cstr (argv ! 2) @ [NUL];
            ok \<leftarrow> c_malloc;
            if \<not> ok then get_errno
            else do {
              write_to_disk path (payload\<lparr>dp_payload := d\<rparr>) (sizeof_payload + length d);
              get_errno } } })"

fun write_strings :: "int \<Rightarrow> string list \<Rightarrow> int io" where
  "write_strings dest [] = do { sys_close dest; ret 0 }"
| "write_strings dest (s # ss) = do {
     set_errno 0;
     n \<leftarrow> c_fwrite dest (cstr s @ [NUL]);
     if n \<noteq> strlen s + 1 then do { err \<leftarrow> get_errno; sys_close dest; ret err }
     else write_strings dest ss }"

definition cmd_firewall :: "string \<Rightarrow> string list \<Rightarrow> int io" where
  "cmd_firewall path argv =
     (if length argv < 2 then ret EINVAL
      else do {
        r \<leftarrow> load_or_print_error path;
        case r of
          None \<Rightarrow> get_errno
        | Some bs \<Rightarrow> do {
            let payload = print_command (hd argv) (dp_of_bytes bs);
            dest \<leftarrow> sys_open path [O_WRITE, O_CREAT, O_TRUNC];
            if dest < 0 then get_errno
            else do {
              set_errno 0;
              n \<leftarrow> c_fwrite dest (take sizeof_payload (dp_bytes payload));
              if n \<noteq> sizeof_payload then do { err \<leftarrow> get_errno; sys_close dest; ret err }
              else write_strings dest (tl argv) } } })"

text \<open>The payloads of a composite one: each as its size and its bytes.\<close>

fun write_payloads :: "int \<Rightarrow> string list \<Rightarrow> int io" where
  "write_payloads destfile [] = do { sys_close destfile; ret 0 }"
| "write_payloads destfile (f # fs) = do {
     r \<leftarrow> read_entire_file f;
     case r of
       None \<Rightarrow> do { err \<leftarrow> get_errno; sys_close destfile; ret err }
     | Some next_payload \<Rightarrow>
         if LLONG_MAX < int (length next_payload) then do { sys_close destfile; ret EOVERFLOW }
         else do {
           n \<leftarrow> c_fwrite destfile (be32 (length next_payload));
           if n \<noteq> 4 then do { err \<leftarrow> get_errno; sys_close destfile; ret err }
           else do {
             n \<leftarrow> c_fwrite destfile next_payload;
             if n \<noteq> length next_payload then do { err \<leftarrow> get_errno; sys_close destfile; ret err }
             else write_payloads destfile fs } } }"

definition cmd_composite :: "string \<Rightarrow> string list \<Rightarrow> int io" where
  "cmd_composite path argv =
     (if length argv < 2 then ret EINVAL
      else do {
        r \<leftarrow> load_or_print_error path;
        case r of
          None \<Rightarrow> get_errno
        | Some bs \<Rightarrow> do {
            let payload = print_command (hd argv) (dp_of_bytes bs);
            destfile \<leftarrow> sys_open path [O_WRITE, O_CREAT, O_TRUNC];
            if destfile < 0 then get_errno
            else do {
              n \<leftarrow> c_fwrite destfile (take sizeof_payload (dp_bytes payload));
              if n \<noteq> sizeof_payload then do { err \<leftarrow> get_errno; sys_close destfile; ret err }
              else do {
                n \<leftarrow> c_fwrite destfile (be16 (length argv - 1));
                if n \<noteq> 2 then do { err \<leftarrow> get_errno; sys_close destfile; ret err }
                else write_payloads destfile (tl argv) } } } })"

definition cmd_command_set :: "string \<Rightarrow> string list \<Rightarrow> int io" where
  "cmd_command_set path argv =
     (if argv = [] then ret EINVAL
      else let cmd = hd argv in
        if cmd = ''ok'' then write_cmd_wrapper path argv
        else if cmd = ''install-this'' then cmd_installthis path argv
        else if cmd = ''install-path'' then cmd_installpath path argv
        else if cmd = ''import-files'' \<or> cmd = ''export-files'' then write_cmd_wrapper path argv
        else if cmd = ''adb-enable'' \<or> cmd = ''adb-disable'' then write_cmd_wrapper path argv
        else if cmd = ''wifi-enable'' \<or> cmd = ''wifi-disable'' then write_cmd_wrapper path argv
        else if cmd = ''oem-lock'' \<or> cmd = ''oem-unlock'' then write_cmd_wrapper path argv
        else if cmd = ''fw-flush'' then write_cmd_wrapper path argv
        else if cmd = ''fw-allow'' \<or> cmd = ''fw-deny'' \<or> cmd = ''fw-tmp-add'' then cmd_firewall path argv
        else if cmd = ''composite'' then cmd_composite path argv
        else ret EINVAL)"

end
