(* ===== verification/Tool.thy ===== *)
theory Tool
  imports ToolSet Device Server
begin

text \<open>
  \<open>server/src/dumb-main.c\<close>: the tool that makes keys, users and payload files.  Results are exit
  statuses, with the bytes on standard output where a command prints file contents; help texts and
  other messages are dropped, and aborting is status 134.  The padding bytes of a new payload are
  taken to be zero.
\<close>

definition verify_payload :: "crypto \<Rightarrow> string \<Rightarrow> string \<Rightarrow> int io" where
  "verify_payload c path key = do {
     r \<leftarrow> dp_malloc_load path;
     case r of
       None \<Rightarrow> get_errno
     | Some bs \<Rightarrow> do {
         (v, payload) \<leftarrow> dp_verify c (dp_of_bytes bs) (length bs) key;
         ret (if v < 0 then EACCES else 0) } }"

text \<open>A string initialiser of an array, and the newline that marks the field's end.\<close>

definition init_field :: "string \<Rightarrow> nat \<Rightarrow> bytes" where
  "init_field s n = (s @ zeros (n - length s))[n - 1 := CHR 0x0A]"

definition fresh_payload :: dumb_payload where
  "fresh_payload = \<lparr>dp_signature = init_field ''signature here (dont touch)'' 129,
     dp_expire = init_field ''expire here'' 16, dp_command = init_field ''cmd here'' 16,
     dp_pad = zeros 3, dp_data_size = zeros 4, dp_payload = []\<rparr>"

text \<open>Writing all bytes to a descriptor, closing it and reporting the error.\<close>

definition write_and_close :: "int \<Rightarrow> bytes \<Rightarrow> int io" where
  "write_and_close fd bs = do {
     err \<leftarrow> write_all fd bs;
     if err < 0 then do { e \<leftarrow> get_errno; sys_close fd; ret e }
     else do { sys_close fd; ret 0 } }"

definition new_payload :: "string \<Rightarrow> int io" where
  "new_payload path = do {
     ok \<leftarrow> c_malloc;
     if \<not> ok then ret 134
     else do {
       fd \<leftarrow> sys_open path [O_CREAT, O_WRITE];
       if fd < 0 then get_errno
       else write_and_close fd (dp_bytes fresh_payload) } }"

definition cmd_sign :: "crypto \<Rightarrow> string \<Rightarrow> string \<Rightarrow> int io" where
  "cmd_sign c path priv_key_hex = do {
     r \<leftarrow> dp_malloc_load path;
     case r of
       None \<Rightarrow> get_errno
     | Some bs \<Rightarrow> do {
         (s, payload) \<leftarrow> dp_sign c (dp_of_bytes bs) (length bs) priv_key_hex;
         if s \<noteq> 0 then get_errno
         else do {
           fd \<leftarrow> sys_open path [O_WRITE];
           if fd < 0 then get_errno
           else write_and_close fd (take (length bs) (dp_bytes payload)) } } }"

definition get_or_set_expire :: "string \<Rightarrow> string option \<Rightarrow> int io" where
  "get_or_set_expire path expire = do {
     r \<leftarrow> dp_malloc_load path;
     case r of
       None \<Rightarrow> get_errno
     | Some bs \<Rightarrow> (let payload = dp_of_bytes bs in
         case expire of
           None \<Rightarrow> do {
             (e, payload) \<leftarrow> dp_get_expire_or_set payload;
             t \<leftarrow> c_time;
             (b, payload) \<leftarrow> dp_is_expired payload;
             ret 0 }
         | Some s \<Rightarrow>
             if EXPIRE_SIZE - 1 < strlen s then ret E2BIG
             else do {
               let payload = payload\<lparr>dp_expire := snprintf_field (zeros EXPIRE_SIZE) EXPIRE_SIZE s\<rparr>;
               fd \<leftarrow> sys_open path [O_WRITE];
               if fd < 0 then get_errno
               else write_and_close fd (take (length bs) (dp_bytes payload)) }) }"

text \<open>
  \<open>generate_key\<close> ignores whether generating succeeded; then the two buffers hold what was on the
  stack (\<open>junk\<close>).
\<close>

definition PUBKEY_HEADER :: string where "PUBKEY_HEADER = ''key_public.h''"
definition PRIVKEY_HEADER :: string where "PRIVKEY_HEADER = ''key_private.h''"

definition key_header :: "string \<Rightarrow> string \<Rightarrow> string \<Rightarrow> string" where
  "key_header guard name key = ''#ifndef '' @ guard @ CHR 0x0A # ''#define '' @ guard @ CHR 0x0A #
     ''static const char '' @ name @ ''[] =\"'' @ key @ ''\";'' @ CHR 0x0A # ''#endif''"

definition print_key :: "int \<Rightarrow> int \<Rightarrow> int \<Rightarrow> string \<Rightarrow> int io \<Rightarrow> int io" where
  "print_key dest pubkey_file privkey_file txt next = do {
     ok \<leftarrow> fallible;
     if \<not> ok then do { err \<leftarrow> get_errno; sys_close pubkey_file; sys_close privkey_file; ret err }
     else do {
       set_errno 0;
       n \<leftarrow> c_fwrite dest txt;
       if n \<noteq> length txt then do { err \<leftarrow> get_errno; sys_close pubkey_file; sys_close privkey_file; ret err }
       else next } }"

definition generate_key :: "crypto \<Rightarrow> string \<times> string \<Rightarrow> int io" where
  "generate_key c junk = do {
     r \<leftarrow> ed25519_generate_keypair_hex c;
     let (publickey, privatekey) = (case r of None \<Rightarrow> junk | Some k \<Rightarrow> k);
     pubkey_file \<leftarrow> sys_open PUBKEY_HEADER [O_WRITE, O_CREAT, O_TRUNC];
     privkey_file \<leftarrow> sys_open PRIVKEY_HEADER [O_WRITE, O_CREAT, O_TRUNC];
     if pubkey_file < 0 \<or> privkey_file < 0 then do {
       err \<leftarrow> get_errno;
       (if pubkey_file < 0 then ret () else sys_close pubkey_file);
       (if privkey_file < 0 then ret () else sys_close privkey_file);
       ret err }
     else print_key pubkey_file pubkey_file privkey_file
            (key_header ''_PUBKEY_HEADER_H'' ''_ed25519_public_key_hex'' (cstr publickey))
            (print_key privkey_file pubkey_file privkey_file
              (key_header ''_PRIVKEY_HEADER_H'' ''_ed25519_private_key_hex'' (cstr privatekey))
              (do { sys_close pubkey_file; sys_close privkey_file; ret 0 })) }"

text \<open>
  A command that is too long is reported but still copied with \<open>strcpy\<close>: the bytes behind the
  field are overwritten.  What it overwrites behind the whole payload is not modelled.
\<close>

definition strcpy_at :: "nat \<Rightarrow> string \<Rightarrow> bytes \<Rightarrow> bytes" where
  "strcpy_at off s bs = take off bs @ cstr s @ [NUL] @ drop (off + strlen s + 1) bs"

definition command_offset :: nat where
  "command_offset = ED25519_SIGNATURE_HEX_SIZE + EXPIRE_SIZE"

definition cmd_command_set_raw :: "string \<Rightarrow> string \<Rightarrow> int io" where
  "cmd_command_set_raw path command = do {
     r \<leftarrow> dp_malloc_load path;
     case r of
       None \<Rightarrow> get_errno
     | Some bs \<Rightarrow> do {
         let payload = take (length bs) (strcpy_at command_offset command bs);
         fd \<leftarrow> sys_open path [O_WRITE];
         if fd < 0 then get_errno
         else write_and_close fd payload } }"

definition cmd_get_command :: "string \<Rightarrow> (int \<times> bytes) io" where
  "cmd_get_command path = do {
     r \<leftarrow> dp_malloc_load path;
     case r of
       None \<Rightarrow> do { e \<leftarrow> get_errno; ret (e, []) }
     | Some bs \<Rightarrow> ret (0, cstr (drop command_offset bs) @ [CHR 0x0A]) }"

definition cmd_dump_data :: "string \<Rightarrow> (int \<times> bytes) io" where
  "cmd_dump_data path = do {
     r \<leftarrow> dp_malloc_load path;
     case r of
       None \<Rightarrow> do { e \<leftarrow> get_errno; ret (e, []) }
     | Some bs \<Rightarrow> ret (0, dp_payload (dp_of_bytes bs)) }"

text \<open>The copy loop of \<open>data-set\<close>: it goes on while a whole chunk was written.\<close>

fun copy_chunks :: "nat \<Rightarrow> int \<Rightarrow> int \<Rightarrow> unit io" where
  "copy_chunks 0 src dest = ret ()"
| "copy_chunks (Suc fuel) src dest = do {
     (buf, e) \<leftarrow> c_fread_fd src 4096;
     written \<leftarrow> c_fwrite dest buf;
     if written = 4096 then copy_chunks fuel src dest else ret () }"

definition cmd_set_data :: "string \<Rightarrow> string \<Rightarrow> int io" where
  "cmd_set_data path data_path = do {
     r \<leftarrow> dp_malloc_load path;
     case r of
       None \<Rightarrow> get_errno
     | Some bs \<Rightarrow> do {
         src \<leftarrow> sys_open data_path [];
         if src < 0 then get_errno
         else do {
           fuel \<leftarrow> gets (\<lambda>w. Suc (length (file_content w data_path)));
           dest \<leftarrow> sys_open path [O_WRITE, O_CREAT, O_TRUNC];
           if dest < 0 then do { err \<leftarrow> get_errno; sys_close src; ret err }
           else do {
             c_fwrite dest (take sizeof_payload (dp_bytes (dp_of_bytes bs)));
             copy_chunks fuel src dest;
             sys_close dest;
             sys_close src;
             ret 0 } } } }"

definition write_blob :: "string \<Rightarrow> user_data \<Rightarrow> int io" where
  "write_blob user_blob_path new_user = do {
     fd \<leftarrow> sys_open user_blob_path [O_WRITE, O_CREAT, O_TRUNC];
     if fd < 0 then get_errno
     else do {
       set_errno 0;
       n \<leftarrow> c_fwrite fd (ud_bytes new_user);
       if n \<noteq> sizeof_user_data then do { err \<leftarrow> get_errno; sys_close fd; ret err }
       else do { sys_close fd; ret 0 } } }"

text \<open>When the public key's file cannot be opened, \<open>new-user\<close> exits with status 0.\<close>

definition cmd_new_user :: "crypto \<Rightarrow> string \<Rightarrow> int io" where
  "cmd_new_user c raw_path = do {
     k \<leftarrow> ed25519_generate_keypair_hex c;
     case k of
       None \<Rightarrow> get_errno
     | Some (pubkey, privkey) \<Rightarrow> (
         case dumbos_alloc_new_user raw_path privkey of
           Inl e \<Rightarrow> do { set_errno e; ret e }
         | Inr new_user \<Rightarrow> do {
             m \<leftarrow> sys_mkdir raw_path;
             if m < 0 then get_errno
             else do {
               ok \<leftarrow> fallible;
               if \<not> ok then get_errno
               else do {
                 fd \<leftarrow> sys_open (raw_path @ ''/'' @ SERVER_USER_PUBKEY_FILE) [O_WRITE, O_CREAT, O_TRUNC];
                 if fd < 0 then ret 0
                 else do {
                   n \<leftarrow> c_fwrite fd (take (ED25519_PUBLIC_KEY_HEX_SIZE - 1) pubkey);
                   if n \<noteq> ED25519_PUBLIC_KEY_HEX_SIZE - 1 then do { err \<leftarrow> get_errno; sys_close fd; ret err }
                   else do {
                     sys_close fd;
                     ok \<leftarrow> fallible;
                     if \<not> ok then get_errno
                     else write_blob (raw_path @ ''.blob'') new_user } } } } }) }"


section \<open>The command line\<close>

definition tool_path :: "string \<Rightarrow> string" where
  "tool_path name = take (PATH_MAX - 2) (CODE_FILE_PREFIX @ name)"

text \<open>A command that prints nothing.\<close>

definition silent :: "int io \<Rightarrow> (int \<times> bytes) io" where
  "silent m = do { r \<leftarrow> m; ret (r, []) }"

definition tool_main :: "crypto \<Rightarrow> string \<times> string \<Rightarrow> string list \<Rightarrow> (int \<times> bytes) io" where
  "tool_main c junk argv =
     (let argc = length argv; raw_path = argv ! 1; path = tool_path raw_path; cmd = argv ! 2; help = ret (1, [])
      in if argc < 3 then help
         else if cmd = ''new'' then (if argc = 3 then silent (new_payload path) else help)
         else if cmd = ''expire'' then
           (if argc = 4 then silent (get_or_set_expire path (Some (argv ! 3)))
            else if argc = 3 then silent (get_or_set_expire path None) else help)
         else if cmd = ''mkkey'' then silent (generate_key c junk)
         else if cmd = ''verify'' then (if argc = 4 then silent (verify_payload c path (argv ! 3)) else help)
         else if cmd = ''help'' then (if argc = 4 then ret (0, []) else help)
         else if cmd = ''set-cmd-raw'' then (if argc = 4 then silent (cmd_command_set_raw path (argv ! 3)) else help)
         else if cmd = ''set-cmd'' then (if 4 \<le> argc then silent (cmd_command_set path (drop 3 argv)) else help)
         else if cmd = ''get-cmd'' then (if argc = 3 then cmd_get_command path else help)
         else if cmd = ''data-dump'' then (if argc = 3 then cmd_dump_data path else help)
         else if cmd = ''data-set'' then (if argc = 4 then silent (cmd_set_data path (argv ! 3)) else help)
         else if cmd = ''new-user'' then (if argc = 3 then silent (cmd_new_user c raw_path) else help)
         else if cmd = ''sign'' then (if argc = 4 then silent (cmd_sign c path (argv ! 3)) else help)
         else help)"

end
