(* ===== verification/ToolProps.thy ===== *)
theory ToolProps
  imports Tool ServerRun
begin

text \<open>
  The tool against the phone and the server: composite payloads are taken apart as they were put
  together, payloads with data are refused, a new user's records fit together.
\<close>


section \<open>Evaluation\<close>

lemma run_fwrite:
  assumes "quiet w" "w_fds w fd = Some (OFile p k)" "w_files w p = Some (Reg c)" "length c = k"
  shows "run_state (c_fwrite fd d) w =
    (length d, w\<lparr>w_files := (w_files w)(p \<mapsto> Reg (c @ d)), w_fds := (w_fds w)(fd \<mapsto> OFile p (k + length d))\<rparr>)"
  using assms by (simp add: c_fwrite_def run_sys_write Let_def file_content_def)

lemma run_open_trunc:
  "quiet w \<Longrightarrow> w_files w p \<noteq> Some Dir \<Longrightarrow> run_state (sys_open p [O_WRITE, O_CREAT, O_TRUNC]) w = (w_nextfd w,
     w\<lparr>w_files := (w_files w)(p \<mapsto> Reg []), w_fds := (w_fds w)(w_nextfd w \<mapsto> OFile p 0), w_nextfd := w_nextfd w + 1\<rparr>)"
  by (auto simp: sys_open_def io_simps new_fd_def split: option.split node.split)

lemma run_fread_fd:
  assumes "quiet w" "w_fds w fd = Some (OFile p 0)" "w_files w p = Some (Reg c)"
  shows "run_state (c_fread_fd fd (length c)) w = ((c, At_data), w\<lparr>w_fds := (w_fds w)(fd \<mapsto> OFile p (length c))\<rparr>)"
  using assms
  by (cases "c = []")
     (simp_all add: c_fread_fd_def fread_loop.simps[of fd "length c"] fread_loop.simps[of fd 0] run_sys_read Let_def file_content_def
       fun_upd_idem)

lemma run_read_entire_file:
  assumes "quiet w" "w_files w f = Some (Reg c)" "0 \<le> w_nextfd w"
  shows "run_state (read_entire_file f) w = (Some c, w\<lparr>w_fds := (w_fds w)(w_nextfd w := None), w_nextfd := w_nextfd w + 1\<rparr>)"
  using assms
  by (simp add: read_entire_file_def run_open_rdonly sys_fstat_def io_simps run_fread_fd[where p = f])

text \<open>Loading the file of a code.\<close>

lemma run_malloc_load:
  assumes "quiet w" "w_files w p = Some (Reg bs)" "168 \<le> length bs" "length bs < 2 ^ 31" "0 \<le> w_nextfd w"
  shows "run_state (dp_malloc_load p) w = (Some bs, w\<lparr>w_fds := (w_fds w)(w_nextfd w := None), w_nextfd := w_nextfd w + 1\<rparr>)"
proof -
  have "bs \<noteq> []" "c_int (int (length bs)) = int (length bs)" using assms(3,4) by (auto intro!: c_int_id)
  with assms show ?thesis
    by (simp add: dp_malloc_load_def run_open_rdonly sys_fstat_def io_simps run_read_file[where p = p] dp_sizes)
qed


section \<open>Composite payloads\<close>

definition part :: "bytes \<Rightarrow> bytes" where
  "part d = be32 (length d) @ d"

definition composite_data :: "bytes list \<Rightarrow> bytes" where
  "composite_data ds = be16 (length ds) @ concat (map part ds)"

text \<open>What the phone does with the parts.\<close>

fun handle_each :: "(dumb_payload \<Rightarrow> nat \<Rightarrow> int io) \<Rightarrow> int \<Rightarrow> bytes list \<Rightarrow> int io" where
  "handle_each h fd [] = ret 0"
| "handle_each h fd (d # ds) = do {
     err \<leftarrow> h (dp_of_bytes (d @ concat (map part ds))) (length d - sizeof_payload);
     if err \<noteq> 0 then do { tell fd ''something went wrong''; ret err } else handle_each h fd ds }"

lemma composite_loop_each:
  assumes "\<forall>d\<in>set ds. 168 \<le> length d \<and> length d < 2 ^ 32"
  shows "composite_loop h (pre @ concat (map part ds)) (length (pre @ concat (map part ds))) fd (length pre) (length ds)
    = handle_each h fd ds"
  using assms
proof (induction ds arbitrary: pre)
  case (Cons d ds)
  have d: "168 \<le> length d" "length d < 4294967296" using Cons.prems by simp_all
  have sz: "of_be (be32 (length d)) = length d" using d(2) by (simp add: of_be_be32)
  let ?rest = "concat (map part ds)"
  have "composite_loop h ((pre @ part d) @ ?rest) (length ((pre @ part d) @ ?rest)) fd (length (pre @ part d)) (length ds)
      = handle_each h fd ds"
    by (rule Cons.IH) (use Cons.prems in simp)
  moreover have "length (pre @ part d) = length pre + 4 + length d" "part d @ ?rest = be32 (length d) @ d @ ?rest"
    by (simp_all add: part_def)
  ultimately have IH: "composite_loop h (pre @ be32 (length d) @ d @ ?rest) (length pre + (4 + (length d + length ?rest))) fd
      (length pre + 4 + length d) (length ds) = handle_each h fd ds"
    by (simp add: add.assoc)
  have cat: "concat (map part (d # ds)) = be32 (length d) @ d @ ?rest" by (simp add: part_def)
  show ?case
    unfolding cat using d sz by (simp add: dp_sizes Let_def IH cong: if_cong)
qed simp

lemma composite_each:
  assumes "\<forall>d\<in>set ds. 168 \<le> length d \<and> length d < 2 ^ 32" "length ds < 65536"
  shows "payload_cmd_composite h (composite_data ds) (length (composite_data ds)) fd = handle_each h fd ds"
  using composite_loop_each[OF assms(1), of h "be16 (length ds)" fd] assms(2)
  by (simp add: payload_cmd_composite_def composite_data_def of_be_be16)

text \<open>The header of a payload in front of other data.\<close>

lemma dp_with_data:
  assumes "dp_wf p"
  shows "dp_of_bytes (take 168 (dp_bytes p) @ d) = p\<lparr>dp_payload := d\<rparr>" "length (take 168 (dp_bytes p)) = 168"
proof -
  have wf: "dp_wf (p\<lparr>dp_payload := d\<rparr>)" using assms by (simp add: dp_wf_def)
  have "take 168 (dp_bytes p) @ d = dp_bytes (p\<lparr>dp_payload := d\<rparr>)"
    using assms by (simp add: dp_bytes_def dp_wf_def)
  then show "dp_of_bytes (take 168 (dp_bytes p) @ d) = p\<lparr>dp_payload := d\<rparr>"
    using dp_of_bytes_bytes[OF wf] by simp
  show "length (take 168 (dp_bytes p)) = 168" using length_dp_bytes[OF assms] by (simp add: dp_sizes)
qed

lemma print_command_wf: "dp_wf p \<Longrightarrow> dp_wf (print_command cmd p)"
  by (simp add: print_command_def dp_wf_def snprintf_field_def Let_def dp_sizes)

lemma set_command_wf: "dp_wf p \<Longrightarrow> dp_wf (set_command cmd p)"
  by (simp add: set_command_def dp_wf_def dp_sizes)

lemma run_write_payloads:
  assumes "quiet w" "w_fds w fd = Some (OFile path (length c))" "w_files w path = Some (Reg c)" "0 \<le> w_nextfd w"
    and "fd < w_nextfd w" "list_all2 (\<lambda>n d. n \<noteq> path \<and> w_files w n = Some (Reg d) \<and> length d < 2 ^ 32) ns ds"
  shows "\<exists>w'. run_state (write_payloads fd ns) w = (0, w') \<and>
     w_files w' = (w_files w)(path \<mapsto> Reg (c @ concat (map part ds)))"
  using assms
proof (induction ns arbitrary: ds c w)
  case Nil
  then show ?case by (auto simp: fun_upd_idem sys_close_def io_simps)
next
  case (Cons n ns)
  obtain d ds' where ds: "ds = d # ds'" and n: "n \<noteq> path" "w_files w n = Some (Reg d)" "length d < 2 ^ 32"
    and rest: "list_all2 (\<lambda>n d. n \<noteq> path \<and> w_files w n = Some (Reg d) \<and> length d < 2 ^ 32) ns ds'"
    using Cons.prems(6) by (auto simp: list_all2_Cons1)
  define v where "v = w\<lparr>w_fds := (w_fds w)(w_nextfd w := None), w_nextfd := w_nextfd w + 1\<rparr>"
  define v1 where "v1 = v\<lparr>w_files := (w_files v)(path \<mapsto> Reg (c @ be32 (length d))),
     w_fds := (w_fds v)(fd \<mapsto> OFile path (length c + 4))\<rparr>"
  define v2 where "v2 = v1\<lparr>w_files := (w_files v1)(path \<mapsto> Reg ((c @ be32 (length d)) @ d)),
     w_fds := (w_fds v1)(fd \<mapsto> OFile path (length c + 4 + length d))\<rparr>"
  have read: "run_state (read_entire_file n) w = (Some d, v)"
    unfolding v_def by (rule run_read_entire_file) (use Cons.prems n in simp_all)
  have v: "quiet v" "w_fds v fd = Some (OFile path (length c))" "w_files v path = Some (Reg c)"
    using Cons.prems by (simp_all add: v_def)
  have w1: "run_state (c_fwrite fd (be32 (length d))) v = (4, v1)"
    using run_fwrite[OF v(1,2,3) refl, of "be32 (length d)"] by (simp add: v1_def)
  have v1: "quiet v1" "w_fds v1 fd = Some (OFile path (length c + 4))" "w_files v1 path = Some (Reg (c @ be32 (length d)))"
    using v by (simp_all add: v1_def)
  have w2: "run_state (c_fwrite fd d) v1 = (length d, v2)"
    using run_fwrite[OF v1, of d] by (simp add: v2_def)
  have "\<exists>w'. run_state (write_payloads fd ns) v2 = (0, w') \<and>
     w_files w' = (w_files v2)(path \<mapsto> Reg (((c @ be32 (length d)) @ d) @ concat (map part ds')))"
  proof (rule Cons.IH)
    show "list_all2 (\<lambda>n d. n \<noteq> path \<and> w_files v2 n = Some (Reg d) \<and> length d < 2 ^ 32) ns ds'"
      by (rule list_all2_mono[OF rest]) (simp add: v2_def v1_def v_def)
  qed (use v1 Cons.prems in \<open>simp_all add: v2_def v1_def v_def\<close>)
  then obtain w' where w': "run_state (write_payloads fd ns) v2 = (0, w')"
    "w_files w' = (w_files v2)(path \<mapsto> Reg (((c @ be32 (length d)) @ d) @ concat (map part ds')))" by blast
  have "run_state (write_payloads fd (n # ns)) w = (0, w')"
    using n(3) by (simp add: read w1 w2 w'(1))
  moreover have "w_files w' = (w_files w)(path \<mapsto> Reg (c @ concat (map part ds)))"
    by (simp add: w'(2) v2_def v1_def v_def ds part_def)
  ultimately show ?case by blast
qed

lemma run_cmd_composite:
  assumes "quiet w" "w_files w path = Some (Reg bs)" "168 \<le> length bs" "length bs < 2 ^ 31" "0 \<le> w_nextfd w"
    and "list_all2 (\<lambda>n d. n \<noteq> path \<and> w_files w n = Some (Reg d) \<and> length d < 2 ^ 32) ns ds" "ns \<noteq> []"
  shows "\<exists>w'. run_state (cmd_composite path (''composite'' # ns)) w = (0, w') \<and> w_files w' = (w_files w)
    (path \<mapsto> Reg (take 168 (dp_bytes (print_command ''composite'' (dp_of_bytes bs))) @ composite_data ds))"
proof -
  let ?h = "take 168 (dp_bytes (print_command ''composite'' (dp_of_bytes bs)))"
  let ?fd = "w_nextfd w + 1"
  have wf: "dp_wf (dp_of_bytes bs)" by (rule dp_bytes_of_bytes[OF assms(3)])
  have h: "length ?h = 168" by (rule dp_with_data[OF print_command_wf[OF wf]])
  have len: "length ns = length ds" by (rule list_all2_lengthD[OF assms(6)])
  define v0 where "v0 = w\<lparr>w_fds := (w_fds w)(w_nextfd w := None), w_nextfd := w_nextfd w + 1\<rparr>"
  define v where "v = v0\<lparr>w_files := (w_files v0)(path \<mapsto> Reg []), w_fds := (w_fds v0)(?fd \<mapsto> OFile path 0), w_nextfd := w_nextfd w + 2\<rparr>"
  define v1 where "v1 = v\<lparr>w_files := (w_files v)(path \<mapsto> Reg ?h), w_fds := (w_fds v)(?fd \<mapsto> OFile path 168)\<rparr>"
  define v2 where "v2 = v1\<lparr>w_files := (w_files v1)(path \<mapsto> Reg (?h @ be16 (length ns))), w_fds := (w_fds v1)(?fd \<mapsto> OFile path 170)\<rparr>"
  have load: "run_state (dp_malloc_load path) w = (Some bs, v0)"
    unfolding v0_def by (rule run_malloc_load) (use assms in simp_all)
  have v0: "quiet v0" "w_files v0 path \<noteq> Some Dir" "w_nextfd v0 = ?fd" using assms(1,2) by (simp_all add: v0_def)
  have op: "run_state (sys_open path [O_WRITE, O_CREAT, O_TRUNC]) v0 = (?fd, v)"
    using run_open_trunc[OF v0(1,2)] v0(3) by (simp add: v_def)
  have v: "quiet v" "w_fds v ?fd = Some (OFile path 0)" "w_files v path = Some (Reg [])" using v0 by (simp_all add: v_def)
  have w1: "run_state (c_fwrite ?fd ?h) v = (168, v1)"
    using run_fwrite[OF v, of ?h] h by (simp add: v1_def del: length_take)
  have v1: "quiet v1" "w_fds v1 ?fd = Some (OFile path 168)" "w_files v1 path = Some (Reg ?h)" using v by (simp_all add: v1_def)
  have w2: "run_state (c_fwrite ?fd (be16 (length ns))) v1 = (2, v2)"
    using run_fwrite[OF v1 h, of "be16 (length ns)"] by (simp add: v2_def)
  have "\<exists>w'. run_state (write_payloads ?fd ns) v2 = (0, w') \<and>
     w_files w' = (w_files v2)(path \<mapsto> Reg ((?h @ be16 (length ns)) @ concat (map part ds)))"
  proof (rule run_write_payloads)
    show "list_all2 (\<lambda>n d. n \<noteq> path \<and> w_files v2 n = Some (Reg d) \<and> length d < 2 ^ 32) ns ds"
      by (rule list_all2_mono[OF assms(6)]) (simp add: v2_def v1_def v_def v0_def)
  qed (use v1 h assms in \<open>simp_all add: v2_def v1_def v_def v0_def\<close>)
  then obtain w' where w': "run_state (write_payloads ?fd ns) v2 = (0, w')"
    "w_files w' = (w_files v2)(path \<mapsto> Reg ((?h @ be16 (length ns)) @ concat (map part ds)))" by blast
  have "run_state (cmd_composite path (''composite'' # ns)) w = (0, w')"
    using assms(5,7) by (simp add: cmd_composite_def load_or_print_error_def load op Let_def w1 w2 w'(1) dp_sizes)
  moreover have "w_files w' = (w_files w)(path \<mapsto> Reg (?h @ composite_data ds))"
    by (simp add: w'(2) v2_def v1_def v_def v0_def composite_data_def len)
  ultimately show ?thesis by blast
qed

text \<open>
  C16: The tool's composite command and the phone's agree on the format: the file the tool writes
  names the command composite, and taking its data apart hands exactly the given payload files, one
  after the other and each with its size, to the handler.
\<close>

theorem composite_roundtrip:
  assumes "quiet w" "w_files w path = Some (Reg bs)" "168 \<le> length bs" "length bs < 2 ^ 31" "0 \<le> w_nextfd w"
    and "list_all2 (\<lambda>n d. n \<noteq> path \<and> w_files w n = Some (Reg d) \<and> length d < 2 ^ 32) ns ds" "ns \<noteq> []"
    and "\<forall>d\<in>set ds. 168 \<le> length d" "length ds < 65536"
  shows "\<exists>w' bs'. run_state (cmd_composite path (''composite'' # ns)) w = (0, w') \<and>
    w_files w' = (w_files w)(path \<mapsto> Reg bs') \<and> dp_get_command (dp_of_bytes bs') = Inr ''composite'' \<and>
    (\<forall>h fd. payload_cmd_composite h (dp_payload (dp_of_bytes bs')) (length bs' - sizeof_payload) fd = handle_each h fd ds)"
proof -
  let ?p = "print_command ''composite'' (dp_of_bytes bs)"
  have wf: "dp_wf ?p" using dp_bytes_of_bytes(2)[OF assms(3)] by (rule print_command_wf)
  note data = dp_with_data[OF wf]
  have size: "\<forall>d\<in>set ds. 168 \<le> length d \<and> length d < 2 ^ 32"
    using assms(6,8) by (auto simp: list_all2_conv_all_nth in_set_conv_nth)
  have cmd: "dp_get_command (?p\<lparr>dp_payload := composite_data ds\<rparr>) = Inr ''composite''"
    by (simp add: dp_get_command_def print_command_def snprintf_field_def Let_def strnlen_eq dp_sizes strlen_def cstr_def)
  obtain w' where w': "run_state (cmd_composite path (''composite'' # ns)) w = (0, w')"
    "w_files w' = (w_files w)(path \<mapsto> Reg (take 168 (dp_bytes ?p) @ composite_data ds))"
    using run_cmd_composite[OF assms(1-7)] by blast
  show ?thesis
    by (rule exI[of _ w'], rule exI[of _ "take 168 (dp_bytes ?p) @ composite_data ds"])
       (simp add: w' data cmd composite_each[OF size assms(9)] dp_sizes del: length_take)
qed


lemma composite_roundtrip_witness:
  "\<exists>w' bs'. run_state (cmd_composite ''p'' [''composite'', ''a'']) (idle_world\<lparr>w_files := [''p'' \<mapsto> Reg (zeros 168), ''a'' \<mapsto> Reg (zeros 169)]\<rparr>) =
     (0, w') \<and> w_files w' ''p'' = Some (Reg bs') \<and> dp_get_command (dp_of_bytes bs') = Inr ''composite'' \<and>
     (\<forall>h fd. payload_cmd_composite h (dp_payload (dp_of_bytes bs')) (length bs' - sizeof_payload) fd = handle_each h fd [zeros 169])"
proof -
  let ?w = "idle_world\<lparr>w_files := [''p'' \<mapsto> Reg (zeros 168), ''a'' \<mapsto> Reg (zeros 169)]\<rparr>"
  have "quiet ?w" "w_files ?w ''p'' = Some (Reg (zeros 168))" "0 \<le> w_nextfd ?w" by (simp_all add: quiet_def idle_world_def)
  note r = composite_roundtrip[OF this(1,2) _ _ this(3), of "[''a'']" "[zeros 169]"]
  have "\<exists>w' bs'. run_state (cmd_composite ''p'' [''composite'', ''a'']) ?w = (0, w') \<and> w_files w' = (w_files ?w)(''p'' \<mapsto> Reg bs') \<and>
     dp_get_command (dp_of_bytes bs') = Inr ''composite'' \<and>
     (\<forall>h fd. payload_cmd_composite h (dp_payload (dp_of_bytes bs')) (length bs' - sizeof_payload) fd = handle_each h fd [zeros 169])"
    by (rule r) simp_all
  then obtain w' bs' where r: "run_state (cmd_composite ''p'' [''composite'', ''a'']) ?w = (0, w')" "w_files w' = (w_files ?w)(''p'' \<mapsto> Reg bs')"
    "dp_get_command (dp_of_bytes bs') = Inr ''composite''"
    "\<forall>h fd. payload_cmd_composite h (dp_payload (dp_of_bytes bs')) (length bs' - sizeof_payload) fd = handle_each h fd [zeros 169]"
    by blast
  then show ?thesis by (intro exI[of _ w'] exI[of _ bs']) simp
qed



section \<open>New users\<close>

lemma run_write_blob:
  assumes "quiet w" "0 \<le> w_nextfd w" "w_files w path \<noteq> Some Dir" "ud_wf d"
  shows "\<exists>w'. run_state (write_blob path d) w = (0, w') \<and> w_files w' = (w_files w)(path \<mapsto> Reg (ud_bytes d))"
proof -
  define v where "v = w\<lparr>w_files := (w_files w)(path \<mapsto> Reg []), w_fds := (w_fds w)(w_nextfd w \<mapsto> OFile path 0), w_nextfd := w_nextfd w + 1\<rparr>"
  have op: "run_state (sys_open path [O_WRITE, O_CREAT, O_TRUNC]) w = (w_nextfd w, v)"
    using run_open_trunc[OF assms(1,3)] by (simp add: v_def)
  have v: "quiet (v\<lparr>w_errno := 0\<rparr>)" "w_fds (v\<lparr>w_errno := 0\<rparr>) (w_nextfd w) = Some (OFile path 0)"
    "w_files (v\<lparr>w_errno := 0\<rparr>) path = Some (Reg [])" using assms(1) by (simp_all add: v_def)
  show ?thesis
    using run_fwrite[OF v, of "ud_bytes d"] op length_ud_bytes[OF assms(4)] assms(2)
    by (simp add: write_blob_def io_simps sizeof_user_data sys_close_def) (simp add: v_def)
qed

text \<open>
  C18: A user made by \<open>new-user\<close> fits both sides: the directory holds the public key the server
  checks requests against, and the phone reads the user's name and the private key that belongs to
  it from the other file.
\<close>

theorem new_user_usable:
  assumes "quiet w" "0 \<le> w_nextfd w" "cr_keygen c = (pub, priv)" "length pub = 32" "length priv = 32"
    and "nul_free user" "user \<noteq> []" "length user \<le> 63" "w_files w user = None"
    and "w_files w (user @ ''/'' @ SERVER_USER_PUBKEY_FILE) \<noteq> Some Dir" "w_files w (user @ ''.blob'') \<noteq> Some Dir"
  shows "\<exists>w' blob. run_state (cmd_new_user c user) w = (0, w') \<and>
    w_files w' = (w_files w)(user \<mapsto> Dir, user @ ''/'' @ SERVER_USER_PUBKEY_FILE \<mapsto> Reg (hex_of (\<lambda>n. hex_lower ! n) pub), user @ ''.blob'' \<mapsto> Reg blob) \<and>
    (\<forall>v. quiet v \<longrightarrow> 0 \<le> w_nextfd v \<longrightarrow> w_files v DUMBOS_USER_DATA_PATH = Some (Reg blob) \<longrightarrow>
      (\<exists>d. fst (run_state dumbos_alloc_get_user v) = Some d \<and> cstr (ud_username d) = user \<and>
           cstr (ud_priv_key_hex d) = hex_of (\<lambda>n. hex_lower ! n) priv))"
proof -
  let ?hex = "hex_of (\<lambda>n. hex_lower ! n)"
  let ?p = "user @ ''/'' @ SERVER_USER_PUBKEY_FILE" and ?b = "user @ ''.blob''"
  obtain d where d: "dumbos_alloc_new_user user (?hex priv) = Inr d"
    using assms(5,6,8) by (simp add: dumbos_alloc_new_user_def DUMBOS_USERNAME_MAXLEN_def ed_sizes strlen_def)
  note ud = dumbos_alloc_new_user_wf[OF d]
  have gen: "run_state (ed25519_generate_keypair_hex c) w = (Some (?hex pub, ?hex priv), w)"
  proof -
    have "wp (ed25519_generate_keypair_hex c) (\<lambda>r w'. r = Some (?hex pub, ?hex priv) \<and> w' = w) w"
      using assms(1,3-5) by (simp add: ed25519_generate_keypair_hex_def quiet_calls bytes_to_hex_eq ed_sizes)
    then show ?thesis by (simp add: wp_run prod_eq_iff)
  qed
  define v where "v = w\<lparr>w_files := (w_files w)(user \<mapsto> Dir)\<rparr>"
  have mk: "run_state (sys_mkdir user) w = (0, v)"
    using assms(1,7,9) by (simp add: sys_mkdir_def io_simps v_def)
  let ?fd = "w_nextfd w"
  define v1 where "v1 = v\<lparr>w_files := (w_files v)(?p \<mapsto> Reg []), w_fds := (w_fds v)(?fd \<mapsto> OFile ?p 0), w_nextfd := ?fd + 1\<rparr>"
  have v: "quiet v" "w_files v ?p \<noteq> Some Dir" "w_files v ?b \<noteq> Some Dir" using assms(1,10,11) by (simp_all add: v_def)
  have op: "run_state (sys_open ?p [O_WRITE, O_CREAT, O_TRUNC]) v = (?fd, v1)"
    using run_open_trunc[OF v(1,2)] by (simp add: v1_def v_def)
  define v2 where "v2 = v1\<lparr>w_files := (w_files v1)(?p \<mapsto> Reg (?hex pub)), w_fds := (w_fds v1)(?fd \<mapsto> OFile ?p 64)\<rparr>"
  have v1: "quiet v1" "w_fds v1 ?fd = Some (OFile ?p 0)" "w_files v1 ?p = Some (Reg [])" using v by (simp_all add: v1_def)
  have wr: "run_state (c_fwrite ?fd (?hex pub)) v1 = (64, v2)"
    using run_fwrite[OF v1, of "?hex pub"] assms(4) by (simp add: v2_def)
  define v3 where "v3 = v2\<lparr>w_fds := (w_fds v2)(?fd := None)\<rparr>"
  have v3: "quiet v3" "w_files v3 ?b \<noteq> Some Dir" "0 \<le> w_nextfd v3"
    using v assms(2) by (simp_all add: v3_def v2_def v1_def v_def SERVER_USER_PUBKEY_FILE_def)
  obtain v5 where blob: "run_state (write_blob ?b d) v3 = (0, v5)" "w_files v5 = (w_files v3)(?b \<mapsto> Reg (ud_bytes d))"
    using run_write_blob[OF v3(1,3,2) ud] by blast
  have "run_state (cmd_new_user c user) w = (0, v5)"
    using v(1) v3(1) v1 assms(2,4) blob(1) wr op
    by (simp add: cmd_new_user_def gen d mk io_simps ed_sizes v3_def sys_close_def)
  moreover have "w_files v5 = (w_files w)(user \<mapsto> Dir, ?p \<mapsto> Reg (?hex pub), ?b \<mapsto> Reg (ud_bytes d))"
    by (simp add: blob(2) v3_def v2_def v1_def v_def)
  moreover have "fst (run_state dumbos_alloc_get_user u) = Some d"
    if "quiet u" "0 \<le> w_nextfd u" "w_files u DUMBOS_USER_DATA_PATH = Some (Reg (ud_bytes d))" for u
    using wp_get_user_stored[OF ud, of u] that by (simp add: wp_run)
  moreover have "cstr (ud_username d) = user" "cstr (ud_priv_key_hex d) = ?hex priv"
    using new_user_fields[OF d] assms(6) by simp_all
  ultimately show ?thesis by (intro exI[of _ v5] exI[of _ "ud_bytes d"]) simp
qed

lemma new_user_usable_witness:
  "\<exists>w'. run_state (cmd_new_user toy_crypto ''joe'') idle_world = (0, w') \<and> w_files w' ''joe'' = Some Dir"
proof -
  have "quiet idle_world" by (simp add: quiet_def idle_world_def)
  from new_user_usable[OF this, of toy_crypto "zeros 32" "zeros 32" "''joe''"] show ?thesis
    by (auto simp: idle_world_def toy_crypto_def nul_free_def)
qed

end
