(* ===== verification/ToolCode.thy ===== *)
theory ToolCode
  imports ToolProps EndToEnd
begin

text \<open>
  From the tool to the server: a payload file made with \<open>new\<close> and \<open>set-cmd\<close> is one the server hands
  out and the phone runs.
\<close>

text \<open>The commands of \<open>set-cmd\<close> that take no data.\<close>

definition plain_commands :: "string list" where
  "plain_commands = [''ok'', ''import-files'', ''export-files'', ''adb-enable'', ''adb-disable'', ''wifi-enable'', ''wifi-disable'',
     ''oem-lock'', ''oem-unlock'', ''fw-flush'']"

lemma plain_command_fits: "cmd \<in> set plain_commands \<Longrightarrow> nul_free cmd \<and> length cmd < 16"
  by (auto simp: plain_commands_def)

lemma plain_command_set: "cmd \<in> set plain_commands \<Longrightarrow> cmd_command_set path [cmd] = write_cmd_wrapper path [cmd]"
proof -
  assume "cmd \<in> set plain_commands"
  then have "cmd = ''ok'' \<or> cmd = ''import-files'' \<or> cmd = ''export-files'' \<or> cmd = ''adb-enable'' \<or> cmd = ''adb-disable'' \<or>
      cmd = ''wifi-enable'' \<or> cmd = ''wifi-disable'' \<or> cmd = ''oem-lock'' \<or> cmd = ''oem-unlock'' \<or> cmd = ''fw-flush''"
    by (simp add: plain_commands_def)
  then show ?thesis by (elim disjE) (simp_all add: cmd_command_set_def)
qed

section \<open>The two steps\<close>

lemma fresh_payload_wf: "dp_wf fresh_payload"
  by (simp add: dp_wf_def fresh_payload_def init_field_def)

lemma run_new_payload:
  assumes "quiet w" "0 \<le> w_nextfd w" "w_files w path = None"
  shows "\<exists>w'. run_state (new_payload path) w = (0, w') \<and> quiet w' \<and> 0 \<le> w_nextfd w' \<and>
    w_files w' = (w_files w)(path \<mapsto> Reg (dp_bytes fresh_payload))"
proof -
  let ?v = "w\<lparr>w_files := (w_files w)(path \<mapsto> Reg []), w_fds := (w_fds w)(w_nextfd w \<mapsto> OFile path 0), w_nextfd := w_nextfd w + 1\<rparr>"
  have op: "run_state (sys_open path [O_CREAT, O_WRITE]) w = (w_nextfd w, ?v)"
    using assms(1,3) by (simp add: sys_open_def io_simps new_fd_def)
  have ne: "dp_bytes fresh_payload \<noteq> []" using length_dp_bytes[OF fresh_payload_wf] by (auto simp: dp_sizes)
  have wr: "run_state (write_all (w_nextfd w) (dp_bytes fresh_payload)) ?v = (int (length (dp_bytes fresh_payload)),
      ?v\<lparr>w_files := (w_files ?v)(path \<mapsto> Reg (dp_bytes fresh_payload)),
         w_fds := (w_fds ?v)(w_nextfd w \<mapsto> OFile path (length (dp_bytes fresh_payload)))\<rparr>)"
    by (rule run_write_file[where c = "[]"]) (use assms(1) ne in simp_all)
  show ?thesis
    using assms by (simp add: new_payload_def io_simps op write_and_close_def wr sys_close_def)
qed

lemma run_write_cmd:
  assumes "quiet w" "0 \<le> w_nextfd w" "w_files w path = Some (Reg (dp_bytes p))" "dp_wf p" "length (dp_payload p) < 2 ^ 30"
  shows "\<exists>w'. run_state (write_cmd_wrapper path [cmd]) w = (0, w') \<and> quiet w' \<and>
    w_files w' = (w_files w)(path \<mapsto> Reg (take 168 (dp_bytes (set_command cmd p))))"
proof -
  let ?fd = "w_nextfd w + 1" and ?q = "set_command cmd p"
  have len: "length (dp_bytes p) = 168 + length (dp_payload p)" "length (dp_bytes ?q) = 168 + length (dp_payload p)"
    using length_dp_bytes[OF assms(4)] length_dp_bytes[OF set_command_wf[OF assms(4), of cmd]]
    by (simp_all add: dp_sizes set_command_def)
  define v0 where "v0 = w\<lparr>w_fds := (w_fds w)(w_nextfd w := None), w_nextfd := ?fd\<rparr>"
  have load: "run_state (dp_malloc_load path) w = (Some (dp_bytes p), v0)"
    unfolding v0_def by (rule run_malloc_load) (use assms len in simp_all)
  have v0: "quiet v0" "w_files v0 path \<noteq> Some Dir" "w_nextfd v0 = ?fd" using assms(1,3) by (simp_all add: v0_def)
  define v where "v = v0\<lparr>w_files := (w_files v0)(path \<mapsto> Reg []), w_fds := (w_fds v0)(?fd \<mapsto> OFile path 0), w_nextfd := ?fd + 1\<rparr>"
  have op: "run_state (sys_open path [O_WRITE, O_CREAT, O_TRUNC]) v0 = (?fd, v)"
    using run_open_trunc[OF v0(1,2)] v0(3) by (simp add: v_def)
  have v: "quiet (v\<lparr>w_errno := 0\<rparr>)" "w_fds (v\<lparr>w_errno := 0\<rparr>) ?fd = Some (OFile path 0)"
    "w_files (v\<lparr>w_errno := 0\<rparr>) path = Some (Reg [])" using v0 by (simp_all add: v_def)
  note wr = run_fwrite[OF v, of "take 168 (dp_bytes ?q)"]
  show ?thesis
    using assms(2) v0(1) wr len(2)
    by (simp add: write_cmd_wrapper_def load_or_print_error_def load dp_of_bytes_bytes[OF assms(4)] write_to_disk_def op io_simps
        dp_sizes sys_close_def)
       (simp add: v_def v0_def)
qed

section \<open>The file\<close>

text \<open>The text of a new payload's expiry is no number, so the payload expires a minute after its first use.\<close>

lemma fresh_expire: "dp_get_expire (set_command cmd fresh_payload) = -1" "hd (dp_expire (set_command cmd fresh_payload)) \<noteq> CHR '':''"
  by (simp_all add: dp_get_expire_def set_command_def fresh_payload_def init_field_def numeral_eq_Suc cstr_Cons
      parse_long_long_def strtoll_def scan_dec_def c_isspace_def c_isdigit_def)

lemma run_fresh_expired:
  assumes "quiet sw" "0 \<le> w_now sw" "w_now sw < 10 ^ 14"
  shows "run_state (dp_is_expired (set_command cmd fresh_payload)) sw =
    ((False, dp_set_expire (set_command cmd fresh_payload) (w_now sw + 60)), sw)"
proof -
  have "c_llong (w_now sw + 60) = w_now sw + 60" using assms(2,3) by (intro c_llong_id) simp_all
  then show ?thesis
    using assms fresh_expire[of cmd]
    by (simp add: dp_is_expired_def dp_get_expire_or_set_def Let_def c_time_def DEFAULT_EXPIRE_TIME_def)
qed

lemma set_command_read: "nul_free cmd \<Longrightarrow> length cmd < 16 \<Longrightarrow> payload_command (set_command cmd p) = cmd"
  using field_get[of cmd] by (simp add: payload_command_def set_command_def COMMAND_SIZE_def strlen_def)

text \<open>
  C17: A code made with the tool is ready: after \<open>new\<close> and \<open>set-cmd\<close> with a command that takes no
  data, the tool has written one file, of a size the phone accepts, that no server ever finds expired
  at its first use, and whose command, as the phone reads it, is the one that was set.
\<close>

theorem tool_code_ready:
  assumes "quiet w" "0 \<le> w_nextfd w" "w_files w (tool_path name) = None" "cmd \<in> set plain_commands"
  shows "\<exists>w1 w2 bs. run_state (tool_main c junk [tool, name, ''new'']) w = ((0, []), w1) \<and>
    run_state (tool_main c junk [tool, name, ''set-cmd'', cmd]) w1 = ((0, []), w2) \<and>
    w_files w2 = (w_files w)(tool_path name \<mapsto> Reg bs) \<and>
    length bs = sizeof_payload \<and> dp_validate_size (dp_of_bytes bs) (length bs) \<and>
    payload_command (dp_of_bytes bs) = cmd \<and> dp_payload (dp_of_bytes bs) = [] \<and>
    (\<forall>sw. quiet sw \<longrightarrow> 0 \<le> w_now sw \<longrightarrow> w_now sw < 10 ^ 14 \<longrightarrow>
      run_state (dp_is_expired (dp_of_bytes bs)) sw = ((False, dp_set_expire (dp_of_bytes bs) (w_now sw + 60)), sw))"
proof -
  let ?path = "tool_path name" and ?p = "set_command cmd fresh_payload"
  note fit = plain_command_fits[OF assms(4)]
  obtain w1 where w1: "run_state (new_payload ?path) w = (0, w1)" "quiet w1" "0 \<le> w_nextfd w1"
    "w_files w1 = (w_files w)(?path \<mapsto> Reg (dp_bytes fresh_payload))" using run_new_payload[OF assms(1-3)] by blast
  have none: "dp_payload fresh_payload = []" "dp_payload ?p = []" "dp_data_size ?p = zeros 4"
    by (simp_all add: fresh_payload_def set_command_def)
  have wf: "dp_wf ?p" by (rule set_command_wf[OF fresh_payload_wf])
  have len: "length (dp_bytes ?p) = 168" using length_dp_bytes[OF wf] none by (simp add: dp_sizes)
  obtain w2 where w2: "run_state (write_cmd_wrapper ?path [cmd]) w1 = (0, w2)"
    "w_files w2 = (w_files w)(?path \<mapsto> Reg (dp_bytes ?p))"
    using run_write_cmd[OF w1(2,3) _ fresh_payload_wf, of ?path cmd] w1(4) none len by auto
  have "run_state (tool_main c junk [tool, name, ''new'']) w = ((0, []), w1)"
    using w1(1) by (simp add: tool_main_def Let_def silent_def)
  moreover have "run_state (tool_main c junk [tool, name, ''set-cmd'', cmd]) w1 = ((0, []), w2)"
    using w2(1) plain_command_set[OF assms(4)] by (simp add: tool_main_def Let_def silent_def)
  moreover have "dp_validate_size ?p 168"
    by (simp add: dp_validate_size_iff none of_be_def dp_sizes numeral_eq_Suc)
  ultimately show ?thesis
    using w2(2) len dp_of_bytes_bytes[OF wf] set_command_read fit none run_fresh_expired
    by (intro exI[of _ w1] exI[of _ w2] exI[of _ "dp_bytes ?p"]) (simp add: dp_sizes)
qed

lemma tool_code_ready_witness:
  "\<exists>w1 w2 bs. run_state (tool_main toy_crypto ([], []) [''tool'', ''x1'', ''new'']) idle_world = ((0, []), w1) \<and>
    run_state (tool_main toy_crypto ([], []) [''tool'', ''x1'', ''set-cmd'', ''wifi-enable'']) w1 = ((0, []), w2) \<and>
    w_files w2 (tool_path ''x1'') = Some (Reg bs) \<and> payload_command (dp_of_bytes bs) = ''wifi-enable''"
proof -
  have "quiet idle_world" "0 \<le> w_nextfd idle_world" "w_files idle_world (tool_path ''x1'') = None" "''wifi-enable'' \<in> set plain_commands"
    by (simp_all add: quiet_def idle_world_def plain_commands_def)
  from tool_code_ready[OF this, of toy_crypto "([], [])" "''tool''"] show ?thesis by auto
qed

end
