(* ===== verification/ServerTrace.thy ===== *)
theory ServerTrace
  imports Served
begin

text \<open>
  A run of the server as a whole: the callbacks libmicrohttpd makes, for any number of connections
  and requests in any order, and what other programs do to the files meanwhile.
\<close>

record server_state =
  ss_world :: world
  ss_conns :: "nat \<Rightarrow> request_state option"
  ss_given :: "(string \<times> string) list"

text \<open>The user and the id of a request that a payload was given out for.\<close>

definition given :: "query \<Rightarrow> string \<Rightarrow> string \<Rightarrow> reply \<Rightarrow> (string \<times> string) list" where
  "given q url method r =
     (case (query_value q ''user'', query_value q ''requestid'', r) of
        (Some user, Some requestid, Queued h) \<Rightarrow>
          if url = ''/dumb'' \<and> method = ''GET'' \<and> hr_status h \<noteq> 404 then [(user, requestid)] else []
      | _ \<Rightarrow> [])"

text \<open>
  One callback of \<open>handle_request\<close>, the end of a request, or a change by others that deletes no
  file; the library makes one callback at a time (\<open>MHD_USE_INTERNAL_POLLING_THREAD\<close>).
\<close>

inductive server_step :: "server \<Rightarrow> server_state \<Rightarrow> server_state \<Rightarrow> bool" for sv where
  callback: "run_state (handle_request sv q url method d (ss_conns s k)) (ss_world s) = ((r, st), w) \<Longrightarrow>
    server_step sv s (s\<lparr>ss_world := w, ss_conns := (ss_conns s)(k := st), ss_given := given q url method r @ ss_given s\<rparr>)"
| completed: "server_step sv s (s\<lparr>ss_conns := (ss_conns s)(k := request_completed (ss_conns s k))\<rparr>)"
| others: "files_stay (ss_world s) w \<Longrightarrow> server_step sv s (s\<lparr>ss_world := w\<rparr>)"

inductive server_reach :: "server \<Rightarrow> server_state \<Rightarrow> server_state \<Rightarrow> bool" for sv where
  start: "server_reach sv s s"
| step: "server_reach sv s s1 \<Longrightarrow> server_step sv s1 s2 \<Longrightarrow> server_reach sv s s2"

definition server_init :: "world \<Rightarrow> server_state" where
  "server_init w = \<lparr>ss_world = w, ss_conns = (\<lambda>_. None), ss_given = []\<rparr>"

inductive_cases server_stepE: "server_step sv s s'"


section \<open>No file disappears\<close>

lemma keeps_stay_handler: "keeps files_stay (dumb_handler sv q)"
proof -
  have "keeps files_stay (claim_request sv u i s t)" for u i s t
    unfolding claim_request_def c_fread_def Let_def by (intro keeps_intros)
  then show ?thesis unfolding dumb_handler_def by (intro keeps_intros keeps_stay_serve)
qed

lemma keeps_stay_get: "keeps files_stay (handle_get sv q url)"
  unfolding handle_get_def queue_text_response_def by (intro keeps_intros keeps_stay_handler)

lemma keeps_stay_request: "keeps files_stay (handle_request sv q url method d c)"
  unfolding handle_request_def handle_post_def dumb_log_upload_handler_def append_upload_data_def
    queue_method_not_allowed_def queue_text_response_def c_fread_def Let_def
  by (intro keeps_intros keeps_stay_get)


section \<open>Each id at most once\<close>

lemma given_fresh:
  assumes "run_state (handle_request sv q url method d c) w = ((r, st), w')" "(user, rid) \<in> set (given q url method r)"
  shows "w_files w (request_path user rid) = None \<and> w_files w' (request_path user rid) \<noteq> None"
proof -
  from assms(2) obtain h where h: "r = Queued h" "hr_status h \<noteq> 404" "url = ''/dumb''" "method = ''GET''"
    "query_value q ''user'' = Some user" "query_value q ''requestid'' = Some rid"
    by (auto simp: given_def split: option.splits reply.splits if_splits)
  with assms(1) have run: "run_state (dumb_handler sv q) w = (Queued h, w')"
    by (auto simp: handle_request_def handle_get_def split: option.splits if_splits prod.splits)
  show ?thesis
  proof (rule dumb_handler_served[OF run h(2)])
    fix scode user' rid' sig ts fd v
    assume "query_value q ''user'' = Some user'" "query_value q ''requestid'' = Some rid'"
      and r: "run_state (claim_request sv user' rid' sig ts) w = (Some fd, v)"
        "run_state (serve_code sv scode user' fd) v = (Queued h, w')"
    with h(5,6) wpD[OF wp_claim_auth r(1)] keepsD[OF keeps_stay_serve r(2)]
    show ?thesis by (auto simp: files_stay_def)
  qed
qed

lemma given_single: "given q url meth r = [] \<or> (\<exists>x. given q url meth r = [x])"
  by (auto simp: given_def split: option.split reply.split)

lemma given_yes: "given q url meth MHD_YES = []"
  by (simp add: given_def split: option.split)

definition ledger_ok :: "server_state \<Rightarrow> bool" where
  "ledger_ok s \<longleftrightarrow> distinct (ss_given s) \<and> (\<forall>(user, rid) \<in> set (ss_given s). w_files (ss_world s) (request_path user rid) \<noteq> None)"

lemma ledger_step: "server_step sv s s' \<Longrightarrow> ledger_ok s \<Longrightarrow> ledger_ok s'"
proof (erule server_stepE)
  fix q url meth d k r st w
  assume ok: "ledger_ok s" and run: "run_state (handle_request sv q url meth d (ss_conns s k)) (ss_world s) = ((r, st), w)"
    and s': "s' = s\<lparr>ss_world := w, ss_conns := (ss_conns s)(k := st), ss_given := given q url meth r @ ss_given s\<rparr>"
  have "files_stay (ss_world s) w" using keeps_stay_request run by (rule keepsD)
  then show ?thesis
    using ok given_fresh[OF run] given_single[of q url meth r] unfolding s'
    by (fastforce simp: ledger_ok_def files_stay_def)
qed (auto simp: ledger_ok_def files_stay_def)

text \<open>
  C8: In every run of the server, with any requests on any number of connections in any order, and
  with other programs free to change the files as long as they delete none, at most one payload is
  given out for a user and a request id, and for each one given out its request file is there.
\<close>

theorem payload_given_once:
  assumes "server_reach sv (server_init w) s"
  shows "distinct (ss_given s) \<and> (\<forall>(user, rid) \<in> set (ss_given s). w_files (ss_world s) (request_path user rid) \<noteq> None)"
  using assms
proof (induction "server_init w" s rule: server_reach.induct)
  case start
  then show ?case by (simp add: server_init_def)
next
  case (step s1 s2)
  then show ?case using ledger_step[of sv s1 s2] by (simp add: ledger_ok_def)
qed

lemma payload_given_once_witness:
  "\<exists>s. server_reach toy_server (server_init server_world) s \<and> ss_given s = [(''joe'', ''r1'')] \<and>
     w_files (ss_world s) (request_path ''joe'' ''r1'') \<noteq> None"
proof -
  let ?st = "\<lparr>rs_body = [], rs_body_too_large = False, rs_allocation_failed = False\<rparr>"
  let ?s1 = "(server_init server_world)\<lparr>ss_conns := (\<lambda>_. None)(0 := Some ?st)\<rparr>"
  have "run_state (handle_request toy_server toy_query ''/dumb'' ''GET'' [] None) server_world = ((MHD_YES, Some ?st), server_world)"
    by (simp add: handle_request_def io_simps)
  then have "server_step toy_server (server_init server_world) ?s1"
    using server_step.callback[of toy_server toy_query "''/dumb''" "''GET''" "[]" "server_init server_world" 0]
    by (simp add: server_init_def given_yes)
  moreover obtain h w' where r: "run_state (dumb_handler toy_server toy_query) server_world = (Queued h, w')" "hr_status h = 200"
    using run_toy_request by fastforce
  have "run_state (handle_request toy_server toy_query ''/dumb'' ''GET'' [] (Some ?st)) server_world = ((Queued h, Some ?st), w')"
    by (simp add: handle_request_def handle_get_def r)
  then have "server_step toy_server ?s1 (?s1\<lparr>ss_world := w', ss_conns := (ss_conns ?s1)(0 := Some ?st),
      ss_given := given toy_query ''/dumb'' ''GET'' (Queued h) @ ss_given ?s1\<rparr>)"
    by (intro server_step.callback) (simp add: server_init_def)
  ultimately have reach: "server_reach toy_server (server_init server_world) (?s1\<lparr>ss_world := w', ss_conns := (ss_conns ?s1)(0 := Some ?st),
      ss_given := given toy_query ''/dumb'' ''GET'' (Queued h) @ ss_given ?s1\<rparr>)"
    by (intro server_reach.step[OF server_reach.step[OF server_reach.start]])
  have "given toy_query ''/dumb'' ''GET'' (Queued h) = [(''joe'', ''r1'')]"
    using r(2) by (simp add: given_def query_value_def toy_query_def code_query_def cstr_Cons)
  then have "ss_given (?s1\<lparr>ss_world := w', ss_conns := (ss_conns ?s1)(0 := Some ?st),
      ss_given := given toy_query ''/dumb'' ''GET'' (Queued h) @ ss_given ?s1\<rparr>) = [(''joe'', ''r1'')]"
    by (simp add: server_init_def)
  with reach obtain s where s: "server_reach toy_server (server_init server_world) s" "ss_given s = [(''joe'', ''r1'')]"
    by blast
  from payload_given_once[OF s(1)] s show ?thesis by auto
qed

end
