(* ===== verification/ServerUpload.thy ===== *)
theory ServerUpload
  imports ServerRun
begin

text \<open>
  Uploads: how the pieces in which libmicrohttpd delivers a body become the body, and the log
  endpoint, which never accepts anything.
\<close>

text \<open>
  The calls libmicrohttpd makes for one POST request: a first one without state, one per piece of
  the body, none of them empty, and a last one with no data.
\<close>

fun deliver :: "server \<Rightarrow> query \<Rightarrow> string \<Rightarrow> bytes list \<Rightarrow> request_state option \<Rightarrow> request_state option io" where
  "deliver sv q url [] con_cls = ret con_cls"
| "deliver sv q url (d # ds) con_cls = do {
     (r, con_cls) \<leftarrow> handle_request sv q url ''POST'' d con_cls;
     deliver sv q url ds con_cls }"

definition post_request :: "server \<Rightarrow> query \<Rightarrow> string \<Rightarrow> bytes list \<Rightarrow> reply io" where
  "post_request sv q url ds = do {
     (r, con_cls) \<leftarrow> handle_request sv q url ''POST'' [] None;
     if r = MHD_NO then ret MHD_NO
     else do {
       con_cls \<leftarrow> deliver sv q url ds con_cls;
       (r, con_cls) \<leftarrow> handle_request sv q url ''POST'' [] con_cls;
       ret r } }"

text \<open>A state that reflects the pieces received so far.\<close>

definition received :: "bytes \<Rightarrow> request_state \<Rightarrow> bool" where
  "received body st \<longleftrightarrow> (\<not> rs_body_too_large st \<longrightarrow> \<not> rs_allocation_failed st \<longrightarrow>
     rs_body st = body \<and> length body \<le> MAX_UPLOAD_BYTES) \<and>
     (rs_body_too_large st \<longrightarrow> MAX_UPLOAD_BYTES < length body) \<and> length (rs_body st) \<le> length body"

lemma wp_append:
  assumes "received body st"
  shows "wp (append_upload_data st d) (\<lambda>(ok, st') w'. received (body @ d) st' \<and>
     (w_plan w = [] \<longrightarrow> w_plan w' = [] \<and> rs_allocation_failed st' = rs_allocation_failed st)) w"
  using assms
  by (cases "w_plan w")
     (auto simp: append_upload_data_def received_def wp_def c_malloc_def next_outcome_def split: outcome.split)

lemma wp_deliver:
  assumes "received body st" "[] \<notin> set ds"
  shows "wp (deliver sv q url ds (Some st)) (\<lambda>r w'. \<exists>st'. r = Some st' \<and> received (body @ concat ds) st' \<and>
     (w_plan w = [] \<longrightarrow> w_plan w' = [] \<and> rs_allocation_failed st' = rs_allocation_failed st)) w"
  using assms
proof (induction ds arbitrary: body st w)
  case (Cons d ds)
  let ?Q = "\<lambda>r w'. \<exists>st'. r = Some st' \<and> received (body @ concat (d # ds)) st' \<and>
     (w_plan w = [] \<longrightarrow> w_plan w' = [] \<and> rs_allocation_failed st' = rs_allocation_failed st)"
  have "wp (append_upload_data st d) (\<lambda>(ok, st'). wp (deliver sv q url ds (Some st')) ?Q) w"
  proof (rule wp_mono[OF wp_append[OF Cons.prems(1)]], clarify)
    fix ok st' and v :: world assume st': "received (body @ d) st'"
      "w_plan w = [] \<longrightarrow> w_plan v = [] \<and> rs_allocation_failed st' = rs_allocation_failed st"
    show "wp (deliver sv q url ds (Some st')) ?Q v"
      by (rule wp_mono[OF Cons.IH[OF st'(1)]]) (use Cons.prems(2) st'(2) in auto)
  qed
  then have "wp (append_upload_data st d) (\<lambda>a. wp (case a of (ok, st) \<Rightarrow> deliver sv q url ds (Some st)) ?Q) w"
    by (rule wp_mono) auto
  with Cons.prems(2) show ?case by (auto simp: handle_request_def case_prod_beta')
qed simp

text \<open>
  C35: However a body is cut into pieces, the echo endpoint sees the whole: whenever it replies 200 the
  reply is exactly the pieces in order, no more than 64 KiB of them; and when memory suffices and
  a reply can be queued at all, it is 200 for every body up to the limit and 413 above it.
\<close>

theorem upload_reassembled:
  assumes "[] \<notin> set ds" "run_state (post_request sv q ''/echo'' ds) w = (r, w')"
  shows "(\<forall>h. r = Queued h \<longrightarrow> hr_status h = 200 \<longrightarrow> hr_body h = concat ds \<and> length (concat ds) \<le> MAX_UPLOAD_BYTES) \<and>
    (w_plan w = [] \<longrightarrow> (\<exists>h. r = Queued h \<and> hr_status h = (if length (concat ds) \<le> MAX_UPLOAD_BYTES then 200 else 413)))"
proof -
  define Q where "Q = (\<lambda>r (w' :: world). (\<forall>h. r = Queued h \<longrightarrow> hr_status h = 200 \<longrightarrow> hr_body h = concat ds \<and> length (concat ds) \<le> MAX_UPLOAD_BYTES) \<and>
    (w_plan w = [] \<longrightarrow> (\<exists>h. r = Queued h \<and> hr_status h = (if length (concat ds) \<le> MAX_UPLOAD_BYTES then 200 else 413))))"
  let ?st = "\<lparr>rs_body = [], rs_body_too_large = False, rs_allocation_failed = False\<rparr>"
  have queue: "wp (queue_response h) Q v"
    if "hr_status h = 200 \<Longrightarrow> hr_body h = concat ds \<and> length (concat ds) \<le> MAX_UPLOAD_BYTES"
      "w_plan w = [] \<Longrightarrow> w_plan v = [] \<and> hr_status h = (if length (concat ds) \<le> MAX_UPLOAD_BYTES then 200 else 413)" for h v
  proof (cases "w_plan w = []")
    case True
    with that show ?thesis by (simp add: queue_response_def wp_fallible_quiet Q_def)
  next
    case False
    with that(1) show ?thesis
      unfolding queue_response_def wp_bind by (intro wp_fallible_any) (auto simp: Q_def intro!: wp_fallible_any split: if_splits)
  qed
  have last: "wp (handle_post sv q ''/echo'' st) Q v"
    if "received (concat ds) st" "w_plan w = [] \<longrightarrow> w_plan v = [] \<and> \<not> rs_allocation_failed st" for st v
    unfolding handle_post_def queue_text_response_def queue_bytes_response_def
    using that by (auto simp: received_def intro!: queue)
  have rest: "wp (do { con_cls \<leftarrow> deliver sv q ''/echo'' ds (Some ?st);
      (r, con_cls) \<leftarrow> handle_request sv q ''/echo'' ''POST'' [] con_cls; ret r }) Q v"
    if "w_plan w = [] \<longrightarrow> w_plan v = []" for v
  proof -
    have "received [] ?st" by (simp add: received_def MAX_UPLOAD_BYTES_def)
    note d = wp_deliver[OF this assms(1), where w = v and sv = sv and q = q and url = "''/echo''"]
    show ?thesis
      unfolding wp_bind[of "deliver _ _ _ _ _"]
      by (rule wp_mono[OF d]) (use that last in \<open>auto simp: handle_request_def\<close>)
  qed
  have "Q MHD_NO v" if "w_plan w \<noteq> []" for v using that by (simp add: Q_def)
  then have "wp (post_request sv q ''/echo'' ds) Q w"
    using rest
    by (cases "w_plan w")
       (auto simp: post_request_def handle_request_def wp_def c_malloc_def next_outcome_def split: outcome.split)
  from wpD[OF this assms(2)] show ?thesis by (simp add: Q_def)
qed

lemma upload_reassembled_witness:
  "\<exists>h w'. run_state (post_request toy_server toy_query ''/echo'' [''ab'', ''c'']) idle_world = (Queued h, w') \<and> hr_body h = ''abc''"
proof -
  obtain r w' where r: "run_state (post_request toy_server toy_query ''/echo'' [''ab'', ''c'']) idle_world = (r, w')" by (metis prod.exhaust)
  from upload_reassembled[OF _ r] show ?thesis using r by (auto simp: MAX_UPLOAD_BYTES_def)
qed


section \<open>Logs\<close>

text \<open>
  C36: The log endpoint accepts nothing: it verifies the signature with the text "TODO" as the time of
  the request, which is no number, so whoever signs whatever gets a 404 or no reply.
\<close>

theorem log_upload_refused:
  assumes "\<forall>e. Fail e \<in> set (w_plan w) \<longrightarrow> e \<noteq> 0" "run_state (dumb_log_upload_handler sv q st) w = (Queued h, w')"
  shows "hr_status h = 404"
proof -
  define Q where "Q = (\<lambda>r (w' :: world). \<forall>h. r = Queued h \<longrightarrow> hr_status h = 404)"
  have nf: "wp not_found Q v" for v by (rule wp_mono[OF wp_not_found]) (simp add: Q_def)
  have todo: "parse_long_long ''TODO'' \<noteq> Inr t" for t
    by (simp add: parse_long_long_def strtoll_def scan_dec_def c_isspace_def c_isdigit_def cstr_Cons)
  have verify: "wp (do { err \<leftarrow> request_id_verify c u i ''TODO'' s k;
      if err \<noteq> 0 then not_found else ok }) Q v" if "ro_step w v" for c u i s k ok v
  proof -
    have "\<forall>e. Fail e \<in> set (w_plan v) \<longrightarrow> e \<noteq> 0" using that assms(1) by (auto simp: ro_step_def)
    then show ?thesis
      unfolding wp_bind[of "request_id_verify _ _ _ _ _ _"]
      by (rule wp_mono[OF wp_request_id_verify]) (use todo nf in auto)
  qed
  have read: "wp (do { (k, e) \<leftarrow> c_fread p 64;
      if length k \<noteq> 64 then do { sys_close fd; not_found }
      else do { err \<leftarrow> request_id_verify c u i ''TODO'' s (cstr (k @ [NUL]));
        if err \<noteq> 0 then not_found else ok } }) Q v" if "ro_step w v" for p fd c u i s ok v
    unfolding wp_bind[of "c_fread _ _"]
    by (rule wp_mono[OF wp_fread_ro[OF that]])
       (use verify nf in \<open>auto simp: wp_bind[of "sys_close _"] simp del: wp_bind\<close>)
  have opn: "wp (do { fd \<leftarrow> sys_open p [];
      if fd < 0 then not_found
      else do { set_errno 0; (k, e) \<leftarrow> c_fread p 64;
      if length k \<noteq> 64 then do { sys_close fd; not_found }
      else do { err \<leftarrow> request_id_verify c u i ''TODO'' s (cstr (k @ [NUL]));
        if err \<noteq> 0 then not_found else ok } } }) Q w" for p c u i s ok
  proof -
    have upd: "ro_step w (v\<lparr>w_errno := e\<rparr>) = ro_step w v" for v e by (simp add: ro_step_def)
    show ?thesis
      unfolding wp_bind[of "sys_open _ _"]
      by (rule wp_mono[OF wp_ro[OF fr_ro.keeps_open_rdonly fr_ro.frame_refl]])
         (use read nf in \<open>auto simp: upd wp_bind[of "set_errno _"] simp del: wp_bind\<close>)
  qed
  have e: "ED25519_PUBLIC_KEY_HEX_SIZE - 1 = 64" by (simp add: ed_sizes)
  have "wp (dumb_log_upload_handler sv q st) Q w"
    unfolding dumb_log_upload_handler_def e Let_def pubkey_path_def[symmetric]
    using nf opn by (auto simp del: wp_bind split: option.split)
  from wpD[OF this assms(2)] show ?thesis by (simp add: Q_def)
qed

lemma log_upload_refused_witness:
  "\<exists>h w'. run_state (dumb_log_upload_handler toy_server (\<lambda>_. None) \<lparr>rs_body = [], rs_body_too_large = False, rs_allocation_failed = False\<rparr>) idle_world = (Queued h, w') \<and> hr_status h = 404"
proof -
  obtain h w' where r: "run_state (dumb_log_upload_handler toy_server (\<lambda>_. None) \<lparr>rs_body = [], rs_body_too_large = False, rs_allocation_failed = False\<rparr>) idle_world = (Queued h, w')"
    by (simp add: dumb_log_upload_handler_def query_value_def not_found_def queue_text_response_def queue_response_def io_simps)
  from log_upload_refused[OF _ r] r show ?thesis by auto
qed

end
