(* ===== verification/MountCopy.thy ===== *)
theory MountCopy
  imports PayloadCmd "HOL-Library.AList"
begin

text \<open>
  \<open>daemon/mount_copy_ns.c\<close>: a child in its own mount namespace mounts a device, measures and
  copies a directory tree, unmounts, and reports through a pipe.  The trees are values: what
  \<open>lstat\<close> and \<open>readdir\<close> show of the source, and the node at the destination path, which every
  function takes and returns (\<open>None\<close> when nothing is there).  Permission bits are not part of
  them, source and destination do not overlap, and a read returns 0 only at the end of a file.
  What the child sees once the device is mounted, the formatted progress text and whether it is
  killed come from the environment.
\<close>

datatype ftree = FReg bytes | FLink nat string | FDir "(string \<times> ftree) list" | FSpecial

record copy_progress =
  cp_done :: nat
  cp_total :: nat
  cp_last :: int

record child_status =
  cs_rc :: int
  cs_err :: int

record child_args =
  ca_device :: string
  ca_mountpoint :: string
  ca_fstype :: string
  ca_mount_data :: "string option"
  ca_copy_src :: string
  ca_copy_dst :: string

record mount_env =
  me_tree :: "child_args \<Rightarrow> string \<Rightarrow> ftree option"
  me_text :: "nat \<Rightarrow> nat \<Rightarrow> string"
  me_killed :: "(nat \<times> bytes \<times> ftree option) option"

abbreviation (input) ENXIO :: int where "ENXIO \<equiv> 6"
abbreviation (input) UINT64_MAX :: nat where "UINT64_MAX \<equiv> 18446744073709551615"

definition COPY_BUFFER_SIZE :: nat where "COPY_BUFFER_SIZE = 1048576"


section \<open>Reading and writing\<close>

fun fail_of :: "outcome \<Rightarrow> int option" where
  "fail_of (Fail e) = Some e"
| "fail_of _ = None"

text \<open>What a writer delivers, and what a reader takes from the bytes that are available.\<close>

function chatgpt_write_loop :: "bytes \<Rightarrow> bytes \<Rightarrow> world \<Rightarrow> (int \<times> bytes) \<times> world" where
  "chatgpt_write_loop buf sent w =
     (if buf = [] then ((0, sent), w)
      else case run_state next_io w of (x, w') \<Rightarrow>
        (case fail_of x of
           Some e \<Rightarrow> if e = EINTR then chatgpt_write_loop buf sent (w'\<lparr>w_errno := e\<rparr>)
                     else ((-1, sent), w'\<lparr>w_errno := e\<rparr>)
         | None \<Rightarrow> let n = io_cap x (length buf) in chatgpt_write_loop (drop n buf) (sent @ take n buf) w'))"
  by pat_completeness auto
termination
  by (relation "measures [\<lambda>(buf, sent, w). length (w_io w), \<lambda>(buf, sent, w). length buf]")
     (auto simp: next_io_def split: list.splits outcome.splits)

declare chatgpt_write_loop.simps [simp del]

definition chatgpt_write_all :: "bytes \<Rightarrow> (int \<times> bytes) io" where
  "chatgpt_write_all buf = State (chatgpt_write_loop buf [])"

function chatgpt_read_loop :: "bytes \<Rightarrow> nat \<Rightarrow> bytes \<Rightarrow> world \<Rightarrow> (int \<times> bytes) \<times> world" where
  "chatgpt_read_loop avail len buf w =
     (if len = 0 then ((0, buf), w)
      else case run_state next_io w of (x, w') \<Rightarrow>
        (case fail_of x of
           Some e \<Rightarrow> if e = EINTR then chatgpt_read_loop avail len buf (w'\<lparr>w_errno := e\<rparr>)
                     else ((-1, buf), w'\<lparr>w_errno := e\<rparr>)
         | None \<Rightarrow> let n = min (length avail) (io_cap x len) in
             if n = 0 then ((-1, buf), w'\<lparr>w_errno := EIO\<rparr>)
             else chatgpt_read_loop (drop n avail) (len - n) (buf @ take n avail) w'))"
  by pat_completeness auto
termination
  by (relation "measures [\<lambda>(avail, len, buf, w). len, \<lambda>(avail, len, buf, w). length (w_io w)]")
     (auto simp: next_io_def split: list.splits outcome.splits)

declare chatgpt_read_loop.simps [simp del]

definition chatgpt_read_all :: "bytes \<Rightarrow> nat \<Rightarrow> (int \<times> bytes) io" where
  "chatgpt_read_all avail len = State (chatgpt_read_loop avail len [])"


section \<open>Measuring\<close>

text \<open>The end of the loops over a directory: \<open>closedir\<close>, then the saved error number.\<close>

definition close_dir :: "int \<Rightarrow> int \<Rightarrow> int io" where
  "close_dir rc saved_errno = do {
     ok \<leftarrow> fallible;
     (rc, saved_errno) \<leftarrow> (if \<not> ok \<and> rc = 0 then do { e \<leftarrow> get_errno; ret (-1, e) } else ret (rc, saved_errno));
     (if rc < 0 then set_errno saved_errno else ret ());
     ret rc }"

text \<open>\<open>errno = 0; readdir(dir)\<close>: \<open>Some e\<close> when it returns NULL.\<close>

definition read_dir :: "int option io" where
  "read_dir = do { set_errno 0; ok \<leftarrow> fallible; if ok then ret None else do { e \<leftarrow> get_errno; ret (Some e) } }"

abbreviation (input) rc_of :: "int \<Rightarrow> int" where
  "rc_of e \<equiv> if e \<noteq> 0 then -1 else 0"

fun measure_tree :: "ftree \<Rightarrow> nat \<Rightarrow> (int \<times> nat) io"
  and measure_entries :: "(string \<times> ftree) list \<Rightarrow> nat \<Rightarrow> (int \<times> int \<times> nat) io" where
  "measure_tree t tot = do {
     ok \<leftarrow> fallible;
     if \<not> ok then ret (-1, tot)
     else case t of
       FReg c \<Rightarrow> if UINT64_MAX - tot < length c then fail_with EOVERFLOW (-1, tot)
                 else ret (0, tot + length c)
     | FLink sz target \<Rightarrow> ret (0, tot)
     | FSpecial \<Rightarrow> fail_with ENOTSUP (-1, tot)
     | FDir entries \<Rightarrow> do {
         ok \<leftarrow> fallible;
         if \<not> ok then ret (-1, tot)
         else do {
           (rc, saved_errno, tot) \<leftarrow> measure_entries entries tot;
           rc \<leftarrow> close_dir rc saved_errno;
           ret (rc, tot) } } }"
| "measure_entries [] tot = do {
     e \<leftarrow> read_dir;
     case e of None \<Rightarrow> ret (0, 0, tot) | Some e \<Rightarrow> ret (rc_of e, e, tot) }"
| "measure_entries ((name, t) # entries) tot = do {
     e \<leftarrow> read_dir;
     case e of
       Some e \<Rightarrow> ret (rc_of e, e, tot)
     | None \<Rightarrow>
         if name = ''.'' \<or> name = ''..'' then measure_entries entries tot
         else do {
           child \<leftarrow> c_malloc;
           if \<not> child then do { e \<leftarrow> get_errno; ret (-1, e, tot) }
           else do {
             (r, tot) \<leftarrow> measure_tree t tot;
             if r < 0 then do { e \<leftarrow> get_errno; ret (-1, e, tot) }
             else measure_entries entries tot } } }"


section \<open>Copying\<close>

text \<open>The model's clock counts seconds.\<close>

definition print_progress :: "mount_env \<Rightarrow> int \<Rightarrow> copy_progress \<Rightarrow> bool \<Rightarrow> copy_progress io" where
  "print_progress env sockfd progress force = do {
     ok \<leftarrow> fallible;
     if \<not> ok then ret progress
     else do {
       now \<leftarrow> c_time;
       let elapsed_ms = (now - cp_last progress) * 1000;
       if \<not> force \<and> elapsed_ms < 100 then ret progress
       else do {
         tell sockfd (me_text env (cp_done progress) (cp_total progress));
         ret (progress\<lparr>cp_last := now\<rparr>) } } }"

text \<open>\<open>open(dst, O_WRONLY | O_CREAT | O_TRUNC | O_NOFOLLOW)\<close> and \<open>unlink(dst)\<close>.\<close>

definition open_dst :: "ftree option \<Rightarrow> (int \<times> ftree option) io" where
  "open_dst dst = do {
     ok \<leftarrow> fallible;
     if \<not> ok then ret (-1, dst)
     else case dst of
       None \<Rightarrow> ret (0, Some (FReg []))
     | Some (FReg _) \<Rightarrow> ret (0, Some (FReg []))
     | Some (FLink _ _) \<Rightarrow> fail_with ELOOP (-1, dst)
     | Some (FDir _) \<Rightarrow> fail_with EISDIR (-1, dst)
     | Some FSpecial \<Rightarrow> fail_with ENXIO (-1, dst) }"

definition unlink_dst :: "ftree option \<Rightarrow> (int \<times> ftree option) io" where
  "unlink_dst dst = do {
     ok \<leftarrow> fallible;
     if \<not> ok then ret (-1, dst)
     else case dst of
       None \<Rightarrow> fail_with ENOENT (-1, dst)
     | Some (FDir _) \<Rightarrow> fail_with EISDIR (-1, dst)
     | Some _ \<Rightarrow> ret (0, None) }"

text \<open>The loop over the chunks: what is left of the source, and what is in the copy.\<close>

fun read_cap :: "outcome \<Rightarrow> nat \<Rightarrow> nat" where
  "read_cap (Short k) n = min n (Suc k)"
| "read_cap _ n = n"

lemma read_cap_le: "read_cap x n \<le> n"
  by (cases x) simp_all

lemma read_cap_less: "0 < read_cap x (min c n) \<Longrightarrow> n - read_cap x (min c n) < n"
  using read_cap_le[of x "min c n"] by simp

function copy_loop ::
  "mount_env \<Rightarrow> int \<Rightarrow> bytes \<Rightarrow> bytes \<Rightarrow> copy_progress \<Rightarrow> world \<Rightarrow> (int \<times> bytes \<times> copy_progress) \<times> world" where
  "copy_loop env sockfd rest out progress w =
     (case run_state next_io w of (x, w1) \<Rightarrow>
       (case fail_of x of
          Some e \<Rightarrow> if e = EINTR then copy_loop env sockfd rest out progress (w1\<lparr>w_errno := e\<rparr>)
                    else ((-1, out, progress), w1\<lparr>w_errno := e\<rparr>)
        | None \<Rightarrow>
            let nread = read_cap x (min COPY_BUFFER_SIZE (length rest)) in
            if nread = 0 then ((0, out, progress), w1)
            else case run_state (chatgpt_write_all (take nread rest)) w1 of ((r, sent), w2) \<Rightarrow>
              if r < 0 then ((-1, out @ sent, progress), w2)
              else let progress = progress\<lparr>cp_done := (cp_done progress + nread) mod 18446744073709551616\<rparr> in
                case run_state (print_progress env sockfd progress False) w2 of (progress, w3) \<Rightarrow>
                  copy_loop env sockfd (drop nread rest) (out @ sent) progress w3))"
  by pat_completeness auto
termination
  by (relation "measures [\<lambda>(env, fd, rest, out, p, w). length rest, \<lambda>(env, fd, rest, out, p, w). length (w_io w)]")
     (auto simp: next_io_def read_cap_less split: list.splits)

declare copy_loop.simps [simp del]

text \<open>From the opened descriptors on: the label \<open>out\<close> closes what is open.\<close>

definition close_checked :: "int \<Rightarrow> int \<Rightarrow> (int \<times> int) io" where
  "close_checked rc saved_errno = do {
     ok \<leftarrow> fallible;
     if \<not> ok \<and> rc = 0 then do { e \<leftarrow> get_errno; ret (-1, e) } else ret (rc, saved_errno) }"

definition copy_out :: "bool \<Rightarrow> bool \<Rightarrow> int \<Rightarrow> int io" where
  "copy_out has_out has_in rc = do {
     saved_errno \<leftarrow> get_errno;
     (rc, saved_errno) \<leftarrow> (if has_out then close_checked rc saved_errno else ret (rc, saved_errno));
     (rc, saved_errno) \<leftarrow> (if has_in then close_checked rc saved_errno else ret (rc, saved_errno));
     (if rc < 0 then set_errno saved_errno else ret ());
     ret rc }"

definition copy_regular_file ::
  "mount_env \<Rightarrow> int \<Rightarrow> bytes \<Rightarrow> ftree option \<Rightarrow> copy_progress \<Rightarrow> (int \<times> ftree option \<times> copy_progress) io" where
  "copy_regular_file env sockfd src dst progress = do {
     in_fd \<leftarrow> fallible;
     if \<not> in_fd then do { rc \<leftarrow> copy_out False False (-1); ret (rc, dst, progress) }
     else do {
       (out_fd, dst) \<leftarrow> open_dst dst;
       e \<leftarrow> get_errno;
       (gone, out_fd, dst) \<leftarrow>
         (if out_fd < 0 \<and> e = ELOOP then do {
            (u, dst) \<leftarrow> unlink_dst dst;
            if u < 0 then ret (True, -1, dst)
            else do { (out_fd, dst) \<leftarrow> open_dst dst; ret (False, out_fd, dst) } }
          else ret (False, out_fd, dst));
       if gone \<or> out_fd < 0 then do { rc \<leftarrow> copy_out False True (-1); ret (rc, dst, progress) }
       else do {
         buffer \<leftarrow> c_malloc;
         if \<not> buffer then do { rc \<leftarrow> copy_out True True (-1); ret (rc, dst, progress) }
         else do {
           (r, out, progress) \<leftarrow> State (copy_loop env sockfd src [] progress);
           if r < 0 then do { rc \<leftarrow> copy_out True True (-1); ret (rc, Some (FReg out), progress) }
           else do {
             fallible;
             rc \<leftarrow> copy_out True True 0;
             ret (rc, Some (FReg out), progress) } } } } }"

text \<open>
  \<open>readlink\<close> into a growing buffer; a failed call is \<open>None\<close>.  Every further round doubles the
  size, so as many rounds as the target has characters, and one more, are enough.
\<close>

fun readlink_loop :: "nat \<Rightarrow> string \<Rightarrow> nat \<Rightarrow> string option io" where
  "readlink_loop 0 target sz = ret None"
| "readlink_loop (Suc fuel) target sz = do {
     new_target \<leftarrow> c_malloc;
     if \<not> new_target then ret None
     else do {
       ok \<leftarrow> fallible;
       if \<not> ok then ret None
       else let n = min (length target) sz in
         if n < sz then ret (Some (take n target))
         else if UINT64_MAX div 2 < sz then fail_with EOVERFLOW None
         else readlink_loop fuel target (sz * 2) } }"

definition copy_symlink :: "nat \<Rightarrow> string \<Rightarrow> ftree option \<Rightarrow> (int \<times> ftree option) io" where
  "copy_symlink st_size target dst = do {
     let sz = (if 0 < st_size then st_size + 1 else 256);
     t \<leftarrow> readlink_loop (Suc (length target)) target sz;
     case t of
       None \<Rightarrow> ret (-1, dst)
     | Some target \<Rightarrow> do {
         (u, dst) \<leftarrow> unlink_dst dst;
         e \<leftarrow> get_errno;
         if u < 0 \<and> e \<noteq> ENOENT then ret (-1, dst)
         else do {
           ok \<leftarrow> fallible;
           if \<not> ok then ret (-1, dst)
           else if dst \<noteq> None then fail_with EEXIST (-1, dst)
           else ret (0, Some (FLink (length target) target)) } } }"

text \<open>\<open>mkdir(dst)\<close>, where an existing directory will do.\<close>

definition make_dst_dir :: "ftree option \<Rightarrow> (int \<times> ftree option) io" where
  "make_dst_dir dst = do {
     ok \<leftarrow> fallible;
     (err, dst) \<leftarrow> (if \<not> ok then ret (-1 :: int, dst)
       else case dst of None \<Rightarrow> ret (0, Some (FDir [])) | Some _ \<Rightarrow> fail_with EEXIST (-1, dst));
     e \<leftarrow> get_errno;
     if \<not> err < 0 then ret (0, dst)
     else if e \<noteq> EEXIST then ret (-1, dst)
     else do {
       ok \<leftarrow> fallible;
       if \<not> ok then ret (-1, dst)
       else case dst of
         None \<Rightarrow> fail_with ENOENT (-1, dst)
       | Some (FDir _) \<Rightarrow> ret (0, dst)
       | Some _ \<Rightarrow> fail_with ENOTDIR (-1, dst) } }"

definition dir_entries :: "ftree option \<Rightarrow> (string \<times> ftree) list" where
  "dir_entries t = (case t of Some (FDir es) \<Rightarrow> es | _ \<Rightarrow> [])"

definition set_entry :: "string \<Rightarrow> ftree option \<Rightarrow> (string \<times> ftree) list \<Rightarrow> (string \<times> ftree) list" where
  "set_entry name t es = (case t of None \<Rightarrow> AList.delete name es | Some t \<Rightarrow> AList.update name t es)"

fun copy_tree :: "mount_env \<Rightarrow> int \<Rightarrow> ftree \<Rightarrow> ftree option \<Rightarrow> copy_progress \<Rightarrow> (int \<times> ftree option \<times> copy_progress) io"
  and copy_entries :: "mount_env \<Rightarrow> int \<Rightarrow> (string \<times> ftree) list \<Rightarrow> (string \<times> ftree) list \<Rightarrow> copy_progress \<Rightarrow>
        (int \<times> int \<times> (string \<times> ftree) list \<times> copy_progress) io" where
  "copy_tree env sockfd src dst progress = do {
     ok \<leftarrow> fallible;
     if \<not> ok then ret (-1, dst, progress)
     else case src of
       FReg c \<Rightarrow> copy_regular_file env sockfd c dst progress
     | FLink sz target \<Rightarrow> do { (r, dst) \<leftarrow> copy_symlink sz target dst; ret (r, dst, progress) }
     | FSpecial \<Rightarrow> fail_with ENOTSUP (-1, dst, progress)
     | FDir entries \<Rightarrow> do {
         (err, dst) \<leftarrow> make_dst_dir dst;
         if err < 0 then ret (-1, dst, progress)
         else do {
           ok \<leftarrow> fallible;
           if \<not> ok then ret (-1, dst, progress)
           else do {
             (rc, saved_errno, es, progress) \<leftarrow> copy_entries env sockfd entries (dir_entries dst) progress;
             rc \<leftarrow> close_dir rc saved_errno;
             (if rc = 0 then do { fallible; ret () } else ret ());
             ret (rc, Some (FDir es), progress) } } } }"
| "copy_entries env sockfd [] es progress = do {
     e \<leftarrow> read_dir;
     case e of None \<Rightarrow> ret (0, 0, es, progress) | Some e \<Rightarrow> ret (rc_of e, e, es, progress) }"
| "copy_entries env sockfd ((name, t) # entries) es progress = do {
     e \<leftarrow> read_dir;
     case e of
       Some e \<Rightarrow> ret (rc_of e, e, es, progress)
     | None \<Rightarrow>
         if name = ''.'' \<or> name = ''..'' then copy_entries env sockfd entries es progress
         else do {
           src_child \<leftarrow> c_malloc;
           dst_child \<leftarrow> c_malloc;
           if \<not> src_child \<or> \<not> dst_child then do { e \<leftarrow> get_errno; ret (-1, e, es, progress) }
           else do {
             (r, d, progress) \<leftarrow> copy_tree env sockfd t (map_of es name) progress;
             let es = set_entry name d es;
             if r < 0 then do { e \<leftarrow> get_errno; ret (-1, e, es, progress) }
             else copy_entries env sockfd entries es progress } } }"


section \<open>The child\<close>

definition sync_destination_filesystem :: "ftree option \<Rightarrow> int io" where
  "sync_destination_filesystem dst = do {
     ok \<leftarrow> fallible;
     if \<not> ok then ret (-1)
     else case dst of
       None \<Rightarrow> fail_with ENOENT (-1)
     | Some (FLink _ _) \<Rightarrow> fail_with ELOOP (-1)
     | Some _ \<Rightarrow> do {
         ok \<leftarrow> fallible;
         saved_errno \<leftarrow> get_errno;
         (rc, saved_errno) \<leftarrow> close_checked (if ok then 0 else -1) saved_errno;
         (if rc < 0 then set_errno saved_errno else ret ());
         ret rc } }"

text \<open>The record travels as two little-endian 32-bit numbers.\<close>

definition status_bytes :: "child_status \<Rightarrow> bytes" where
  "status_bytes st = rev (be32 (nat (cs_rc st mod 2 ^ 32))) @ rev (be32 (nat (cs_err st mod 2 ^ 32)))"

definition status_of_bytes :: "bytes \<Rightarrow> child_status" where
  "status_of_bytes bs = \<lparr>cs_rc = c_int (int (of_be (rev (take 4 bs)))), cs_err = c_int (int (of_be (rev (drop 4 bs))))\<rparr>"

definition sizeof_child_status :: nat where "sizeof_child_status = 8"

text \<open>What arrives in the pipe.\<close>

definition send_child_status :: "int \<Rightarrow> int \<Rightarrow> bytes io" where
  "send_child_status rc err = do {
     (r, sent) \<leftarrow> chatgpt_write_all (status_bytes \<lparr>cs_rc = rc, cs_err = err\<rparr>);
     ret sent }"

text \<open>\<open>measure_tree\<close> and \<open>copy_tree\<close> on a path where there may be nothing.\<close>

definition measure_path :: "ftree option \<Rightarrow> nat \<Rightarrow> (int \<times> nat) io" where
  "measure_path src tot = (case src of
     Some t \<Rightarrow> measure_tree t tot
   | None \<Rightarrow> do { ok \<leftarrow> fallible; if \<not> ok then ret (-1, tot) else fail_with ENOENT (-1, tot) })"

definition copy_path ::
  "mount_env \<Rightarrow> int \<Rightarrow> ftree option \<Rightarrow> ftree option \<Rightarrow> copy_progress \<Rightarrow> (int \<times> ftree option \<times> copy_progress) io" where
  "copy_path env sockfd src dst progress = (case src of
     Some t \<Rightarrow> copy_tree env sockfd t dst progress
   | None \<Rightarrow> do {
       ok \<leftarrow> fallible;
       if \<not> ok then ret (-1, dst, progress) else fail_with ENOENT (-1, dst, progress) })"

text \<open>Between mounting and the label \<open>out\<close>: \<open>rc\<close>, the saved error number, the destination.\<close>

definition copy_mounted :: "mount_env \<Rightarrow> int \<Rightarrow> child_args \<Rightarrow> (int \<times> int \<times> ftree option) io" where
  "copy_mounted env sockfd args = do {
     let src = me_tree env args (ca_copy_src args);
     let dst = me_tree env args (ca_copy_dst args);
     ok \<leftarrow> fallible;
     if \<not> ok then do { e \<leftarrow> get_errno; ret (-1, e, dst) }
     else do {
       now \<leftarrow> c_time;
       (r, tot) \<leftarrow> measure_path src 0;
       if r < 0 then do { e \<leftarrow> get_errno; ret (-1, e, dst) }
       else do {
         progress \<leftarrow> print_progress env sockfd \<lparr>cp_done = 0, cp_total = tot, cp_last = now\<rparr> True;
         (r, dst, progress) \<leftarrow> copy_path env sockfd src dst progress;
         if r < 0 then do { e \<leftarrow> get_errno; ret (-1, e, dst) }
         else do {
           progress \<leftarrow> print_progress env sockfd progress True;
           s \<leftarrow> sync_destination_filesystem dst;
           e \<leftarrow> get_errno;
           ret (0, if s < 0 then e else 0, dst) } } } }"

text \<open>The child's exit status, the bytes it put in the pipe and the destination it leaves.\<close>

definition child_main :: "mount_env \<Rightarrow> int \<Rightarrow> child_args \<Rightarrow> (int \<times> bytes \<times> ftree option) io" where
  "child_main env sockfd args = do {
     let dst = me_tree env args (ca_copy_dst args);
     private \<leftarrow> fallible;
     (mounted, rc, saved_errno, dst) \<leftarrow>
       (if \<not> private then do { e \<leftarrow> get_errno; ret (False, -1, e, dst) }
        else do {
          mounted \<leftarrow> fallible;
          if \<not> mounted then do { e \<leftarrow> get_errno; ret (False, -1, e, dst) }
          else do { (rc, saved_errno, dst) \<leftarrow> copy_mounted env sockfd args; ret (True, rc, saved_errno, dst) } });
     (rc, saved_errno) \<leftarrow> (if mounted then close_checked rc saved_errno else ret (rc, saved_errno));
     sent \<leftarrow> (if rc = 0 then send_child_status 0 0
              else send_child_status (-1) (if saved_errno \<noteq> 0 then saved_errno else EIO));
     ret (if rc = 0 then 0 else 1, sent, dst) }"


section \<open>The parent\<close>

text \<open>
  The child's stack, exit status, pipe and copy: a killed child leaves what the environment says.
  The parent waits before it reads, so it sees the child's world afterwards, with its own error
  number.
\<close>

definition run_child :: "mount_env \<Rightarrow> int \<Rightarrow> child_args \<Rightarrow> (wstatus \<times> bytes \<times> ftree option) io" where
  "run_child env sockfd args = do {
     e \<leftarrow> get_errno;
     r \<leftarrow> (case me_killed env of
         Some (sig, sent, dst) \<Rightarrow> ret (Signaled sig, sent, dst)
       | None \<Rightarrow> do { (code, sent, dst) \<leftarrow> child_main env sockfd args; ret (Exited (nat code), sent, dst) });
     set_errno e;
     ret r }"

function wait_child_loop :: "world \<Rightarrow> bool \<times> world" where
  "wait_child_loop w = (case run_state next_outcome w of (x, w1) \<Rightarrow>
     (case fail_of x of
        Some e \<Rightarrow> if e = EINTR then wait_child_loop (w1\<lparr>w_errno := e\<rparr>) else (False, w1\<lparr>w_errno := e\<rparr>)
      | None \<Rightarrow> (True, w1)))"
  by pat_completeness auto
termination
  by (relation "measure (\<lambda>w. length (w_plan w))") (auto simp: next_outcome_def split: list.splits)

declare wait_child_loop.simps [simp del]

definition mount_copy_unmount_ns ::
  "mount_env \<Rightarrow> string option \<Rightarrow> string option \<Rightarrow> string option \<Rightarrow> string option \<Rightarrow> string option \<Rightarrow>
   string option \<Rightarrow> int \<Rightarrow> (int \<times> ftree option) io" where
  "mount_copy_unmount_ns env device mountpoint fstype mount_data copy_src copy_dst sockfd =
     (if device = None \<or> mountpoint = None \<or> fstype = None \<or> copy_src = None \<or> copy_dst = None
      then fail_with EINVAL (-1, None)
      else do {
        let args = \<lparr>ca_device = the device, ca_mountpoint = the mountpoint, ca_fstype = the fstype,
              ca_mount_data = mount_data, ca_copy_src = the copy_src, ca_copy_dst = the copy_dst\<rparr>;
        let dst = me_tree env args (ca_copy_dst args);
        pipe \<leftarrow> fallible;
        if \<not> pipe then ret (-1, dst)
        else do {
          stack \<leftarrow> fallible;
          if \<not> stack then ret (-1, dst)
          else do {
            pid \<leftarrow> fallible;
            if \<not> pid then ret (-1, dst)
            else do {
              (wait_status, sent, dst) \<leftarrow> run_child env sockfd args;
              waited \<leftarrow> State wait_child_loop;
              if \<not> waited then ret (-1, dst)
              else do {
                (read_rc, buf) \<leftarrow> chatgpt_read_all sent sizeof_child_status;
                read_errno \<leftarrow> get_errno;
                if read_rc < 0 then
                  fail_with (case wait_status of Signaled _ \<Rightarrow> ECHILD | _ \<Rightarrow> read_errno) (-1, dst)
                else let child_status = status_of_bytes buf in
                  if wait_status \<noteq> Exited 0 \<or> cs_rc child_status \<noteq> 0
                  then fail_with (if cs_err child_status \<noteq> 0 then cs_err child_status else EIO) (-1, dst)
                  else ret (0, dst) } } } } })"


section \<open>Frames\<close>

lemma run_next_io: "run_state next_io w = (case w_io w of [] \<Rightarrow> (Done, w) | x # xs \<Rightarrow> (x, w\<lparr>w_io := xs\<rparr>))"
  by (simp add: next_io_def)

context effect_frame
begin

lemma frame_next_io: "run_state next_io w = (x, w') \<Longrightarrow> R w w'"
  using keeps_next_io by (rule keepsD)

lemma frame_next_io_errno: "run_state next_io w = (x, w') \<Longrightarrow> R w (w'\<lparr>w_errno := e\<rparr>)"
  using frame_next_io frame_errno frame_trans by blast

lemma frame_next_io_step: "run_state next_io w = (x, w') \<Longrightarrow> R w' z \<or> R (w'\<lparr>w_errno := e\<rparr>) z \<Longrightarrow> R w z"
  using frame_next_io frame_next_io_errno frame_trans by metis

lemma chatgpt_write_loop_frame: "R w (snd (chatgpt_write_loop buf sent w))"
proof (induction buf sent w rule: chatgpt_write_loop.induct)
  case (1 buf sent w)
  obtain x w' where n: "run_state next_io w = (x, w')" by fastforce
  have IH: "fail_of x = Some EINTR \<Longrightarrow> buf \<noteq> [] \<Longrightarrow> R (w'\<lparr>w_errno := EINTR\<rparr>) (snd (chatgpt_write_loop buf sent (w'\<lparr>w_errno := EINTR\<rparr>)))"
    "fail_of x = None \<Longrightarrow> buf \<noteq> [] \<Longrightarrow> R w' (snd (chatgpt_write_loop (drop (io_cap x (length buf)) buf) (sent @ take (io_cap x (length buf)) buf) w'))"
    using 1 n by simp_all
  show ?case
    by (subst chatgpt_write_loop.simps)
       (auto simp: n frame_refl frame_next_io_errno[OF n] Let_def split: option.split
         intro: frame_next_io_step[OF n disjI2, OF IH(1)] frame_next_io_step[OF n disjI1, OF IH(2)])
qed

lemma keeps_chatgpt_write_all [keeps_intros]: "keeps R (chatgpt_write_all buf)"
  by (simp add: keeps_def chatgpt_write_all_def chatgpt_write_loop_frame)

lemma chatgpt_read_loop_frame: "R w (snd (chatgpt_read_loop avail len buf w))"
proof (induction avail len buf w rule: chatgpt_read_loop.induct)
  case (1 avail len buf w)
  obtain x w' where n: "run_state next_io w = (x, w')" by fastforce
  let ?n = "min (length avail) (io_cap x len)"
  have IH: "fail_of x = Some EINTR \<Longrightarrow> len \<noteq> 0 \<Longrightarrow> R (w'\<lparr>w_errno := EINTR\<rparr>) (snd (chatgpt_read_loop avail len buf (w'\<lparr>w_errno := EINTR\<rparr>)))"
    "fail_of x = None \<Longrightarrow> len \<noteq> 0 \<Longrightarrow> ?n \<noteq> 0 \<Longrightarrow> R w' (snd (chatgpt_read_loop (drop ?n avail) (len - ?n) (buf @ take ?n avail) w'))"
    subgoal using 1(2)[OF _ n[symmetric]] by simp
    subgoal using 1(1)[OF _ n[symmetric]] by simp
    done
  show ?case
    by (subst chatgpt_read_loop.simps)
       (simp add: n frame_refl frame_next_io[OF n] frame_next_io_errno[OF n] frame_trans[OF frame_next_io[OF n] frame_errno] Let_def
         frame_next_io_step[OF n disjI2, OF IH(1)] frame_next_io_step[OF n disjI1, OF IH(2)] split: option.split del: min_0R min_0L)
qed

lemma keeps_chatgpt_read_all [keeps_intros]: "keeps R (chatgpt_read_all avail len)"
  by (simp add: keeps_def chatgpt_read_all_def chatgpt_read_loop_frame)

lemma wait_child_loop_frame: "R w (snd (wait_child_loop w))"
proof (induction w rule: wait_child_loop.induct)
  case (1 w)
  obtain x w' where n: "run_state next_outcome w = (x, w')" by fastforce
  have f: "R w w'" "R w (w'\<lparr>w_errno := e\<rparr>)" for e
    using keepsD[OF keeps_next_outcome n] frame_errno frame_trans by blast+
  have IH: "fail_of x = Some EINTR \<Longrightarrow> R (w'\<lparr>w_errno := EINTR\<rparr>) (snd (wait_child_loop (w'\<lparr>w_errno := EINTR\<rparr>)))"
    using 1 n by simp
  show ?case
    by (subst wait_child_loop.simps) (auto simp: n f split: option.split intro: frame_trans[OF f(2) IH])
qed

lemma keeps_wait_child [keeps_intros]: "keeps R (State wait_child_loop)"
  by (simp add: keeps_def wait_child_loop_frame)

lemma keeps_close_dir [keeps_intros]: "keeps R (close_dir rc e)"
  unfolding close_dir_def by (intro keeps_intros)

lemma keeps_close_checked [keeps_intros]: "keeps R (close_checked rc e)"
  unfolding close_checked_def by (intro keeps_intros)

lemma keeps_read_dir [keeps_intros]: "keeps R read_dir"
  unfolding read_dir_def by (intro keeps_intros)

lemma keeps_case_ftree [keeps_intros]:
  "(\<And>c. t = FReg c \<Longrightarrow> keeps R (f c)) \<Longrightarrow> (\<And>n x. t = FLink n x \<Longrightarrow> keeps R (g n x)) \<Longrightarrow>
   (\<And>es. t = FDir es \<Longrightarrow> keeps R (h es)) \<Longrightarrow> keeps R k \<Longrightarrow>
   keeps R (case t of FReg c \<Rightarrow> f c | FLink n t \<Rightarrow> g n t | FDir es \<Rightarrow> h es | FSpecial \<Rightarrow> k)"
  by (cases t) simp_all

lemma keeps_open_dst [keeps_intros]: "keeps R (open_dst dst)"
  unfolding open_dst_def by (intro keeps_intros)

lemma keeps_unlink_dst [keeps_intros]: "keeps R (unlink_dst dst)"
  unfolding unlink_dst_def by (intro keeps_intros)

lemma keeps_make_dst_dir [keeps_intros]: "keeps R (make_dst_dir dst)"
  unfolding make_dst_dir_def by (intro keeps_intros)

lemma keeps_copy_out [keeps_intros]: "keeps R (copy_out a b rc)"
  unfolding copy_out_def by (intro keeps_intros)

lemma keeps_readlink_loop [keeps_intros]: "keeps R (readlink_loop n t sz)"
  by (induction n arbitrary: sz) (auto intro!: keeps_intros simp: Let_def)

lemma keeps_copy_symlink [keeps_intros]: "keeps R (copy_symlink sz t dst)"
  unfolding copy_symlink_def Let_def by (intro keeps_intros)

lemma keeps_sync [keeps_intros]: "keeps R (sync_destination_filesystem dst)"
  unfolding sync_destination_filesystem_def by (intro keeps_intros)

lemma keeps_send_status [keeps_intros]: "keeps R (send_child_status rc e)"
  unfolding send_child_status_def by (intro keeps_intros)

lemma keeps_measure_tree [keeps_intros]:
  "keeps R (measure_tree t n)" "keeps R (measure_entries es n)"
proof (induction t n and es n rule: measure_tree_measure_entries.induct)
  case (1 t n)
  have "keeps R (measure_entries es n)" if "t = FDir es" for es using 1 that by blast
  then show ?case by (subst measure_tree.simps) (intro keeps_intros)
qed (auto intro!: keeps_intros)

end

context file_frame
begin

lemma keeps_print_progress [keeps_intros]: "keeps R (print_progress env fd pr force)"
  unfolding print_progress_def Let_def by (intro keeps_intros)

lemma copy_loop_frame: "R w (snd (copy_loop env fd rest out pr w))"
proof (induction env fd rest out pr w rule: copy_loop.induct)
  case (1 env fd rest out pr w)
  obtain x w1 where n: "run_state next_io w = (x, w1)" by fastforce
  note f = frame_next_io[OF n] frame_next_io_errno[OF n]
  let ?n = "read_cap x (min COPY_BUFFER_SIZE (length rest))"
  let ?pr = "pr\<lparr>cp_done := (cp_done pr + ?n) mod 18446744073709551616\<rparr>"
  obtain r sent w2 where wr: "run_state (chatgpt_write_all (take ?n rest)) w1 = ((r, sent), w2)" by (metis surj_pair)
  have g: "R w w2" by (rule frame_trans[OF f(1) keepsD[OF keeps_chatgpt_write_all wr]])
  obtain pr' w3 where pp: "run_state (print_progress env fd ?pr False) w2 = (pr', w3)" by fastforce
  have h: "R w w3" by (rule frame_trans[OF g keepsD[OF keeps_print_progress pp]])
  have IH: "fail_of x = Some EINTR \<Longrightarrow> R (w1\<lparr>w_errno := EINTR\<rparr>) (snd (copy_loop env fd rest out pr (w1\<lparr>w_errno := EINTR\<rparr>)))"
    "fail_of x = None \<Longrightarrow> ?n \<noteq> 0 \<Longrightarrow> \<not> r < 0 \<Longrightarrow> R w3 (snd (copy_loop env fd (drop ?n rest) (out @ sent) pr' w3))"
    subgoal using 1(2)[OF n[symmetric]] by simp
    subgoal using 1(1)[OF n[symmetric] _ refl _ wr[symmetric] refl _ refl pp[symmetric]] by simp
    done
  show ?case
    by (subst copy_loop.simps)
       (auto simp: n wr pp f g Let_def split: option.split intro: frame_trans[OF f(2) IH(1)] frame_trans[OF h IH(2)])
qed

lemma keeps_copy_loop [keeps_intros]: "keeps R (State (copy_loop env fd rest out pr))"
  by (simp add: keeps_def copy_loop_frame)

lemma keeps_copy_regular_file [keeps_intros]: "keeps R (copy_regular_file env fd c dst pr)"
  unfolding copy_regular_file_def by (intro keeps_intros)

lemma keeps_copy_tree [keeps_intros]:
  "keeps R (copy_tree env fd t dst pr)" "keeps R (copy_entries env fd es des pr)"
proof (induction env fd t dst pr and env fd es des pr rule: copy_tree_copy_entries.induct)
  case (1 env fd src dst pr)
  have "keeps R (copy_entries env fd es (dir_entries d) pr)" if "src = FDir es" for es d using 1 that by force
  then show ?case by (subst copy_tree.simps) (intro keeps_intros)
next
  case (2 env fd es pr)
  then show ?case by (subst copy_entries.simps) (intro keeps_intros)
next
  case (3 env fd name t entries es pr)
  have IH: "name \<noteq> ''.'' \<Longrightarrow> name \<noteq> ''..'' \<Longrightarrow> keeps R (copy_tree env fd t (map_of es name) pr)"
    "name = ''.'' \<or> name = ''..'' \<Longrightarrow> keeps R (copy_entries env fd entries es pr)"
    "name \<noteq> ''.'' \<Longrightarrow> name \<noteq> ''..'' \<Longrightarrow> keeps R (copy_entries env fd entries (set_entry name d es) pr')" for d pr'
    using 3 by blast+
  then show ?case unfolding copy_entries.simps Let_def by (intro keeps_intros) auto
qed

lemma keeps_copy_mounted [keeps_intros]: "keeps R (copy_mounted env fd args)"
  unfolding copy_mounted_def measure_path_def copy_path_def Let_def by (intro keeps_intros)

lemma keeps_child_main [keeps_intros]: "keeps R (child_main env fd args)"
  unfolding child_main_def Let_def by (intro keeps_intros)

lemma keeps_mount_copy [keeps_intros]: "keeps R (mount_copy_unmount_ns env dv mp fs md src dst fd)"
  unfolding mount_copy_unmount_ns_def run_child_def Let_def by (intro keeps_intros)

end

end
