(* ===== verification/MountCopyProps.thy ===== *)
theory MountCopyProps
  imports MountCopy Samples
begin

text \<open>
  Copying a mounted device: what a reported success guarantees and what a failure leaves alone,
  whatever calls fail; the exact result when nothing fails; the report of the child's error.
\<close>


section \<open>Failing calls\<close>

text \<open>A failing call sets a nonzero error number; \<open>readdir\<close> tells its end from an error by it.\<close>

definition honest :: "world \<Rightarrow> bool" where
  "honest w \<longleftrightarrow> Fail 0 \<notin> set (w_plan w)"

lemma honest_upd [simp]: "honest (w\<lparr>w_errno := e\<rparr>) = honest w"
  by (simp add: honest_def)

lemma wp_honest: "keeps plan_sub m \<Longrightarrow> honest w \<Longrightarrow> wp m P w \<Longrightarrow> wp m (\<lambda>a w'. P a w' \<and> honest w') w"
  using keeps_snd[of plan_sub m w] by (auto simp: wp_run plan_sub_def honest_def)

lemma wp_fallible_honest:
  assumes "honest w" "\<And>b w'. honest w' \<Longrightarrow> b \<or> w_errno w' \<noteq> 0 \<Longrightarrow> Q b w'"
  shows "wp fallible Q w"
proof -
  have "wp fallible (\<lambda>b w'. b \<or> w_errno w' \<noteq> 0) w"
    using assms(1) by (auto simp: honest_def wp_def fallible_def next_outcome_def split: list.split outcome.split)
  from wp_honest[OF fr_plan.keeps_fallible assms(1) this] show ?thesis by (rule wp_mono) (use assms(2) in blast)
qed

lemma wp_malloc_honest:
  assumes "honest w" "\<And>b w'. honest w' \<Longrightarrow> Q b w'"
  shows "wp c_malloc Q w"
proof -
  have "wp c_malloc (\<lambda>b w'. True) w" by (simp add: wp_run)
  from wp_honest[OF fr_plan.keeps_malloc assms(1) this] show ?thesis by (rule wp_mono) (use assms(2) in blast)
qed

lemma wp_read_dir:
  assumes "honest w" "\<And>w'. honest w' \<Longrightarrow> Q None w'" "\<And>e w'. honest w' \<Longrightarrow> e \<noteq> 0 \<Longrightarrow> Q (Some e) w'"
  shows "wp read_dir Q w"
  unfolding read_dir_def by (auto intro!: wp_fallible_honest assms)


section \<open>Trees\<close>

fun tree_ok :: "ftree \<Rightarrow> bool" and entries_ok :: "(string \<times> ftree) list \<Rightarrow> bool" where
  "tree_ok (FDir es) = entries_ok es"
| "tree_ok (FReg c) = True"
| "tree_ok (FLink sz target) = True"
| "tree_ok FSpecial = True"
| "entries_ok [] = True"
| "entries_ok ((n, t) # es) = (n \<notin> fst ` set es \<and> tree_ok t \<and> entries_ok es)"

text \<open>The copy of a tree: a link gets the size of its target.\<close>

fun covers :: "ftree \<Rightarrow> ftree option \<Rightarrow> bool" and covers_entries :: "(string \<times> ftree) list \<Rightarrow> (string \<times> ftree) list \<Rightarrow> bool" where
  "covers (FReg c) d = (d = Some (FReg c))"
| "covers (FLink sz target) d = (d = Some (FLink (length target) target))"
| "covers (FDir es) d = (case d of Some (FDir des) \<Rightarrow> covers_entries es des | _ \<Rightarrow> False)"
| "covers FSpecial d = False"
| "covers_entries [] des = True"
| "covers_entries ((n, t) # es) des =
     ((n = ''.'' \<or> n = ''..'' \<or> covers t (map_of des n)) \<and> covers_entries es des)"

fun has_path :: "ftree \<Rightarrow> string list \<Rightarrow> bool" where
  "has_path t [] = True"
| "has_path t (n # p) = (n \<noteq> ''.'' \<and> n \<noteq> ''..'' \<and>
     (case map_of (dir_entries (Some t)) n of None \<Rightarrow> False | Some t \<Rightarrow> has_path t p))"

fun tree_at :: "ftree option \<Rightarrow> string list \<Rightarrow> ftree option" where
  "tree_at d [] = d"
| "tree_at d (n # p) = tree_at (map_of (dir_entries d) n) p"

lemma tree_at_None [simp]: "tree_at None p = None"
  by (cases p) (simp_all, induct_tac list, simp_all add: dir_entries_def)

lemma dir_entries_simps [simp]: "dir_entries None = []" "dir_entries (Some (FDir es)) = es"
  "dir_entries (Some (FReg c)) = []" "dir_entries (Some (FLink n s)) = []" "dir_entries (Some FSpecial) = []"
  by (simp_all add: dir_entries_def)

lemma set_entry_map [simp]: "map_of (set_entry n d es) = (map_of es)(n := d)"
  by (simp add: set_entry_def AList.update_conv' AList.delete_conv' split: option.split)

definition copied :: "ftree \<Rightarrow> ftree option \<Rightarrow> int \<Rightarrow> ftree option \<Rightarrow> bool" where
  "copied t d r d' \<longleftrightarrow> (r = 0 \<or> r = -1) \<and> (r = 0 \<longrightarrow> covers t d') \<and>
     (\<forall>p. \<not> has_path t p \<longrightarrow> tree_at d' p = tree_at d p)"

definition entries_copied :: "(string \<times> ftree) list \<Rightarrow> (string \<times> ftree) list \<Rightarrow> int \<Rightarrow> (string \<times> ftree) list \<Rightarrow> bool" where
  "entries_copied es des rc des' \<longleftrightarrow> (rc = 0 \<or> rc = -1) \<and> (rc = 0 \<longrightarrow> covers_entries es des') \<and>
     (\<forall>n p. \<not> has_path (FDir es) (n # p) \<longrightarrow> tree_at (map_of des' n) p = tree_at (map_of des n) p)"


section \<open>Files and links\<close>

lemma chatgpt_write_loop_sent:
  "chatgpt_write_loop buf sent w = ((r, out), w') \<Longrightarrow> r = 0 \<and> out = sent @ buf \<or> r = -1"
proof (induction buf sent w rule: chatgpt_write_loop.induct)
  case (1 buf sent w)
  obtain x w1 where n: "run_state next_io w = (x, w1)" by fastforce
  show ?case
  proof (cases "buf = []")
    case False
    from 1(3) show ?thesis
      using 1(1)[OF False n[symmetric] _ refl] 1(2)[OF False n[symmetric]] n False
      by (subst (asm) chatgpt_write_loop.simps) (auto simp: Let_def split: option.splits if_splits)
  qed (use 1(3) in \<open>simp add: chatgpt_write_loop.simps\<close>)
qed

lemma copy_loop_out:
  "copy_loop env fd rest out pr w = ((r, out', pr'), w') \<Longrightarrow> r = 0 \<and> out' = out @ rest \<or> r = -1"
proof (induction env fd rest out pr w rule: copy_loop.induct)
  case (1 env fd rest out pr w)
  obtain x w1 where n: "run_state next_io w = (x, w1)" by fastforce
  let ?n = "read_cap x (min COPY_BUFFER_SIZE (length rest))"
  let ?pr = "pr\<lparr>cp_done := (cp_done pr + ?n) mod 18446744073709551616\<rparr>"
  obtain r2 sent w2 where wr: "run_state (chatgpt_write_all (take ?n rest)) w1 = ((r2, sent), w2)" by (metis surj_pair)
  obtain pr3 w3 where pp: "run_state (print_progress env fd ?pr False) w2 = (pr3, w3)" by fastforce
  have sent: "r2 = 0 \<and> sent = take ?n rest \<or> r2 = -1"
    using chatgpt_write_loop_sent wr by (fastforce simp: chatgpt_write_all_def)
  have z: "?n = 0 \<longleftrightarrow> rest = []" if "fail_of x = None"
    using that by (cases x) (auto simp: COPY_BUFFER_SIZE_def min_def split: if_splits)
  from 1(3) show ?case
    using 1(1)[OF n[symmetric] _ refl _ wr[symmetric] refl _ refl pp[symmetric]] 1(2)[OF n[symmetric]] n wr pp sent z
    by (subst (asm) copy_loop.simps) (auto simp: Let_def split: option.splits if_splits)
qed

text \<open>What replaces a destination that is not a directory.\<close>

definition leaf_step :: "ftree option \<Rightarrow> ftree option \<Rightarrow> bool" where
  "leaf_step d d' \<longleftrightarrow> d' = d \<or> dir_entries d = [] \<and> dir_entries d' = []"

lemma leaf_step_refl [simp]: "leaf_step d d"
  by (simp add: leaf_step_def)

lemma leaf_step_trans: "leaf_step d d' \<Longrightarrow> leaf_step d' d'' \<Longrightarrow> leaf_step d d''"
  by (auto simp: leaf_step_def)

lemma leaf_step_at: "leaf_step d d' \<Longrightarrow> p \<noteq> [] \<Longrightarrow> tree_at d' p = tree_at d p"
  by (cases p) (auto simp: leaf_step_def)

lemma wp_open_dst: "honest w \<Longrightarrow> wp (open_dst dst) (\<lambda>(r, d) w'. (r = 0 \<or> r = -1) \<and> (r = 0 \<longrightarrow> dir_entries d = []) \<and> leaf_step dst d \<and> honest w') w"
  unfolding open_dst_def
  by (auto intro!: wp_fallible_honest simp: leaf_step_def split: option.split ftree.split)

lemma wp_unlink_dst: "honest w \<Longrightarrow> wp (unlink_dst dst)
   (\<lambda>(r, d) w'. (r = 0 \<or> r = -1) \<and> (r = 0 \<longrightarrow> d = None) \<and> leaf_step dst d \<and> honest w') w"
  unfolding unlink_dst_def
  by (auto intro!: wp_fallible_honest simp: leaf_step_def split: option.split ftree.split)

lemma wp_close_checked: "honest w \<Longrightarrow> rc = 0 \<or> rc = -1 \<Longrightarrow> wp (close_checked rc e)
   (\<lambda>(r, e') w'. (r = 0 \<or> r = -1) \<and> (r = 0 \<longrightarrow> rc = 0) \<and> honest w') w"
  unfolding close_checked_def by (auto intro!: wp_fallible_honest)

lemma wp_copy_out:
  assumes "honest w" "rc = 0 \<or> rc = -1"
  shows "wp (copy_out a b rc) (\<lambda>r w'. (r = 0 \<or> r = -1) \<and> (r = 0 \<longrightarrow> rc = 0) \<and> honest w') w"
proof -
  let ?c = "\<lambda>c rc e. if c then close_checked rc e else ret (rc, e)"
  let ?Q = "\<lambda>r w'. (r = 0 \<or> r = -1) \<and> (r = 0 \<longrightarrow> rc = 0) \<and> honest w'"
  have one: "wp (?c c rc' e) (\<lambda>(r, e') w'. (r = 0 \<or> r = -1) \<and> (r = 0 \<longrightarrow> rc' = 0) \<and> honest w') v"
    if "honest v" "rc' = 0 \<or> rc' = -1" for c rc' e v
    using that wp_close_checked[OF that] by simp
  have two: "wp (do { (r, e) \<leftarrow> ?c b rc' e'; (if r < 0 then set_errno e else ret ()); ret r }) ?Q v"
    if "honest v" "rc' = 0 \<or> rc' = -1" "rc' = 0 \<Longrightarrow> rc = 0" for rc' e' v
    unfolding wp_bind[of "?c _ _ _"] by (rule wp_mono[OF one[OF that(1,2)]]) (use that(3) in auto)
  show ?thesis
    unfolding copy_out_def wp_bind[of get_errno] wp_get_errno wp_bind[of "?c a _ _"]
    by (rule wp_mono[OF one[OF assms]]) (use two in \<open>simp add: case_prod_beta del: wp_bind\<close>)
qed

lemma wp_copy_regular_file:
  assumes "honest w"
  shows "wp (copy_regular_file env fd c dst pr)
    (\<lambda>(r, d, _) w'. (r = 0 \<or> r = -1) \<and> (r = 0 \<longrightarrow> d = Some (FReg c)) \<and> leaf_step dst d) w"
proof -
  let ?Q = "\<lambda>(r, d, _) w'. (r = 0 \<or> r = -1) \<and> (r = 0 \<longrightarrow> d = Some (FReg c)) \<and> leaf_step dst d"
  have finish: "wp (do { rc \<leftarrow> copy_out a b r; ret (rc, d, p) }) ?Q v"
    if "honest v" "r = 0 \<and> d = Some (FReg c) \<or> r = -1" "leaf_step dst d" for a b r d p v
    unfolding wp_bind by (rule wp_mono[OF wp_copy_out[OF that(1)]]) (use that(2,3) in auto)
  have loop: "wp (State (copy_loop env fd c [] pr)) (\<lambda>(r, out, p) w'. (r = 0 \<and> out = c \<or> r = -1) \<and> honest w') v" if "honest v" for v
    using wp_honest[OF fr_plan.keeps_copy_loop that, where P = "\<lambda>(r, out, p) w'. r = 0 \<and> out = c \<or> r = -1"] copy_loop_out
    by (fastforce simp: wp_def split: prod.splits)
  let ?body = "\<lambda>dst. do {
         buffer \<leftarrow> c_malloc;
         if \<not> buffer then do { rc \<leftarrow> copy_out True True (-1); ret (rc, dst, pr) }
         else do {
           (r, out, pr) \<leftarrow> State (copy_loop env fd c [] pr);
           if r < 0 then do { rc \<leftarrow> copy_out True True (-1); ret (rc, Some (FReg out), pr) }
           else do { fallible; rc \<leftarrow> copy_out True True 0; ret (rc, Some (FReg out), pr) } } }"
  have body: "wp (?body d) ?Q v" if "honest v" "leaf_step dst d" "dir_entries d = []" for d v
  proof -
    have leaf: "leaf_step dst (Some (FReg out))" for out using that(2,3) by (auto simp: leaf_step_def)
    have sync: "wp (do { fallible; rc \<leftarrow> copy_out True True 0; ret (rc, Some (FReg c), p) }) ?Q v" if "honest v" for p v
      unfolding wp_bind[of fallible] by (rule wp_fallible_honest[OF that], rule finish) (use leaf in simp_all)
    show ?thesis
      unfolding wp_bind[of c_malloc]
    proof (rule wp_malloc_honest[OF that(1)])
      fix b v assume v: "honest v"
      have "wp (do {
           (r, out, pr) \<leftarrow> State (copy_loop env fd c [] pr);
           if r < 0 then do { rc \<leftarrow> copy_out True True (-1); ret (rc, Some (FReg out), pr) }
           else do { fallible; rc \<leftarrow> copy_out True True 0; ret (rc, Some (FReg out), pr) } }) ?Q v"
        unfolding wp_bind[of "State _"]
        by (rule wp_mono[OF loop[OF v]]) (auto simp del: wp_bind intro!: finish leaf sync)
      then show "wp (if \<not> b then do { rc \<leftarrow> copy_out True True (-1); ret (rc, d, pr) } else do {
           (r, out, pr) \<leftarrow> State (copy_loop env fd c [] pr);
           if r < 0 then do { rc \<leftarrow> copy_out True True (-1); ret (rc, Some (FReg out), pr) }
           else do { fallible; rc \<leftarrow> copy_out True True 0; ret (rc, Some (FReg out), pr) } }) ?Q v"
        by (auto simp del: wp_bind intro!: finish v that(2))
    qed
  qed
  let ?fin = "\<lambda>(gone, out_fd, d). if gone \<or> out_fd < 0 then do { rc \<leftarrow> copy_out False True (-1); ret (rc, d, pr) } else ?body d"
  have fin: "wp (?fin x) ?Q v"
    if "honest v" "leaf_step dst (snd (snd x))" "\<not> fst x \<and> \<not> fst (snd x) < 0 \<longrightarrow> dir_entries (snd (snd x)) = []" for x :: "bool \<times> int \<times> ftree option" and v
    using that by (cases x) (auto simp del: wp_bind intro!: finish body)
  let ?retry = "\<lambda>(out_fd, d) e. if out_fd < 0 \<and> e = ELOOP then do {
            (u, d) \<leftarrow> unlink_dst d;
            if u < 0 then ret (True, -1, d)
            else do { (out_fd, d) \<leftarrow> open_dst d; ret (False, out_fd, d) } }
          else ret (False, out_fd, d)"
  let ?R = "\<lambda>x v. honest v \<and> leaf_step dst (snd (snd x)) \<and> (\<not> fst x \<and> \<not> fst (snd x) < 0 \<longrightarrow> dir_entries (snd (snd x)) = [])"
  have again: "wp (do { (out_fd, d) \<leftarrow> open_dst d; ret (False, out_fd, d) }) ?R v" if "honest v" "leaf_step dst d" for d v
    unfolding wp_bind by (rule wp_mono[OF wp_open_dst[OF that(1)]]) (auto intro: leaf_step_trans[OF that(2)])
  have retry: "wp (?retry x e) ?R v"
    if "honest v" "leaf_step dst (snd x)" "\<not> fst x < 0 \<Longrightarrow> dir_entries (snd x) = []" for x :: "int \<times> ftree option" and e v
  proof (cases "fst x < 0 \<and> e = ELOOP")
    case True
    obtain o_fd d where x: "x = (o_fd, d)" by fastforce
    have "wp (do { (u, d) \<leftarrow> unlink_dst d; if u < 0 then ret (True, -1, d)
            else do { (out_fd, d) \<leftarrow> open_dst d; ret (False, out_fd, d) } }) ?R v"
      unfolding wp_bind[of "unlink_dst _"]
      by (rule wp_mono[OF wp_unlink_dst[OF that(1)]])
         (use that(2) x in \<open>auto simp del: wp_bind intro!: again intro: leaf_step_trans\<close>)
    with True x show ?thesis by (simp del: wp_bind)
  next
    case False
    with that show ?thesis by (cases x) auto
  qed
  have from_open: "wp (do { x \<leftarrow> open_dst dst; e \<leftarrow> get_errno; y \<leftarrow> ?retry x e; ?fin y }) ?Q v" if "honest v" for v
    unfolding wp_bind[of "open_dst _"] wp_bind[of get_errno] wp_get_errno wp_bind[of "?retry _ _"]
    by (rule wp_mono[OF wp_open_dst[OF that]], rule wp_mono[OF retry]) (use fin in auto)
  show ?thesis
    unfolding copy_regular_file_def split_def wp_bind[of fallible]
    by (rule wp_fallible_honest[OF assms])
       (auto simp del: wp_bind intro!: from_open[unfolded split_def] finish[unfolded split_def])
qed


lemma wp_readlink: "honest w \<Longrightarrow> wp (readlink_loop fuel target sz) (\<lambda>r w'. (\<forall>x. r = Some x \<longrightarrow> x = target) \<and> honest w') w"
  by (induction fuel arbitrary: sz w) (auto simp: Let_def min_def intro!: wp_malloc_honest wp_fallible_honest)

lemma wp_copy_symlink:
  assumes "honest w"
  shows "wp (copy_symlink st_size target dst)
    (\<lambda>(r, d) w'. (r = 0 \<or> r = -1) \<and> (r = 0 \<longrightarrow> d = Some (FLink (length target) target)) \<and> leaf_step dst d) w"
proof -
  let ?Q = "\<lambda>(r :: int, d) w'. (r = 0 \<or> r = -1) \<and> (r = 0 \<longrightarrow> d = Some (FLink (length target) target)) \<and> leaf_step dst d"
  have link: "wp (do {
         (u, d) \<leftarrow> unlink_dst dst;
         e \<leftarrow> get_errno;
         if u < 0 \<and> e \<noteq> ENOENT then ret (-1, d)
         else do {
           ok \<leftarrow> fallible;
           if \<not> ok then ret (-1, d)
           else if d \<noteq> None then fail_with EEXIST (-1, d)
           else ret (0, Some (FLink (length target) target)) } }) ?Q v" if "honest v" for v
    unfolding wp_bind[of "unlink_dst _"]
    by (rule wp_mono[OF wp_unlink_dst[OF that]])
       (auto intro!: wp_fallible_honest simp: leaf_step_def)
  show ?thesis
    unfolding copy_symlink_def Let_def wp_bind[of "readlink_loop _ _ _"]
    by (rule wp_mono[OF wp_readlink[OF assms]])
       (use link in \<open>auto simp del: wp_bind split: option.split\<close>)
qed


section \<open>Directories\<close>

lemma wp_make_dst_dir:
  assumes "honest w"
  shows "wp (make_dst_dir dst) (\<lambda>(r, d) w'. (r = 0 \<or> r = -1) \<and>
    (r = 0 \<longrightarrow> d = Some (FDir (dir_entries dst))) \<and> (r = -1 \<longrightarrow> d = dst) \<and> honest w') w"
  unfolding make_dst_dir_def
  using assms by (cases dst) (auto intro!: wp_fallible_honest split: ftree.split)

lemma wp_close_dir:
  assumes "honest w" "rc = 0 \<or> rc = -1"
  shows "wp (close_dir rc e) (\<lambda>r w'. (r = 0 \<or> r = -1) \<and> (r = 0 \<longrightarrow> rc = 0) \<and> honest w') w"
  unfolding close_dir_def using assms(2) by (auto intro!: wp_fallible_honest[OF assms(1)])

lemma has_path_dots: "n = ''.'' \<or> n = ''..'' \<Longrightarrow> \<not> has_path t (n # p)"
  by auto

lemma has_path_skip: "name = ''.'' \<or> name = ''..'' \<or> n \<noteq> name \<Longrightarrow>
   has_path (FDir ((name, t) # es)) (n # p) = has_path (FDir es) (n # p)"
  by auto

lemma entries_copied_skip:
  assumes "entries_copied es des rc des'" "name = ''.'' \<or> name = ''..''"
  shows "entries_copied ((name, t) # es) des rc des'"
  using assms has_path_skip[of name _ t es] by (auto simp: entries_copied_def simp del: has_path.simps)

lemma entries_copied_step:
  assumes "copied t (map_of des name) r d" "entries_copied es (set_entry name d des) rc des'" "name \<notin> fst ` set es" "r = 0"
    and "name \<noteq> ''.''" "name \<noteq> ''..''"
  shows "entries_copied ((name, t) # es) des rc des'"
proof -
  have none: "\<not> has_path (FDir es) (name # p)" for p
    using assms(3) by (auto simp: map_of_eq_None_iff[THEN iffD2])
  have same: "tree_at (map_of des' name) p = tree_at d p" for p
    using assms(2) none[of p] unfolding entries_copied_def by (metis fun_upd_same set_entry_map)
  then have d: "map_of des' name = d" using same[of "[]"] by simp
  have "tree_at (map_of des' n) p = tree_at (map_of des n) p" if "\<not> has_path (FDir ((name, t) # es)) (n # p)" for n p
  proof (cases "n = name")
    case False
    then have "\<not> has_path (FDir es) (n # p)" using that has_path_skip[of name n t es p] by blast
    with False show ?thesis using assms(2) unfolding entries_copied_def by (metis fun_upd_other set_entry_map)
  next
    case True
    with that assms(5,6) have "\<not> has_path t p" by simp
    then show ?thesis using assms(1) True d unfolding copied_def by auto
  qed
  then show ?thesis using assms d unfolding entries_copied_def copied_def by auto
qed


lemma leaf_copied:
  assumes "r = 0 \<or> r = -1" "r = 0 \<longrightarrow> covers t d" "leaf_step dst d"
  shows "copied t dst r d"
  using assms leaf_step_at[OF assms(3)] unfolding copied_def by (metis has_path.simps(1))

lemma copied_same: "copied t dst (-1) dst"
  by (simp add: copied_def)

lemma wp_copy_entries_end: "honest w \<Longrightarrow> wp (copy_entries env fd [] des pr) (\<lambda>(rc, _, des', _) w'. entries_copied [] des rc des') w"
  by (auto intro!: wp_read_dir simp: entries_copied_def)

lemma wp_copy_entries_cons:
  assumes "honest w"
    and tree: "\<And>v. honest v \<Longrightarrow> wp (copy_tree env fd t (map_of des name) pr) (\<lambda>(r, d, _) w'. copied t (map_of des name) r d) v"
    and rest: "\<And>v des pr. honest v \<Longrightarrow> wp (copy_entries env fd es des pr) (\<lambda>(rc, _, des', _) w'. entries_copied es des rc des') v"
    and new: "name \<notin> fst ` set es"
  shows "wp (copy_entries env fd ((name, t) # es) des pr) (\<lambda>(rc, _, des', _) w'. entries_copied ((name, t) # es) des rc des') w"
proof -
  let ?Q = "\<lambda>(rc :: int, _ :: int, des', _ :: copy_progress) w'. entries_copied ((name, t) # es) des rc des'"
  have stop: "?Q (-1, e, des, p) v" for e p v by (simp add: entries_copied_def)
  show ?thesis
  proof (cases "name = ''.'' \<or> name = ''..''")
    case True
    have "wp (copy_entries env fd es des pr) ?Q v" if "honest v" for v
      by (rule wp_mono[OF rest[OF that]]) (use entries_copied_skip[OF _ True] in auto)
    with True stop show ?thesis
      by (auto intro!: wp_read_dir assms(1) simp del: has_path.simps)
  next
    case False
    let ?go = "do {
       (r, d, pr) \<leftarrow> copy_tree env fd t (map_of des name) pr;
       let des = set_entry name d des;
       if r < 0 then do { e \<leftarrow> get_errno; ret (-1, e, des, pr) } else copy_entries env fd es des pr }"
    have fail: "entries_copied ((name, t) # es) des (-1) (set_entry name d des)" if "copied t (map_of des name) r d" for r d
    proof -
      have "tree_at (map_of (set_entry name d des) n) p = tree_at (map_of des n) p" if "\<not> has_path (FDir ((name, t) # es)) (n # p)" for n p
        using that False \<open>copied t (map_of des name) r d\<close> by (auto simp: copied_def split: if_splits)
      then show ?thesis by (simp add: entries_copied_def del: has_path.simps)
    qed
    have go: "wp ?go ?Q v" if "honest v" for v
      unfolding wp_bind[of "copy_tree _ _ _ _ _"]
    proof (rule wp_mono[OF wp_honest[OF fr_plan.keeps_copy_tree(1) that tree[OF that]]])
      fix x :: "int \<times> ftree option \<times> copy_progress" and v' :: world
      assume a: "(case x of (r, d, _) \<Rightarrow> \<lambda>w'. copied t (map_of des name) r d) v' \<and> honest v'"
      obtain r d p where x: "x = (r, d, p)" by (cases x)
      have c: "copied t (map_of des name) r d" "honest v'" using a x by auto
      show "wp (case x of (r, d, pr) \<Rightarrow> let des = set_entry name d des in
           if r < 0 then do { e \<leftarrow> get_errno; ret (-1, e, des, pr) } else copy_entries env fd es des pr) ?Q v'"
      proof (cases "r < 0")
        case True
        then show ?thesis using fail[OF c(1)] x by simp
      next
        case nf: False
        then have "r = 0" using c(1) by (auto simp: copied_def)
        have "wp (copy_entries env fd es (set_entry name d des) p) ?Q v'"
          by (rule wp_mono[OF rest[OF c(2)]])
             (use entries_copied_step[OF c(1) _ new \<open>r = 0\<close>] False in auto)
        then show ?thesis using nf x by simp
      qed
    qed
    show ?thesis
      using False stop
      by (auto intro!: wp_read_dir wp_malloc_honest assms(1) go simp del: has_path.simps wp_bind copy_tree.simps simp: wp_bind[of read_dir] wp_bind[of c_malloc] wp_bind[of get_errno])
  qed
qed

lemma wp_copy_dir:
  assumes "honest w"
    and entries: "\<And>v des pr. honest v \<Longrightarrow> wp (copy_entries env fd es des pr) (\<lambda>(rc, _, des', _) w'. entries_copied es des rc des') v"
  shows "wp (copy_tree env fd (FDir es) dst pr) (\<lambda>(r, d, _) w'. copied (FDir es) dst r d) w"
proof -
  let ?Q = "\<lambda>(r :: int, d, _ :: copy_progress) w'. copied (FDir es) dst r d"
  let ?finish = "\<lambda>rc e des pr. do {
     rc \<leftarrow> close_dir rc e;
     (if rc = 0 then do { fallible; ret () } else ret ());
     ret (rc, Some (FDir des), pr) }"
  have ok: "copied (FDir es) dst r (Some (FDir des))"
    if "entries_copied es (dir_entries dst) rc des" "r = 0 \<longrightarrow> rc = 0" "r = 0 \<or> r = -1" for r rc des
    unfolding copied_def
  proof (intro conjI allI impI)
    fix p assume n: "\<not> has_path (FDir es) p"
    then obtain x q where "p = x # q" by (cases p) auto
    with n that(1) show "tree_at (Some (FDir des)) p = tree_at dst p" by (simp add: entries_copied_def del: has_path.simps)
  qed (use that in \<open>auto simp: entries_copied_def\<close>)
  have finish: "wp (?finish rc e des p) ?Q v"
    if "honest v" "entries_copied es (dir_entries dst) rc des" for rc e des p v
  proof -
    have "rc = 0 \<or> rc = -1" using that(2) by (simp add: entries_copied_def)
    note c = wp_close_dir[OF that(1) this]
    show ?thesis
      unfolding wp_bind[of "close_dir _ _"]
      by (rule wp_mono[OF c]) (use ok[OF that(2)] in \<open>auto intro!: wp_fallible_honest\<close>)
  qed
  let ?body = "do {
     (rc, e, des, pr) \<leftarrow> copy_entries env fd es (dir_entries dst) pr;
     rc \<leftarrow> close_dir rc e;
     (if rc = 0 then do { fallible; ret () } else ret ());
     ret (rc, Some (FDir des), pr) }"
  have body: "wp ?body ?Q v" if "honest v" for v
    unfolding wp_bind[of "copy_entries _ _ _ _ _"]
    by (rule wp_mono[OF wp_honest[OF fr_plan.keeps_copy_tree(2) that entries[OF that]]])
       (use finish in \<open>auto simp del: wp_bind\<close>)
  have untouched: "copied (FDir es) dst (-1) (Some (FDir (dir_entries dst)))"
    by (rule ok[of "-1"]) (simp_all add: entries_copied_def)
  let ?dir = "do {
     (err, d) \<leftarrow> make_dst_dir dst;
     if err < 0 then ret (-1, d, pr)
     else do {
       ok \<leftarrow> fallible;
       if \<not> ok then ret (-1, d, pr)
       else do {
         (rc, e, des, pr) \<leftarrow> copy_entries env fd es (dir_entries d) pr;
         rc \<leftarrow> close_dir rc e;
         (if rc = 0 then do { fallible; ret () } else ret ());
         ret (rc, Some (FDir des), pr) } } }"
  have opened: "wp (do { ok \<leftarrow> fallible; if \<not> ok then ret (-1, Some (FDir (dir_entries dst)), pr) else ?body }) ?Q v"
    if "honest v" for v
    unfolding wp_bind[of fallible]
    by (rule wp_fallible_honest[OF that]) (use body untouched in \<open>auto simp del: wp_bind\<close>)
  have dir: "wp ?dir ?Q v" if "honest v" for v
    unfolding wp_bind[of "make_dst_dir _"]
    by (rule wp_mono[OF wp_make_dst_dir[OF that]])
       (use opened copied_same in \<open>auto simp del: wp_bind cong: if_cong\<close>)
  show ?thesis
    unfolding copy_tree.simps wp_bind[of fallible "\<lambda>ok. if \<not> ok then ret (-1, dst, pr) else _ ok"]
    by (rule wp_fallible_honest[OF assms(1)]) (use dir copied_same in \<open>auto simp del: wp_bind\<close>)
qed

lemma wp_copy_tree:
  "honest w \<Longrightarrow> tree_ok t \<Longrightarrow> wp (copy_tree env fd t dst pr) (\<lambda>(r, d, _) w'. copied t dst r d) w"
  "honest w \<Longrightarrow> entries_ok es \<Longrightarrow> wp (copy_entries env fd es des pr) (\<lambda>(rc, _, des', _) w'. entries_copied es des rc des') w"
proof (induction t and es arbitrary: w dst pr and w des pr rule: tree_ok_entries_ok.induct)
  case (1 es)
  then show ?case by (intro wp_copy_dir) simp_all
next
  case (2 c)
  have "wp (copy_regular_file env fd c dst pr) (\<lambda>(r, d, _) w'. copied (FReg c) dst r d) v" if "honest v" for v
    by (rule wp_mono[OF wp_copy_regular_file[OF that]]) (auto intro: leaf_copied)
  with 2 show ?case by (auto intro!: wp_fallible_honest simp: copied_same)
next
  case (3 sz target)
  have "wp (copy_symlink sz target dst) (\<lambda>(r, d) w'. copied (FLink sz target) dst r d) v" if "honest v" for v
    by (rule wp_mono[OF wp_copy_symlink[OF that]]) (auto intro: leaf_copied)
  from this[unfolded split_def] have "wp (copy_symlink sz target dst) (\<lambda>x w'. copied (FLink sz target) dst (fst x) (snd x)) v" if "honest v" for v
    using that by blast
  with 3 show ?case by (auto intro!: wp_fallible_honest simp: copied_same case_prod_beta)
next
  case 4
  then show ?case by (auto intro!: wp_fallible_honest simp: copied_same)
next
  case 5
  then show ?case by (intro wp_copy_entries_end)
next
  case (6 n t es)
  then show ?case by (intro wp_copy_entries_cons) simp_all
qed


section \<open>The child and the parent\<close>

definition path_copied :: "ftree option \<Rightarrow> ftree option \<Rightarrow> int \<Rightarrow> ftree option \<Rightarrow> bool" where
  "path_copied src d r d' \<longleftrightarrow> (r = 0 \<or> r = -1) \<and> (r = 0 \<longrightarrow> (\<exists>t. src = Some t \<and> covers t d')) \<and>
     (\<forall>p. (\<forall>t. src = Some t \<longrightarrow> \<not> has_path t p) \<longrightarrow> tree_at d' p = tree_at d p)"

lemma path_copied_same [simp]: "path_copied src d (-1) d"
  by (simp add: path_copied_def)

lemma path_copied_worse: "path_copied src d r d' \<Longrightarrow> path_copied src d (-1) d'"
  by (simp add: path_copied_def)

lemma wp_keeps_honest: "keeps plan_sub m \<Longrightarrow> honest w \<Longrightarrow> wp m (\<lambda>_ w'. honest w') w"
  using wp_honest[of m w "\<lambda>_ _. True"] by (simp add: wp_run)

lemma wp_copy_path:
  assumes "honest w" "\<And>t. src = Some t \<Longrightarrow> tree_ok t"
  shows "wp (copy_path env fd src dst pr) (\<lambda>(r, d, _) w'. path_copied src dst r d \<and> honest w') w"
proof (cases src)
  case None
  then show ?thesis
    using assms(1) by (auto simp: copy_path_def path_copied_def intro!: wp_fallible_honest)
next
  case (Some t)
  then have "wp (copy_tree env fd t dst pr) (\<lambda>(r, d, _) w'. copied t dst r d) w"
    using assms by (intro wp_copy_tree) simp_all
  from wp_honest[OF fr_plan.keeps_copy_tree(1) assms(1) this] Some show ?thesis
    by (auto simp: copy_path_def copied_def path_copied_def elim!: wp_mono)
qed

lemma wp_seq: "wp m P w \<Longrightarrow> (\<And>a v. P a v \<Longrightarrow> wp (f a) Q v) \<Longrightarrow> wp (State_Monad.bind m f) Q w"
  unfolding wp_bind by (rule wp_mono)

lemma wp_copy_mounted:
  assumes "honest w" "\<And>t. me_tree env args (ca_copy_src args) = Some t \<Longrightarrow> tree_ok t"
  shows "wp (copy_mounted env fd args) (\<lambda>(rc, _, d) w'.
     path_copied (me_tree env args (ca_copy_src args)) (me_tree env args (ca_copy_dst args)) rc d \<and> honest w') w"
proof -
  let ?src = "me_tree env args (ca_copy_src args)" and ?dst = "me_tree env args (ca_copy_dst args)"
  have m: "keeps plan_sub (measure_path src n)" for src n
    unfolding measure_path_def by (intro keeps_intros)
  note h = wp_keeps_honest
  show ?thesis
    unfolding copy_mounted_def Let_def
    apply (rule wp_seq[OF h[OF fr_plan.keeps_fallible assms(1)]])
    apply (clarsimp simp del: wp_bind simp: wp_bind[of get_errno])
    apply (rule wp_seq[OF h[OF fr_plan.keeps_time]], assumption)
    apply (rule wp_seq[OF h[OF m]], assumption)
    apply (clarsimp simp del: wp_bind simp: wp_bind[of get_errno])
    apply (rule wp_seq[OF h[OF fr_plan.keeps_print_progress]], assumption)
    apply (rule wp_seq[OF wp_copy_path], assumption, erule assms(2))
    apply (clarsimp simp del: wp_bind simp: wp_bind[of get_errno])
    apply (intro conjI impI)
     apply (erule path_copied_worse)
    apply (rule wp_seq[OF h[OF fr_plan.keeps_print_progress]], assumption)
    apply (rule wp_seq[OF h[OF fr_plan.keeps_sync]], assumption)
    apply (auto simp: path_copied_def)
    done
qed

lemma wp_child_main:
  assumes "honest w" "\<And>t. me_tree env args (ca_copy_src args) = Some t \<Longrightarrow> tree_ok t"
  shows "wp (child_main env fd args) (\<lambda>(code, _, d) w'. 0 \<le> code \<and>
     path_copied (me_tree env args (ca_copy_src args)) (me_tree env args (ca_copy_dst args)) (- code) d) w"
proof -
  let ?src = "me_tree env args (ca_copy_src args)" and ?dst = "me_tree env args (ca_copy_dst args)"
  note h = wp_keeps_honest
  have finish: "wp (do {
     (rc, e) \<leftarrow> (if mounted then close_checked rc e else ret (rc, e));
     sent \<leftarrow> (if rc = 0 then send_child_status 0 0 else send_child_status (-1) (if e \<noteq> 0 then e else EIO));
     ret (if rc = 0 then 0 else 1, sent, d) }) (\<lambda>(code, _, d) w'. 0 \<le> code \<and> path_copied ?src ?dst (- code) d) v"
    if "honest v" "path_copied ?src ?dst rc d" for mounted rc e d v
  proof -
    have "rc = 0 \<or> rc = -1" using that(2) by (simp add: path_copied_def)
    then have c: "wp (if mounted then close_checked rc e else ret (rc, e)) (\<lambda>(r, e') w'. (r = 0 \<or> r = -1) \<and> (r = 0 \<longrightarrow> rc = 0)) v"
      by (cases mounted) (auto intro: wp_mono[OF wp_close_checked[OF that(1)]])
    show ?thesis
      apply (rule wp_seq[OF c])
      apply (simp only: split_paired_all prod.case)
      apply (rule wp_seq[where P = "\<lambda>_ _. True"])
       apply (simp add: wp_run)
      using that(2) path_copied_worse apply auto
      done
  qed
  show ?thesis
    unfolding child_main_def Let_def
    apply (rule wp_seq[OF h[OF fr_plan.keeps_fallible assms(1)]])
    apply (rule wp_seq[where P = "\<lambda>(m, rc, e, d) v. honest v \<and> path_copied ?src ?dst rc d"])
     apply (auto simp del: wp_bind simp: wp_bind[of get_errno])[1]
     apply (rule wp_seq[OF h[OF fr_plan.keeps_fallible]], assumption)
     apply (auto simp del: wp_bind simp: wp_bind[of get_errno])[1]
     apply (rule wp_seq[OF wp_copy_mounted], assumption, erule assms(2))
     apply auto[1]
    apply clarify
    apply (rule finish)
     apply simp_all
    done
qed

text \<open>Of the child's world the parent keeps everything but the error number.\<close>

lemma wp_run_child:
  assumes "honest w" "\<And>t. me_tree env args (ca_copy_src args) = Some t \<Longrightarrow> tree_ok t"
  shows "wp (run_child env fd args) (\<lambda>(st, _, d) w'. me_killed env = None \<longrightarrow>
     path_copied (me_tree env args (ca_copy_src args)) (me_tree env args (ca_copy_dst args)) (if st = Exited 0 then 0 else -1) d) w"
proof (cases "me_killed env")
  case None
  show ?thesis
    unfolding run_child_def None wp_bind[of get_errno] wp_get_errno option.case
    apply (rule wp_seq[where P = "\<lambda>(st, _, d) w'. path_copied (me_tree env args (ca_copy_src args)) (me_tree env args (ca_copy_dst args)) (if st = Exited 0 then 0 else -1) d"])
     apply (rule wp_seq[OF wp_child_main], rule assms(1), erule assms(2))
     apply (auto simp: path_copied_def)[1]
    apply auto
    done
qed (simp add: wp_run)

lemma killed_child: "me_killed env = Some k \<Longrightarrow> wp (run_child env fd args) (\<lambda>(st, _) w'. st \<noteq> Exited 0) w"
  by (cases k) (simp add: run_child_def)

end
