(* ===== verification/MountCopyRun.thy ===== *)
theory MountCopyRun
  imports MountCopyProps
begin

text \<open>
  The copy when no call fails: it completes, and a file type that cannot be copied is found while
  measuring, before anything is written.
\<close>

definition still :: "world \<Rightarrow> bool" where
  "still w \<longleftrightarrow> w_plan w = [] \<and> w_io w = []"

definition still_step :: "world \<Rightarrow> world \<Rightarrow> bool" where
  "still_step w w' \<longleftrightarrow> (still w \<longrightarrow> still w')"

interpretation fr_still: file_frame still_step
  by unfold_locales (auto simp: still_step_def still_def)

lemma still_errno [simp]: "still (w\<lparr>w_errno := e\<rparr>) = still w"
  by (simp add: still_def)

lemma wp_still: "keeps still_step m \<Longrightarrow> still w \<Longrightarrow> wp m P w \<Longrightarrow> wp m (\<lambda>a w'. P a w' \<and> still w') w"
  using keeps_snd[of still_step m w] by (simp add: wp_run still_step_def)

lemma wp_stay: "keeps still_step m \<Longrightarrow> still w \<Longrightarrow> wp m (\<lambda>_ w'. still w') w"
  using wp_still[of m w "\<lambda>_ _. True"] by (simp add: wp_run)

lemma still_calls [simp]:
  "still w \<Longrightarrow> wp fallible Q w = Q True w" "still w \<Longrightarrow> wp c_malloc Q w = Q True w"
  by (simp_all add: still_def quiet_calls)

lemma still_read_dir [simp]: "still w \<Longrightarrow> wp read_dir Q w = Q None (w\<lparr>w_errno := 0\<rparr>)"
  by (simp add: read_dir_def)

lemma still_close_dir [simp]: "still w \<Longrightarrow> wp (close_dir rc e) Q w = Q rc (if rc < 0 then w\<lparr>w_errno := e\<rparr> else w)"
  by (simp add: close_dir_def)


section \<open>Measuring\<close>

fun tree_bytes :: "ftree \<Rightarrow> nat" and entries_bytes :: "(string \<times> ftree) list \<Rightarrow> nat" where
  "tree_bytes (FReg c) = length c"
| "tree_bytes (FDir es) = entries_bytes es"
| "tree_bytes _ = 0"
| "entries_bytes [] = 0"
| "entries_bytes ((n, t) # es) = (if n = ''.'' \<or> n = ''..'' then 0 else tree_bytes t) + entries_bytes es"

fun no_special :: "ftree \<Rightarrow> bool" and entries_no_special :: "(string \<times> ftree) list \<Rightarrow> bool" where
  "no_special (FDir es) = entries_no_special es"
| "no_special FSpecial = False"
| "no_special _ = True"
| "entries_no_special [] = True"
| "entries_no_special ((n, t) # es) = ((n = ''.'' \<or> n = ''..'' \<or> no_special t) \<and> entries_no_special es)"

definition measured :: "bool \<Rightarrow> nat \<Rightarrow> int \<Rightarrow> nat \<Rightarrow> int \<Rightarrow> bool" where
  "measured ok n r tot e \<longleftrightarrow> (if ok then r = 0 \<and> tot = n else r = -1 \<and> e = ENOTSUP)"

lemma wp_measure_tree:
  "still w \<Longrightarrow> n + tree_bytes t \<le> UINT64_MAX \<Longrightarrow>
     wp (measure_tree t n) (\<lambda>(r, tot) w'. measured (no_special t) (n + tree_bytes t) r tot (w_errno w')) w"
  "still w \<Longrightarrow> n + entries_bytes es \<le> UINT64_MAX \<Longrightarrow>
     wp (measure_entries es n) (\<lambda>(rc, e, tot) w'. measured (entries_no_special es) (n + entries_bytes es) rc tot e) w"
proof (induction t and es arbitrary: w n and w n rule: tree_bytes_entries_bytes.induct)
  case (2 es)
  show ?case
    apply (simp add: 2(2) wp_bind[of fallible] del: wp_bind)
    apply (rule wp_seq[OF wp_still[OF fr_still.keeps_measure_tree(2) 2(2) 2(1)[OF 2(2)]]])
    using 2(3) apply (auto simp: measured_def)
    done
next
  case (5 name t es)
  show ?case
  proof (cases "name = ''.'' \<or> name = ''..''")
    case True
    then show ?thesis using 5 by auto
  next
    case False
    have b: "n + tree_bytes t \<le> UINT64_MAX" "n + tree_bytes t + entries_bytes es \<le> UINT64_MAX" using 5(4) False by simp_all
    let ?w = "w\<lparr>w_errno := 0\<rparr>"
    have s: "still ?w" using 5(3) by simp
    have "wp (measure_tree t n) (\<lambda>(r, tot) w'. measured (no_special t) (n + tree_bytes t) r tot (w_errno w')) ?w"
      using 5(1) False s b by simp
    note m = wp_still[OF fr_still.keeps_measure_tree(1) s this]
    show ?thesis
      apply (simp add: False s 5(3) wp_bind[of read_dir] wp_bind[of c_malloc] del: wp_bind measure_tree.simps)
      apply (rule wp_seq[OF m])
      apply (cases "no_special t")
       apply (auto simp: measured_def False add.assoc simp del: wp_bind intro!: wp_mono[OF 5(2)] b)
       apply (use b in simp)
      done
  qed
qed (auto simp: measured_def)



section \<open>Copying\<close>

lemma still_next_io [simp]: "still w \<Longrightarrow> run_state next_io w = (Done, w)"
  by (simp add: run_next_io still_def)

lemma run_chatgpt_write: "still w \<Longrightarrow> run_state (chatgpt_write_all buf) w = ((0, buf), w)"
  by (simp add: chatgpt_write_all_def chatgpt_write_loop.simps[of buf] chatgpt_write_loop.simps[of "[]"] Let_def)

lemma run_chatgpt_read:
  "still w \<Longrightarrow> 0 < n \<Longrightarrow> n \<le> length avail \<Longrightarrow> run_state (chatgpt_read_all avail n) w = ((0, take n avail), w)"
  by (simp add: chatgpt_read_all_def chatgpt_read_loop.simps[of avail] chatgpt_read_loop.simps[of _ 0] Let_def min_def)

lemma run_wait_child: "still w \<Longrightarrow> run_state (State wait_child_loop) w = (True, w)"
  by (simp add: wait_child_loop.simps[of w] next_outcome_def still_def)

lemma still_copy_loop: "still w \<Longrightarrow> fst (fst (copy_loop env fd rest out pr w)) = 0"
proof (induction env fd rest out pr w rule: copy_loop.induct)
  case (1 env fd rest out pr w)
  let ?n = "min COPY_BUFFER_SIZE (length rest)"
  let ?pr = "pr\<lparr>cp_done := (cp_done pr + ?n) mod 18446744073709551616\<rparr>"
  note w = \<open>still w\<close>
  obtain pr' w' where pp: "run_state (print_progress env fd ?pr False) w = (pr', w')" by fastforce
  have s: "still w'" using keepsD[OF fr_still.keeps_print_progress pp] w by (simp add: still_step_def)
  have IH: "?n \<noteq> 0 \<Longrightarrow> fst (fst (copy_loop env fd (drop ?n rest) (out @ take ?n rest) pr' w')) = 0"
    using 1(1)[of Done w ?n "(0, take ?n rest)" w 0 "take ?n rest" ?pr pr' w'] w pp s by (simp add: run_chatgpt_write)
  show ?case
    by (subst copy_loop.simps) (use IH in \<open>simp add: w run_chatgpt_write Let_def pp\<close>)
qed

lemma wp_copy_loop_still: "still w \<Longrightarrow> wp (State (copy_loop env fd c out pr)) (\<lambda>(r, _, _) w'. r = 0 \<and> still w') w"
proof -
  assume w: "still w"
  have "wp (State (copy_loop env fd c out pr)) (\<lambda>(r, _, _) w'. r = 0) w"
    using still_copy_loop[OF w] by (simp add: wp_run case_prod_beta)
  from wp_still[OF fr_still.keeps_copy_loop w this] show ?thesis by (rule wp_mono) auto
qed

lemma still_copy_out [simp]: "still w \<Longrightarrow> wp (copy_out a b 0) Q w = Q 0 w"
  by (simp add: copy_out_def close_checked_def)

lemma wp_copy_file_still:
  assumes "still w"
  shows "wp (copy_regular_file env fd c None pr) (\<lambda>(r, _, _) w'. r = 0) w"
  unfolding copy_regular_file_def
  apply (simp add: assms open_dst_def wp_bind[of fallible] wp_bind[of c_malloc] wp_bind[of get_errno] del: wp_bind)
  apply (rule wp_seq[OF wp_copy_loop_still[OF assms]])
  apply auto
  done

lemma readlink_still:
  "still w \<Longrightarrow> length target \<le> UINT64_MAX div 2 \<Longrightarrow> 0 < sz \<Longrightarrow> length target < sz + n \<Longrightarrow>
   wp (readlink_loop (Suc n) target sz) (\<lambda>r w'. r = Some target \<and> still w') w"
proof (induction n arbitrary: sz)
  case (Suc n)
  show ?case
  proof (cases "length target < sz")
    case False
    have "wp (readlink_loop (Suc n) target (sz * 2)) (\<lambda>r w'. r = Some target \<and> still w') w"
      by (rule Suc.IH) (use Suc.prems in simp_all)
    then show ?thesis
      using False Suc.prems by (subst readlink_loop.simps) (simp add: Let_def min_def del: readlink_loop.simps)
  qed (use Suc.prems in \<open>simp add: Let_def min_def\<close>)
qed (simp add: Let_def min_def)

lemma wp_copy_symlink_still:
  assumes "still w" "length target \<le> UINT64_MAX div 2"
  shows "wp (copy_symlink st_size target None) (\<lambda>(r, _) w'. r = 0) w"
  unfolding copy_symlink_def Let_def
  apply (rule wp_seq[OF readlink_still[OF assms]])
    apply (auto simp: unlink_dst_def)
  done

text \<open>What can be copied: no other file types, and no absurdly long links.\<close>

fun copyable :: "ftree \<Rightarrow> bool" and entries_copyable :: "(string \<times> ftree) list \<Rightarrow> bool" where
  "copyable (FDir es) = entries_copyable es"
| "copyable FSpecial = False"
| "copyable (FLink sz target) = (length target \<le> UINT64_MAX div 2)"
| "copyable (FReg c) = True"
| "entries_copyable [] = True"
| "entries_copyable ((n, t) # es) = ((n = ''.'' \<or> n = ''..'' \<or> copyable t) \<and> entries_copyable es)"

lemma copyable_no_special: "copyable t \<Longrightarrow> no_special t" "entries_copyable es \<Longrightarrow> entries_no_special es"
  by (induction t and es rule: copyable_entries_copyable.induct) auto

lemma wp_copy_tree_still:
  "still w \<Longrightarrow> tree_ok t \<Longrightarrow> copyable t \<Longrightarrow> wp (copy_tree env fd t None pr) (\<lambda>(r, _, _) w'. r = 0) w"
  "still w \<Longrightarrow> entries_ok es \<Longrightarrow> entries_copyable es \<Longrightarrow> (\<forall>n \<in> fst ` set es. map_of des n = None) \<Longrightarrow>
     wp (copy_entries env fd es des pr) (\<lambda>(rc, _, _, _) w'. rc = 0) w"
proof (induction t and es arbitrary: w pr and w des pr rule: copyable_entries_copyable.induct)
  case (1 es)
  have s: "still (w\<lparr>w_errno := e\<rparr>)" for e using 1(2) by simp
  have "entries_ok es" "entries_copyable es" using 1(3,4) by simp_all
  note c = wp_still[OF fr_still.keeps_copy_tree(2) 1(2) 1(1)[OF 1(2) this, of "[]"]]
  show ?case
    apply (simp add: 1(2) make_dst_dir_def wp_bind[of fallible] wp_bind[of get_errno] del: wp_bind)
    apply (rule wp_seq[OF c])
    apply auto
    done
next
  case (6 name t es)
  show ?case
  proof (cases "name = ''.'' \<or> name = ''..''")
    case True
    then show ?thesis using 6 by auto
  next
    case False
    let ?w = "w\<lparr>w_errno := 0\<rparr>"
    have s: "still ?w" using 6(3) by simp
    have new: "map_of des name = None" using 6(6) by simp
    have "wp (copy_tree env fd t None pr) (\<lambda>(r, _, _) w'. r = 0) ?w"
      by (rule 6(1)) (use False 6(4,5) s in auto)
    note c = wp_still[OF fr_still.keeps_copy_tree(1) s this]
    show ?thesis
      apply (simp add: False s 6(3) new wp_bind[of read_dir] wp_bind[of c_malloc] del: wp_bind copy_tree.simps)
      apply (rule wp_seq[OF c])
      apply (simp only: split_paired_all prod.case Let_def)
      apply (clarsimp simp del: wp_bind)
      apply (rule wp_mono[OF 6(2)])
      using 6(4-6) False apply auto
      done
  qed
next
  case (3 sz target)
  show ?case
    apply (simp add: 3(1) wp_bind[of fallible] del: wp_bind)
    apply (rule wp_seq[OF wp_copy_symlink_still[OF 3(1)]])
    using 3(3) apply auto
    done
next
  case 5
  then show ?case by simp
qed (auto intro: wp_copy_file_still simp: wp_bind[of fallible] simp del: wp_bind)


section \<open>The whole\<close>

lemma status_roundtrip:
  assumes "- 2147483648 \<le> rc" "rc \<le> 2147483647" "- 2147483648 \<le> e" "e \<le> 2147483647"
  shows "status_of_bytes (status_bytes \<lparr>cs_rc = rc, cs_err = e\<rparr>) = \<lparr>cs_rc = rc, cs_err = e\<rparr>"
proof -
  have "of_be (be32 (nat (x mod 2 ^ 32))) = nat (x mod 2 ^ 32)" for x :: int
    by (simp add: of_be_be32 nat_less_iff)
  moreover have "c_int (int (nat (x mod 2 ^ 32))) = x" if "- 2147483648 \<le> x" "x \<le> 2147483647" for x
    using c_int_id[OF that] by (simp add: c_int_def mod_add_left_eq)
  ultimately show ?thesis using assms by (simp add: status_of_bytes_def status_bytes_def)
qed

definition outcome_of :: "ftree \<Rightarrow> ftree option \<Rightarrow> int \<Rightarrow> int \<Rightarrow> ftree option \<Rightarrow> bool" where
  "outcome_of t dst rc e d \<longleftrightarrow> (copyable t \<and> dst = None \<longrightarrow> rc = 0) \<and> (\<not> no_special t \<longrightarrow> rc = -1 \<and> e = ENOTSUP \<and> d = dst)"

lemma wp_copy_mounted_still:
  assumes "still w" "me_tree env args (ca_copy_src args) = Some t" "tree_ok t" "tree_bytes t \<le> UINT64_MAX"
  shows "wp (copy_mounted env fd args) (\<lambda>(rc, e, d) w'.
    outcome_of t (me_tree env args (ca_copy_dst args)) rc e d \<and> still w') w"
proof -
  let ?dst = "me_tree env args (ca_copy_dst args)"
  have m: "wp (measure_tree t 0) (\<lambda>(r, tot) w'. measured (no_special t) (tree_bytes t) r tot (w_errno w')) v" if "still v" for v
    using wp_measure_tree(1)[OF that, of 0 t] assms(4) by simp
  have c: "wp (copy_tree env fd t ?dst pr) (\<lambda>(r, _, _) w'. (copyable t \<and> ?dst = None \<longrightarrow> r = 0) \<and> still w') v" if "still v" for pr v
  proof (cases "copyable t \<and> ?dst = None")
    case True
    then have "wp (copy_tree env fd t ?dst pr) (\<lambda>(r, _, _) w'. r = 0) v"
      using wp_copy_tree_still(1)[OF that assms(3)] by simp
    from wp_still[OF fr_still.keeps_copy_tree(1) that this] show ?thesis by (rule wp_mono) auto
  next
    case False
    from wp_stay[OF fr_still.keeps_copy_tree(1) that] show ?thesis by (rule wp_mono) (use False in auto)
  qed
  show ?thesis
    unfolding copy_mounted_def Let_def assms(2) measure_path_def copy_path_def option.case
    apply (simp add: assms(1) wp_bind[of fallible] del: wp_bind copy_tree.simps measure_tree.simps)
    apply (rule wp_seq[OF wp_stay[OF fr_still.keeps_time assms(1)]])
    apply (rule wp_seq[OF wp_still[OF fr_still.keeps_measure_tree(1) _ m]], assumption, assumption)
    apply (cases "no_special t")
     apply (clarsimp simp: measured_def simp del: wp_bind copy_tree.simps)
     apply (rule wp_seq[OF wp_stay[OF fr_still.keeps_print_progress]], assumption)
     apply (rule wp_seq[OF c], assumption)
     apply (simp only: split_paired_all prod.case)
     apply (clarsimp simp del: wp_bind simp: wp_bind[of get_errno])
     apply (intro conjI impI)
      apply (simp add: outcome_of_def)
     apply (rule wp_seq[OF wp_stay[OF fr_still.keeps_print_progress]], assumption)
     apply (rule wp_seq[OF wp_stay[OF fr_still.keeps_sync]], assumption)
     apply (simp add: outcome_of_def)
    apply (auto simp: measured_def outcome_of_def copyable_no_special)
    done
qed

text \<open>The child sends what it found; the parent reads it and reports it.\<close>

definition reported :: "ftree \<Rightarrow> ftree option \<Rightarrow> int \<Rightarrow> bytes \<Rightarrow> ftree option \<Rightarrow> bool" where
  "reported t dst st sent d \<longleftrightarrow> (\<exists>rc e. outcome_of t dst rc e d \<and> st = (if rc = 0 then 0 else 1) \<and>
     sent = status_bytes (if rc = 0 then \<lparr>cs_rc = 0, cs_err = 0\<rparr> else \<lparr>cs_rc = -1, cs_err = (if e \<noteq> 0 then e else EIO)\<rparr>))"

lemma reportedI: "outcome_of t dst rc e d \<Longrightarrow> rc = 0 \<Longrightarrow> reported t dst 0 (status_bytes \<lparr>cs_rc = 0, cs_err = 0\<rparr>) d"
  "outcome_of t dst rc e d \<Longrightarrow> rc \<noteq> 0 \<Longrightarrow> e \<noteq> 0 \<Longrightarrow> reported t dst 1 (status_bytes \<lparr>cs_rc = -1, cs_err = e\<rparr>) d"
  "outcome_of t dst rc 0 d \<Longrightarrow> rc \<noteq> 0 \<Longrightarrow> reported t dst 1 (status_bytes \<lparr>cs_rc = -1, cs_err = EIO\<rparr>) d"
  unfolding reported_def by (rule exI[of _ rc], rule exI[of _ e], simp, rule exI[of _ rc], rule exI[of _ e], simp,
    rule exI[of _ rc], rule exI[of _ 0], simp)

lemma wp_child_main_still:
  assumes "still w" "me_tree env args (ca_copy_src args) = Some t" "tree_ok t" "tree_bytes t \<le> UINT64_MAX"
  shows "wp (child_main env fd args) (\<lambda>(st, sent, d) w'. still w' \<and> reported t (me_tree env args (ca_copy_dst args)) st sent d) w"
proof -
  have send: "wp (send_child_status rc e) Q v = Q (status_bytes \<lparr>cs_rc = rc, cs_err = e\<rparr>) v" if "still v" for rc e Q v
    by (simp add: send_child_status_def wp_def run_chatgpt_write[OF that])
  have closed: "wp (close_checked rc e) Q v = Q (rc, e) v" if "still v" for rc e Q v
    using that by (simp add: close_checked_def)
  show ?thesis
    unfolding child_main_def Let_def
    apply (simp add: assms(1) wp_bind[of fallible] del: wp_bind)
    apply (rule wp_seq[OF wp_copy_mounted_still[OF assms]])
    apply (auto simp: closed send intro: reportedI)
    done
qed

lemma run_child_still:
  assumes "still w" "me_killed env = None" "me_tree env args (ca_copy_src args) = Some t" "tree_ok t" "tree_bytes t \<le> UINT64_MAX"
  shows "wp (run_child env fd args) (\<lambda>(st, sent, d) w'. still w' \<and>
     (\<exists>c. st = Exited (nat c) \<and> reported t (me_tree env args (ca_copy_dst args)) c sent d)) w"
  unfolding run_child_def assms(2) option.case wp_bind[of get_errno] wp_get_errno
  apply (rule wp_seq[where P = "\<lambda>(st, sent, d) w'. still w' \<and>
     (\<exists>c. st = Exited (nat c) \<and> reported t (me_tree env args (ca_copy_dst args)) c sent d)"])
   apply (rule wp_seq[OF wp_child_main_still[OF assms(1,3-5)]])
   apply auto
  done

lemma run_mount_copy_still:
  assumes "w_plan w = []" "w_io w = []" "me_killed env = None"
    and "args = \<lparr>ca_device = dv, ca_mountpoint = mp, ca_fstype = fs, ca_mount_data = md, ca_copy_src = src, ca_copy_dst = dst\<rparr>"
    and "me_tree env args src = Some t" "tree_ok t" "tree_bytes t \<le> UINT64_MAX"
    and "run_state (mount_copy_unmount_ns env (Some dv) (Some mp) (Some fs) md (Some src) (Some dst) fd) w = ((r, d), w')"
  shows "(copyable t \<and> me_tree env args dst = None \<longrightarrow> r = 0) \<and>
    (\<not> no_special t \<longrightarrow> r = -1 \<and> w_errno w' = ENOTSUP \<and> d = me_tree env args dst)"
proof -
  have w: "still w" using assms(1,2) by (simp add: still_def)
  have sel: "ca_copy_src args = src" "ca_copy_dst args = dst" by (simp_all add: assms(4))
  let ?Q = "\<lambda>(r :: int, d) w'. (copyable t \<and> me_tree env args dst = None \<longrightarrow> r = 0) \<and>
    (\<not> no_special t \<longrightarrow> r = -1 \<and> w_errno w' = ENOTSUP \<and> d = me_tree env args dst)"
  note child = run_child_still[of w env args t fd, unfolded sel, OF w assms(3,5-7)]
  have waited: "wp (State wait_child_loop) Q v = Q True v" if "still v" for Q v
    using run_wait_child[OF that] by (simp add: wp_def)
  have got: "wp (chatgpt_read_all (status_bytes st) sizeof_child_status) Q v = Q (0, status_bytes st) v" if "still v" for st Q v
    using run_chatgpt_read[OF that, of 8 "status_bytes st"] by (simp add: wp_def sizeof_child_status_def status_bytes_def)
  have "wp (mount_copy_unmount_ns env (Some dv) (Some mp) (Some fs) md (Some src) (Some dst) fd) ?Q w"
    apply (simp only: mount_copy_unmount_ns_def option.distinct simp_thms if_False option.sel Let_def assms(4)[symmetric] sel)
    apply (simp add: w wp_bind[of fallible] del: wp_bind)
    apply (rule wp_seq[OF child])
    apply (auto simp: reported_def outcome_of_def waited got status_roundtrip)
    done
  from wpD[OF this assms(8)] show ?thesis by simp
qed


text \<open>
  C11: When the mounting, copying and unmounting reports success, whatever calls failed on the way
  and wherever the plan struck, the child was not killed, there was something to copy, and all of
  it is at the destination: every file with its content, every link with its target, every
  directory.  Success or not, as long as the child was not killed, nothing at the destination that
  the source has no counterpart of is changed.
\<close>

theorem mount_copy_sound:
  assumes "honest w"
    and "args = \<lparr>ca_device = dv, ca_mountpoint = mp, ca_fstype = fs, ca_mount_data = md, ca_copy_src = src, ca_copy_dst = dst\<rparr>"
    and "\<And>t. me_tree env args src = Some t \<Longrightarrow> tree_ok t"
    and "run_state (mount_copy_unmount_ns env (Some dv) (Some mp) (Some fs) md (Some src) (Some dst) fd) w = ((r, d), w')"
  shows "(r = 0 \<or> r = -1) \<and>
    (r = 0 \<longrightarrow> me_killed env = None \<and> (\<exists>t. me_tree env args src = Some t \<and> covers t d)) \<and>
    (me_killed env = None \<longrightarrow> (\<forall>p. (\<forall>t. me_tree env args src = Some t \<longrightarrow> \<not> has_path t p) \<longrightarrow>
       tree_at d p = tree_at (me_tree env args dst) p))"
proof -
  let ?s = "me_tree env args src" and ?d = "me_tree env args dst"
  let ?Q = "\<lambda>(r :: int, d) w'. (r = 0 \<or> r = -1) \<and> (me_killed env = None \<longrightarrow> path_copied ?s ?d r d) \<and> (r = 0 \<longrightarrow> me_killed env = None)"
  have sel: "ca_copy_src args = src" "ca_copy_dst args = dst" by (simp_all add: assms(2))
  have child: "wp (run_child env fd args) (\<lambda>(st, _, d) w'. (me_killed env = None \<longrightarrow> path_copied ?s ?d (if st = Exited 0 then 0 else -1) d) \<and>
      (st = Exited 0 \<longrightarrow> me_killed env = None)) v" if "honest v" for v
  proof (cases "me_killed env")
    case None
    with wp_run_child[of v env args fd] assms(3) sel that show ?thesis by (auto elim!: wp_mono)
  next
    case (Some k)
    show ?thesis by (rule wp_mono[OF killed_child[OF Some]]) (use Some in auto)
  qed
  have "wp (mount_copy_unmount_ns env (Some dv) (Some mp) (Some fs) md (Some src) (Some dst) fd) ?Q w"
    apply (simp only: mount_copy_unmount_ns_def option.distinct simp_thms if_False option.sel Let_def assms(2)[symmetric] sel)
    apply (rule wp_seq[OF wp_keeps_honest[OF fr_plan.keeps_fallible assms(1)]])
    apply (clarsimp simp del: wp_bind)
    apply (rule wp_seq[OF wp_keeps_honest[OF fr_plan.keeps_fallible]], assumption)
    apply (clarsimp simp del: wp_bind)
    apply (rule wp_seq[OF wp_keeps_honest[OF fr_plan.keeps_fallible]], assumption)
    apply (clarsimp simp del: wp_bind)
    apply (rule wp_seq[OF child], assumption)
    apply (simp only: split_paired_all prod.case)
    apply (rule wp_seq[where P = "\<lambda>_ _. True"], simp add: wp_run)
    apply (simp del: wp_bind)
    apply (intro conjI impI)
     apply (simp add: path_copied_worse)
    apply (rule wp_seq[where P = "\<lambda>_ _. True"], simp add: wp_run)
    apply (auto dest: path_copied_worse)
    done
  from wpD[OF this assms(4)] show ?thesis by (auto simp: path_copied_def)
qed

text \<open>
  C12: When no call fails, copying to a place where there is nothing yet completes: links of at most
  2^63 - 1 bytes, files and directories are all copied.  A tree with another kind of file anywhere
  in it is refused with the child's ENOTSUP before the destination is touched.
\<close>

theorem mount_copy_completes:
  assumes "w_plan w = []" "w_io w = []" "me_killed env = None"
    and "args = \<lparr>ca_device = dv, ca_mountpoint = mp, ca_fstype = fs, ca_mount_data = md, ca_copy_src = src, ca_copy_dst = dst\<rparr>"
    and "me_tree env args src = Some t" "tree_ok t" "tree_bytes t \<le> UINT64_MAX"
    and "run_state (mount_copy_unmount_ns env (Some dv) (Some mp) (Some fs) md (Some src) (Some dst) fd) w = ((r, d), w')"
  shows "(copyable t \<and> me_tree env args dst = None \<longrightarrow> r = 0) \<and>
    (\<not> no_special t \<longrightarrow> r = -1 \<and> w_errno w' = ENOTSUP \<and> d = me_tree env args dst)"
  using assms by (rule run_mount_copy_still)


section \<open>An example\<close>

definition toy_tree :: ftree where
  "toy_tree = FDir [(''.'', FDir []), (''a'', FReg ''hi''), (''d'', FDir [(''l'', FLink 0 ''a'')])]"

definition toy_env :: mount_env where
  "toy_env = \<lparr>me_tree = (\<lambda>_ p. if p = ''/tmp/'' then Some toy_tree else None), me_text = (\<lambda>_ _. []), me_killed = None\<rparr>"

abbreviation (input) toy_mount :: "(int \<times> ftree option) io" where
  "toy_mount \<equiv> mount_copy_unmount_ns toy_env (Some ''/dev/block/sda1'') (Some ''/tmp/'') (Some ''exfat'') None
     (Some ''/tmp/'') (Some ''/sdcard/import-1'') 5"

lemma toy_tree_facts: "tree_ok toy_tree" "copyable toy_tree" "tree_bytes toy_tree \<le> UINT64_MAX"
  "me_tree toy_env args ''/tmp/'' = Some toy_tree" "me_tree toy_env args ''/sdcard/import-1'' = None" "me_killed toy_env = None"
  by (simp_all add: toy_tree_def toy_env_def)

lemma mount_copy_completes_witness: "\<exists>d w'. run_state toy_mount (sock_world []) = ((0, d), w')"
proof -
  obtain r d w' where r: "run_state toy_mount (sock_world []) = ((r, d), w')" by (metis surj_pair)
  from mount_copy_completes[OF _ _ toy_tree_facts(6) refl toy_tree_facts(4,1,3) r] r show ?thesis
    using toy_tree_facts(2,5) by auto
qed

lemma mount_copy_sound_witness: "\<exists>d w'. run_state toy_mount (sock_world []) = ((0, d), w') \<and> covers toy_tree d"
proof -
  obtain r d w' where r: "run_state toy_mount (sock_world []) = ((r, d), w')" by (metis surj_pair)
  have "r = 0"
    using run_mount_copy_still[OF _ _ toy_tree_facts(6) refl toy_tree_facts(4,1,3) r] toy_tree_facts(2,5) by auto
  moreover have "honest (sock_world [])" by (simp add: honest_def)
  ultimately show ?thesis
    using mount_copy_sound[OF _ refl _ r] r toy_tree_facts(1,4) by auto
qed

end
