(* ===== verification/Daemon.thy ===== *)
theory Daemon
  imports Handler MountCopy
begin

text \<open>
  \<open>daemon/daemon.c\<close>: the globals, the listening socket and the loop that forks a handler for every
  client.  \<open>abort\<close> is a result of its own.  A forked child works on a copy of the parent's memory
  and descriptors; what both share is the file system, the settings database, the clock and the
  list of programs started.  A child's run is one step of the whole: children run one after the
  other, in any order.
\<close>

abbreviation (input) EADDRINUSE :: int where "EADDRINUSE \<equiv> 98"

definition DUMB_URL_CODE_PATH :: string where "DUMB_URL_CODE_PATH = ''dumb''"
definition DUMB_URL_UPLOAD_PATH :: string where "DUMB_URL_UPLOAD_PATH = ''upload''"
definition MAX_SOCK_PATH :: nat where "MAX_SOCK_PATH = 108"


section \<open>Globals\<close>

record daemon_opts =
  do_tmpdir :: string
  do_server :: string
  do_path :: string
  do_mode :: int
  do_uid :: int
  do_gid :: int
  do_con :: string

record daemon_globals =
  dg_default_server :: "string option"
  dg_upload_server :: "string option"
  dg_code_server :: "string option"
  dg_tmpdir :: "string option"

definition alloc_dumb_server_append :: "string option \<Rightarrow> string \<Rightarrow> string option io" where
  "alloc_dumb_server_append default_server s = (case default_server of
     None \<Rightarrow> fail_with EINVAL None
   | Some server \<Rightarrow>
       if strlen server = 0 then fail_with EINVAL None
       else do {
         let slash = (if last (cstr server) \<noteq> CHR ''/'' then ''/'' else []);
         ok \<leftarrow> c_malloc;
         if \<not> ok then ret None else ret (Some (cstr server @ slash @ s)) })"

definition c_strdup :: "string \<Rightarrow> string option io" where
  "c_strdup s = do { ok \<leftarrow> c_malloc; ret (if ok then Some (cstr s) else None) }"

text \<open>\<open>None\<close>: abort.\<close>

definition set_default_server :: "daemon_globals \<Rightarrow> string \<Rightarrow> daemon_globals option io" where
  "set_default_server g server = do {
     default_server \<leftarrow> c_strdup server;
     code_server \<leftarrow> alloc_dumb_server_append default_server DUMB_URL_CODE_PATH;
     upload_server \<leftarrow> alloc_dumb_server_append default_server DUMB_URL_UPLOAD_PATH;
     if default_server = None \<or> code_server = None \<or> upload_server = None then ret None
     else ret (Some (g\<lparr>dg_default_server := default_server, dg_code_server := code_server,
                     dg_upload_server := upload_server\<rparr>)) }"

text \<open>For an empty path the code reads the byte in front of it; the model takes it not to be a slash.\<close>

definition set_tmpdir :: "daemon_globals \<Rightarrow> string \<Rightarrow> daemon_globals option io" where
  "set_tmpdir g path = do {
     ok \<leftarrow> c_malloc;
     if \<not> ok then ret None
     else ret (Some (g\<lparr>dg_tmpdir := Some (if cstr path \<noteq> [] \<and> last (cstr path) = CHR ''/''
                                    then cstr path else cstr path @ ''/'')\<rparr>)) }"


section \<open>Starting\<close>

datatype started = Returned int | Aborted | Listening int daemon_globals

text \<open>
  \<open>bind\<close> makes the socket's file and fails when there is one already; the empty path is an
  abstract address without a file.  What \<open>chown\<close>, \<open>chmod\<close> and \<open>setfilecon\<close> set is not part of the
  file system of the model; they fail without a file.
\<close>

definition sys_bind :: "string \<Rightarrow> bool io" where
  "sys_bind path = do {
     ok \<leftarrow> fallible;
     n \<leftarrow> gets (\<lambda>w. w_files w path);
     if \<not> ok then ret False
     else if n \<noteq> None then fail_with EADDRINUSE False
     else if path = [] then ret True
     else do { modify (\<lambda>w. w\<lparr>w_files := (w_files w)(path \<mapsto> Reg [])\<rparr>); ret True } }"

definition path_call :: "string \<Rightarrow> bool io" where
  "path_call path = do {
     ok \<leftarrow> fallible;
     n \<leftarrow> gets (\<lambda>w. w_files w path);
     if \<not> ok then ret False else if n = None then fail_with ENOENT False else ret True }"

definition bound_failed :: "int \<Rightarrow> string \<Rightarrow> started io" where
  "bound_failed socket_fd path = do {
     sys_close socket_fd;
     sys_unlink path;
     e \<leftarrow> get_errno;
     ret (Returned e) }"

definition start_listening :: "daemon_opts \<Rightarrow> int \<Rightarrow> daemon_globals \<Rightarrow> started io" where
  "start_listening opt socket_fd g = do {
     tmp \<leftarrow> set_tmpdir g (do_tmpdir opt);
     case tmp of
       None \<Rightarrow> ret Aborted
     | Some g \<Rightarrow> do {
         mkdir_p (the (dg_tmpdir g));
         srv \<leftarrow> set_default_server g (do_server opt);
         case srv of None \<Rightarrow> ret Aborted | Some g \<Rightarrow> ret (Listening socket_fd g) } }"

text \<open>From the bound socket on: the owner, the mode and the context of its file.\<close>

definition start_bound :: "daemon_opts \<Rightarrow> int \<Rightarrow> daemon_globals \<Rightarrow> started io" where
  "start_bound opt socket_fd g = do {
     chowned \<leftarrow> path_call (do_path opt);
     if \<not> chowned then bound_failed socket_fd (do_path opt)
     else do {
       chmodded \<leftarrow> path_call (do_path opt);
       if \<not> chmodded then bound_failed socket_fd (do_path opt)
       else do {
         path_call (do_path opt);
         listening \<leftarrow> fallible;
         if \<not> listening then bound_failed socket_fd (do_path opt)
         else start_listening opt socket_fd g } } }"

definition start_daemon :: "daemon_opts \<Rightarrow> daemon_globals \<Rightarrow> started io" where
  "start_daemon opt g = do {
     sock_addr \<leftarrow> c_malloc;
     if \<not> sock_addr then do { e \<leftarrow> get_errno; ret (Returned e) }
     else do {
       maybe_set_lockscreen_text;
       ok \<leftarrow> fallible;
       if \<not> ok then do { e \<leftarrow> get_errno; ret (Returned e) }
       else do {
         socket_fd \<leftarrow> new_fd OSock;
         if MAX_SOCK_PATH \<le> strlen (do_path opt) then ret (Returned ENAMETOOLONG)
         else do {
           bound \<leftarrow> sys_bind (do_path opt);
           if \<not> bound then do { sys_close socket_fd; e \<leftarrow> get_errno; ret (Returned e) }
           else start_bound opt socket_fd g } } } }"


section \<open>The accept loop\<close>

text \<open>One round of the parent: the client for which there is a child now.\<close>

definition accept_round :: "int option io" where
  "accept_round = do {
     accepted \<leftarrow> fallible;
     if \<not> accepted then ret None
     else do {
       conn_fd \<leftarrow> new_fd OSock;
       forked \<leftarrow> fallible;
       if \<not> forked then do { sys_close conn_fd; ret None }
       else do { sys_close conn_fd; ret (Some conn_fd) } } }"

text \<open>
  The child: the handler with the globals of the daemon (\<open>get_tmpdir\<close>, \<open>get_dumb_server_code\<close>,
  \<open>get_dumb_server_upload\<close>) and the copy service.
\<close>

definition installed :: "daemon_globals \<Rightarrow> mount_env \<Rightarrow> int \<Rightarrow> device \<Rightarrow> device" where
  "installed g env conn_fd dev = dev\<lparr>dv_tmpdir := the (dg_tmpdir g),
     dv_server_code := the (dg_code_server g), dv_server_upload := the (dg_upload_server g),
     dv_mount_copy := (\<lambda>d mp fs md src dst. do {
       (r, copied) \<leftarrow> mount_copy_unmount_ns env (Some d) (Some mp) (Some fs) md (Some src) (Some dst) conn_fd;
       ret r })\<rparr>"

definition child_body :: "daemon_globals \<Rightarrow> mount_env \<Rightarrow> device \<Rightarrow> int \<Rightarrow> int \<Rightarrow> int io" where
  "child_body g env dev socket_fd conn_fd = do {
     sys_close socket_fd;
     r \<leftarrow> handler (installed g env conn_fd dev) conn_fd;
     sys_close conn_fd;
     ret r }"

text \<open>
  The daemon and its children: the parent's world, the children that run with the client each
  serves, and the status of those that have finished.
\<close>

record daemon_state =
  dm_world :: world
  dm_running :: "int list"
  dm_finished :: "(int \<times> int) list"

definition shared_eq :: "world \<Rightarrow> world \<Rightarrow> bool" where
  "shared_eq w v \<longleftrightarrow> w_files v = w_files w \<and> w_db v = w_db w \<and> w_execs v = w_execs w \<and> w_now v = w_now w"

definition take_shared :: "world \<Rightarrow> world \<Rightarrow> world" where
  "take_shared w v = w\<lparr>w_files := w_files v, w_db := w_db v, w_execs := w_execs v, w_now := w_now v\<rparr>"

text \<open>
  A step of the whole: a round of the parent, or a child that serves its client.  A child starts
  from what it shares with the others; its client's bytes, its device's answers and what fails in
  it are arbitrary.
\<close>

inductive daemon_step ::
  "(int \<Rightarrow> device \<times> mount_env) \<Rightarrow> daemon_globals \<Rightarrow> int \<Rightarrow> daemon_state \<Rightarrow> daemon_state \<Rightarrow> bool"
  for dev g socket_fd where
  no_client: "run_state accept_round (dm_world s) = (None, w) \<Longrightarrow>
    daemon_step dev g socket_fd s (s\<lparr>dm_world := w\<rparr>)"
| new_client: "run_state accept_round (dm_world s) = (Some conn_fd, w) \<Longrightarrow>
    daemon_step dev g socket_fd s (s\<lparr>dm_world := w, dm_running := conn_fd # dm_running s\<rparr>)"
| child_done: "conn_fd \<in> set (dm_running s) \<Longrightarrow> shared_eq (dm_world s) v \<Longrightarrow> dev conn_fd = (d, env) \<Longrightarrow>
    run_state (child_body g env d socket_fd conn_fd) v = (r, v') \<Longrightarrow>
    daemon_step dev g socket_fd s (s\<lparr>dm_world := take_shared (dm_world s) v',
      dm_running := remove1 conn_fd (dm_running s), dm_finished := (conn_fd, r) # dm_finished s\<rparr>)"

inductive daemon_reach ::
  "(int \<Rightarrow> device \<times> mount_env) \<Rightarrow> daemon_globals \<Rightarrow> int \<Rightarrow> daemon_state \<Rightarrow> daemon_state \<Rightarrow> bool"
  for dev g socket_fd s0 where
  start: "daemon_reach dev g socket_fd s0 s0"
| step: "daemon_reach dev g socket_fd s0 s \<Longrightarrow> daemon_step dev g socket_fd s s' \<Longrightarrow> daemon_reach dev g socket_fd s0 s'"

definition daemon_init :: "world \<Rightarrow> daemon_state" where
  "daemon_init w = \<lparr>dm_world = w, dm_running = [], dm_finished = []\<rparr>"

inductive_cases daemon_stepE: "daemon_step dev g socket_fd s s'"

end
