(* ===== verification/DaemonMain.thy ===== *)
theory DaemonMain
  imports Daemon
begin

text \<open>
  \<open>daemon/main.c\<close> and \<open>caller/main.c\<close>: the options of the daemon and of its client.  What
  \<open>getopt_long\<close> finds is an argument, the option characters with their arguments in order, and so
  are the words left over and the user and group databases.  Arguments are C strings without a
  terminator; \<open>long\<close> has 64 bits.  What is printed is dropped.
\<close>

definition DEFAULT_SOCKET_CONTEXT :: string where "DEFAULT_SOCKET_CONTEXT = ''u:object_r:dumbosd_socket:s0''"
definition DEFAULT_TMPDIR :: string where "DEFAULT_TMPDIR = ''/data/local/tmp/dumb/''"
definition DEFAULT_SOCKET_PATH :: string where "DEFAULT_SOCKET_PATH = ''/dev/socket/dumbosd.socket''"
definition DEFAULT_SOCKET_MODE :: string where "DEFAULT_SOCKET_MODE = ''666''"
definition DEFAULT_SOCKET_OWNER :: string where "DEFAULT_SOCKET_OWNER = ''root:system''"
definition DUMB_DEFAULT_SERVER :: string where "DUMB_DEFAULT_SERVER = ''https://91-226-221-47.sslip.io:4738/''"


section \<open>Numbers and owners\<close>

definition c_isoct :: "char \<Rightarrow> bool" where
  "c_isoct c \<longleftrightarrow> 48 \<le> code c \<and> code c \<le> 55"

text \<open>\<open>strtoul(s, &end, 8)\<close>: value, end, whether \<open>errno\<close> was set.\<close>

definition strtoul8 :: "string \<Rightarrow> int \<times> string \<times> bool" where
  "strtoul8 s = (let (neg, t) = scan_sign (dropWhile c_isspace s);
                     ds = takeWhile c_isoct t;
                     n = foldl (\<lambda>v c. 8 * v + int (code c - 48)) 0 ds;
                     rest = dropWhile c_isoct t
     in if ds = [] then (0, s, False)
        else if ULONG_MAX < n then (ULONG_MAX, rest, True)
        else ((if neg then - n else n) mod (ULONG_MAX + 1), rest, False))"

definition parse_mode :: "string \<Rightarrow> int option" where
  "parse_mode s = (let (v, rest, failed) = strtoul8 s in
     if failed \<or> rest \<noteq> [] then None else Some (v mod 4294967296))"

text \<open>A user or a group, by number or by name.\<close>

definition parse_id :: "(string \<Rightarrow> int option) \<Rightarrow> string \<Rightarrow> int option" where
  "parse_id lookup s =
     (if s \<noteq> [] \<and> c_isdigit (hd s)
      then (let (v, rest, failed) = strtoll s in
            if rest \<noteq> [] \<or> failed then None else Some (v mod 4294967296))
      else lookup s)"

definition parse_owner ::
  "(string \<Rightarrow> int option) \<Rightarrow> (string \<Rightarrow> int option) \<Rightarrow> string \<Rightarrow> (int \<times> int) option" where
  "parse_owner getpwnam getgrnam s =
     (if CHR '':'' \<notin> set s then None
      else case parse_id getpwnam (takeWhile (\<lambda>c. c \<noteq> CHR '':'') s) of
          None \<Rightarrow> None
        | Some uid \<Rightarrow> (case parse_id getgrnam (tl (dropWhile (\<lambda>c. c \<noteq> CHR '':'') s)) of
              None \<Rightarrow> None
            | Some gid \<Rightarrow> Some (uid, gid)))"


section \<open>The daemon's options\<close>

record main_opts =
  mo_path :: string
  mo_server :: string
  mo_con :: string
  mo_tmpdir :: string
  mo_mode :: string
  mo_owner :: string
  mo_logfile :: "string option"

definition default_opts :: main_opts where
  "default_opts = \<lparr>mo_path = DEFAULT_SOCKET_PATH, mo_server = DUMB_DEFAULT_SERVER,
     mo_con = DEFAULT_SOCKET_CONTEXT, mo_tmpdir = DEFAULT_TMPDIR, mo_mode = DEFAULT_SOCKET_MODE,
     mo_owner = DEFAULT_SOCKET_OWNER, mo_logfile = None\<rparr>"

text \<open>The loop over the options: the status \<open>main\<close> returns with, or the options.\<close>

fun daemon_options :: "(char \<times> string) list \<Rightarrow> main_opts \<Rightarrow> (int + main_opts) io" where
  "daemon_options [] opts = ret (Inr opts)"
| "daemon_options ((c, optarg) # rest) opts =
     (if c = CHR ''h'' then ret (Inl 0)
      else if c = CHR ''v'' then ret (Inl 0)
      else if c = CHR ''l'' then do { set_log_verbosity optarg; daemon_options rest opts }
      else if c = CHR ''s'' then daemon_options rest (opts\<lparr>mo_path := optarg\<rparr>)
      else if c = CHR ''H'' then daemon_options rest (opts\<lparr>mo_server := optarg\<rparr>)
      else if c = CHR ''o'' then daemon_options rest (opts\<lparr>mo_owner := optarg\<rparr>)
      else if c = CHR ''m'' then daemon_options rest (opts\<lparr>mo_mode := optarg\<rparr>)
      else if c = CHR ''Z'' then daemon_options rest (opts\<lparr>mo_con := optarg\<rparr>)
      else if c = CHR ''t'' then daemon_options rest (opts\<lparr>mo_tmpdir := optarg\<rparr>)
      else if c = CHR ''L'' then daemon_options rest (opts\<lparr>mo_logfile := Some optarg\<rparr>)
      else ret (Inl EINVAL))"

definition open_logfile :: "string option \<Rightarrow> int option io" where
  "open_logfile logfile = (case logfile of
     None \<Rightarrow> ret None
   | Some path \<Rightarrow> do {
       fd \<leftarrow> sys_open path [O_WRITE, O_CREAT, O_TRUNC];
       if fd < 0 then do { e \<leftarrow> get_errno; ret (Some e) } else ret None })"

text \<open>From the mode on.\<close>

definition start_with ::
  "(string \<Rightarrow> int option) \<Rightarrow> (string \<Rightarrow> int option) \<Rightarrow> main_opts \<Rightarrow> daemon_globals \<Rightarrow> started io" where
  "start_with getpwnam getgrnam opts g = do {
     set_errno 0;
     case parse_mode (mo_mode opts) of
       None \<Rightarrow> ret (Returned EINVAL)
     | Some mode \<Rightarrow> do {
         ok \<leftarrow> c_malloc;
         if \<not> ok then do { e \<leftarrow> get_errno; ret (Returned e) }
         else case parse_owner getpwnam getgrnam (mo_owner opts) of
             None \<Rightarrow> ret (Returned EINVAL)
           | Some (uid, gid) \<Rightarrow> start_daemon
               \<lparr>do_tmpdir = mo_tmpdir opts, do_server = mo_server opts, do_path = mo_path opts, do_mode = mode,
                do_uid = uid, do_gid = gid, do_con = mo_con opts\<rparr> g } }"

definition daemon_main ::
  "(string \<Rightarrow> int option) \<Rightarrow> (string \<Rightarrow> int option) \<Rightarrow> (char \<times> string) list \<Rightarrow> daemon_globals \<Rightarrow> started io" where
  "daemon_main getpwnam getgrnam options g = do {
     ok \<leftarrow> c_malloc;
     if \<not> ok then do { e \<leftarrow> get_errno; ret (Returned e) }
     else do {
       r \<leftarrow> daemon_options options default_opts;
       case r of
         Inl e \<Rightarrow> ret (Returned e)
       | Inr opts \<Rightarrow> do {
           failed \<leftarrow> open_logfile (mo_logfile opts);
           case failed of
             Some e \<Rightarrow> ret (Returned e)
           | None \<Rightarrow> start_with getpwnam getgrnam opts g } } }"


section \<open>The client's options\<close>

fun caller_options :: "(char \<times> string) list \<Rightarrow> string \<Rightarrow> (int + string) io" where
  "caller_options [] opt_socket = ret (Inr opt_socket)"
| "caller_options ((c, optarg) # rest) opt_socket =
     (if c = CHR ''h'' then ret (Inl 0)
      else if c = CHR ''v'' then ret (Inl 0)
      else if c = CHR ''l'' then do { set_log_verbosity optarg; caller_options rest opt_socket }
      else if c = CHR ''s'' then caller_options rest optarg
      else ret (Inl EINVAL))"

definition caller_main :: "(char \<times> string) list \<Rightarrow> string list \<Rightarrow> (int \<times> string list) io" where
  "caller_main options args = do {
     r \<leftarrow> caller_options options DEFAULT_SOCKET_PATH;
     case r of
       Inl e \<Rightarrow> ret (e, [])
     | Inr opt_socket \<Rightarrow> client args opt_socket }"

end
