(* ===== verification/DaemonProps.thy ===== *)
theory DaemonProps
  imports CommandProps MountCopyRun DaemonMain
begin

text \<open>
  The daemon as a whole, from its options over starting to any interleaving of clients: the
  programs it can be made to start, its descriptors, what a successful start sets up and what a
  failed one leaves behind, and the owner of its socket.
\<close>


section \<open>Frames\<close>

context effect_frame
begin

lemma keeps_path_call [keeps_intros]: "keeps R (path_call p)"
  unfolding path_call_def by (intro keeps_intros)

lemma keeps_strdup [keeps_intros]: "keeps R (c_strdup s)"
  unfolding c_strdup_def by (intro keeps_intros)

lemma keeps_server_append [keeps_intros]: "keeps R (alloc_dumb_server_append d s)"
  unfolding alloc_dumb_server_append_def Let_def by (intro keeps_intros)

lemma keeps_set_server [keeps_intros]: "keeps R (set_default_server g s)"
  unfolding set_default_server_def by (intro keeps_intros)

lemma keeps_set_tmpdir [keeps_intros]: "keeps R (set_tmpdir g p)"
  unfolding set_tmpdir_def by (intro keeps_intros)

end

context fd_frame
begin

lemma keeps_set_log_verbosity [keeps_intros]: "keeps R (set_log_verbosity l)"
proof -
  have "keeps R (set_verbosity v)" for v
    unfolding set_verbosity_def by (intro keeps_intros) (simp add: keeps_def frame_verbosity)
  then show ?thesis unfolding set_log_verbosity_def by (intro keeps_intros)
qed

lemma keeps_daemon_options [keeps_intros]: "keeps R (daemon_options os opts)"
proof (induction os arbitrary: opts)
  case (Cons x os)
  obtain c optarg where x: "x = (c, optarg)" by (cases x)
  show ?case unfolding x daemon_options.simps by (intro keeps_intros Cons.IH)
qed (simp add: keeps_return)

lemma keeps_accept_round [keeps_intros]: "keeps R accept_round"
  unfolding accept_round_def by (intro keeps_intros)

end

context file_frame
begin

lemma keeps_bind_sock [keeps_intros]: "keeps R (sys_bind p)"
  unfolding sys_bind_def by (intro keeps_intros keeps_mod_files)

lemma keeps_bound_failed [keeps_intros]: "keeps R (bound_failed fd p)"
  unfolding bound_failed_def by (intro keeps_intros)

lemma keeps_start_listening [keeps_intros]: "keeps R (start_listening opt fd g)"
  unfolding start_listening_def by (intro keeps_intros)

lemma keeps_start_bound [keeps_intros]: "keeps R (start_bound opt fd g)"
  unfolding start_bound_def by (intro keeps_intros)

lemma keeps_start_daemon [keeps_intros]: "keeps R (start_daemon opt g)"
  unfolding start_daemon_def by (intro keeps_intros)

lemma keeps_open_logfile [keeps_intros]: "keeps R (open_logfile l)"
  unfolding open_logfile_def by (intro keeps_intros)

lemma keeps_start_with [keeps_intros]: "keeps R (start_with pw gr opts g)"
  unfolding start_with_def by (intro keeps_intros)

lemma keeps_daemon_main [keeps_intros]: "keeps R (daemon_main pw gr os g)"
proof -
  have "keeps R (case r of Inl e \<Rightarrow> ret (Returned e) | Inr opts \<Rightarrow> do {
           failed \<leftarrow> open_logfile (mo_logfile opts);
           case failed of Some e \<Rightarrow> ret (Returned e) | None \<Rightarrow> start_with pw gr opts g })" for r
    by (cases r) (simp_all, (intro keeps_intros)+)
  then show ?thesis unfolding daemon_main_def by (intro keeps_intros)
qed

end


section \<open>Programs\<close>

lemma installed_fields [simp]:
  "dv_crypto (installed g env fd dev) = dv_crypto dev" "dv_pubkey (installed g env fd dev) = dv_pubkey dev"
  "dv_curl (installed g env fd dev) = dv_curl dev" "network_time (installed g env fd dev) = network_time dev"
  "authentic (installed g env fd dev) = authentic dev"
  by (simp_all add: installed_def fun_eq_iff network_time_def authentic_def)

lemma keeps_installed_copy: "keeps same_execs (dv_mount_copy (installed g env fd dev) a b c d e f)"
  unfolding installed_def by simp (intro fr_execs.keeps_bind fr_execs.keeps_mount_copy fr_execs.keeps_case_prod fr_execs.keeps_return)

text \<open>What the clients of a daemon can have started.\<close>

definition daemon_execs :: "(int \<Rightarrow> device \<times> mount_env) \<Rightarrow> daemon_globals \<Rightarrow> (string \<times> string list) set" where
  "daemon_execs dev g = client_execs \<union> (\<Union>c. code_execs (installed g (snd (dev c)) c (fst (dev c))))"

lemma keeps_in_child:
  assumes "dev c = (d, env)"
  shows "keeps (execs_in (daemon_execs dev g)) (child_body g env d fd c)"
proof -
  have "keeps (execs_in (daemon_execs dev g)) (handler (installed g env c d) c)"
    by (rule execs_in_mono[OF _ keeps_in_handler[OF keeps_installed_copy]])
       (use UN_upper[of c UNIV "\<lambda>c. code_execs (installed g (snd (dev c)) c (fst (dev c)))"] assms in
        \<open>auto simp: daemon_execs_def\<close>)
  then show ?thesis unfolding child_body_def by (intro keeps_intros)
qed

lemma daemon_step_execs:
  assumes "daemon_step dev g fd s s'"
  shows "execs_in (daemon_execs dev g) (dm_world s) (dm_world s')"
  using assms
proof (cases rule: daemon_step.cases)
  case (no_client w)
  then show ?thesis using keepsD[OF fr_in.keeps_accept_round no_client(2)] by simp
next
  case (new_client c w)
  then show ?thesis using keepsD[OF fr_in.keeps_accept_round new_client(2)] by simp
next
  case (child_done c v d env r v')
  then show ?thesis using keepsD[OF keeps_in_child[where dev = dev] child_done(5)]
    by (auto simp: execs_in_def take_shared_def shared_eq_def)
qed

lemma daemon_reach_execs:
  "daemon_reach dev g fd s s' \<Longrightarrow> execs_in (daemon_execs dev g) (dm_world s) (dm_world s')"
  by (induction rule: daemon_reach.induct)
     (auto intro: fr_in.frame_refl fr_in.frame_trans daemon_step_execs)

text \<open>
  C2: However the daemon is started, whoever connects to it, whatever they send, in whatever order
  they are served and whatever fails: the only programs started are the one that locks OEM unlock,
  the one that announces a new user, and those of authentic payloads that had not expired at
  a time the network delivered.
\<close>

theorem daemon_execs_authorised:
  assumes "run_state (daemon_main pw gr options g0) w = (Listening fd g, w1)"
    and "daemon_reach dev g fd (daemon_init w1) s" "x \<in> set (drop (length (w_execs w)) (w_execs (dm_world s)))"
  shows "x \<in> client_execs \<or> (\<exists>c q m t. network_time (fst (dev c)) t \<and> authentic (fst (dev c)) q m \<and> unexpired q t \<and>
    x \<in> command_execs (installed g (snd (dev c)) c (fst (dev c))) (payload_command q))"
proof -
  have "w_execs w1 = w_execs w" using keepsD[OF fr_execs.keeps_daemon_main assms(1)] by (simp add: same_execs_def)
  with daemon_reach_execs[OF assms(2)] assms(3) have "x \<in> daemon_execs dev g"
    by (auto simp: execs_in_def daemon_init_def)
  then show ?thesis by (fastforce simp: daemon_execs_def code_execs_def allowed_execs_def)
qed


section \<open>Descriptors\<close>

text \<open>All descriptors from the next one on are free.\<close>

definition fresh_fds :: "world \<Rightarrow> bool" where
  "fresh_fds w \<longleftrightarrow> (\<forall>fd\<ge>w_nextfd w. w_fds w fd = None)"

lemma accept_round_fds:
  "fresh_fds w \<Longrightarrow> wp accept_round (\<lambda>r w'. w_fds w' = w_fds w \<and> fresh_fds w') w"
proof -
  assume fresh: "fresh_fds w"
  have step: "wp fallible (\<lambda>ok w'. w_fds w' = w_fds v \<and> w_nextfd w' = w_nextfd v) v" for v
    by (rule wp_fallible_any) (auto simp: plan_step_same)
  have close: "f(n \<mapsto> OSock, n := None) = f" if "\<forall>k\<ge>n. f k = None" for f :: "int \<Rightarrow> ofile option" and n
    using that by auto
  show ?thesis
    unfolding accept_round_def wp_bind
    apply (rule wp_mono[OF step])
    using fresh by (auto simp: fresh_fds_def close intro!: wp_mono[OF step])
qed

lemma daemon_reach_fds:
  assumes "daemon_reach dev g fd s0 s" "fresh_fds (dm_world s0)"
  shows "w_fds (dm_world s) = w_fds (dm_world s0) \<and> fresh_fds (dm_world s)"
  using assms
proof (induction rule: daemon_reach.induct)
  case (step s s')
  then have fresh: "fresh_fds (dm_world s)" "w_fds (dm_world s) = w_fds (dm_world s0)" by simp_all
  from step(2) show ?case
    by (rule daemon_stepE)
       (use fresh in \<open>auto simp: take_shared_def fresh_fds_def dest: wpD[OF accept_round_fds[OF fresh(1)]]\<close>)
qed simp

text \<open>
  C13: The daemon leaks no descriptors: after any number of clients, of failed \<open>accept\<close> and
  \<open>fork\<close> calls and of finished children, in any order, its table is the one it started with; so
  the listening socket is still open.
\<close>

theorem daemon_leaks_nothing:
  assumes "daemon_reach dev g fd (daemon_init w) s" "fresh_fds w"
  shows "w_fds (dm_world s) = w_fds w"
  using daemon_reach_fds[OF assms(1)] assms(2) by (simp add: daemon_init_def)


section \<open>The owner of the socket\<close>

text \<open>
  A numeric owner is taken modulo 2^32, so 4294967296 is root, and refused only when a number
  does not fit a \<open>long\<close>.
\<close>

theorem numeric_owner:
  "parse_owner pw gr (dec n @ CHR '':'' # dec m) =
     (if int n \<le> LLONG_MAX \<and> int m \<le> LLONG_MAX then Some (int n mod 4294967296, int m mod 4294967296) else None)"
proof -
  have dec: "parse_id f (dec k) = (if int k \<le> LLONG_MAX then Some (int k mod 4294967296) else None)" for f k
    using dec_hd_digit[of k] scan_dec_dec[of "[]" k] by (auto simp: parse_id_def strtoll_def)
  have "\<forall>c\<in>set (dec n). c \<noteq> CHR '':''" using dec_digits[of n] by (auto simp: c_isdigit_def)
  from dropWhile_append_stop[OF this, of "CHR '':'' # dec m"] show ?thesis by (simp add: parse_owner_def dec)
qed


section \<open>A failed start\<close>

text \<open>How many of the calls to come fail.\<close>

definition faults :: "world \<Rightarrow> nat" where
  "faults w = length (filter (\<lambda>x. fail_of x \<noteq> None) (w_plan w))"

definition start_step :: "world \<Rightarrow> world \<Rightarrow> bool" where
  "start_step w w' \<longleftrightarrow> w_files w' = w_files w \<and> suffix (w_plan w') (w_plan w)"

interpretation fr_start: fd_frame start_step
  by unfold_locales (auto simp: start_step_def)

lemma keeps_start_lockscreen: "keeps start_step maybe_set_lockscreen_text"
proof -
  have db: "keeps start_step (modify (\<lambda>w. w\<lparr>w_db := rows\<rparr>))" for rows by (simp add: keeps_def start_step_def)
  have sq: "keeps start_step (sqlite_call good)" for good unfolding sqlite_call_def by (intro keeps_intros)
  have "keeps start_step (replace_locksetting rows n u v)" for rows n u v
    unfolding replace_locksetting_def Let_def by (intro keeps_intros sq)
  then have "keeps start_step (set_lock_screen_owner_info i)" for i
    unfolding set_lock_screen_owner_info_def by (intro keeps_intros db sq)
  then show ?thesis unfolding maybe_set_lockscreen_text_def by (intro keeps_intros fr_start.keeps_get_user_rdonly)
qed

lemma faults_suffix: "suffix (w_plan w') (w_plan w) \<Longrightarrow> faults w' \<le> faults w"
  by (auto simp: faults_def suffix_def)

lemma wp_fallible_fault:
  assumes "\<And>b w'. plan_step w w' \<Longrightarrow> start_step w w' \<Longrightarrow>
    (if b then w_errno w' = w_errno w else Fail (w_errno w') \<in> set (w_plan w) \<and> faults w' < faults w) \<Longrightarrow> Q b w'"
  shows "wp fallible Q w"
  using assms
  by (cases "w_plan w")
     (auto simp: wp_def fallible_def next_outcome_def start_step_def faults_def suffix_Cons split: outcome.split)

lemma wp_malloc_fault:
  assumes "\<And>b w'. plan_step w w' \<Longrightarrow> start_step w w' \<Longrightarrow> b \<or> w_errno w' = ENOMEM \<Longrightarrow> Q b w'"
  shows "wp c_malloc Q w"
  using assms
  by (cases "w_plan w")
     (auto simp: wp_def c_malloc_def next_outcome_def start_step_def suffix_Cons split: outcome.split)

text \<open>What a start that comes back leaves, when at most one call fails.\<close>

definition start_undone :: "world \<Rightarrow> started \<Rightarrow> world \<Rightarrow> bool" where
  "start_undone w s w' \<longleftrightarrow> (\<forall>e. s = Returned e \<longrightarrow> e \<noteq> 0 \<and> w_files w' = w_files w)"

text \<open>The file of the socket, from \<open>bind\<close> on.\<close>

definition sock_bound :: "world \<Rightarrow> string \<Rightarrow> world \<Rightarrow> bool" where
  "sock_bound w path v \<longleftrightarrow> suffix (w_plan v) (w_plan w) \<and> w_files w path = None \<and>
     w_files v = (if path = [] then w_files w else (w_files w)(path \<mapsto> Reg []))"

lemma sock_bound_step: "sock_bound w path v \<Longrightarrow> start_step v v' \<Longrightarrow> sock_bound w path v'"
  by (auto simp: sock_bound_def start_step_def)

lemma wp_bound_failed:
  assumes "sock_bound w path v" "w_errno v \<noteq> 0" "path = [] \<or> faults v = 0" "Fail 0 \<notin> set (w_plan w)"
  shows "wp (bound_failed fd path) (start_undone w) v"
proof -
  have zero: "Fail 0 \<notin> set (w_plan v)" using assms(1,4) by (auto simp: sock_bound_def dest: set_mono_suffix)
  show ?thesis
    unfolding bound_failed_def sys_unlink_def
    using assms(1-3) zero
    by (auto simp: start_undone_def sock_bound_def faults_def start_step_def intro!: wp_fallible_fault
        split: option.split node.split if_splits)
qed

lemma wp_path_call:
  assumes "sock_bound w path v" "faults w \<le> 1" "Fail 0 \<notin> set (w_plan w)"
    and "\<And>v'. sock_bound w path v' \<Longrightarrow> Q True v'"
    and "\<And>v'. sock_bound w path v' \<Longrightarrow> w_errno v' \<noteq> 0 \<Longrightarrow> path = [] \<or> faults v' = 0 \<Longrightarrow> Q False v'"
  shows "wp (path_call path) Q v"
proof -
  have "faults v \<le> 1" using assms(1,2) faults_suffix[of v w] by (simp add: sock_bound_def)
  moreover have "Fail 0 \<notin> set (w_plan v)" using assms(1,3) by (auto simp: sock_bound_def dest: set_mono_suffix)
  ultimately show ?thesis
    unfolding path_call_def wp_bind
    using assms(1)
    by (intro wp_fallible_fault)
       (auto intro!: assms(4,5) intro: sock_bound_step simp: sock_bound_def start_step_def)
qed

lemma wp_start_listening: "wp (start_listening opt fd g) (start_undone w) v"
  by (auto simp: wp_run start_listening_def start_undone_def case_prod_beta split: option.split)

text \<open>From the bound socket on, and the whole.\<close>

lemma wp_start_bound:
  assumes "sock_bound w path v" "path = do_path opt" "faults w \<le> 1" "Fail 0 \<notin> set (w_plan w)"
  shows "wp (start_bound opt socket_fd g) (start_undone w) v"
proof -
  note pc = wp_path_call[OF _ assms(3,4)]
  define m where "m = do { listening \<leftarrow> fallible;
      if \<not> listening then bound_failed socket_fd path else start_listening opt socket_fd g }"
  have last: "wp m (start_undone w) x" if x: "sock_bound w path x" for x
    unfolding m_def wp_bind
  proof (rule wp_fallible_fault)
    fix b w' assume s: "start_step x w'" "if b then w_errno w' = w_errno x else Fail (w_errno w') \<in> set (w_plan x) \<and> faults w' < faults x"
    have f: "faults x \<le> 1" "Fail 0 \<notin> set (w_plan x)"
      using x assms(3,4) faults_suffix[of x w] by (auto simp: sock_bound_def dest: set_mono_suffix)
    have b: "sock_bound w path w'" using x s(1) by (rule sock_bound_step)
    show "wp (if \<not> b then bound_failed socket_fd path else start_listening opt socket_fd g) (start_undone w) w'"
      using s(2) f by (cases b) (auto intro!: wp_start_listening wp_bound_failed[OF b _ _ assms(4)])
  qed
  show ?thesis
    unfolding start_bound_def assms(2)[symmetric] m_def[symmetric]
    using assms(1) by (auto simp: assms(4) intro!: pc wp_bound_failed last)
qed

lemma wp_bind_sock:
  assumes "start_step w v" "faults w \<le> 1" "Fail 0 \<notin> set (w_plan w)" "w_files w [] = None"
    and "\<And>v'. sock_bound w path v' \<Longrightarrow> Q True v'"
    and "\<And>v'. w_files v' = w_files w \<Longrightarrow> w_errno v' \<noteq> 0 \<Longrightarrow> Q False v'"
  shows "wp (sys_bind path) Q v"
proof -
  have "Fail 0 \<notin> set (w_plan v)" using assms(1,3) by (auto simp: start_step_def dest: set_mono_suffix)
  then show ?thesis
    unfolding sys_bind_def wp_bind
    using assms(1,4)
    by (intro wp_fallible_fault)
       (auto intro!: assms(5,6) simp: sock_bound_def start_step_def intro: suffix_order.trans split: if_splits)
qed

lemma wp_start_daemon:
  assumes "faults w \<le> 1" "Fail 0 \<notin> set (w_plan w)" "w_files w [] = None"
  shows "wp (start_daemon opt g) (start_undone w) w"
proof -
  have early: "e \<noteq> 0 \<Longrightarrow> w_files v = w_files w \<Longrightarrow> start_undone w (Returned e) v" for e v
    by (simp add: start_undone_def)
  have failed: "w_errno v \<noteq> 0 \<Longrightarrow> start_step w v \<Longrightarrow> wp (do { e \<leftarrow> get_errno; ret (Returned e) }) (start_undone w) v" for v
    by (auto simp: start_step_def intro: early)
  have lock: "start_step w v \<Longrightarrow> wp maybe_set_lockscreen_text (\<lambda>_. start_step w) v" for v
    using keeps_snd[OF keeps_start_lockscreen, of v] fr_start.frame_trans by (auto simp: wp_run)
  have sock: "start_step w (v\<lparr>w_fds := a, w_nextfd := b\<rparr>) = start_step w v" for v a b by (simp add: start_step_def)
  have zero: "start_step w v \<Longrightarrow> Fail 0 \<notin> set (w_plan v)" for v
    using assms(2) by (auto simp: start_step_def dest: set_mono_suffix)
  have bound: "start_step w v \<Longrightarrow> wp (do {
           bound \<leftarrow> sys_bind (do_path opt);
           if \<not> bound then do { sys_close fd; e \<leftarrow> get_errno; ret (Returned e) }
           else start_bound opt fd g }) (start_undone w) v" for v fd
    unfolding wp_bind[of "sys_bind _"]
    by (rule wp_bind_sock[OF _ assms]) (auto intro!: early wp_start_bound assms)
  have started: "start_step w v \<Longrightarrow> wp (do {
       ok \<leftarrow> fallible;
       if \<not> ok then do { e \<leftarrow> get_errno; ret (Returned e) }
       else do {
         socket_fd \<leftarrow> new_fd OSock;
         if MAX_SOCK_PATH \<le> strlen (do_path opt) then ret (Returned ENAMETOOLONG)
         else do {
           bound \<leftarrow> sys_bind (do_path opt);
           if \<not> bound then do { sys_close socket_fd; e \<leftarrow> get_errno; ret (Returned e) }
           else start_bound opt socket_fd g } } }) (start_undone w) v" (is "_ \<Longrightarrow> wp ?started _ _") for v
    unfolding wp_bind[of fallible]
  proof (rule wp_fallible_fault)
    fix b w' assume v: "start_step w v" and s: "start_step v w'"
      "if b then w_errno w' = w_errno v else Fail (w_errno w') \<in> set (w_plan v) \<and> faults w' < faults v"
    have w': "start_step w w'" using v s(1) by (rule fr_start.frame_trans)
    show "wp (if \<not> b then do { e \<leftarrow> get_errno; ret (Returned e) }
       else do {
         socket_fd \<leftarrow> new_fd OSock;
         if MAX_SOCK_PATH \<le> strlen (do_path opt) then ret (Returned ENAMETOOLONG)
         else do {
           bound \<leftarrow> sys_bind (do_path opt);
           if \<not> bound then do { sys_close socket_fd; e \<leftarrow> get_errno; ret (Returned e) }
           else start_bound opt socket_fd g } }) (start_undone w) w'"
      unfolding wp_if wp_bind[of "new_fd OSock"] wp_new_fd
      using w' s(2) zero[OF v] by (cases b) (auto simp: sock intro: failed bound intro!: early[of ENAMETOOLONG] simp del: wp_bind, simp add: start_step_def)
  qed
  show ?thesis
    unfolding start_daemon_def wp_bind[of c_malloc]
  proof (rule wp_malloc_fault)
    fix b w' assume s: "start_step w w'" "b \<or> w_errno w' = ENOMEM"
    show "wp (if \<not> b then do { e \<leftarrow> get_errno; ret (Returned e) }
        else do { maybe_set_lockscreen_text; ?started }) (start_undone w) w'"
      unfolding wp_if wp_bind[of maybe_set_lockscreen_text]
      using s by (cases b) (auto intro!: failed wp_mono[OF lock[OF s(1)]] started simp del: wp_bind)
  qed
qed

text \<open>
  C15: A failed start is reported and undone: when at most one call fails, a start that comes back
  returns an error number other than 0 and leaves every file as it was; the socket's file is gone.
\<close>

theorem failed_start_undone:
  assumes "run_state (start_daemon opt g) w = (Returned e, w')" "faults w \<le> 1" "Fail 0 \<notin> set (w_plan w)" "w_files w [] = None"
  shows "e \<noteq> 0 \<and> w_files w' = w_files w"
  using wpD[OF wp_start_daemon[OF assms(2-4)] assms(1)] by (simp add: start_undone_def)


section \<open>A successful start\<close>

text \<open>Nothing that was there is lost, and no call is going to fail.\<close>

definition kept :: "world \<Rightarrow> world \<Rightarrow> bool" where
  "kept w w' \<longleftrightarrow> w_plan w' = [] \<and> w_fds w' = w_fds w \<and> w_nextfd w' = w_nextfd w \<and> (\<forall>p nd. w_files w p = Some nd \<longrightarrow> w_files w' p = Some nd)"

lemma kept_refl [simp]: "w_plan w = [] \<Longrightarrow> kept w w"
  by (simp add: kept_def)

lemma kept_trans: "kept w v \<Longrightarrow> kept v w' \<Longrightarrow> kept w w'"
  by (simp add: kept_def)

lemma keptD: "kept w w' \<Longrightarrow> w_plan w' = []" "kept w w' \<Longrightarrow> w_files w p \<noteq> None \<Longrightarrow> w_files w' p = w_files w p"
  by (auto simp: kept_def)

lemma wp_mkdir_quiet:
  "w_plan w = [] \<Longrightarrow> p \<noteq> [] \<Longrightarrow>
   wp (sys_mkdir p) (\<lambda>r w'. kept w w' \<and> w_files w' p \<noteq> None \<and> (r < 0 \<longrightarrow> w_errno w' = EEXIST)) w"
  by (auto simp: sys_mkdir_def wp_fallible_quiet kept_def split: option.split)

lemma wp_mkdir_prefixes:
  "w_plan w = [] \<Longrightarrow> pre \<noteq> [] \<Longrightarrow> wp (mkdir_prefixes pre rest) (\<lambda>r w'. r = 0 \<and> kept w w') w"
proof (induction rest arbitrary: pre w)
  case (Cons c rest)
  have next_dir: "wp (mkdir_prefixes (pre @ [c]) rest) (\<lambda>r w'. r = 0 \<and> kept w w') v" if "kept w v" for v
    using Cons.IH[of v "pre @ [c]"] that keptD(1)[OF that] by (auto elim!: wp_mono intro: kept_trans)
  show ?case
    using next_dir Cons.prems
    by (auto intro!: wp_mono[OF wp_mkdir_quiet])
qed simp

lemma wp_mkdir_p_quiet:
  assumes "w_plan w = []" "tmp \<noteq> []" "last tmp \<noteq> CHR ''/''" "length tmp < PATH_MAX - 1"
  shows "wp (mkdir_p (tmp @ ''/'')) (\<lambda>r w'. kept w w' \<and> w_files w' tmp \<noteq> None) w"
proof -
  have dir: "wp (sys_mkdir tmp) (\<lambda>r w'. kept w w' \<and> w_files w' tmp \<noteq> None) v" if "kept w v" for v
    using wp_mkdir_quiet[OF keptD(1)[OF that] assms(2)] that by (auto elim!: wp_mono intro: kept_trans)
  have "wp (mkdir_prefixes (take 1 tmp) (drop 1 tmp)) (\<lambda>r w'. r = 0 \<and> kept w w') w"
    using assms(1,2) by (intro wp_mkdir_prefixes) simp_all
  then show ?thesis
    using assms by (auto simp: mkdir_p_def wp_malloc_quiet elim!: wp_mono intro!: wp_mono[OF dir])
qed

lemma cstr_slashed:
  assumes "nul_free b" "s = b \<or> s = b @ ''/''"
  shows "cstr s = s"
  using assms by (auto simp: nul_free_def cstr_nul_free)

lemma run_set_tmpdir:
  assumes "w_plan w = []" "nul_free tmp" "tmp \<noteq> []" "last tmp \<noteq> CHR ''/''" "s = tmp \<or> s = tmp @ ''/''"
  shows "run_state (set_tmpdir g s) w = (Some (g\<lparr>dg_tmpdir := Some (tmp @ ''/'')\<rparr>), w)"
  using assms(5) assms(1-4) cstr_slashed[OF assms(2,5)] by (auto simp: set_tmpdir_def io_simps)

lemma run_set_default_server:
  assumes "w_plan w = []" "nul_free base" "base \<noteq> []" "last base \<noteq> CHR ''/''" "s = base \<or> s = base @ ''/''"
  shows "run_state (set_default_server g s) w = (Some (g\<lparr>dg_default_server := Some s,
     dg_code_server := Some (base @ ''/dumb''), dg_upload_server := Some (base @ ''/upload'')\<rparr>), w)"
  using assms(5) assms(1-4) cstr_slashed[OF assms(2,5)]
  by (auto simp: set_default_server_def alloc_dumb_server_append_def c_strdup_def Let_def io_simps
      DUMB_URL_CODE_PATH_def DUMB_URL_UPLOAD_PATH_def strlen_def)

lemma start_listens:
  assumes "w_plan w = []" "w_files w (do_path opt) = None" "do_path opt \<noteq> []" "strlen (do_path opt) < MAX_SOCK_PATH"
    and "nul_free base" "base \<noteq> []" "last base \<noteq> CHR ''/''" "do_server opt = base \<or> do_server opt = base @ ''/''"
    and "nul_free tmp" "tmp \<noteq> []" "last tmp \<noteq> CHR ''/''" "do_tmpdir opt = tmp \<or> do_tmpdir opt = tmp @ ''/''"
    and "length tmp < PATH_MAX - 1"
  shows "\<exists>fd g' w'. run_state (start_daemon opt g) w = (Listening fd g', w') \<and> fd < w_nextfd w' \<and> w_fds w' fd = Some OSock \<and>
    w_files w' (do_path opt) = Some (Reg []) \<and> w_files w' tmp \<noteq> None \<and>
    (\<forall>p. w_files w p \<noteq> None \<longrightarrow> w_files w' p = w_files w p) \<and>
    dg_tmpdir g' = Some (tmp @ ''/'') \<and> dg_code_server g' = Some (base @ ''/dumb'') \<and>
    dg_upload_server g' = Some (base @ ''/upload'')"
proof -
  obtain r v where lock: "run_state maybe_set_lockscreen_text w = (r, v)" by (metis prod.exhaust)
  have v: "w_files v = w_files w" "w_plan v = []"
    using keepsD[OF keeps_start_lockscreen lock] assms(1) by (simp_all add: start_step_def)
  let ?u = "v\<lparr>w_fds := (w_fds v)(w_nextfd v \<mapsto> OSock), w_nextfd := w_nextfd v + 1,
              w_files := (w_files w)(do_path opt \<mapsto> Reg [])\<rparr>"
  obtain r' w' where mk: "run_state (mkdir_p (tmp @ ''/'')) ?u = (r', w')" by (metis prod.exhaust)
  have w': "kept ?u w'" "w_files w' tmp \<noteq> None"
    using wpD[OF wp_mkdir_p_quiet[OF _ assms(10,11,13)] mk] v by simp_all
  have "\<exists>g'. run_state (start_daemon opt g) w = (Listening (w_nextfd v) g', w') \<and>
      dg_tmpdir g' = Some (tmp @ ''/'') \<and> dg_code_server g' = Some (base @ ''/dumb'') \<and>
      dg_upload_server g' = Some (base @ ''/upload'')"
    using assms(1-4) v lock mk keptD(1)[OF w'(1)]
    by (simp add: start_daemon_def start_bound_def start_listening_def sys_bind_def path_call_def new_fd_def io_simps
        run_set_tmpdir[OF _ assms(9-12)] run_set_default_server[OF _ assms(5-8)])
  moreover have "w_fds w' (w_nextfd v) = Some OSock" "w_nextfd v < w_nextfd w'" using w'(1) by (simp_all add: kept_def)
  moreover have "w_files w' p = w_files w p" if "w_files w p \<noteq> None" for p
    using keptD(2)[OF w'(1), of p] that assms(2) by (auto split: if_splits)
  moreover have "w_files w' (do_path opt) = Some (Reg [])" using keptD(2)[OF w'(1), of "do_path opt"] by simp
  ultimately show ?thesis using w'(2) by blast
qed




section \<open>Examples\<close>

definition toy_globals :: daemon_globals where
  "toy_globals = \<lparr>dg_default_server = None, dg_upload_server = None, dg_code_server = None, dg_tmpdir = None\<rparr>"

definition toy_opts :: daemon_opts where
  "toy_opts = \<lparr>do_tmpdir = DEFAULT_TMPDIR, do_server = DUMB_DEFAULT_SERVER, do_path = DEFAULT_SOCKET_PATH,
     do_mode = 438, do_uid = 0, do_gid = 1000, do_con = DEFAULT_SOCKET_CONTEXT\<rparr>"

lemmas default_defs = DEFAULT_TMPDIR_def DUMB_DEFAULT_SERVER_def DEFAULT_SOCKET_PATH_def
  DEFAULT_SOCKET_CONTEXT_def DEFAULT_SOCKET_MODE_def DEFAULT_SOCKET_OWNER_def

lemma toy_opts_facts:
  "do_path toy_opts \<noteq> []" "strlen (do_path toy_opts) < MAX_SOCK_PATH"
  "nul_free ''https://91-226-221-47.sslip.io:4738''" "do_server toy_opts = ''https://91-226-221-47.sslip.io:4738'' @ ''/''"
  "nul_free ''/data/local/tmp/dumb''" "do_tmpdir toy_opts = ''/data/local/tmp/dumb'' @ ''/''"
  by (simp_all add: toy_opts_def default_defs nul_free_def MAX_SOCK_PATH_def strlen_def cstr_Cons)


text \<open>A start in which \<open>listen\<close> fails with EACCES.\<close>

lemma failed_start_undone_witness:
  "\<exists>w'. run_state (start_daemon toy_opts toy_globals) (idle_world\<lparr>w_plan := replicate 8 Done @ [Fail EACCES]\<rparr>) = (Returned EACCES, w') \<and>
     w_files w' = Map.empty"
proof -
  let ?w = "idle_world\<lparr>w_plan := replicate 8 Done @ [Fail EACCES]\<rparr>"
  have f: "faults ?w \<le> 1" "Fail 0 \<notin> set (w_plan ?w)" "w_files ?w [] = None"
    by (simp_all add: faults_def idle_world_def numeral_eq_Suc)
  obtain w' where r: "run_state (start_daemon toy_opts toy_globals) ?w = (Returned EACCES, w')"
    using toy_opts_facts(1,2)
    by (simp add: start_daemon_def maybe_set_lockscreen_text_def dumbos_alloc_get_user_def c_malloc_def fallible_def
        next_outcome_def sys_open_def idle_world_def numeral_eq_Suc new_fd_def sys_bind_def start_bound_def path_call_def
        bound_failed_def sys_unlink_def)
  from failed_start_undone[OF r f] show ?thesis using r by (auto simp: idle_world_def)
qed

text \<open>The daemon with its defaults, and a client that locks OEM unlock.\<close>

lemma parse_default_owner: "parse_owner (\<lambda>_. Some 0) (\<lambda>_. Some 1000) DEFAULT_SOCKET_OWNER = Some (0, 1000)"
  by (simp add: parse_owner_def parse_id_def DEFAULT_SOCKET_OWNER_def c_isdigit_def)

lemma parse_default_mode: "parse_mode DEFAULT_SOCKET_MODE = Some 438"
  by (simp add: parse_mode_def strtoul8_def DEFAULT_SOCKET_MODE_def c_isoct_def c_isspace_def)

lemma run_default_main:
  "\<exists>fd g w'. run_state (daemon_main (\<lambda>_. Some 0) (\<lambda>_. Some 1000) [] toy_globals) idle_world = (Listening fd g, w') \<and> w_plan w' = [] \<and> fd < w_nextfd w' \<and> w_execs w' = []"
proof -
  let ?w = "idle_world\<lparr>w_errno := 0\<rparr>"
  obtain fd g w' where r: "run_state (start_daemon toy_opts toy_globals) ?w = (Listening fd g, w')" "fd < w_nextfd w'"
    using start_listens[OF _ _ toy_opts_facts(1-3) _ _ disjI2[OF toy_opts_facts(4)] toy_opts_facts(5) _ _ disjI2[OF toy_opts_facts(6)],
        where w = ?w and g = toy_globals] by (auto simp: idle_world_def)
  moreover have "w_plan w' = []" "w_execs w' = []"
    using keepsD[OF fr_plan.keeps_start_daemon r(1)] keepsD[OF fr_execs.keeps_start_daemon r(1)]
    by (simp_all add: plan_sub_def same_execs_def idle_world_def)
  moreover have "run_state (daemon_main (\<lambda>_. Some 0) (\<lambda>_. Some 1000) [] toy_globals) idle_world =
      run_state (start_daemon toy_opts toy_globals) ?w"
    by (simp add: daemon_main_def open_logfile_def start_with_def default_opts_def io_simps idle_world_def
        parse_default_owner parse_default_mode toy_opts_def)
  ultimately show ?thesis by auto
qed

lemma run_accept_round:
  "w_plan w = [] \<Longrightarrow> run_state accept_round w =
     (Some (w_nextfd w), w\<lparr>w_fds := (w_fds w)(w_nextfd w := None), w_nextfd := w_nextfd w + 1\<rparr>)"
  by (simp add: accept_round_def new_fd_def io_simps)

lemma daemon_leaks_nothing_witness:
  "\<exists>s. daemon_reach (\<lambda>_. (toy_device, toy_env)) toy_globals 3 (daemon_init (sock_world [])) s \<and>
     dm_running s = [6] \<and> w_fds (dm_world s) = w_fds (sock_world [])"
proof -
  let ?w = "sock_world []"
  have r: "run_state accept_round ?w = (Some 6, ?w\<lparr>w_fds := (w_fds ?w)(6 := None), w_nextfd := 7\<rparr>)"
    using run_accept_round[of ?w] by (simp add: sock_world_def idle_world_def)
  let ?s = "(daemon_init ?w)\<lparr>dm_world := ?w\<lparr>w_fds := (w_fds ?w)(6 := None), w_nextfd := 7\<rparr>, dm_running := [6]\<rparr>"
  have reach: "daemon_reach (\<lambda>_. (toy_device, toy_env)) toy_globals 3 (daemon_init ?w) ?s"
    using daemon_step.new_client[of "daemon_init ?w" 6] r
    by (intro daemon_reach.step[OF daemon_reach.start]) (simp add: daemon_init_def)
  have "fresh_fds ?w" by (simp add: fresh_fds_def sock_world_def idle_world_def)
  from daemon_leaks_nothing[OF reach this] reach show ?thesis by (intro exI[of _ ?s]) simp
qed

lemma daemon_execs_authorised_witness:
  "\<exists>g (s :: daemon_state). oem_lock_exec \<in> set (w_execs (dm_world s)) \<and> (\<forall>x\<in>set (w_execs (dm_world s)). x \<in> client_execs \<or>
     (\<exists>c q m t. network_time toy_device t \<and> authentic toy_device q m \<and> unexpired q t \<and>
        x \<in> command_execs (installed g toy_env c toy_device) (payload_command q)))"
proof -
  let ?dev = "\<lambda>_. (toy_device, toy_env)"
  obtain fd g w1 where m: "run_state (daemon_main (\<lambda>_. Some 0) (\<lambda>_. Some 1000) [] toy_globals) idle_world = (Listening fd g, w1)"
    and w1: "w_plan w1 = []" "fd < w_nextfd w1" "w_execs w1 = []" using run_default_main by blast
  define c w2 where "c = w_nextfd w1" and "w2 = w1\<lparr>w_fds := (w_fds w1)(c := None), w_nextfd := c + 1\<rparr>"
  define s where "s = (daemon_init w1)\<lparr>dm_world := w2, dm_running := [c]\<rparr>"
  have acc: "daemon_reach ?dev g fd (daemon_init w1) s"
    using daemon_step.new_client[of "daemon_init w1" c w2] run_accept_round[OF w1(1)]
    by (intro daemon_reach.step[OF daemon_reach.start]) (simp add: daemon_init_def s_def c_def w2_def)
  define v where "v = w2\<lparr>w_plan := [], w_io := [], w_exits := [], w_sin := client_request [''oem_lock''],
    w_fds := (\<lambda>_. None)(c \<mapsto> OSock)\<rparr>"
  let ?v = "v\<lparr>w_fds := (w_fds v)(fd := None)\<rparr>"
  have "smooth c ?v" "w_exits ?v = []" "w_sin ?v = client_request [''oem_lock'']"
    using w1(2) by (simp_all add: smooth_def v_def c_def)
  from run_oem_lock_request[OF this] obtain r v' where
    "run_state (handler (installed g toy_env c toy_device) c) ?v = (r, v')" "w_execs v' = w_execs ?v @ [oem_lock_exec]" by blast
  then have h: "run_state (child_body g toy_env toy_device fd c) v = (r, v'\<lparr>w_fds := (w_fds v')(c := None)\<rparr>)"
    "w_execs v' = [oem_lock_exec]"
    using w1(3) by (simp_all add: child_body_def v_def w2_def)
  define s2 where "s2 = s\<lparr>dm_world := take_shared (dm_world s) (v'\<lparr>w_fds := (w_fds v')(c := None)\<rparr>),
      dm_running := remove1 c (dm_running s), dm_finished := (c, r) # dm_finished s\<rparr>"
  have "daemon_reach ?dev g fd (daemon_init w1) s2"
    unfolding s2_def by (rule daemon_reach.step[OF acc daemon_step.child_done[OF _ _ _ h(1)]]) (simp_all add: s_def shared_eq_def v_def)
  note x = daemon_execs_authorised[OF m this]
  have e: "w_execs (dm_world s2) = [oem_lock_exec]" using h(2) by (simp add: take_shared_def s2_def)
  then have "\<forall>x\<in>set (w_execs (dm_world s2)). x \<in> client_execs \<or>
     (\<exists>c q m t. network_time toy_device t \<and> authentic toy_device q m \<and> unexpired q t \<and>
        x \<in> command_execs (installed g toy_env c toy_device) (payload_command q))"
    using x by (simp add: idle_world_def)
  moreover have "oem_lock_exec \<in> set (w_execs (dm_world s2))" using e by simp
  ultimately show ?thesis by blast
qed

end
