(* ===== verification/PayloadMemory.thy ===== *)
theory PayloadMemory
  imports ServerDevice ToolProps SecretProps
begin

text \<open>
  The memory of a payload.  \<open>payload_layout\<close>: whatever the functions on payloads do, a payload
  keeps the layout of \<open>struct DUMB_PAYLOAD\<close>.  \<open>payloads_in_bounds\<close>: the daemon hands on only payloads
  that lie in the memory that was downloaded.
\<close>

section \<open>The layout\<close>

text \<open>
  The payloads a program can hold: made, loaded or received, and then changed by the setters, the
  expiry functions, the signature functions and the tool, in any world and with any outcome.
\<close>

inductive made :: "crypto \<Rightarrow> dumb_payload \<Rightarrow> bool" for c where
  created: "run_state dp_create_new w = (Some p, w') \<Longrightarrow> made c p"
| loaded: "run_state (dp_malloc_load path) w = (Some bs, w') \<Longrightarrow> made c (dp_of_bytes bs)"
| received: "sizeof_payload \<le> length bs \<Longrightarrow> made c (dp_of_bytes bs)"
| command: "made c p \<Longrightarrow> dp_set_command p s = Inr q \<Longrightarrow> made c q"
| expire_str: "made c p \<Longrightarrow> dp_set_expire_str p s = Inr q \<Longrightarrow> made c q"
| signature: "made c p \<Longrightarrow> dp_set_signature p s = Inr q \<Longrightarrow> made c q"
| data_size: "made c p \<Longrightarrow> dp_set_data_size p n = Inr q \<Longrightarrow> made c q"
| data: "made c p \<Longrightarrow> run_state (dp_set_data p d) w = (Some q, w') \<Longrightarrow> made c q"
| expire: "made c p \<Longrightarrow> made c (dp_set_expire p t)"
| pinned: "made c p \<Longrightarrow> run_state (dp_get_expire_or_set p) w = ((t, q), w') \<Longrightarrow> made c q"
| expired: "made c p \<Longrightarrow> run_state (dp_is_expired p) w = ((b, q), w') \<Longrightarrow> made c q"
| compared: "made c p \<Longrightarrow> run_state (dp_is_expired_compare p t) w = ((b, q), w') \<Longrightarrow> made c q"
| signed: "made c p \<Longrightarrow> run_state (dp_sign c p n key) w = ((r, q), w') \<Longrightarrow> made c q"
| verified: "made c p \<Longrightarrow> run_state (dp_verify c p n key) w = ((r, q), w') \<Longrightarrow> made c q"
| tool_command: "made c p \<Longrightarrow> made c (set_command cmd p)"
| tool_print: "made c p \<Longrightarrow> made c (print_command cmd p)"

lemma created_wf: "run_state dp_create_new w = (Some p, w') \<Longrightarrow> dp_wf p"
  by (auto simp: dp_create_new_def dp_wf_def split: if_splits prod.splits)

lemma loaded_size: "run_state (dp_malloc_load path) w = (Some bs, w') \<Longrightarrow> sizeof_payload \<le> length bs"
  by (auto simp: dp_malloc_load_def split: if_splits prod.splits option.splits dest!: read_all_length)

lemma setter_wf:
  assumes "dp_wf p"
  shows "dp_set_command p s = Inr q \<Longrightarrow> dp_wf q" "dp_set_expire_str p s = Inr q \<Longrightarrow> dp_wf q"
    "dp_set_signature p s = Inr q \<Longrightarrow> dp_wf q" "dp_set_data_size p n = Inr q \<Longrightarrow> dp_wf q"
    "run_state (dp_set_data p d) w = (Some q, w') \<Longrightarrow> dp_wf q"
  using assms
  by (auto simp: dp_set_command_def dp_set_expire_str_def dp_set_signature_def dp_set_data_def dp_set_data_size_def dp_wf_def
      dp_sizes strnlen_eq strlen_def split: if_splits sum.splits prod.splits)

lemma wp_wf: "wp m (\<lambda>(r, q) w'. P q) w \<Longrightarrow> run_state m w = ((r, q), w') \<Longrightarrow> P q"
  by (drule (1) wpD) simp

lemma pinned_wf: "dp_wf p \<Longrightarrow> wp (dp_get_expire_or_set p) (\<lambda>(t, q) w'. dp_wf q) w"
  by (rule wp_mono[OF wp_expire_or_set]) auto

lemma expired_wf:
  assumes "dp_wf p"
  shows "wp (dp_is_expired p) (\<lambda>(b, q) w'. dp_wf q) w" "wp (dp_is_expired_compare p t) (\<lambda>(b, q) w'. dp_wf q) w"
  unfolding dp_is_expired_def dp_is_expired_compare_def wp_bind[of "dp_get_expire_or_set _"]
  by (rule wp_mono[OF pinned_wf[OF assms]], auto intro: wp_any)+

lemma signed_wf: "dp_wf p \<Longrightarrow> wp (dp_sign c p n key) (\<lambda>(r, q) w'. dp_wf q) w"
  unfolding dp_sign_def Let_def
  by (auto intro!: wp_sign_any simp: ed_sizes ed_signature_def dp_wf_def clear_signature_def split: option.split)

lemma verified_wf: "dp_wf p \<Longrightarrow> wp (dp_verify c p n key) (\<lambda>(r, q) w'. dp_wf q) w"
  unfolding dp_verify_def Let_def by (auto intro!: wp_any)

lemma made_wf: "made c p \<Longrightarrow> dp_wf p"
proof (induction rule: made.induct)
  case (created w p w')
  then show ?case by (rule created_wf)
next
  case (loaded path w bs w')
  then show ?case using loaded_size dp_bytes_of_bytes by (simp add: dp_sizes)
next
  case (received bs)
  then show ?case using dp_bytes_of_bytes by (simp add: dp_sizes)
next
  case (pinned p w t q w')
  then show ?case using wp_wf[OF pinned_wf] by blast
next
  case (expired p w b q w')
  then show ?case using wp_wf[OF expired_wf(1)] by blast
next
  case (compared p t w b q w')
  then show ?case using wp_wf[OF expired_wf(2)] by blast
next
  case (signed p n key w r q w')
  then show ?case using wp_wf[OF signed_wf] by blast
next
  case (verified p n key w r q w')
  then show ?case using wp_wf[OF verified_wf] by blast
qed (auto simp: dp_wf_set_expire set_command_wf print_command_wf intro: setter_wf)




section \<open>The memory that is read\<close>

text \<open>A payload and the size of its data that lie in the memory they were read from.\<close>

definition fits :: "dumb_payload \<Rightarrow> nat \<Rightarrow> bool" where
  "fits p n \<longleftrightarrow> dp_wf p \<and> n \<le> length (dp_payload p)"

text \<open>
  \<open>handle_one_payload\<close> as a machine runs it that stops with \<open>crash\<close> where a payload would reach beyond the
  memory it lies in.
\<close>

function guarded_payload :: "int io \<Rightarrow> device \<Rightarrow> int \<Rightarrow> dumb_payload \<Rightarrow> int \<Rightarrow> nat \<Rightarrow> int io" where
  "guarded_payload crash dev sockfd payload time payload_size =
     (if \<not> fits payload payload_size then crash
      else do {
        (expired, payload) \<leftarrow> dp_is_expired_compare payload time;
        if expired then do { tell sockfd ''code expired''; ret EKEYEXPIRED }
        else do {
          (r, payload) \<leftarrow> dp_verify (dv_crypto dev) payload (payload_size + sizeof_payload) (dv_pubkey dev);
          if r \<noteq> 0 then do { err \<leftarrow> get_errno; tell sockfd ''invalid signature''; ret err }
          else if \<not> fits payload payload_size then crash
          else do {
            tell sockfd ''loading...'';
            tell sockfd ''command is'';
            tell sockfd (payload_command payload);
            payload_dispatch dev sockfd (payload_command payload) (dp_payload payload) payload_size
              (\<lambda>p n. guarded_payload crash dev sockfd p time n) } } })"
  by pat_completeness auto
termination by (relation "measure (\<lambda>(crash, dev, sockfd, payload, time, n). n)") auto

declare guarded_payload.simps [simp del]

lemma composite_loop_in_bounds:
  assumes "\<And>p m. fits p m \<Longrightarrow> m < n \<Longrightarrow> h p m = h' p m" "n \<le> length data"
  shows "composite_loop h data n fd offset k = composite_loop h' data n fd offset k"
proof (induction k arbitrary: offset)
  case (Suc k)
  let ?m = "of_be (take 4 (drop offset data))" and ?o = "offset + 4"
  have "h (dp_of_bytes (drop ?o data)) (?m - sizeof_payload) = h' (dp_of_bytes (drop ?o data)) (?m - sizeof_payload)"
    if "?o \<le> n" "?o + ?m \<le> n" "sizeof_payload \<le> ?m"
  proof (rule assms(1))
    have "168 \<le> length (drop ?o data)" using that assms(2) by (simp add: dp_sizes)
    then show "fits (dp_of_bytes (drop ?o data)) (?m - sizeof_payload)"
      using that assms(2) dp_bytes_of_bytes(2)[of "drop ?o data"] by (simp add: fits_def dp_of_bytes_def dp_sizes)
    show "?m - sizeof_payload < n" using that by (simp add: dp_sizes)
  qed
  then show ?case by (auto simp: Suc.IH Let_def cong: if_cong)
qed simp

lemma dispatch_in_bounds:
  assumes "\<And>p m. fits p m \<Longrightarrow> m < n \<Longrightarrow> h p m = h' p m" "n \<le> length data"
  shows "payload_dispatch dev fd cmd data n h = payload_dispatch dev fd cmd data n h'"
proof -
  have "payload_cmd_composite h data n fd = payload_cmd_composite h' data n fd"
    by (simp add: payload_cmd_composite_def composite_loop_in_bounds[OF assms])
  then show ?thesis unfolding payload_dispatch_def by simp
qed

lemma run_bind_eq:
  "wp m (\<lambda>a v. run_state (f a) v = run_state (g a) v) w \<Longrightarrow>
   run_state (State_Monad.bind m f) w = run_state (State_Monad.bind m g) w"
  by (simp add: wp_def split: prod.splits)

lemma compared_fits: "fits p n \<Longrightarrow> wp (dp_is_expired_compare p t) (\<lambda>(b, q) w'. fits q n) w"
  unfolding dp_is_expired_compare_def wp_bind[of "dp_get_expire_or_set _"]
  by (rule wp_mono[OF wp_expire_or_set[of p]]) (auto simp: fits_def)

lemma verified_fits: "fits p n \<Longrightarrow> wp (dp_verify c p m key) (\<lambda>(r, q) w'. fits q n) w"
  unfolding dp_verify_def Let_def by (auto intro!: wp_any simp: fits_def)

text \<open>
  C37: The daemon reads no payload beyond the memory it was given: from a payload that lies in memory it comes,
  through composite payloads nested in one another with whatever sizes and counts their bytes state,
  only to payloads that lie in memory, so the machine that crashes where a payload reaches beyond its memory
  runs exactly like the code.
\<close>

theorem payloads_in_bounds:
  assumes "fits p n"
  shows "guarded_payload crash dev fd p t n = handle_one_payload dev fd p t n"
  using assms
proof (induction n arbitrary: p rule: less_induct)
  case (less n)
  have in_memory: "\<not> \<not> fits p n" using less.prems by simp
  have dispatch: "payload_dispatch dev fd (payload_command q) (dp_payload q) n (\<lambda>p m. guarded_payload crash dev fd p t m) =
      payload_dispatch dev fd (payload_command q) (dp_payload q) n (\<lambda>p m. handle_one_payload dev fd p t m)" if "fits q n" for q
    by (rule dispatch_in_bounds) (use less.IH that in \<open>auto simp: fits_def\<close>)
  have "run_state (guarded_payload crash dev fd p t n) w = run_state (handle_one_payload dev fd p t n) w" for w
    unfolding guarded_payload.simps[of crash dev fd p] handle_one_payload.simps[of dev fd p]
      if_not_P[OF in_memory]
  proof (rule run_bind_eq, rule wp_mono[OF compared_fits[OF less.prems]], clarify, goal_cases)
    case (1 b q v)
    show ?case
    proof (cases b)
      case False
      have "wp (dp_verify (dv_crypto dev) q (n + sizeof_payload) (dv_pubkey dev)) (\<lambda>(r, q) w'. fits q n) v"
        by (rule verified_fits[OF 1])
      then show ?thesis
        unfolding if_not_P[OF False]
        by (intro run_bind_eq, elim wp_mono) (auto simp: dispatch)
    qed simp
  qed
  then show ?case by (intro state.expand ext)
qed

text \<open>A composite payload that announces two payloads and holds one: the second is not read.\<close>

lemma payloads_in_bounds_witness:
  "guarded_payload (ret (-1)) toy_device 5 (toy_payload ''composite'' (be16 2 @ be32 168 @ dp_bytes (toy_payload ''ok'' []))) 990 174 =
   handle_one_payload toy_device 5 (toy_payload ''composite'' (be16 2 @ be32 168 @ dp_bytes (toy_payload ''ok'' []))) 990 174"
proof (rule payloads_in_bounds)
  have "length (dp_bytes (toy_payload ''ok'' [])) = 168"
    using toy_payload_fields[of "''ok''" "[]"] length_dp_bytes[of "toy_payload ''ok'' []"] by (simp add: dp_sizes)
  then show "fits (toy_payload ''composite'' (be16 2 @ be32 168 @ dp_bytes (toy_payload ''ok'' []))) 174"
    using toy_payload_fields(1,5)[of "''composite''"] by (simp add: fits_def)
qed

end
