(* ===== verification/DebugBuild.thy ===== *)
theory DebugBuild
  imports CommandProps ProtocolProps
begin

text \<open>
  The build with \<open>DEBUG_MODE\<close> (off in \<open>common.h\<close>) beside the release build of the other theories: the
  table of commands and its enumeration, the commands that only a debug build has, its version and
  the handler with it.  A definition with the argument \<open>debug\<close> is the code before the preprocessor.
  The function that runs a secret code is an argument: its only difference is one more command.
\<close>

section \<open>Version\<close>

definition version_string :: "bool \<Rightarrow> string" where
  "version_string debug = (if debug then ''v(-4).(-2).(-0)-debug'' else VERSION_STRING)"

definition version_numbers :: "bool \<Rightarrow> int \<times> int \<times> int" where
  "version_numbers debug = (if debug then (-4, -2, -0) else (VERSION_MAJOR, VERSION_MINOR, VERSION_PATCH))"


section \<open>Commands of the debug build\<close>

definition toggle_wifi :: "int \<Rightarrow> bool \<Rightarrow> int io" where
  "toggle_wifi client_sockfd enable =
     (if enable then do { tell client_sockfd ''enabling wifi''; set_wifi_enabled True }
      else do { tell client_sockfd ''disabling wifi''; set_wifi_enabled False })"

definition toggle_adb :: "int \<Rightarrow> bool \<Rightarrow> int io" where
  "toggle_adb client_sockfd enable =
     (if enable then do { tell client_sockfd ''enabling adb''; set_adb_enabled True }
      else do { tell client_sockfd ''disabling adb''; set_adb_enabled False })"

text \<open>
  \<open>waitpid\<close> once, without a retry.  \<open>WEXITSTATUS\<close> of a status: the low byte of an exit code, 0
  for a program that a signal ended.
\<close>

definition waitpid_once :: "wstatus option io" where
  "waitpid_once = do { ok \<leftarrow> fallible; if ok then State reap else ret None }"

fun wexitstatus :: "wstatus \<Rightarrow> int" where
  "wexitstatus (Exited c) = int (c mod 256)"
| "wexitstatus (Signaled s) = 0"

text \<open>
  \<open>cmd_shell\<close>: the client's words are run as a program.  The error of \<open>execvp\<close> is not sent back,
  the child ends with 127.  \<open>junk\<close> is the unset variable \<open>status\<close>, read when \<open>waitpid\<close> fails.
\<close>

definition cmd_shell :: "int \<Rightarrow> string list \<Rightarrow> int io" where
  "cmd_shell junk argv =
     (if argv = [] then ret 0
      else do {
        child_p \<leftarrow> fallible;
        if \<not> child_p then get_errno
        else do {
          x \<leftarrow> next_outcome;
          modify (\<lambda>w. case x of
              Fail _ \<Rightarrow> w\<lparr>w_exits := Exited 127 # w_exits w\<rparr>
            | _ \<Rightarrow> w\<lparr>w_execs := w_execs w @ [(hd argv, argv)]\<rparr>);
          st \<leftarrow> waitpid_once;
          ret (case st of Some s \<Rightarrow> wexitstatus s | None \<Rightarrow> junk div 256 mod 256) } })"

text \<open>\<open>system\<close> of libc: \<open>sh -c\<close> and its status, \<open>None\<close> for a negative result.\<close>

definition c_system :: "string \<Rightarrow> wstatus option io" where
  "c_system script = do {
     ok \<leftarrow> fallible;
     if \<not> ok then ret None
     else do {
       modify (\<lambda>w. w\<lparr>w_execs := w_execs w @ [(''/system/bin/sh'', [''sh'', ''-c'', script])]\<rparr>);
       waitpid_once } }"

definition payload_cmd_shell :: "bytes \<Rightarrow> nat \<Rightarrow> int \<Rightarrow> int io" where
  "payload_cmd_shell script script_size sockfd =
     (if script_size = 0 then ret 0
      else do {
        err \<leftarrow> c_system (cstr (script[script_size - 1 := NUL]));
        case err of
          None \<Rightarrow> do { err \<leftarrow> get_errno; tell sockfd ''internal error:system()''; ret err }
        | Some (Exited c) \<Rightarrow> ret (int (c mod 256))
        | Some (Signaled s) \<Rightarrow> do { tell sockfd ''internal error''; ret (int s) } })"

definition payload_dispatch_build ::
  "bool \<Rightarrow> device \<Rightarrow> int \<Rightarrow> string \<Rightarrow> bytes \<Rightarrow> nat \<Rightarrow> (dumb_payload \<Rightarrow> nat \<Rightarrow> int io) \<Rightarrow> int io" where
  "payload_dispatch_build debug dev sockfd cmd data payload_size handle =
     (if debug \<and> cmd = ''script'' then payload_cmd_shell data payload_size sockfd
      else payload_dispatch dev sockfd cmd data payload_size handle)"


section \<open>The table of commands\<close>

definition commands_list :: "bool \<Rightarrow> string list" where
  "commands_list debug =
     [''ok'', ''notok'', ''code'', ''get_name'', ''oem_lock'', ''version'', ''set_name'', ''upload_data''] @
     (if debug then [''oem_unlock'', ''enable_wifi'', ''disable_wifi'', ''enable_adb'', ''disable_adb'', ''shell''] else [])"

datatype command_id =
  CMD_OK | CMD_NOTOK | CMD_CODE | CMD_GET_USERNAME | CMD_OEM_LOCK | CMD_VERSION | CMD_SETNAME | CMD_UPLOAD_DATA
| CMD_OEM_UNLOCK | CMD_ENABLE_WIFI | CMD_DISABLE_WIFI | CMD_ENABLE_ADB | CMD_DISABLE_ADB | CMD_SHELL

text \<open>The enumeration: a constant's place in the list is its value.\<close>

definition commands :: "bool \<Rightarrow> command_id list" where
  "commands debug =
     [CMD_OK, CMD_NOTOK, CMD_CODE, CMD_GET_USERNAME, CMD_OEM_LOCK, CMD_VERSION, CMD_SETNAME, CMD_UPLOAD_DATA] @
     (if debug then [CMD_OEM_UNLOCK, CMD_ENABLE_WIFI, CMD_DISABLE_WIFI, CMD_ENABLE_ADB, CMD_DISABLE_ADB, CMD_SHELL] else [])"

text \<open>The loop over the table: the first place that holds the word.\<close>

fun find_command :: "string list \<Rightarrow> string \<Rightarrow> nat option" where
  "find_command [] s = None"
| "find_command (c # cs) s = (if c = s then Some 0 else map_option Suc (find_command cs s))"

text \<open>The user is set again in a debug build.\<close>

definition cmd_setname_build :: "bool \<Rightarrow> device \<Rightarrow> int \<Rightarrow> string list \<Rightarrow> int io" where
  "cmd_setname_build debug dev sockfd argv =
     (if argv = [] then do { tell sockfd ''not enough data provided''; ret EINVAL }
      else do {
        d \<leftarrow> malloc_hex_to_buf (dv_signed_char dev) (hd argv);
        case d of
          None \<Rightarrow> do {
            e \<leftarrow> get_errno;
            if e = EINVAL then do { tell sockfd ''bad data''; get_errno }
            else do { tell sockfd ''internal error''; get_errno } }
        | Some data \<Rightarrow> do {
            set_errno 0;
            olduserdata \<leftarrow> dumbos_alloc_get_user;
            e \<leftarrow> get_errno;
            let exists = (olduserdata \<noteq> None \<or> e \<noteq> ENOENT);
            (if exists then tell sockfd ''a user has already been set'' else ret ());
            if exists \<and> \<not> debug then ret EUSERS
            else do {
              (if exists then tell sockfd ''We are in debug mode. continuing anyway'' else ret ());
              destfile \<leftarrow> sys_open DUMBOS_USER_DATA_NEW [O_WRITE, O_CREAT, O_TRUNC];
              if destfile < 0 then get_errno
              else do {
                let datasize = strlen (hd argv) div 2;
                n \<leftarrow> sys_write destfile (take datasize data);
                if int datasize \<noteq> n then do {
                  err \<leftarrow> get_errno;
                  sys_close destfile;
                  tell sockfd ''internal error'';
                  ret err }
                else do {
                  sys_close destfile;
                  set_user_prop sockfd } } } } })"

fun run_command ::
  "bool \<Rightarrow> (string list \<Rightarrow> int \<Rightarrow> int io) \<Rightarrow> int \<Rightarrow> device \<Rightarrow> command_id \<Rightarrow> string list \<Rightarrow> int \<Rightarrow> int io" where
  "run_command debug run_code junk dev CMD_OK argv sockfd = ret 0"
| "run_command debug run_code junk dev CMD_NOTOK argv sockfd = ret 1"
| "run_command debug run_code junk dev CMD_CODE argv sockfd = run_code argv sockfd"
| "run_command debug run_code junk dev CMD_GET_USERNAME argv sockfd = cmd_get_username sockfd"
| "run_command debug run_code junk dev CMD_OEM_LOCK argv sockfd = oem_locking sockfd True"
| "run_command debug run_code junk dev CMD_VERSION argv sockfd = do { tell sockfd (version_string debug); ret 0 }"
| "run_command debug run_code junk dev CMD_UPLOAD_DATA argv sockfd = cmd_upload_data dev argv sockfd"
| "run_command debug run_code junk dev CMD_SHELL argv sockfd = cmd_shell junk argv"
| "run_command debug run_code junk dev CMD_OEM_UNLOCK argv sockfd = oem_locking sockfd False"
| "run_command debug run_code junk dev CMD_ENABLE_ADB argv sockfd = toggle_adb sockfd True"
| "run_command debug run_code junk dev CMD_DISABLE_ADB argv sockfd = toggle_adb sockfd False"
| "run_command debug run_code junk dev CMD_ENABLE_WIFI argv sockfd = toggle_wifi sockfd True"
| "run_command debug run_code junk dev CMD_DISABLE_WIFI argv sockfd = toggle_wifi sockfd False"
| "run_command debug run_code junk dev CMD_SETNAME argv sockfd = cmd_setname_build debug dev sockfd argv"

definition do_command_build ::
  "bool \<Rightarrow> (string list \<Rightarrow> int \<Rightarrow> int io) \<Rightarrow> int \<Rightarrow> device \<Rightarrow> string list \<Rightarrow> int \<Rightarrow> int io" where
  "do_command_build debug run_code junk dev argv sockfd =
     (case find_command (commands_list debug) (hd argv) of
        None \<Rightarrow> do { tell sockfd ''Bad command''; ret EINVAL }
      | Some command \<Rightarrow>
          if command < length (commands debug)
          then run_command debug run_code junk dev (commands debug ! command) (tl argv) sockfd
          else ret EINVAL)"


section \<open>The handler\<close>

definition DEBUG_NOTICE :: string where
  "DEBUG_NOTICE = ''You are in debug mode. id you are not debugging or developing the phone, please report this''"

definition serve_args_build ::
  "bool \<Rightarrow> (string list \<Rightarrow> int \<Rightarrow> int io) \<Rightarrow> int \<Rightarrow> nat \<Rightarrow> int io" where
  "serve_args_build debug run client_fd argc = do {
     argv \<leftarrow> read_args client_fd argc;
     r \<leftarrow> (case argv of
         None \<Rightarrow> do {
           r \<leftarrow> get_errno;
           tell client_fd ''internal error'';
           tell client_fd [];
           write_ushort client_fd r;
           (if debug then tell client_fd DEBUG_NOTICE else ret ());
           ret r }
       | Some argv \<Rightarrow> do {
           (if debug then tell client_fd DEBUG_NOTICE else ret ());
           run argv client_fd });
     tell client_fd [];
     write_ushort client_fd (r mod 65536);
     ret r }"

definition serve_request_build :: "bool \<Rightarrow> (string list \<Rightarrow> int \<Rightarrow> int io) \<Rightarrow> int \<Rightarrow> int io" where
  "serve_request_build debug run client_fd = do {
     argc \<leftarrow> read_ushort client_fd;
     if argc < 0 then ret EPROTO
     else if argc = 0 then do {
       tell client_fd ''No command'';
       tell client_fd [];
       write_ushort client_fd 0;
       ret 0 }
     else if int MAX_ARGS < argc \<or> argc < 0 then do {
       tell client_fd ''too many arguments'';
       write_ushort client_fd E2BIG;
       ret E2BIG }
     else do {
       ok \<leftarrow> c_malloc;
       if \<not> ok then do {
         err \<leftarrow> get_errno;
         tell client_fd ''internal error'';
         tell client_fd [];
         write_ushort client_fd err;
         ret err }
       else serve_args_build debug run client_fd (nat argc) } }"

text \<open>\<open>(unsigned short)\<close> of the three numbers of a build's version.\<close>

definition version_words :: "bool \<Rightarrow> int \<times> int \<times> int" where
  "version_words debug = (case version_numbers debug of (a, b, c) \<Rightarrow> (a mod 65536, b mod 65536, c mod 65536))"

definition handler_build :: "bool \<Rightarrow> (string list \<Rightarrow> int \<Rightarrow> int io) \<Rightarrow> int \<Rightarrow> int io" where
  "handler_build debug run client_fd = do {
     client_v_str \<leftarrow> malloc_read_string client_fd;
     case client_v_str of
       None \<Rightarrow> get_errno
     | Some _ \<Rightarrow> do {
         v \<leftarrow> read_version client_fd;
         case v of
           None \<Rightarrow> get_errno
         | Some v \<Rightarrow>
             if v \<noteq> version_words debug then do { write_ushort client_fd EPROTO; ret EPROTO }
             else do {
               write_ushort client_fd 0;
               serve_request_build debug run client_fd } } }"


section \<open>The release build\<close>

text \<open>
  The table and the enumeration match, so the command that runs is the one whose name was sent.
\<close>

lemma table_matches: "length (commands_list debug) = length (commands debug)"
  by (simp add: commands_list_def commands_def)

lemma table_distinct: "distinct (commands_list debug)" "distinct (commands debug)"
  by (simp_all add: commands_list_def commands_def)

lemma find_command_Some:
  "find_command cs s = Some i \<Longrightarrow> i < length cs \<and> cs ! i = s"
  by (induction cs arbitrary: i) (auto split: if_splits)

lemma bind_if_skip [simp]:
  "State_Monad.bind (if b then m else ret ()) f = (if b then State_Monad.bind m f else f ())"
  by simp

lemma setname_release: "cmd_setname_build False = cmd_setname"
  by (simp add: fun_eq_iff cmd_setname_build_def cmd_setname_def Let_def cong: if_cong option.case_cong)

lemma do_command_release: "do_command_build False (secret_code dev) junk dev = do_command dev"
  by (simp add: fun_eq_iff do_command_build_def do_command_def commands_list_def commands_def setname_release
      version_string_def cmd_version_def eval_nat_numeral eq_commute)

lemma handler_release: "handler_build False (do_command dev) fd = handler dev fd"
proof -
  have "serve_args_build False (do_command dev) fd n = serve_args dev fd n" for n
    by (simp add: serve_args_build_def serve_args_def cong: option.case_cong)
  then have "serve_request_build False (do_command dev) fd = serve_request dev fd"
    by (simp add: serve_request_build_def serve_request_def cong: if_cong)
  then show ?thesis
    by (simp add: handler_build_def handler_def version_words_def version_numbers_def cong: if_cong option.case_cong)
qed

lemma debug_words: "drop (length (commands_list False)) (commands_list True) =
    [''oem_unlock'', ''enable_wifi'', ''disable_wifi'', ''enable_adb'', ''disable_adb'', ''shell'']"
  by (simp add: commands_list_def)


text \<open>
  In a debug build the name of a command finds its constant as well, and the other commands are
  those of the release build.
\<close>

lemma find_nth: "distinct cs \<Longrightarrow> i < length cs \<Longrightarrow> find_command cs (cs ! i) = Some i"
proof (induction cs arbitrary: i)
  case (Cons c cs)
  then show ?case by (cases i) auto
qed simp

lemma debug_runs_named:
  assumes "i < length (commands_list debug)"
  shows "do_command_build debug run junk dev (commands_list debug ! i # args) fd =
    run_command debug run junk dev (commands debug ! i) args fd"
  using assms by (simp add: do_command_build_def find_nth table_distinct table_matches)

text \<open>A client of one build is refused by the daemon of the other.\<close>

lemma debug_client_refused:
  assumes "conn fd w" "w_sin w = hello (version_string True) 65532 65534 0 @ rest" "run_state (handler dev fd) w = (r, w')"
  shows "r = EPROTO \<and> w_files w' = w_files w \<and> w_execs w' = w_execs w \<and> w_db w' = w_db w"
  using version_mismatch_refused[OF assms(1) _ _ _ _ _ assms(2,3)]
  by (simp add: version_string_def string_ok_def MAX_STRING_def)

lemma release_client_refused:
  assumes "smooth fd w" "w_sin w = client_request argv @ rest"
  shows "\<exists>w'. run_state (handler_build True run fd) w = (EPROTO, w') \<and> w_sout w' = w_sout w @ be16 71 \<and>
    w_files w' = w_files w \<and> w_execs w' = w_execs w \<and> w_db w' = w_db w"
  using assms
  by (simp add: handler_build_def read_version_def client_request_def client_hello_def version_words_def version_numbers_def
      run_read_string_smooth[where s = VERSION_STRING] string_ok_version run_read_ushort_smooth run_write_ushort_smooth)

text \<open>What a client of a debug build can do: start any program.\<close>

lemma debug_client_starts:
  assumes "smooth fd w" "w_exits w = []" "argv \<noteq> []"
  shows "run_state (do_command_build True run junk dev (''shell'' # argv) fd) w =
    (0, w\<lparr>w_execs := w_execs w @ [(hd argv, argv)]\<rparr>)"
proof -
  have "do_command_build True run junk dev (''shell'' # argv) fd = cmd_shell junk argv"
    by (simp add: do_command_build_def commands_list_def commands_def)
  then show ?thesis
    using assms by (simp add: cmd_shell_def waitpid_once_def reap_def smooth_def io_simps next_outcome_def)
qed

end
