(* ===== verification/SelfTest.thy ===== *)
theory SelfTest
  imports PayloadProps
begin

text \<open>
  The test program at the end of \<open>ed25519.c\<close> (compiled with \<open>TEST_ED25519\<close>): make a key pair, sign,
  verify, and verify another text.  The result is the exit status and the lines on the standard
  output.
\<close>

definition self_msg :: string where
  "self_msg = ''hello from the human cryptography circus''"

definition test_tampered :: "crypto \<Rightarrow> string \<Rightarrow> string \<Rightarrow> string list \<Rightarrow> (int \<times> string list) io" where
  "test_tampered c public_hex signature_hex printed = do {
     r \<leftarrow> ed25519_verify_hex c public_hex ''tampered'' signature_hex;
     if r < 0 then ret (0, printed @ [''tampered message correctly rejected''])
     else ret (1, printed @ [''BUG: tampered message accepted'']) }"

definition test_ed25519 :: "crypto \<Rightarrow> (int \<times> string list) io" where
  "test_ed25519 c = do {
     kp \<leftarrow> ed25519_generate_keypair_hex c;
     case kp of
       None \<Rightarrow> ret (1, [])
     | Some (public_hex, private_hex) \<Rightarrow> do {
         let printed = [''public:  '' @ public_hex, ''private: '' @ private_hex];
         sg \<leftarrow> ed25519_sign_hex c private_hex self_msg;
         case sg of
           None \<Rightarrow> ret (1, printed)
         | Some signature_hex \<Rightarrow> do {
             let printed = printed @ [''sig:     '' @ signature_hex];
             r \<leftarrow> ed25519_verify_hex c public_hex self_msg signature_hex;
             if r < 0 then ret (1, printed)
             else test_tampered c public_hex signature_hex (printed @ [''valid signature'']) } } }"

lemma wp_generate_quiet:
  assumes "w_plan w = []" "cr_keygen c = (pub, priv)" "length pub = 32" "length priv = 32"
  shows "wp (ed25519_generate_keypair_hex c) Q w =
    Q (Some (hex_of (\<lambda>n. hex_lower ! n) pub, hex_of (\<lambda>n. hex_lower ! n) priv)) w"
  using assms by (simp add: ed25519_generate_keypair_hex_def quiet_calls Let_def bytes_to_hex_eq ed_sizes)

text \<open>
  With a crypto library that makes key pairs the test succeeds exactly when the library refuses the
  signature for another text.
\<close>

lemma test_ed25519_outcome:
  assumes "w_plan w = []" "cr_keygen c = (pub, priv)" "key_pair c pub priv" "run_state (test_ed25519 c) w = ((r, printed), w')"
  shows "(r = 0 \<longleftrightarrow> cr_verify c pub ''tampered'' (cr_sign c priv self_msg) \<noteq> 1) \<and> (r = 0 \<or> r = 1) \<and>
    ''valid signature'' \<in> set printed"
proof -
  have k: "length pub = 32" "length priv = 32" "length (cr_sign c priv d) = 64" "cr_verify c pub d (cr_sign c priv d) = 1" for d
    using assms(3) by (simp_all add: key_pair_def ed_sizes)
  have d: "hex_to_bytes (ed_signature c priv self_msg) ED25519_SIGNATURE_SIZE = Inr (cr_sign c priv self_msg)"
    "hex_to_bytes (hex_of (\<lambda>n. hex_lower ! n) pub) ED25519_PUBLIC_KEY_SIZE = Inr pub"
    by (rule ed_signature_decodes) (use k in \<open>simp_all add: ed_sizes\<close>)
  have "wp (test_ed25519 c) (\<lambda>(r, printed) w'. (r = 0 \<longleftrightarrow> cr_verify c pub ''tampered'' (cr_sign c priv self_msg) \<noteq> 1) \<and>
      (r = 0 \<or> r = 1) \<and> ''valid signature'' \<in> set printed) w"
    by (simp add: test_ed25519_def test_tampered_def Let_def wp_generate_quiet[OF assms(1,2) k(1,2)]
        wp_sign_quiet[where k = priv, OF assms(1)] wp_verify_quiet[OF assms(1) d(2,1)]
        k ed_sizes(1-3))
  from wpD[OF this assms(4)] show ?thesis unfolding prod.case .
qed

end
